(* ===== verification/Guardian_Prelude.thy ===== *)
theory Guardian_Prelude
  imports Main "HOL-Library.Word" "HOL-Library.Sublist"
begin

text \<open>
  Shared vocabulary of the development: the outcome of a Rust call (a \<open>Result\<close>, or a panic that
  unwinds), slices with Rust's bounds checks, little-endian integers, the string operations of
  the standard library that the program uses, decimal printing and parsing, and hash maps.
  The collections \<open>outcome_simps\<close> and \<open>no_panic_simps\<close> carry the component proofs.
\<close>

named_theorems outcome_simps "inversion of calls chained with the question mark operator"
named_theorems no_panic_simps "a call returns, with Ok or Err, and does not panic"

section \<open>Outcomes of Rust calls\<close>

text \<open>\<^term>\<open>Ok\<close> and \<^term>\<open>Err\<close> are the constructors of \<open>Result\<close>; \<open>Panic\<close> is a call that unwinds (an
  \<open>expect\<close> or \<open>unwrap\<close> on the wrong variant, a subslice out of range, a failed assertion).\<close>

datatype ('a, 'e) outcome = Ok 'a | Err 'e | Panic string

type_synonym byte = "8 word"
type_synonym bytes = "8 word list"

fun and_then :: "('a, 'e) outcome \<Rightarrow> ('a \<Rightarrow> ('b, 'e) outcome) \<Rightarrow> ('b, 'e) outcome" where
  "and_then (Ok x) f = f x"
| "and_then (Err e) f = Err e"
| "and_then (Panic m) f = Panic m"

fun map_err :: "('e \<Rightarrow> 'f) \<Rightarrow> ('a, 'e) outcome \<Rightarrow> ('a, 'f) outcome" where
  "map_err g (Ok x) = Ok x"
| "map_err g (Err e) = Err (g e)"
| "map_err g (Panic m) = Panic m"

fun ok_or :: "'a option \<Rightarrow> 'e \<Rightarrow> ('a, 'e) outcome" where
  "ok_or None e = Err e"
| "ok_or (Some x) e = Ok x"

definition ensure :: "bool \<Rightarrow> 'e \<Rightarrow> (unit, 'e) outcome" where
  "ensure b e = (if b then Ok () else Err e)"

fun no_panic :: "('a, 'e) outcome \<Rightarrow> bool" where
  "no_panic (Panic m) = False"
| "no_panic (Ok x) = True"
| "no_panic (Err e) = True"

fun is_ok :: "('a, 'e) outcome \<Rightarrow> bool" where
  "is_ok (Ok x) = True"
| "is_ok (Err e) = False"
| "is_ok (Panic m) = False"

text \<open>\<open>collect\<close> into a \<open>Result\<close>: the first error stops the iteration.\<close>

fun collect_ok :: "('a, 'e) outcome list \<Rightarrow> ('a list, 'e) outcome" where
  "collect_ok [] = Ok []"
| "collect_ok (r # rs) = and_then r (\<lambda>x. and_then (collect_ok rs) (\<lambda>xs. Ok (x # xs)))"

section \<open>Slices and integers in memory\<close>

definition subslice :: "'a list \<Rightarrow> nat \<Rightarrow> nat \<Rightarrow> 'a list" where
  "subslice xs a b = take (b - a) (drop a xs)"

definition slice_range :: "'a list \<Rightarrow> nat \<Rightarrow> nat \<Rightarrow> ('a list, 'e) outcome" where
  "slice_range xs a b =
     (if a \<le> b \<and> b \<le> length xs then Ok (subslice xs a b)
      else Panic ''range out of bounds for slice'')"

text \<open>\<open>copy_from_slice\<close> into an array of \<open>n\<close> elements.\<close>

definition copy_from_slice :: "nat \<Rightarrow> 'a list \<Rightarrow> ('a list, 'e) outcome" where
  "copy_from_slice n xs =
     (if length xs = n then Ok xs
      else Panic ''source slice length does not match destination slice length'')"

text \<open>\<open>from_le_bytes\<close> and \<open>to_le_bytes\<close>.\<close>

primrec le_nat :: "bytes \<Rightarrow> nat" where
  "le_nat [] = 0"
| "le_nat (b # bs) = unat b + 256 * le_nat bs"

primrec nat_to_le :: "nat \<Rightarrow> nat \<Rightarrow> bytes" where
  "nat_to_le 0 n = []"
| "nat_to_le (Suc k) n = word_of_nat n # nat_to_le k (n div 256)"

definition from_le_bytes :: "bytes \<Rightarrow> 'a::len word" where
  "from_le_bytes bs = word_of_nat (le_nat bs)"

definition to_le_bytes :: "nat \<Rightarrow> 'a::len word \<Rightarrow> bytes" where
  "to_le_bytes k w = nat_to_le k (unat w)"

section \<open>Strings\<close>

text \<open>A Rust string is its UTF-8 bytes, one \<^typ>\<open>char\<close> each, so \<open>length\<close> is \<open>str::len\<close>.\<close>

definition str_bytes :: "string \<Rightarrow> bytes" where
  "str_bytes s = map (\<lambda>c. word_of_nat (of_char c)) s"

definition str_contains :: "string \<Rightarrow> string \<Rightarrow> bool" where
  "str_contains s pat = list_ex (prefix pat) (suffixes s)"

text \<open>The first position of a pattern, and the parts between its occurrences.\<close>

fun str_find :: "string \<Rightarrow> string \<Rightarrow> nat option" where
  "str_find pat [] = (if pat = [] then Some 0 else None)"
| "str_find pat (c # cs) = (if prefix pat (c # cs) then Some 0 else map_option Suc (str_find pat cs))"

function str_split :: "string \<Rightarrow> string \<Rightarrow> string list" where
  "str_split pat s =
     (case (if pat = [] then None else str_find pat s) of
        None \<Rightarrow> [s]
      | Some i \<Rightarrow> take i s # str_split pat (drop (i + length pat) s))"
  by pat_completeness auto
termination
proof (relation "measure (\<lambda>(pat, s). length s)")
  have bound: "str_find pat s = Some i \<Longrightarrow> i + length pat \<le> length s" for pat s i
    by (induction pat s arbitrary: i rule: str_find.induct)
       (auto simp: prefix_def split: if_splits dest: arg_cong [of _ _ length])
  show "((pat, drop (i + length pat) s), pat, s) \<in> measure (\<lambda>(pat, s). length s)"
    if "(if pat = [] then None else str_find pat s) = Some i" for pat s i
    using that bound [of pat s i] by (cases pat) auto
qed simp

declare str_split.simps [simp del]

fun strip_prefix_str :: "string \<Rightarrow> string \<Rightarrow> string option" where
  "strip_prefix_str [] s = Some s"
| "strip_prefix_str (p # ps) [] = None"
| "strip_prefix_str (p # ps) (c # cs) = (if p = c then strip_prefix_str ps cs else None)"

text \<open>The bytes 128 to 191 continue a multi-byte character; a string index that falls on one is
  not a character boundary, and slicing there panics.\<close>

definition is_char_boundary :: "string \<Rightarrow> nat \<Rightarrow> bool" where
  "is_char_boundary s i =
     (i = 0 \<or> i = length s \<or>
      (i < length s \<and> \<not> (128 \<le> (of_char (s ! i) :: nat) \<and> (of_char (s ! i) :: nat) < 192)))"

definition str_slice :: "string \<Rightarrow> nat \<Rightarrow> nat \<Rightarrow> (string, 'e) outcome" where
  "str_slice s a b =
     (if a \<le> b \<and> b \<le> length s \<and> is_char_boundary s a \<and> is_char_boundary s b
      then Ok (subslice s a b)
      else Panic ''byte index is not a char boundary or out of bounds'')"

definition digit_char :: "nat \<Rightarrow> char" where
  "digit_char d = (if d < 10 then char_of (48 + d) else char_of (87 + d))"

fun show_nat :: "nat \<Rightarrow> string" where
  "show_nat n = (if n < 10 then [digit_char n] else show_nat (n div 10) @ [digit_char (n mod 10)])"

declare show_nat.simps [simp del]

fun show_hex :: "nat \<Rightarrow> string" where
  "show_hex n = (if n < 16 then [digit_char n] else show_hex (n div 16) @ [digit_char (n mod 16)])"

declare show_hex.simps [simp del]

fun str_join :: "string \<Rightarrow> string list \<Rightarrow> string" where
  "str_join sep [] = []"
| "str_join sep [s] = s"
| "str_join sep (s # t # ts) = s @ sep @ str_join sep (t # ts)"

definition ascii_lower :: "char \<Rightarrow> char" where
  "ascii_lower c =
     (let n = (of_char c :: nat) in if 65 \<le> n \<and> n \<le> 90 then char_of (n + 32) else c)"

definition eq_ignore_ascii_case :: "string \<Rightarrow> string \<Rightarrow> bool" where
  "eq_ignore_ascii_case s t \<longleftrightarrow> map ascii_lower s = map ascii_lower t"

text \<open>\<open>&s[..s.len().min(n)]\<close>\<close>

definition str_prefix_upto :: "nat \<Rightarrow> string \<Rightarrow> (string, 'e) outcome" where
  "str_prefix_upto n s = str_slice s 0 (min (length s) n)"

definition quoted :: "string \<Rightarrow> string" where
  "quoted s = char_of (39 :: nat) # s @ [char_of (39 :: nat)]"

text \<open>Zero padding on the left, as \<open>{:020}\<close> does.\<close>

definition pad_left :: "nat \<Rightarrow> char \<Rightarrow> string \<Rightarrow> string" where
  "pad_left k c s = replicate (k - length s) c @ s"

fun digit_val :: "nat \<Rightarrow> char \<Rightarrow> nat option" where
  "digit_val radix c =
     (let n = (of_char c :: nat);
          d = (if 48 \<le> n \<and> n \<le> 57 then n - 48
               else if 97 \<le> n \<and> n \<le> 122 then n - 87
               else if 65 \<le> n \<and> n \<le> 90 then n - 55 else 99)
      in if d < radix then Some d else None)"

fun parse_digits :: "nat \<Rightarrow> nat \<Rightarrow> string \<Rightarrow> nat option" where
  "parse_digits radix acc [] = Some acc"
| "parse_digits radix acc (c # cs) =
     (case digit_val radix c of None \<Rightarrow> None | Some d \<Rightarrow> parse_digits radix (acc * radix + d) cs)"

text \<open>\<open>from_str_radix\<close> and \<open>parse\<close> of an unsigned type with the given number of values: the empty
  string and a lone sign are errors, one leading plus sign is accepted, and overflow is an
  error.\<close>

definition parse_unsigned :: "nat \<Rightarrow> nat \<Rightarrow> string \<Rightarrow> nat option" where
  "parse_unsigned radix bound s =
     (let t = (if s \<noteq> [] \<and> hd s = CHR ''+'' then tl s else s)
      in if t = [] then None
         else case parse_digits radix 0 t of
                None \<Rightarrow> None
              | Some n \<Rightarrow> if n < bound then Some n else None)"

section \<open>Hash maps\<close>

type_synonym ('k, 'v) hash_map = "'k \<Rightarrow> 'v option"

definition map_len :: "('k, 'v) hash_map \<Rightarrow> nat" where
  "map_len m = card (dom m)"

definition map_remove :: "'k \<Rightarrow> ('k, 'v) hash_map \<Rightarrow> ('k, 'v) hash_map" where
  "map_remove k m = m(k := None)"

definition map_retain :: "('k \<Rightarrow> 'v \<Rightarrow> bool) \<Rightarrow> ('k, 'v) hash_map \<Rightarrow> ('k, 'v) hash_map" where
  "map_retain p m =
     (\<lambda>k. case m k of None \<Rightarrow> None | Some v \<Rightarrow> if p k v then Some v else None)"

section \<open>Lemmas on outcomes\<close>

lemma and_then_Ok [simp, outcome_simps]:
  "and_then r f = Ok y \<longleftrightarrow> (\<exists>x. r = Ok x \<and> f x = Ok y)"
  by (cases r) auto

lemma and_then_Err [outcome_simps]:
  "and_then r f = Err e \<longleftrightarrow> r = Err e \<or> (\<exists>x. r = Ok x \<and> f x = Err e)"
  by (cases r) auto

lemma map_err_Ok [simp, outcome_simps]: "map_err g r = Ok y \<longleftrightarrow> r = Ok y"
  by (cases r) auto

lemma map_err_Err [outcome_simps]: "map_err g r = Err e \<longleftrightarrow> (\<exists>d. r = Err d \<and> e = g d)"
  by (cases r) auto

lemma ok_or_Ok [simp, outcome_simps]: "ok_or v e = Ok y \<longleftrightarrow> v = Some y"
  by (cases v) auto

lemma ok_or_Err [outcome_simps]: "ok_or v e = Err d \<longleftrightarrow> v = None \<and> d = e"
  by (cases v) auto

lemma ensure_Ok [simp, outcome_simps]: "ensure b e = Ok u \<longleftrightarrow> b"
  by (simp add: ensure_def)

lemma ensure_Err [outcome_simps]: "ensure b e = Err d \<longleftrightarrow> \<not> b \<and> d = e"
  by (auto simp: ensure_def)

lemma no_panic_and_then [no_panic_simps]:
  "no_panic (and_then r f) \<longleftrightarrow> no_panic r \<and> (\<forall>x. r = Ok x \<longrightarrow> no_panic (f x))"
  by (cases r) auto

lemma no_panic_map_err [no_panic_simps]: "no_panic (map_err g r) = no_panic r"
  by (cases r) auto

lemma no_panic_ok_or [no_panic_simps]: "no_panic (ok_or v e)"
  by (cases v) auto

lemma no_panic_ensure [no_panic_simps]: "no_panic (ensure b e)"
  by (simp add: ensure_def)

lemma collect_ok_Ok [simp]:
  "collect_ok rs = Ok xs \<longleftrightarrow> list_all2 (\<lambda>r x. r = Ok x) rs xs"
  by (induction rs arbitrary: xs) (auto simp: list_all2_Cons1)

lemma no_panic_collect_ok: "(\<And>r. r \<in> set rs \<Longrightarrow> no_panic r) \<Longrightarrow> no_panic (collect_ok rs)"
  by (induction rs) (auto simp: no_panic_simps)

lemma no_panicE:
  assumes "no_panic r" obtains x where "r = Ok x" | e where "r = Err e"
  using assms by (cases r) auto

section \<open>Lemmas on slices and little-endian integers\<close>

lemma length_slice [simp]: "length (subslice xs a b) = min (length xs - a) (b - a)"
  by (simp add: subslice_def)

lemma slice_range_Ok [simp]:
  "slice_range xs a b = Ok ys \<longleftrightarrow> a \<le> b \<and> b \<le> length xs \<and> ys = subslice xs a b"
  by (auto simp: slice_range_def)

lemma no_panic_slice_range [no_panic_simps]:
  "no_panic (slice_range xs a b) \<longleftrightarrow> a \<le> b \<and> b \<le> length xs"
  by (simp add: slice_range_def)

lemma slice_range_not_Err [simp]: "slice_range xs a b \<noteq> Err e"
  by (simp add: slice_range_def)

lemma copy_from_slice_Ok [simp]: "copy_from_slice n xs = Ok ys \<longleftrightarrow> length xs = n \<and> ys = xs"
  by (auto simp: copy_from_slice_def)

lemma no_panic_copy_from_slice [no_panic_simps]:
  "no_panic (copy_from_slice n xs) \<longleftrightarrow> length xs = n"
  by (simp add: copy_from_slice_def)

lemma copy_from_slice_not_Err [simp]: "copy_from_slice n xs \<noteq> Err e"
  by (simp add: copy_from_slice_def)

lemma slice_append_mid: "length xs = a \<Longrightarrow> length ys = b - a \<Longrightarrow> subslice (xs @ ys @ zs) a b = ys"
  by (simp add: subslice_def)

lemma slice_slice: "a \<le> b \<Longrightarrow> b \<le> d - c \<Longrightarrow> subslice (subslice xs c d) a b = subslice xs (c + a) (c + b)"
  by (auto simp: subslice_def take_drop min_def add.commute)

lemma slice_append_left: "b \<le> length xs \<Longrightarrow> subslice (xs @ ys) a b = subslice xs a b"
  by (simp add: subslice_def)

lemma slice_append_right:
  "length xs \<le> a \<Longrightarrow> subslice (xs @ ys) a b = subslice ys (a - length xs) (b - length xs)"
  by (simp add: subslice_def)

lemma slice_all: "length xs = n \<Longrightarrow> subslice xs 0 n = xs"
  by (simp add: subslice_def)

lemma length_nat_to_le [simp]: "length (nat_to_le k n) = k"
  by (induction k arbitrary: n) auto

lemma unat_bound: "unat w < 2 ^ LENGTH('a)" for w :: "'a::len word"
  by (rule unsigned_less)

lemma word_256: "(256 :: 8 word) = 0"
  by simp

lemma le_nat_less: "le_nat bs < 256 ^ length bs"
proof (induction bs)
  case (Cons b bs)
  have "unat b < 256" using unat_bound [of b] by simp
  with Cons show ?case by simp
qed simp

lemma le_nat_nat_to_le [simp]: "le_nat (nat_to_le k n) = n mod 256 ^ k"
proof (induction k arbitrary: n)
  case (Suc k)
  have "unat (word_of_nat n :: 8 word) = n mod 256" by (simp add: unat_of_nat)
  with Suc show ?case by (simp add: mod_mult2_eq)
qed simp

lemma nat_to_le_le_nat [simp]: "nat_to_le (length bs) (le_nat bs) = bs"
proof (induction bs)
  case (Cons b bs)
  have "unat b < 256" using unat_bound [of b] by simp
  then have "(unat b + 256 * le_nat bs) div 256 = le_nat bs"
    by simp
  moreover have "(word_of_nat (unat b + 256 * le_nat bs) :: 8 word) = b"
    by (simp add: word_256)
  ultimately show ?case using Cons by simp
qed simp

lemma from_le_bytes_to_le_bytes:
  assumes "LENGTH('a::len) = 8 * k"
  shows "from_le_bytes (to_le_bytes k w) = (w :: 'a word)"
proof -
  have "unat w < 256 ^ k" using unat_bound [of w] assms by (simp add: power_mult)
  then show ?thesis by (simp add: from_le_bytes_def to_le_bytes_def)
qed

lemma to_le_bytes_from_le_bytes:
  assumes "LENGTH('a::len) = 8 * length bs"
  shows "to_le_bytes (length bs) (from_le_bytes bs :: 'a word) = bs"
proof -
  have "unat (word_of_nat (le_nat bs) :: 'a word) = le_nat bs"
    using le_nat_less [of bs] assms by (simp add: unat_of_nat power_mult)
  then show ?thesis by (simp add: from_le_bytes_def to_le_bytes_def)
qed

section \<open>Lemmas on strings and numbers\<close>

lemma str_bytes_append [simp]: "str_bytes (s @ t) = str_bytes s @ str_bytes t"
  by (simp add: str_bytes_def)

lemma str_bytes_inject [simp]: "str_bytes s = str_bytes t \<longleftrightarrow> s = t"
proof -
  have "inj (\<lambda>c :: char. word_of_nat (of_char c) :: byte)"
  proof (rule injI)
    fix c d :: char
    assume "(word_of_nat (of_char c) :: byte) = word_of_nat (of_char d)"
    then have "unat (word_of_nat (of_char c) :: byte) = unat (word_of_nat (of_char d) :: byte)" by simp
    then show "c = d" by (simp add: unat_of_nat)
  qed
  then show ?thesis unfolding str_bytes_def using inj_map_eq_map by blast
qed

lemma str_contains_iff: "str_contains s pat \<longleftrightarrow> (\<exists>us vs. s = us @ pat @ vs)"
proof -
  have "str_contains s pat \<longleftrightarrow> (\<exists>t. suffix t s \<and> prefix pat t)"
    by (auto simp: str_contains_def list_ex_iff)
  then show ?thesis by (auto simp: prefix_def suffix_def)
qed

lemma of_char_digit_char: "d < 10 \<Longrightarrow> (of_char (digit_char d) :: nat) = 48 + d"
  by (simp add: digit_char_def)

lemma digit_val_digit_char [simp]: "d < 10 \<Longrightarrow> digit_val 10 (digit_char d) = Some d"
  by (simp add: of_char_digit_char)

declare digit_val.simps [simp del]

lemma parse_digits_append:
  "parse_digits r acc (xs @ ys) =
     (case parse_digits r acc xs of None \<Rightarrow> None | Some n \<Rightarrow> parse_digits r n ys)"
  by (induction r acc xs rule: parse_digits.induct) (auto split: option.splits)

lemma parse_digits_zeros: "parse_digits 10 0 (replicate k (digit_char 0) @ s) = parse_digits 10 0 s"
  by (induction k) auto

lemma show_nat_nonempty [simp]: "show_nat n \<noteq> []"
  by (subst show_nat.simps) simp

lemma parse_show_nat: "parse_digits 10 0 (show_nat n) = Some n"
proof (induction n rule: show_nat.induct)
  case (1 n)
  show ?case
  proof (cases "n < 10")
    case False
    with 1 show ?thesis by (subst show_nat.simps) (simp add: parse_digits_append)
  qed (subst show_nat.simps, simp)
qed

lemma show_nat_inj: "show_nat m = show_nat n \<longleftrightarrow> m = n"
  by (metis option.inject parse_show_nat)

lemma set_show_nat: "c \<in> set (show_nat n) \<Longrightarrow> 48 \<le> (of_char c :: nat) \<and> (of_char c :: nat) \<le> 57"
proof (induction n rule: show_nat.induct)
  case (1 n)
  show ?case
  proof (cases "n < 10")
    case True
    with 1(2) show ?thesis by (subst (asm) show_nat.simps) (simp add: of_char_digit_char)
  next
    case False
    with 1 have "c \<in> set (show_nat (n div 10)) \<or> c = digit_char (n mod 10)"
      using show_nat.simps [of n] by auto
    with 1(1) False show ?thesis by (auto simp: of_char_digit_char)
  qed
qed

lemma ascii_boundary:
  assumes "\<And>c. c \<in> set s \<Longrightarrow> (of_char c :: nat) < 128" and "i \<le> length s"
  shows "is_char_boundary s i"
proof (cases "i < length s")
  case True
  then have "(of_char (s ! i) :: nat) < 128" by (intro assms(1)) simp
  with True show ?thesis by (simp add: is_char_boundary_def)
qed (use assms(2) in \<open>simp add: is_char_boundary_def\<close>)

lemma str_prefix_upto_ascii:
  assumes "\<And>c. c \<in> set s \<Longrightarrow> (of_char c :: nat) < 128"
  shows "str_prefix_upto n s = Ok (take n s)"
proof -
  have "is_char_boundary s (min (length s) n)" by (rule ascii_boundary) (use assms in auto)
  then show ?thesis
    by (simp add: str_prefix_upto_def str_slice_def subslice_def is_char_boundary_def min_def)
qed

section \<open>Lemmas on hash maps\<close>

lemma map_remove_apply [simp]: "map_remove k m j = (if j = k then None else m j)"
  by (simp add: map_remove_def)

lemma dom_map_remove [simp]: "dom (map_remove k m) = dom m - {k}"
  by (auto simp: map_remove_def split: if_splits)

lemma map_retain_Some [simp]: "map_retain p m k = Some v \<longleftrightarrow> m k = Some v \<and> p k v"
  by (auto simp: map_retain_def split: option.splits if_splits)

lemma map_retain_None: "map_retain p m k = None \<longleftrightarrow> (\<forall>v. m k = Some v \<longrightarrow> \<not> p k v)"
  by (auto simp: map_retain_def split: option.splits if_splits)

lemma dom_map_retain: "dom (map_retain p m) = {k \<in> dom m. p k (the (m k))}"
  by (auto simp: map_retain_def split: option.splits if_splits)

lemma map_len_insert: "finite (dom m) \<Longrightarrow>
    map_len (m(k \<mapsto> v)) = (if k \<in> dom m then map_len m else Suc (map_len m))"
  by (simp add: map_len_def card_insert_if)

lemma map_len_remove: "finite (dom m) \<Longrightarrow>
    map_len (map_remove k m) = (if k \<in> dom m then map_len m - 1 else map_len m)"
  by (simp add: map_len_def)

section \<open>Invariants of step relations\<close>

text \<open>A component with an initial state and a step relation: what holds initially and is kept by
  every step holds in every reachable state.\<close>

locale stepping_system =
  fixes init :: "'s \<Rightarrow> bool" and step :: "'s \<Rightarrow> 's \<Rightarrow> bool" and inv :: "'s \<Rightarrow> bool"
  assumes init_inv: "init s \<Longrightarrow> inv s"
    and step_inv: "inv s \<Longrightarrow> step s t \<Longrightarrow> inv t"
begin

lemma steps_inv:
  assumes "step\<^sup>*\<^sup>* s t" and "inv s"
  shows "inv t"
  using assms by (induction rule: rtranclp_induct) (auto intro: step_inv)

lemma reachable_inv: "init s \<Longrightarrow> step\<^sup>*\<^sup>* s t \<Longrightarrow> inv t"
  using init_inv steps_inv by blast

end

end
