(* ===== verification/Externals.thy ===== *)
theory Externals
  imports Guardian_Prelude
begin

text \<open>
  The third-party crates the program calls, as a record of functions that every operation using
  them takes as an argument: \<open>hex\<close>, \<open>base64\<close>, \<open>serde_json\<close> (its \<open>Value\<close> is the type variable),
  \<open>sha2\<close>, \<open>verifier\<close> and \<open>attester\<close> of the confidential-containers project, and the platform
  enumeration of \<open>kbs_types\<close>, of which the program names the variants \<open>Tdx\<close> and \<open>Snp\<close>. An error of a
  crate is the text it displays. Documented behaviour that a theorem relies on is one of the
  named predicates below; the instance at the end satisfies them all.
\<close>

section \<open>The crates\<close>

datatype tee = Tdx | Snp | OtherTee string

fun tee_debug :: "tee \<Rightarrow> string" where
  "tee_debug Tdx = ''Tdx''"
| "tee_debug Snp = ''Snp''"
| "tee_debug (OtherTee name) = name"

record 'j crates =
  hex_encode :: "bytes \<Rightarrow> string"
  hex_decode :: "string \<Rightarrow> string + bytes"
  hex_invalid_string_length :: string
  base64_encode :: "bytes \<Rightarrow> string"
  base64_decode :: "string \<Rightarrow> string + bytes"
  json_from_slice :: "bytes \<Rightarrow> string + 'j"
  json_to_vec :: "'j \<Rightarrow> string + bytes"
  json_to_string :: "'j \<Rightarrow> string"
  json_index :: "'j \<Rightarrow> string \<Rightarrow> 'j"
  json_get :: "'j \<Rightarrow> string \<Rightarrow> 'j option"
  json_is_null :: "'j \<Rightarrow> bool"
  json_as_str :: "'j \<Rightarrow> string option"
  json_as_u64 :: "'j \<Rightarrow> 64 word option"
  json_as_bool :: "'j \<Rightarrow> bool option"
  json_as_array :: "'j \<Rightarrow> 'j list option"
  sha256 :: "bytes \<Rightarrow> bytes"
  to_verifier :: "tee \<Rightarrow> string + unit"
  evaluate :: "tee \<Rightarrow> 'j \<Rightarrow> string + 'j list"
  get_evidence :: "tee \<Rightarrow> bytes \<Rightarrow> string + 'j"

fun of_sum :: "'e + 'a \<Rightarrow> ('a, 'e) outcome" where
  "of_sum (Inl e) = Err e"
| "of_sum (Inr x) = Ok x"

section \<open>Documented behaviour\<close>

definition hex_round_trip :: "'j crates \<Rightarrow> bool" where
  "hex_round_trip x \<longleftrightarrow> (\<forall>bs. hex_decode x (hex_encode x bs) = Inr bs)"

definition hex_two_chars :: "'j crates \<Rightarrow> bool" where
  "hex_two_chars x \<longleftrightarrow>
     (\<forall>bs. length (hex_encode x bs) = 2 * length bs \<and>
           (\<forall>c \<in> set (hex_encode x bs). (of_char c :: nat) < 128))"

definition sha256_digest_size :: "'j crates \<Rightarrow> bool" where
  "sha256_digest_size x \<longleftrightarrow> (\<forall>m. length (sha256 x m) = 32)"

text \<open>A lower-case hexadecimal digit, as \<open>hex::encode\<close> writes them.\<close>

definition hex_digit :: "char \<Rightarrow> bool" where
  "hex_digit c =
     (let n = (of_char c :: nat) in 48 \<le> n \<and> n \<le> 57 \<or> 97 \<le> n \<and> n \<le> 102)"

definition hex_lower_digits :: "'j crates \<Rightarrow> bool" where
  "hex_lower_digits x \<longleftrightarrow>
     (\<forall>bs. length (hex_encode x bs) = 2 * length bs \<and> list_all hex_digit (hex_encode x bs))"

section \<open>An instance\<close>

text \<open>A small instance of the crates, on which the hypotheses above hold and the witnesses
  compute. Base64 and the digest are stand-ins; hexadecimal is the real encoding.\<close>

datatype sample_json =
    JNull | JBool bool | JNum "64 word" | JStr string | JArr "sample_json list"
  | JObj "(string \<times> sample_json) list"

definition sample_hex_encode :: "bytes \<Rightarrow> string" where
  "sample_hex_encode bs = concat (map (\<lambda>b. [digit_char (unat b div 16), digit_char (unat b mod 16)]) bs)"

fun sample_hex_decode :: "string \<Rightarrow> string + bytes" where
  "sample_hex_decode [] = Inr []"
| "sample_hex_decode [c] = Inl ''Odd number of digits''"
| "sample_hex_decode (c # d # cs) =
     (case (digit_val 16 c, digit_val 16 d, sample_hex_decode cs) of
        (Some h, Some l, Inr bs) \<Rightarrow> Inr (word_of_nat (16 * h + l) # bs)
      | _ \<Rightarrow> Inl ''Invalid character'')"

fun sample_index :: "sample_json \<Rightarrow> string \<Rightarrow> sample_json" where
  "sample_index (JObj kvs) k = (case map_of kvs k of None \<Rightarrow> JNull | Some v \<Rightarrow> v)"
| "sample_index _ k = JNull"

fun sample_get :: "sample_json \<Rightarrow> string \<Rightarrow> sample_json option" where
  "sample_get (JObj kvs) k = map_of kvs k"
| "sample_get _ k = None"

fun sample_as_str :: "sample_json \<Rightarrow> string option" where
  "sample_as_str (JStr s) = Some s"
| "sample_as_str _ = None"

fun sample_as_u64 :: "sample_json \<Rightarrow> 64 word option" where
  "sample_as_u64 (JNum n) = Some n"
| "sample_as_u64 _ = None"

fun sample_as_bool :: "sample_json \<Rightarrow> bool option" where
  "sample_as_bool (JBool b) = Some b"
| "sample_as_bool _ = None"

fun sample_as_array :: "sample_json \<Rightarrow> sample_json list option" where
  "sample_as_array (JArr xs) = Some xs"
| "sample_as_array _ = None"

definition sample_crates :: "sample_json crates" where
  "sample_crates =
     \<lparr> hex_encode = sample_hex_encode,
       hex_decode = sample_hex_decode,
       hex_invalid_string_length = ''Invalid string length'',
       base64_encode = map (\<lambda>b. char_of (unat b)),
       base64_decode = (\<lambda>s. Inr (map (\<lambda>c. word_of_nat (of_char c)) s)),
       json_from_slice = (\<lambda>bs. Inr (JObj [(''quote'', JStr (map (\<lambda>b. char_of (unat b)) bs))])),
       json_to_vec = (\<lambda>_. Inr []),
       json_to_string = (\<lambda>_. ''{}''),
       json_index = sample_index,
       json_get = sample_get,
       json_is_null = (\<lambda>v. v = JNull),
       json_as_str = sample_as_str,
       json_as_u64 = sample_as_u64,
       json_as_bool = sample_as_bool,
       json_as_array = sample_as_array,
       sha256 = (\<lambda>m. take 32 (m @ replicate 32 0)),
       to_verifier = (\<lambda>_. Inr ()),
       evaluate = (\<lambda>_ v. Inr [v]),
       get_evidence = (\<lambda>_ bs. Inr (JObj [(''quote'', JStr (map (\<lambda>b. char_of (unat b)) bs))])) \<rparr>"

lemma of_sum_Ok [simp, outcome_simps]: "of_sum r = Ok x \<longleftrightarrow> r = Inr x"
  by (cases r) auto

lemma of_sum_Err [outcome_simps]: "of_sum r = Err e \<longleftrightarrow> r = Inl e"
  by (cases r) auto

lemma no_panic_of_sum [simp, no_panic_simps]: "no_panic (of_sum r)"
  by (cases r) auto

lemma digit_val_16: "d < 16 \<Longrightarrow> digit_val 16 (digit_char d) = Some d"
  by (auto simp: digit_val.simps digit_char_def)

lemma unat_byte_less: "unat (b :: byte) < 256"
  using unat_bound [of b] by simp

lemma sample_hex_round_trip: "hex_round_trip sample_crates"
proof -
  have "sample_hex_decode (sample_hex_encode bs) = Inr bs" for bs
  proof (induction bs)
    case (Cons b bs)
    have "unat b div 16 < 16" using unat_byte_less [of b] by simp
    then show ?case using Cons
      by (simp add: sample_hex_encode_def digit_val_16)
  qed (simp add: sample_hex_encode_def)
  then show ?thesis by (simp add: hex_round_trip_def sample_crates_def)
qed

lemma sample_hex_two_chars: "hex_two_chars sample_crates"
proof -
  have "length (sample_hex_encode bs) = 2 * length bs" for bs
    by (induction bs) (auto simp: sample_hex_encode_def)
  moreover have "(of_char c :: nat) < 128" if "c \<in> set (sample_hex_encode bs)" for c bs
  proof -
    have "(of_char (digit_char d) :: nat) < 128" if "d < 16" for d
      using that by (auto simp: digit_char_def)
    moreover have "unat b div 16 < 16" for b :: byte using unat_byte_less [of b] by simp
    ultimately show ?thesis using that by (auto simp: sample_hex_encode_def)
  qed
  ultimately show ?thesis by (simp add: hex_two_chars_def sample_crates_def)
qed

lemma sample_sha256_digest_size: "sha256_digest_size sample_crates"
  by (simp add: sha256_digest_size_def sample_crates_def min_def)

lemma sample_hex_lower_digits: "hex_lower_digits sample_crates"
proof -
  have "hex_digit (digit_char d)" if "d < 16" for d
    using that by (auto simp: hex_digit_def digit_char_def Let_def)
  moreover have "unat b div 16 < 16" for b :: byte using unat_byte_less [of b] by simp
  ultimately have "list_all hex_digit (sample_hex_encode bs)" for bs
    by (auto simp: sample_hex_encode_def list_all_iff)
  then show ?thesis
    using sample_hex_two_chars by (simp add: hex_lower_digits_def hex_two_chars_def sample_crates_def)
qed

lemma hex_digit_digit_char: "d < 16 \<Longrightarrow> hex_digit (digit_char d)"
  by (auto simp: hex_digit_def digit_char_def)

lemma hex_digits_show_hex: "list_all hex_digit (show_hex n)"
proof (induction n rule: show_hex.induct)
  case (1 n)
  then show ?case by (subst show_hex.simps) (auto simp: hex_digit_digit_char)
qed

end
