(* ===== verification/Node_Types.thy ===== *)
theory Node_Types
  imports Externals
begin

text \<open>
  Node identities and peer states of \<open>peer_registry/src/types/node.rs\<close>, the fixed-size byte arrays
  of \<open>common/src/bytes.rs\<close> and the node that a measurement registry advertises. A node identity is
  the IPv4 address packed into a \<open>u64\<close>; the order of \<open>Ipv4Addr\<close> is the standard library's, and the
  packing is an order embedding onto the identities below \<open>2^32\<close>.
\<close>

unbundle bit_operations_syntax

section \<open>IPv4 addresses and node identities\<close>

datatype ipv4 = Ipv4Addr byte byte byte byte

type_synonym NodeId = "64 word"

primrec octets :: "ipv4 \<Rightarrow> bytes" where
  "octets (Ipv4Addr a b c d) = [a, b, c, d]"

primrec show_ipv4 :: "ipv4 \<Rightarrow> string" where
  "show_ipv4 (Ipv4Addr a b c d) =
     show_nat (unat a) @ ''.'' @ show_nat (unat b) @ ''.'' @ show_nat (unat c) @ ''.'' @
     show_nat (unat d)"

definition ip_to_node_id :: "ipv4 \<Rightarrow> NodeId" where
  "ip_to_node_id ip = foldl (\<lambda>acc octet. push_bit 8 acc OR ucast octet) 0 (octets ip)"

definition node_id_to_ip :: "NodeId \<Rightarrow> ipv4" where
  "node_id_to_ip node_id =
     Ipv4Addr (ucast (drop_bit 24 node_id AND 0xFF)) (ucast (drop_bit 16 node_id AND 0xFF))
              (ucast (drop_bit 8 node_id AND 0xFF)) (ucast (node_id AND 0xFF))"

instantiation ipv4 :: linorder
begin

definition less_eq_ipv4 :: "ipv4 \<Rightarrow> ipv4 \<Rightarrow> bool" where
  "less_eq_ipv4 x y \<longleftrightarrow>
     (case (x, y) of (Ipv4Addr a b c d, Ipv4Addr a' b' c' d') \<Rightarrow>
        a < a' \<or> a = a' \<and> (b < b' \<or> b = b' \<and> (c < c' \<or> c = c' \<and> d \<le> d')))"

definition less_ipv4 :: "ipv4 \<Rightarrow> ipv4 \<Rightarrow> bool" where
  "less_ipv4 x y \<longleftrightarrow> x \<le> y \<and> \<not> y \<le> (x :: ipv4)"

instance
proof
  fix x y z :: ipv4
  show "x < y \<longleftrightarrow> x \<le> y \<and> \<not> y \<le> x" by (rule less_ipv4_def)
  show "x \<le> x" by (cases x) (simp add: less_eq_ipv4_def)
  show "x \<le> y \<Longrightarrow> y \<le> z \<Longrightarrow> x \<le> z"
    by (cases x; cases y; cases z) (auto simp: less_eq_ipv4_def)
  show "x \<le> y \<Longrightarrow> y \<le> x \<Longrightarrow> x = y"
    by (cases x; cases y) (auto simp: less_eq_ipv4_def)
  show "x \<le> y \<or> y \<le> x"
    by (cases x; cases y) (auto simp: less_eq_ipv4_def)
qed

end

section \<open>Peer states\<close>

datatype BlacklistReason = BlAttestationFailed | BlNonceVerificationFailed | BlInvalidQuoteFormat

fun show_blacklist_reason :: "BlacklistReason \<Rightarrow> string" where
  "show_blacklist_reason BlAttestationFailed = ''attestation_failed''"
| "show_blacklist_reason BlNonceVerificationFailed = ''nonce_verification_failed''"
| "show_blacklist_reason BlInvalidQuoteFormat = ''invalid_quote_format''"

datatype RevokedReason =
  MeasurementRevoked | ManualRevocation | ReattestationFailed | OtherReason string

fun show_revoked_reason :: "RevokedReason \<Rightarrow> string" where
  "show_revoked_reason MeasurementRevoked = ''measurement_revoked''"
| "show_revoked_reason ManualRevocation = ''manual_revocation''"
| "show_revoked_reason ReattestationFailed = ''reattestation_failed''"
| "show_revoked_reason (OtherReason s) = s"

text \<open>Instants of the monotonic clock are natural numbers.\<close>

type_synonym instant = nat

datatype PeerState =
    Discovered | Verifying | Trusted
  | Blacklisted instant BlacklistReason
  | RevokedPeer RevokedReason

fun peer_is_trusted :: "PeerState \<Rightarrow> bool" where
  "peer_is_trusted Trusted = True"
| "peer_is_trusted _ = False"

fun is_blacklisted :: "PeerState \<Rightarrow> bool" where
  "is_blacklisted (Blacklisted t r) = True"
| "is_blacklisted _ = False"

fun is_blacklist_expired :: "instant \<Rightarrow> PeerState \<Rightarrow> bool" where
  "is_blacklist_expired now (Blacklisted t r) = (t \<le> now)"
| "is_blacklist_expired now _ = False"

record BootstrapNode =
  bn_ip_address :: ipv4
  bn_raft_port :: "16 word"
  bn_api_port :: "16 word"

definition bootstrap_node_id :: "BootstrapNode \<Rightarrow> NodeId" where
  "bootstrap_node_id n = ip_to_node_id (bn_ip_address n)"

section \<open>Fixed-size byte arrays\<close>

text \<open>The macro defines \<open>Bytes32\<close>, \<open>Bytes48\<close> and \<open>Bytes64\<close>; its size is the first argument.\<close>

definition from_slice :: "nat \<Rightarrow> bytes \<Rightarrow> (bytes, 'e) outcome" where
  "from_slice sz s = copy_from_slice sz s"

definition to_hex :: "'j crates \<Rightarrow> bytes \<Rightarrow> string" where
  "to_hex x b = hex_encode x b"

definition from_hex :: "'j crates \<Rightarrow> nat \<Rightarrow> string \<Rightarrow> (bytes, string) outcome" where
  "from_hex x sz s =
     and_then (of_sum (hex_decode x s)) (\<lambda>bs.
       if length bs \<noteq> sz then Err (hex_invalid_string_length x) else from_slice sz bs)"

definition show_bytes :: "'j crates \<Rightarrow> bytes \<Rightarrow> string" where
  "show_bytes x b = ''0x'' @ to_hex x b"

definition serialize_bytes :: "'j crates \<Rightarrow> bytes \<Rightarrow> string" where
  "serialize_bytes x b = to_hex x b"

definition deserialize_bytes :: "'j crates \<Rightarrow> nat \<Rightarrow> string \<Rightarrow> (bytes, string) outcome" where
  "deserialize_bytes x sz s0 =
     (let s = (case strip_prefix_str ''0x'' s0 of None \<Rightarrow> s0 | Some t \<Rightarrow> t)
      in and_then (of_sum (hex_decode x s)) (\<lambda>bs.
           if length bs \<noteq> sz
           then Err (''expected '' @ show_nat sz @ '' bytes, got '' @ show_nat (length bs))
           else from_slice sz bs))"

section \<open>Lemmas on node identities\<close>

lemma unat_shift_or_octet:
  fixes acc :: NodeId and octet :: byte
  assumes "unat acc < 2 ^ 56"
  shows "unat (push_bit 8 acc OR ucast octet) = 256 * unat acc + unat octet"
proof -
  have o: "unat octet < 256" using unat_bound [of octet] by simp
  have "push_bit 8 acc OR ucast octet = push_bit 8 acc + (ucast octet :: 64 word)"
    by (rule disjunctive_add [symmetric]) (auto simp: bit_simps dest: bit_imp_le_length)
  also have "\<dots> = word_of_nat (256 * unat acc + unat octet)"
    by (simp add: push_bit_eq_mult ac_simps)
  finally have "push_bit 8 acc OR ucast octet = (word_of_nat (256 * unat acc + unat octet) :: 64 word)" .
  moreover have "unat (word_of_nat (256 * unat acc + unat octet) :: 64 word) = 256 * unat acc + unat octet"
    by (subst unat_of_nat, rule mod_less) (use assms o in simp)
  ultimately show ?thesis by simp
qed

lemma unat_ip_to_node_id:
  "unat (ip_to_node_id (Ipv4Addr a b c d)) =
     256 * (256 * (256 * unat a + unat b) + unat c) + unat d"
proof -
  have lt: "unat a < 256" "unat b < 256" "unat c < 256" "unat d < 256"
    using unat_bound [of a] unat_bound [of b] unat_bound [of c] unat_bound [of d] by simp_all
  let ?f = "\<lambda>acc octet. push_bit 8 acc OR ucast octet :: 64 word"
  have 1: "unat (?f 0 a) = unat a" by (subst unat_shift_or_octet) simp_all
  have 2: "unat (?f (?f 0 a) b) = 256 * unat a + unat b"
    by (subst unat_shift_or_octet) (use lt 1 in \<open>simp_all only: 1\<close>, simp)
  have 3: "unat (?f (?f (?f 0 a) b) c) = 256 * (256 * unat a + unat b) + unat c"
    by (subst unat_shift_or_octet) (use lt 2 in \<open>simp_all only: 2\<close>, simp)
  have 4: "unat (?f (?f (?f (?f 0 a) b) c) d) = 256 * (256 * (256 * unat a + unat b) + unat c) + unat d"
    by (subst unat_shift_or_octet) (use lt 3 in \<open>simp_all only: 3\<close>, simp)
  then show ?thesis by (simp only: ip_to_node_id_def octets.simps foldl.simps)
qed

lemma byte_mask: "0xFF = (mask 8 :: 64 word)" by (simp add: mask_eq_exp_minus_1)

lemma node_id_to_ip_inverse [simp]: "node_id_to_ip (ip_to_node_id ip) = ip"
  by (cases ip, simp add: node_id_to_ip_def ip_to_node_id_def byte_mask,
      intro conjI; rule bit_word_eqI; auto simp: bit_simps dest: bit_imp_le_length)

lemma unat_octet: "unat (ucast (drop_bit k n AND 0xFF :: 64 word) :: byte) = unat n div 2 ^ k mod 256"
proof -
  have "unat (ucast (drop_bit k n AND 0xFF :: 64 word) :: byte) = take_bit 8 (take_bit 8 (drop_bit k (unat n)))"
    by (simp only: byte_mask take_bit_eq_mask [symmetric] unsigned_ucast_eq unsigned_take_bit_eq
        unsigned_drop_bit_eq) (use unat_bound [of n] in \<open>simp add: take_bit_nat_eq_self\<close>)
  then show ?thesis by (simp add: take_bit_eq_mod drop_bit_eq_div)
qed

lemma unat_octet0: "unat (ucast (n AND 0xFF :: 64 word) :: byte) = unat n mod 256"
  using unat_octet [of 0 n] by simp

lemma base_256:
  fixes m :: nat
  assumes "m < 2 ^ 32"
  shows "256 * (256 * (256 * (m div 2 ^ 24 mod 256) + m div 2 ^ 16 mod 256) + m div 2 ^ 8 mod 256) + m mod 256 = m"
proof -
  define a b c where "a = m div 256" and "b = a div 256" and "c = b div 256"
  have "m div 2 ^ 8 = a" "m div 2 ^ 16 = b" "m div 2 ^ 24 = c" "c < 256"
    using assms by (simp_all add: a_def b_def c_def div_mult2_eq [symmetric])
  moreover have "256 * c + b mod 256 = b" "256 * b + a mod 256 = a" "256 * a + m mod 256 = m"
    by (simp_all add: a_def b_def c_def)
  ultimately show ?thesis by simp
qed

lemma ip_to_node_id_inverse: "unat n < 2 ^ 32 \<Longrightarrow> ip_to_node_id (node_id_to_ip n) = n"
  unfolding word_unat_eq_iff node_id_to_ip_def unat_ip_to_node_id unat_octet [of 24 n] unat_octet [of 16 n]
    unat_octet [of 8 n] unat_octet0 [of n]
  by (rule base_256)

lemma unat_less_iff: "unat a < unat b \<longleftrightarrow> a < b" for a b :: "'a::len word"
  by (simp add: word_less_nat_alt)

lemma ip_to_node_id_inject [simp]: "ip_to_node_id x = ip_to_node_id y \<longleftrightarrow> x = y"
  by (metis node_id_to_ip_inverse)

lemma ip_to_node_id_bound: "unat (ip_to_node_id ip) < 2 ^ 32"
proof (cases ip)
  case (Ipv4Addr a b c d)
  with unat_byte_less [of a] unat_byte_less [of b] unat_byte_less [of c] unat_byte_less [of d]
  show ?thesis by (simp add: unat_ip_to_node_id)
qed

lemma lex_base_256:
  fixes x y :: nat
  assumes "x < 256" "y < 256"
  shows "256 * p + x < 256 * q + y \<longleftrightarrow> p < q \<or> p = q \<and> x < y"
    and "256 * p + x = 256 * q + y \<longleftrightarrow> p = q \<and> x = y"
proof -
  have "(256 * p + x) div 256 = p" "(256 * p + x) mod 256 = x"
    "(256 * q + y) div 256 = q" "(256 * q + y) mod 256 = y"
    using assms by simp_all
  then show "256 * p + x = 256 * q + y \<longleftrightarrow> p = q \<and> x = y" by metis
  show "256 * p + x < 256 * q + y \<longleftrightarrow> p < q \<or> p = q \<and> x < y"
    using assms by auto
qed

lemma ip_to_node_id_less: "ip_to_node_id x < ip_to_node_id y \<longleftrightarrow> x < y"
proof (cases x; cases y)
  fix a b c d a' b' c' d'
  assume xy: "x = Ipv4Addr a b c d" "y = Ipv4Addr a' b' c' d'"
  have "ip_to_node_id x < ip_to_node_id y \<longleftrightarrow>
      a < a' \<or> a = a' \<and> (b < b' \<or> b = b' \<and> (c < c' \<or> c = c' \<and> d < d'))"
    unfolding word_less_nat_alt xy unat_ip_to_node_id
      lex_base_256 [OF unat_byte_less unat_byte_less] word_unat_eq_iff
    by blast
  also have "\<dots> \<longleftrightarrow> x < y"
    by (auto simp: xy less_ipv4_def less_eq_ipv4_def)
  finally show ?thesis .
qed

section \<open>Lemmas on fixed-size byte arrays\<close>

lemma from_slice_Ok [simp]: "from_slice n bs = Ok cs \<longleftrightarrow> length bs = n \<and> cs = bs"
  by (auto simp: from_slice_def)

lemma no_panic_from_slice [no_panic_simps]: "no_panic (from_slice n bs) \<longleftrightarrow> length bs = n"
  by (simp add: from_slice_def no_panic_simps)

lemma from_hex_total: "no_panic (from_hex x n s)"
  by (auto simp: from_hex_def no_panic_simps)

lemma from_hex_Ok: "from_hex x n s = Ok bs \<longleftrightarrow> hex_decode x s = Inr bs \<and> length bs = n"
  by (auto simp: from_hex_def split: if_splits)

lemma deserialize_total: "no_panic (deserialize_bytes x n s)"
  by (auto simp: deserialize_bytes_def no_panic_simps Let_def)

lemma strip_0x_hex:
  assumes "hex_lower_digits x"
  shows "strip_prefix_str ''0x'' (hex_encode x b) = None"
proof (cases "hex_encode x b")
  case (Cons c cs)
  have "\<not> hex_digit CHR ''x''" by (simp add: hex_digit_def)
  then have "\<And>d. d \<in> set (hex_encode x b) \<Longrightarrow> d \<noteq> CHR ''x''"
    using assms unfolding hex_lower_digits_def list_all_iff by blast
  then show ?thesis using Cons by (cases cs) auto
qed simp

section \<open>Properties\<close>

text \<open>Packing an IPv4 address into a node identity loses nothing: unpacking gives the address
  back, the identities are exactly the numbers below \<open>2^32\<close>, and the packing is strictly monotone,
  so the lowest node identity is the lowest address.\<close>

theorem node_id_embedding:
  "node_id_to_ip (ip_to_node_id ip) = ip \<and>
   range ip_to_node_id = {n. unat n < 2 ^ 32} \<and>
   (ip_to_node_id a < ip_to_node_id b \<longleftrightarrow> a < b)"
proof (intro conjI)
  show "node_id_to_ip (ip_to_node_id ip) = ip" by simp
  show "ip_to_node_id a < ip_to_node_id b \<longleftrightarrow> a < b" by (rule ip_to_node_id_less)
  show "range ip_to_node_id = {n. unat n < 2 ^ 32}"
    using ip_to_node_id_bound by (auto intro!: rev_image_eqI ip_to_node_id_inverse [symmetric])
qed

text \<open>The fixed-size byte arrays survive serialization: the serialized text and the displayed
  text with its \<open>0x\<close> prefix both deserialize to the original array. Deserializing any text returns
  an array of the right size or an error, never a panic.\<close>

theorem fixed_bytes_round_trip:
  assumes "hex_lower_digits x" and "hex_round_trip x" and "length b = n"
  shows "deserialize_bytes x n (serialize_bytes x b) = Ok b \<and>
     deserialize_bytes x n (show_bytes x b) = Ok b \<and>
     no_panic (deserialize_bytes x n s) \<and>
     (deserialize_bytes x n s = Ok c \<longrightarrow> length c = n)"
proof (intro conjI)
  have "hex_decode x (hex_encode x b) = Inr b" using assms(2) by (simp add: hex_round_trip_def)
  then show "deserialize_bytes x n (serialize_bytes x b) = Ok b"
    "deserialize_bytes x n (show_bytes x b) = Ok b"
    using assms(3) strip_0x_hex [OF assms(1), of b]
    by (simp_all add: deserialize_bytes_def serialize_bytes_def show_bytes_def to_hex_def
        del: and_then_Ok)
  show "deserialize_bytes x n s = Ok c \<longrightarrow> length c = n"
    by (auto simp: deserialize_bytes_def Let_def split: if_splits)
qed (rule deserialize_total)

theorem fixed_bytes_round_trip_witness:
  "deserialize_bytes sample_crates 32 (show_bytes sample_crates (replicate 32 171)) = Ok (replicate 32 171)"
  using fixed_bytes_round_trip [OF sample_hex_lower_digits sample_hex_round_trip, of "replicate 32 171" 32]
  by simp

end
