(* ===== verification/Peer_Types.thy ===== *)
theory Peer_Types
  imports Node_Types
begin

text \<open>
  The types of \<open>peer_registry/src/types\<close>: instance identities, verification errors with the texts
  they display, attestation sessions (\<open>TeeState\<close>, \<open>TeeRecord\<close>), registry events, the trusted
  measurements of the registry service and the API responses. Fields carry a prefix where two
  structures share a field name.
\<close>

section \<open>Instance identities\<close>

datatype InstanceId = InstanceId bytes

primrec instance_as_bytes :: "InstanceId \<Rightarrow> bytes" where
  "instance_as_bytes (InstanceId b) = b"

definition instance_from_hex :: "'j crates \<Rightarrow> string \<Rightarrow> (InstanceId, string) outcome" where
  "instance_from_hex x s = and_then (from_hex x 32 s) (\<lambda>b. Ok (InstanceId b))"

definition is_zero :: "InstanceId \<Rightarrow> bool" where
  "is_zero i \<longleftrightarrow> instance_as_bytes i = replicate 32 0"

definition instance_to_hex :: "'j crates \<Rightarrow> InstanceId \<Rightarrow> string" where
  "instance_to_hex x i = to_hex x (instance_as_bytes i)"

definition instance_short :: "'j crates \<Rightarrow> InstanceId \<Rightarrow> string" where
  "instance_short x i = hex_encode x (take 4 (instance_as_bytes i))"

section \<open>Errors\<close>

datatype VerificationError =
    ConnectionFailed string
  | Timeout string
  | HttpError "16 word" string
  | ParseError string
  | InvalidQuoteFormat string
  | AttestationFailed string
  | MeasurementNotTrusted string
  | DebugNotAllowed
  | TcbOutdated string
  | PlatformConstraint string
  | MeasurementMismatch string string
  | NonceVerificationFailed string
  | NoPendingChallenge
  | IdentityRequired
  | IdentityConflict string

fun show_verification_error :: "VerificationError \<Rightarrow> string" where
  "show_verification_error (ConnectionFailed m) = ''Connection failed: '' @ m"
| "show_verification_error (Timeout m) = ''Request timeout: '' @ m"
| "show_verification_error (HttpError status m) =
     ''HTTP error '' @ show_nat (unat status) @ '': '' @ m"
| "show_verification_error (ParseError m) = ''Parse error: '' @ m"
| "show_verification_error (InvalidQuoteFormat m) = ''Invalid quote format: '' @ m"
| "show_verification_error (AttestationFailed m) = ''Attestation failed: '' @ m"
| "show_verification_error (MeasurementNotTrusted m) = ''Measurement not trusted: '' @ m"
| "show_verification_error DebugNotAllowed = ''Debug mode enabled but not allowed by policy''"
| "show_verification_error (TcbOutdated m) = ''TCB version outdated: '' @ m"
| "show_verification_error (PlatformConstraint m) = ''Platform constraint violation: '' @ m"
| "show_verification_error (MeasurementMismatch expected actual) =
     ''Measurement mismatch: expected '' @ quoted expected @ '', got '' @ quoted actual"
| "show_verification_error (NonceVerificationFailed m) = ''Nonce verification failed: '' @ m"
| "show_verification_error NoPendingChallenge = ''No pending challenge for instance''"
| "show_verification_error IdentityRequired =
     ''Identity required: TDX instances must provide non-zero REPORTDATA[32:64]''"
| "show_verification_error (IdentityConflict m) =
     ''Identity conflict: instance '' @ m @ '' is already registered''"

fun is_transient :: "VerificationError \<Rightarrow> bool" where
  "is_transient (ConnectionFailed m) = True"
| "is_transient (Timeout m) = True"
| "is_transient (HttpError s m) = True"
| "is_transient _ = False"

fun status_code :: "VerificationError \<Rightarrow> 16 word" where
  "status_code (ConnectionFailed m) = 503"
| "status_code (Timeout m) = 503"
| "status_code (HttpError status m) = status"
| "status_code (ParseError m) = 400"
| "status_code (AttestationFailed m) = 400"
| "status_code (InvalidQuoteFormat m) = 400"
| "status_code (NonceVerificationFailed m) = 401"
| "status_code (MeasurementNotTrusted m) = 403"
| "status_code DebugNotAllowed = 403"
| "status_code (TcbOutdated m) = 403"
| "status_code (PlatformConstraint m) = 403"
| "status_code (MeasurementMismatch e a) = 403"
| "status_code NoPendingChallenge = 404"
| "status_code IdentityRequired = 409"
| "status_code (IdentityConflict m) = 409"

datatype MeasurementRegistryError =
    RegConnectionFailed string
  | RegTimeout string
  | RegistryError "16 word" string
  | RegParseError string
  | RegInvalidUrl string

fun show_registry_error :: "MeasurementRegistryError \<Rightarrow> string" where
  "show_registry_error (RegConnectionFailed m) = ''Connection failed: '' @ m"
| "show_registry_error (RegTimeout m) = ''Request timeout: '' @ m"
| "show_registry_error (RegistryError status m) =
     ''Registry error (status '' @ show_nat (unat status) @ ''): '' @ m"
| "show_registry_error (RegParseError m) = ''Parse error: '' @ m"
| "show_registry_error (RegInvalidUrl m) = ''Invalid URL: '' @ m"

datatype PeerRegistryError =
    Verification VerificationError
  | MeasurementRegistry MeasurementRegistryError
  | ConfigError string
  | OtherError string

fun show_peer_registry_error :: "PeerRegistryError \<Rightarrow> string" where
  "show_peer_registry_error (Verification e) = ''Verification error: '' @ show_verification_error e"
| "show_peer_registry_error (MeasurementRegistry e) =
     ''Measurement registry error: '' @ show_registry_error e"
| "show_peer_registry_error (ConfigError m) = ''Configuration error: '' @ m"
| "show_peer_registry_error (OtherError m) = m"

section \<open>Attestation sessions\<close>

text \<open>The wall clock (\<open>Utc::now\<close>) is an integer number of seconds since the Unix epoch.\<close>

type_synonym utc = int

datatype TeeState =
    PendingChallenge (pc_challenge: bytes) (pc_issued_at: instant) (pc_expires_at: instant)
      (pc_measurement_hash: string) (pc_tee: tee)
  | Verified (vs_measurement_hash: string) (vs_tcb_status: string) (vs_tee: tee)
      (vs_verified_at: utc)
  | Rejected (rs_reason: string) (rs_rejected_at: utc)

fun state_is_verified :: "TeeState \<Rightarrow> bool" where
  "state_is_verified (Verified h t p v) = True"
| "state_is_verified _ = False"

fun state_is_pending :: "TeeState \<Rightarrow> bool" where
  "state_is_pending (PendingChallenge c i e h p) = True"
| "state_is_pending _ = False"

fun state_is_rejected :: "TeeState \<Rightarrow> bool" where
  "state_is_rejected (Rejected r t) = True"
| "state_is_rejected _ = False"

fun state_measurement_hash :: "TeeState \<Rightarrow> string option" where
  "state_measurement_hash (Verified h t p v) = Some h"
| "state_measurement_hash (PendingChallenge c i e h p) = Some h"
| "state_measurement_hash (Rejected r t) = None"

fun state_tee :: "TeeState \<Rightarrow> tee option" where
  "state_tee (Verified h t p v) = Some p"
| "state_tee (PendingChallenge c i e h p) = Some p"
| "state_tee (Rejected r t) = None"

record TeeRecord =
  tr_instance_id :: InstanceId
  tr_namespace :: string
  tr_state :: TeeState
  tr_ip_address :: "ipv4 option"
  tr_api_port :: "16 word option"

definition new_pending ::
  "instant \<Rightarrow> InstanceId \<Rightarrow> string \<Rightarrow> bytes \<Rightarrow> string \<Rightarrow> tee \<Rightarrow> nat \<Rightarrow> TeeRecord" where
  "new_pending now instance_id namespace challenge measurement_hash tee expires_in =
     \<lparr> tr_instance_id = instance_id, tr_namespace = namespace,
       tr_state = PendingChallenge challenge now (now + expires_in) measurement_hash tee,
       tr_ip_address = None, tr_api_port = None \<rparr>"

definition is_challenge_expired :: "instant \<Rightarrow> TeeRecord \<Rightarrow> bool" where
  "is_challenge_expired now r =
     (case tr_state r of PendingChallenge c i expires_at h p \<Rightarrow> expires_at < now | _ \<Rightarrow> False)"

definition get_valid_challenge :: "instant \<Rightarrow> TeeRecord \<Rightarrow> bytes option" where
  "get_valid_challenge now r =
     (case tr_state r of
        PendingChallenge challenge i expires_at h p \<Rightarrow>
          if now \<le> expires_at then Some challenge else None
      | _ \<Rightarrow> None)"

datatype PeerRegistryEvent =
    EvRegistered string InstanceId bytes string
  | EvVerified string InstanceId TeeRecord
  | EvRejected string InstanceId string
  | EvRevoked string InstanceId string TeeRecord

fun event_namespace :: "PeerRegistryEvent \<Rightarrow> string" where
  "event_namespace (EvRegistered ns i c h) = ns"
| "event_namespace (EvVerified ns i r) = ns"
| "event_namespace (EvRejected ns i why) = ns"
| "event_namespace (EvRevoked ns i why r) = ns"

fun event_instance_id :: "PeerRegistryEvent \<Rightarrow> InstanceId" where
  "event_instance_id (EvRegistered ns i c h) = i"
| "event_instance_id (EvVerified ns i r) = i"
| "event_instance_id (EvRejected ns i why) = i"
| "event_instance_id (EvRevoked ns i why r) = i"

section \<open>Trusted measurements and responses\<close>

record CpuModel =
  cpu_family :: byte
  cpu_model :: byte
  cpu_stepping :: "byte option"

record TdxMinimumTcb =
  tm_seam_svn :: "byte option"
  tm_tee_tcb_svn :: "string option"

record TdxPlatformConstraints =
  tp_allowed_vendor_ids :: "string list option"
  tp_mr_seam :: "string option"
  tp_mrsigner_seam :: "string option"
  tp_allowed_cpu_models :: "CpuModel list option"

record TdxMeasurement =
  td_rtmr0 :: string
  td_rtmr1 :: string
  td_rtmr2 :: string
  td_rtmr3 :: string
  td_debug_allowed :: bool
  td_minimum_tcb :: "TdxMinimumTcb option"
  td_platform_constraints :: "TdxPlatformConstraints option"

record SnpMinimumTcb =
  sm_bootloader_svn :: "byte option"
  sm_tee_svn :: "byte option"
  sm_snp_svn :: "byte option"
  sm_microcode_svn :: "byte option"

record SnpPlatformConstraints =
  sp_allowed_chip_ids :: "string list option"
  sp_allowed_cpu_models :: "CpuModel list option"
  sp_require_smt_disabled :: "bool option"
  sp_required_vmpl :: "byte option"
  sp_id_key_digest :: "string option"
  sp_author_key_digest :: "string option"

record SnpMeasurement =
  sn_measurement :: string
  sn_host_data :: "string option"
  sn_debug_allowed :: bool
  sn_minimum_tcb :: "SnpMinimumTcb option"
  sn_platform_constraints :: "SnpPlatformConstraints option"

datatype TrustedMeasurementData = TdxData TdxMeasurement | SnpData SnpMeasurement

record TrustedMeasurement =
  tm_namespace :: string
  tm_platform :: string
  tm_data :: TrustedMeasurementData
  tm_revoked_at :: "64 word option"

record 'j ParsedAttestation =
  pa_tee :: tee
  pa_instance_id :: InstanceId
  pa_measurement_hash :: string
  pa_claims :: 'j
  pa_tcb_status :: "string option"

definition show_parsed_attestation :: "'j crates \<Rightarrow> 'j ParsedAttestation \<Rightarrow> (string, 'e) outcome" where
  "show_parsed_attestation x a =
     and_then (str_prefix_upto 16 (pa_measurement_hash a)) (\<lambda>start.
       Ok (''ParsedAttestation { tee: '' @ tee_debug (pa_tee a) @ '', instance_id: '' @
           instance_short x (pa_instance_id a) @ '', measurement: '' @ start @ ''... }''))"

record RegistrationResponse =
  rr_challenge :: string
  rr_expires_at :: "64 word"

record VerificationResponse =
  vr_verified :: bool
  vr_measurement_hash :: "string option"
  vr_tcb_status :: "string option"

section \<open>Lemmas\<close>

lemma instance_as_bytes_inject [simp]: "instance_as_bytes i = instance_as_bytes j \<longleftrightarrow> i = j"
  by (cases i; cases j) simp

text \<open>A challenge is valid exactly as long as it is pending and has not expired.\<close>

lemma get_valid_challenge_iff:
  "get_valid_challenge now r = Some c \<longleftrightarrow>
     state_is_pending (tr_state r) \<and> \<not> is_challenge_expired now r \<and> pc_challenge (tr_state r) = c"
  by (cases "tr_state r") (auto simp: get_valid_challenge_def is_challenge_expired_def)

lemma new_pending_valid:
  "get_valid_challenge t (new_pending now i ns c h p d) = (if t \<le> now + d then Some c else None)"
  by (simp add: new_pending_def get_valid_challenge_def)

lemma new_pending_expired: "is_challenge_expired t (new_pending now i ns c h p d) \<longleftrightarrow> now + d < t"
  by (simp add: new_pending_def is_challenge_expired_def)

lemma expired_iff_no_challenge:
  "state_is_pending (tr_state r) \<Longrightarrow>
     is_challenge_expired now r \<longleftrightarrow> get_valid_challenge now r = None"
  by (cases "tr_state r") (auto simp: get_valid_challenge_def is_challenge_expired_def)

text \<open>The hash of an attestation is hexadecimal, so displaying the attestation does not cut a character.\<close>

lemma show_parsed_attestation_hex:
  assumes "hex_two_chars x" and "pa_measurement_hash a = hex_encode x h"
  shows "no_panic (show_parsed_attestation x a)"
  using assms by (simp add: show_parsed_attestation_def str_prefix_upto_ascii hex_two_chars_def)

end
