(* ===== verification/Peer_Registry.thy ===== *)
theory Peer_Registry
  imports Peer_Types
begin

text \<open>
  The registry of attestation sessions, \<open>peer_registry/src/registry.rs\<close>: two maps, pending and
  verified, keyed by instance identity, and the broadcast channel, kept as the list of the events
  sent on it. Clock readings and the random challenge are arguments. The two maps have a lock each and an
  operation takes them one after the other: what it does under one lock is a definition of its own, and
  the operation is their composition, a call that no other call disturbs. \<open>Registry_Races\<close> interleaves the
  parts. The theorems here are about undisturbed calls: the registry invariant, the behaviour of each
  operation on every branch, that a challenge is consumed once, that expired sessions are
  exactly what the cleanup removes, and that the event log determines the verified map.
\<close>

section \<open>State and operations\<close>

record PeerRegistry =
  pr_pending :: "(InstanceId, TeeRecord) hash_map"
  pr_verified :: "(InstanceId, TeeRecord) hash_map"
  pr_events :: "PeerRegistryEvent list"
  pr_challenge_expiry :: nat

definition DEFAULT_CHALLENGE_EXPIRY :: nat where
  "DEFAULT_CHALLENGE_EXPIRY = 60"

definition registry_with_config :: "nat \<Rightarrow> PeerRegistry" where
  "registry_with_config challenge_expiry =
     \<lparr> pr_pending = Map.empty, pr_verified = Map.empty, pr_events = [],
       pr_challenge_expiry = challenge_expiry \<rparr>"

definition registry_new :: PeerRegistry where
  "registry_new = registry_with_config DEFAULT_CHALLENGE_EXPIRY"

definition send_event :: "PeerRegistryEvent \<Rightarrow> PeerRegistry \<Rightarrow> PeerRegistry" where
  "send_event e reg = reg\<lparr> pr_events := pr_events reg @ [e] \<rparr>"

text \<open>The parts of a registration: the test whether the instance is verified, under the lock of the verified
  map; the search for a challenge that is still valid, under the lock of the pending map; and the insertion,
  under the same lock taken again.\<close>

definition already_verified :: "PeerRegistry \<Rightarrow> InstanceId \<Rightarrow> bool" where
  [simp]: "already_verified reg instance_id \<longleftrightarrow> pr_verified reg instance_id \<noteq> None"

definition existing_challenge :: "instant \<Rightarrow> PeerRegistry \<Rightarrow> InstanceId \<Rightarrow> bytes option" where
  [simp]: "existing_challenge now reg instance_id =
     (case pr_pending reg instance_id of
        None \<Rightarrow> None | Some record \<Rightarrow> get_valid_challenge now record)"

definition store_pending :: "InstanceId \<Rightarrow> TeeRecord \<Rightarrow> PeerRegistry \<Rightarrow> PeerRegistry" where
  [simp]: "store_pending instance_id record reg =
     reg\<lparr> pr_pending := (pr_pending reg)(instance_id \<mapsto> record) \<rparr>"

text \<open>\<open>now\<close> is the clock when an existing challenge is checked, \<open>later\<close> when a new record is made.\<close>

definition register ::
  "instant \<Rightarrow> instant \<Rightarrow> bytes \<Rightarrow> PeerRegistry \<Rightarrow> InstanceId \<Rightarrow> string \<Rightarrow> string \<Rightarrow> tee \<Rightarrow>
   (bytes \<times> bool, bool) outcome \<times> PeerRegistry" where
  "register now later random_challenge reg instance_id namespace measurement_hash tee =
     (if already_verified reg instance_id then (Err True, reg)
      else case existing_challenge now reg instance_id of
             Some challenge \<Rightarrow> (Ok (challenge, False), reg)
           | None \<Rightarrow>
               (let record = new_pending later instance_id namespace random_challenge
                               measurement_hash tee (pr_challenge_expiry reg)
                in (Ok (random_challenge, True),
                    send_event (EvRegistered namespace instance_id random_challenge measurement_hash)
                      (store_pending instance_id record reg))))"

definition get_pending_challenge :: "instant \<Rightarrow> PeerRegistry \<Rightarrow> InstanceId \<Rightarrow> bytes option" where
  "get_pending_challenge now reg instance_id =
     (case pr_pending reg instance_id of None \<Rightarrow> None | Some r \<Rightarrow> get_valid_challenge now r)"

definition get_pending_record :: "PeerRegistry \<Rightarrow> InstanceId \<Rightarrow> TeeRecord option" where
  "get_pending_record reg instance_id = pr_pending reg instance_id"

text \<open>The parts of a completion: the session is taken out under the lock of the pending map, and the record
  built from it is filed under the lock of the verified map.\<close>

definition take_pending :: "InstanceId \<Rightarrow> PeerRegistry \<Rightarrow> TeeRecord option \<times> PeerRegistry" where
  [simp]: "take_pending instance_id reg =
     (pr_pending reg instance_id, reg\<lparr> pr_pending := map_remove instance_id (pr_pending reg) \<rparr>)"

definition verified_record :: "InstanceId \<Rightarrow> TeeState \<Rightarrow> TeeRecord \<Rightarrow> TeeRecord" where
  [simp]: "verified_record instance_id state pending_record =
     \<lparr> tr_instance_id = instance_id, tr_namespace = tr_namespace pending_record,
       tr_state = state, tr_ip_address = tr_ip_address pending_record,
       tr_api_port = tr_api_port pending_record \<rparr>"

definition store_verified :: "InstanceId \<Rightarrow> TeeRecord \<Rightarrow> PeerRegistry \<Rightarrow> PeerRegistry" where
  [simp]: "store_verified instance_id record reg =
     reg\<lparr> pr_verified := (pr_verified reg)(instance_id \<mapsto> record) \<rparr>"

definition complete_verification ::
  "PeerRegistry \<Rightarrow> InstanceId \<Rightarrow> TeeState \<Rightarrow> TeeRecord option \<times> PeerRegistry" where
  "complete_verification reg instance_id state =
     (case take_pending instance_id reg of
        (None, reg1) \<Rightarrow> (None, reg1)
      | (Some pending_record, reg1) \<Rightarrow>
          (let record = verified_record instance_id state pending_record
           in (Some record,
               send_event (EvVerified (tr_namespace record) instance_id record)
                 (store_verified instance_id record reg1))))"

definition reject :: "PeerRegistry \<Rightarrow> InstanceId \<Rightarrow> string \<Rightarrow> string \<Rightarrow> PeerRegistry" where
  "reject reg instance_id namespace reason =
     send_event (EvRejected namespace instance_id reason)
       (reg\<lparr> pr_pending := map_remove instance_id (pr_pending reg) \<rparr>)"

definition revoke :: "PeerRegistry \<Rightarrow> InstanceId \<Rightarrow> string \<Rightarrow> bool \<times> PeerRegistry" where
  "revoke reg instance_id reason =
     (case pr_verified reg instance_id of
        None \<Rightarrow> (False, reg)
      | Some record \<Rightarrow>
          (True,
           send_event (EvRevoked (tr_namespace record) instance_id reason record)
             (reg\<lparr> pr_verified := map_remove instance_id (pr_verified reg) \<rparr>)))"

definition is_verified :: "PeerRegistry \<Rightarrow> InstanceId \<Rightarrow> bool" where
  "is_verified reg instance_id \<longleftrightarrow> pr_verified reg instance_id \<noteq> None"

definition get_verified :: "PeerRegistry \<Rightarrow> InstanceId \<Rightarrow> TeeRecord option" where
  "get_verified reg instance_id = pr_verified reg instance_id"

text \<open>The order of a hash map's values is unspecified: the result is the set of records.\<close>

definition get_verified_by_namespace :: "PeerRegistry \<Rightarrow> string \<Rightarrow> TeeRecord set" where
  "get_verified_by_namespace reg namespace = {r \<in> ran (pr_verified reg). tr_namespace r = namespace}"

definition verified_count :: "PeerRegistry \<Rightarrow> nat" where
  "verified_count reg = map_len (pr_verified reg)"

definition pending_count :: "PeerRegistry \<Rightarrow> nat" where
  "pending_count reg = map_len (pr_pending reg)"

definition cleanup_expired :: "instant \<Rightarrow> PeerRegistry \<Rightarrow> nat \<times> PeerRegistry" where
  "cleanup_expired now reg =
     (let pending = map_retain (\<lambda>i r. \<not> is_challenge_expired now r) (pr_pending reg)
      in (map_len (pr_pending reg) - map_len pending, reg\<lparr> pr_pending := pending \<rparr>))"

section \<open>Steps and invariant\<close>

inductive registry_step :: "PeerRegistry \<Rightarrow> PeerRegistry \<Rightarrow> bool" where
  Register: "registry_step reg (snd (register now later c reg i ns h p))"
| Complete: "state_is_verified s \<Longrightarrow> registry_step reg (snd (complete_verification reg i s))"
| Reject: "registry_step reg (reject reg i ns why)"
| Revoke: "registry_step reg (snd (revoke reg i why))"
| Cleanup: "registry_step reg (snd (cleanup_expired now reg))"

inductive_cases registry_stepE [elim]: "registry_step reg reg'"

text \<open>A record is filed under its own identity, in the state of its map; the address fields of a
  session are never filled in.\<close>

definition record_ok :: "(TeeState \<Rightarrow> bool) \<Rightarrow> InstanceId \<Rightarrow> TeeRecord \<Rightarrow> bool" where
  "record_ok kind i r \<longleftrightarrow>
     tr_instance_id r = i \<and> kind (tr_state r) \<and> tr_ip_address r = None \<and> tr_api_port r = None"

definition registry_inv :: "PeerRegistry \<Rightarrow> bool" where
  "registry_inv reg \<longleftrightarrow>
     finite (dom (pr_pending reg)) \<and> finite (dom (pr_verified reg)) \<and>
     dom (pr_pending reg) \<inter> dom (pr_verified reg) = {} \<and>
     (\<forall>i r. pr_pending reg i = Some r \<longrightarrow> record_ok state_is_pending i r) \<and>
     (\<forall>i r. pr_verified reg i = Some r \<longrightarrow> record_ok state_is_verified i r)"

text \<open>A subscriber that follows the event log.\<close>

fun replay_event ::
  "PeerRegistryEvent \<Rightarrow> (InstanceId, TeeRecord) hash_map \<Rightarrow> (InstanceId, TeeRecord) hash_map" where
  "replay_event (EvVerified ns i r) m = m(i \<mapsto> r)"
| "replay_event (EvRevoked ns i why r) m = map_remove i m"
| "replay_event (EvRegistered ns i c h) m = m"
| "replay_event (EvRejected ns i why) m = m"

definition replay :: "PeerRegistryEvent list \<Rightarrow> (InstanceId, TeeRecord) hash_map" where
  "replay es = fold replay_event es Map.empty"

section \<open>The session store\<close>

text \<open>What the verifier relies on: a pending session can be completed once.\<close>

locale session_store =
  fixes pending_of :: "'r \<Rightarrow> 'id \<Rightarrow> 'rec option"
    and verified_of :: "'r \<Rightarrow> 'id \<Rightarrow> 'rec option"
    and complete :: "'r \<Rightarrow> 'id \<Rightarrow> 'st \<Rightarrow> 'rec option \<times> 'r"
  assumes complete_none: "pending_of r i = None \<Longrightarrow> complete r i s = (None, r)"
    and complete_some: "pending_of r i = Some p \<Longrightarrow>
      \<exists>q r'. complete r i s = (Some q, r') \<and> pending_of r' i = None \<and> verified_of r' i = Some q"
    and complete_frame: "j \<noteq> i \<Longrightarrow> pending_of (snd (complete r i s)) j = pending_of r j \<and>
      verified_of (snd (complete r i s)) j = verified_of r j"
begin

lemma complete_returns_iff: "fst (complete r i s) \<noteq> None \<longleftrightarrow> pending_of r i \<noteq> None"
  using complete_none [of r i s] complete_some [of r i _ s] by (cases "pending_of r i") auto

lemma complete_clears: "pending_of (snd (complete r i s)) i = None"
  using complete_none [of r i s] complete_some [of r i _ s] by (cases "pending_of r i") auto

lemma complete_once: "complete (snd (complete r i s)) i s' = (None, snd (complete r i s))"
  by (rule complete_none) (rule complete_clears)

end

section \<open>Lemmas\<close>

lemmas registry_ops = register_def complete_verification_def reject_def revoke_def cleanup_expired_def
  send_event_def

lemma take_absent [simp]:
  "pr_pending reg i = None \<Longrightarrow> reg\<lparr> pr_pending := map_remove i (pr_pending reg) \<rparr> = reg"
proof -
  assume "pr_pending reg i = None"
  then have "map_remove i (pr_pending reg) = pr_pending reg" by (auto simp: map_remove_def)
  then show ?thesis by simp
qed

interpretation sessions: session_store pr_pending pr_verified complete_verification
  by unfold_locales (auto simp: complete_verification_def send_event_def Let_def split: option.splits)

lemma registry_inv_new: "registry_inv (registry_with_config d)"
  by (simp add: registry_inv_def registry_with_config_def)

lemma registry_inv_register:
  "registry_inv reg \<Longrightarrow> registry_inv (snd (register now later c reg i ns h p))"
  by (auto simp: registry_inv_def register_def send_event_def record_ok_def new_pending_def Let_def
      split: option.splits)

lemma registry_inv_complete:
  "registry_inv reg \<Longrightarrow> state_is_verified s \<Longrightarrow> registry_inv (snd (complete_verification reg i s))"
  by (auto simp: registry_inv_def complete_verification_def send_event_def record_ok_def Let_def
      split: option.splits)

lemma registry_inv_reject: "registry_inv reg \<Longrightarrow> registry_inv (reject reg i ns why)"
  by (auto simp: registry_inv_def reject_def send_event_def)

lemma registry_inv_revoke: "registry_inv reg \<Longrightarrow> registry_inv (snd (revoke reg i why))"
  by (auto simp: registry_inv_def revoke_def send_event_def split: option.splits)

lemma registry_inv_cleanup: "registry_inv reg \<Longrightarrow> registry_inv (snd (cleanup_expired now reg))"
  by (auto simp: registry_inv_def cleanup_expired_def dom_map_retain Let_def)

lemmas registry_inv_ops = registry_inv_register registry_inv_complete registry_inv_reject
  registry_inv_revoke registry_inv_cleanup

lemma registry_inv_step: "registry_inv reg \<Longrightarrow> registry_step reg reg' \<Longrightarrow> registry_inv reg'"
  by (auto intro: registry_inv_ops)

interpretation registry: stepping_system "\<lambda>reg. \<exists>d. reg = registry_with_config d" registry_step
  registry_inv
  by unfold_locales (auto intro: registry_inv_new registry_inv_step)

lemma replay_snoc [simp]: "replay (es @ [e]) = replay_event e (replay es)"
  by (simp add: replay_def)

lemma replay_step:
  "replay (pr_events reg) = pr_verified reg \<Longrightarrow> registry_step reg reg' \<Longrightarrow>
     replay (pr_events reg') = pr_verified reg'"
  by (erule registry_stepE) (auto simp: registry_ops Let_def split: option.splits)

interpretation event_log: stepping_system "\<lambda>reg. \<exists>d. reg = registry_with_config d" registry_step
  "\<lambda>reg. replay (pr_events reg) = pr_verified reg"
proof
  show "replay (pr_events reg) = pr_verified reg" if "\<exists>d. reg = registry_with_config d" for reg
    using that by (auto simp: registry_with_config_def replay_def)
qed (rule replay_step)

section \<open>Properties\<close>

text \<open>While its calls do not overlap, no instance is both pending and verified, every record is filed under its
  own identity and in the state of its map, and no record carries a network address.\<close>

theorem registry_invariant:
  assumes "registry_step\<^sup>*\<^sup>* (registry_with_config d) reg"
  shows "registry_inv reg"
  using registry.reachable_inv assms by blast

text \<open>While calls do not overlap, the events broadcast so far determine the verified map: a subscriber that starts from
  nothing, enters every \<open>Verified\<close> record and drops every \<open>Revoked\<close> instance holds exactly the
  registry's verified records.\<close>

theorem registry_event_log:
  assumes "registry_step\<^sup>*\<^sup>* (registry_with_config d) reg"
  shows "replay (pr_events reg) = pr_verified reg"
  using event_log.reachable_inv assms by blast

theorem registry_event_log_witness:
  "let reg = snd (register 5 5 (replicate 32 7) registry_new (InstanceId (replicate 32 1))
               ''guardian'' ''ab'' Tdx);
       reg' = snd (complete_verification reg (InstanceId (replicate 32 1))
               (Verified ''ab'' ''UpToDate'' Tdx 0))
   in replay (pr_events reg') = pr_verified reg' \<and> verified_count reg' = 1"
proof -
  define reg where "reg = snd (register 5 5 (replicate 32 7) registry_new (InstanceId (replicate 32 1))
     ''guardian'' ''ab'' Tdx)"
  define reg' where "reg' = snd (complete_verification reg (InstanceId (replicate 32 1))
     (Verified ''ab'' ''UpToDate'' Tdx 0))"
  have "registry_step registry_new reg" unfolding reg_def by (rule registry_step.Register)
  moreover have "registry_step reg reg'"
    unfolding reg'_def by (rule registry_step.Complete) simp
  ultimately have "registry_step\<^sup>*\<^sup>* (registry_with_config DEFAULT_CHALLENGE_EXPIRY) reg'"
    by (simp add: registry_new_def)
  then have "replay (pr_events reg') = pr_verified reg'" by (rule registry_event_log)
  moreover have "verified_count reg' = 1"
    by (simp add: reg'_def reg_def registry_new_def registry_with_config_def registry_ops Let_def
        verified_count_def map_len_def)
  ultimately show ?thesis by (simp add: Let_def reg_def reg'_def)
qed

text \<open>Phase 1 of the protocol on every branch. A verified instance is refused and nothing
  changes. An instance with an unexpired challenge gets the same challenge back and nothing
  changes. Otherwise the fresh random challenge is stored under the instance with the namespace,
  hash and platform of the call and the expiry of the configuration, one \<open>Registered\<close> event is
  sent, and nothing else changes; the stored challenge is then what phase 2 finds until it
  expires.\<close>

theorem register_spec:
  "(if is_verified reg i then register now later c reg i ns h p = (Err True, reg)
    else case get_pending_challenge now reg i of
        Some old \<Rightarrow> register now later c reg i ns h p = (Ok (old, False), reg)
      | None \<Rightarrow> (\<exists>reg'. register now later c reg i ns h p = (Ok (c, True), reg') \<and>
          pr_verified reg' = pr_verified reg \<and>
          pr_events reg' = pr_events reg @ [EvRegistered ns i c h] \<and>
          pr_pending reg' = (pr_pending reg)
            (i \<mapsto> new_pending later i ns c h p (pr_challenge_expiry reg)) \<and>
          get_pending_challenge t reg' i = (if t \<le> later + pr_challenge_expiry reg then Some c else None)))"
  by (auto simp: register_def is_verified_def get_pending_challenge_def send_event_def Let_def
      new_pending_valid split: option.splits)

text \<open>A challenge can be consumed once. Completing a pending session files the verified record
  under the instance and removes the session; completing it again does nothing and reports
  failure, and the instance cannot be registered anew, so neither the challenge nor the
  registration can be replayed. Other instances are untouched.\<close>

theorem challenge_consumed_once:
  assumes "get_pending_record reg i = Some p"
  shows "\<exists>r reg'. complete_verification reg i s = (Some r, reg') \<and>
     get_verified reg' i = Some r \<and> tr_state r = s \<and> tr_namespace r = tr_namespace p \<and>
     get_pending_record reg' i = None \<and>
     complete_verification reg' i s' = (None, reg') \<and>
     register now later c reg' i ns h q = (Err True, reg') \<and>
     (\<forall>j. j \<noteq> i \<longrightarrow> get_pending_record reg' j = get_pending_record reg j \<and>
                    get_verified reg' j = get_verified reg j)"
proof -
  have "\<exists>r reg'. complete_verification reg i s = (Some r, reg') \<and> pr_verified reg' i = Some r \<and>
      tr_state r = s \<and> tr_namespace r = tr_namespace p"
    using assms
    by (auto simp: complete_verification_def get_pending_record_def send_event_def Let_def)
  then obtain r reg' where c: "complete_verification reg i s = (Some r, reg')"
    "pr_verified reg' i = Some r" "tr_state r = s" "tr_namespace r = tr_namespace p" by blast
  moreover have "complete_verification reg' i s' = (None, reg')" "pr_pending reg' i = None"
    using sessions.complete_once [of reg i s s'] sessions.complete_clears [of reg i s] c(1) by simp_all
  ultimately show ?thesis
    using sessions.complete_frame [of _ i reg s]
    by (auto simp: get_pending_record_def get_verified_def register_def)
qed

theorem challenge_consumed_once_witness:
  "let i = InstanceId (replicate 32 1);
       reg = snd (register 5 5 (replicate 32 7) registry_new i ''guardian'' ''ab'' Tdx);
       reg' = snd (complete_verification reg i (Verified ''ab'' ''UpToDate'' Tdx 0))
   in complete_verification reg' i (Verified ''ab'' ''UpToDate'' Tdx 1) = (None, reg')"
proof -
  define i where "i = InstanceId (replicate 32 1)"
  define reg where "reg = snd (register 5 5 (replicate 32 7) registry_new i ''guardian'' ''ab'' Tdx)"
  have "get_pending_record reg i \<noteq> None"
    by (simp add: reg_def get_pending_record_def registry_new_def registry_with_config_def
        registry_ops Let_def)
  then obtain p where "get_pending_record reg i = Some p" by blast
  from challenge_consumed_once [OF this, of "Verified ''ab'' ''UpToDate'' Tdx 0" "Verified ''ab'' ''UpToDate'' Tdx 1"
      0 0 "[]" "[]" "[]" Tdx]
  have "snd (complete_verification reg i (Verified ''ab'' ''UpToDate'' Tdx 0)) = reg' \<Longrightarrow>
      complete_verification reg' i (Verified ''ab'' ''UpToDate'' Tdx 1) = (None, reg')" for reg'
    by auto
  then show ?thesis by (simp add: Let_def reg_def i_def)
qed

text \<open>The periodic cleanup removes exactly the sessions whose challenge has expired, keeps every
  other session unchanged, reports how many it removed, and never touches verified instances or
  the event channel.\<close>

theorem cleanup_expired_spec:
  assumes "registry_inv reg"
  shows "fst (cleanup_expired now reg) =
           card {i. \<exists>r. pr_pending reg i = Some r \<and> is_challenge_expired now r} \<and>
     (pr_pending (snd (cleanup_expired now reg)) i = Some r \<longleftrightarrow>
        pr_pending reg i = Some r \<and> get_pending_challenge now reg i \<noteq> None) \<and>
     pr_verified (snd (cleanup_expired now reg)) = pr_verified reg \<and>
     pr_events (snd (cleanup_expired now reg)) = pr_events reg"
proof (intro conjI)
  let ?keep = "{i \<in> dom (pr_pending reg). \<not> is_challenge_expired now (the (pr_pending reg i))}"
  have fin: "finite (dom (pr_pending reg))" using assms by (simp add: registry_inv_def)
  have "card (dom (pr_pending reg) - ?keep) = card (dom (pr_pending reg)) - card ?keep"
    using fin by (intro card_Diff_subset) (auto intro: finite_subset)
  moreover have "dom (pr_pending reg) - ?keep =
      {i. \<exists>r. pr_pending reg i = Some r \<and> is_challenge_expired now r}" by auto
  ultimately show "fst (cleanup_expired now reg) =
      card {i. \<exists>r. pr_pending reg i = Some r \<and> is_challenge_expired now r}"
    by (simp add: cleanup_expired_def map_len_def dom_map_retain Let_def)
  have "\<not> is_challenge_expired now r \<longleftrightarrow> get_valid_challenge now r \<noteq> None"
    if "pr_pending reg i = Some r"
    using that assms expired_iff_no_challenge by (auto simp: registry_inv_def record_ok_def)
  then show "pr_pending (snd (cleanup_expired now reg)) i = Some r \<longleftrightarrow>
      pr_pending reg i = Some r \<and> get_pending_challenge now reg i \<noteq> None"
    by (auto simp: cleanup_expired_def get_pending_challenge_def Let_def)
qed (simp_all add: cleanup_expired_def Let_def)

theorem cleanup_expired_spec_witness:
  "let reg = snd (register 5 5 (replicate 32 7) registry_new (InstanceId (replicate 32 1))
               ''guardian'' ''ab'' Tdx)
   in pr_verified (snd (cleanup_expired 66 reg)) = pr_verified reg \<and>
      fst (cleanup_expired 66 reg) = 1 \<and> fst (cleanup_expired 65 reg) = 0"
proof -
  define reg where "reg = snd (register 5 5 (replicate 32 7) registry_new (InstanceId (replicate 32 1))
     ''guardian'' ''ab'' Tdx)"
  have inv: "registry_inv reg"
    unfolding reg_def registry_new_def by (intro registry_inv_register registry_inv_new)
  have pend: "pr_pending reg = [InstanceId (replicate 32 1) \<mapsto>
      new_pending 5 (InstanceId (replicate 32 1)) ''guardian'' (replicate 32 7) ''ab'' Tdx 60]"
    by (simp add: reg_def registry_new_def registry_with_config_def registry_ops
        DEFAULT_CHALLENGE_EXPIRY_def Let_def)
  have e: "{i. \<exists>r. pr_pending reg i = Some r \<and> is_challenge_expired 66 r} = {InstanceId (replicate 32 1)}"
    "{i. \<exists>r. pr_pending reg i = Some r \<and> is_challenge_expired 65 r} = {}"
    by (auto simp: pend new_pending_expired split: if_splits)
  have "fst (cleanup_expired 66 reg) = 1" "fst (cleanup_expired 65 reg) = 0"
    unfolding cleanup_expired_spec [OF inv, THEN conjunct1] e by simp_all
  then show ?thesis using cleanup_expired_spec [OF inv, of 66] by (simp add: reg_def Let_def)
qed

end
