(* ===== verification/Registry_Races.thy ===== *)
theory Registry_Races
  imports Peer_Registry "HOL-Library.Multiset"
begin

text \<open>
  The registry of \<open>peer_registry/src/registry.rs\<close> under concurrent calls. A call is a task that moves from one
  critical section to the next; between two sections any other task may move. The tasks in flight are a
  multiset. A task that meets no other does what the operation of \<open>Peer_Registry\<close> does. The properties are
  what survives every interleaving, in particular that an instance is verified at most as often as a
  challenge was stored for it, and the interleaving that registers an instance while it is verified.
\<close>

section \<open>Tasks\<close>

datatype registry_task =
    RegisterCall InstanceId string string tee
  | RegisterSearch InstanceId string string tee
  | RegisterMake InstanceId string string tee
  | RegisterStore InstanceId TeeRecord PeerRegistryEvent
  | CompleteCall InstanceId TeeState
  | CompleteStore InstanceId TeeRecord
  | RejectCall InstanceId string string
  | RevokeCall InstanceId string
  | CleanupCall
  | Announce PeerRegistryEvent

fun is_call :: "registry_task \<Rightarrow> bool" where
  "is_call (RegisterCall i ns h p) = True"
| "is_call (CompleteCall i s) = state_is_verified s"
| "is_call (RejectCall i ns why) = True"
| "is_call (RevokeCall i why) = True"
| "is_call CleanupCall = True"
| "is_call _ = False"

text \<open>One critical section of a task, with a clock reading and a random challenge: what is left of the task, and
  the registry.\<close>

fun task_move :: "instant \<Rightarrow> bytes \<Rightarrow> registry_task \<Rightarrow> PeerRegistry \<Rightarrow> registry_task option \<times> PeerRegistry" where
  "task_move now c (RegisterCall i ns h p) reg =
     (if already_verified reg i then None else Some (RegisterSearch i ns h p), reg)"
| "task_move now c (RegisterSearch i ns h p) reg =
     (case existing_challenge now reg i of Some challenge \<Rightarrow> None | None \<Rightarrow> Some (RegisterMake i ns h p), reg)"
| "task_move now c (RegisterMake i ns h p) reg =
     (Some (RegisterStore i (new_pending now i ns c h p (pr_challenge_expiry reg)) (EvRegistered ns i c h)), reg)"
| "task_move now c (RegisterStore i record event) reg = (Some (Announce event), store_pending i record reg)"
| "task_move now c (CompleteCall i state) reg =
     (case take_pending i reg of
        (None, reg1) \<Rightarrow> (None, reg1)
      | (Some pending_record, reg1) \<Rightarrow> (Some (CompleteStore i (verified_record i state pending_record)), reg1))"
| "task_move now c (CompleteStore i record) reg =
     (Some (Announce (EvVerified (tr_namespace record) i record)), store_verified i record reg)"
| "task_move now c (RejectCall i ns why) reg =
     (Some (Announce (EvRejected ns i why)), reg\<lparr> pr_pending := map_remove i (pr_pending reg) \<rparr>)"
| "task_move now c (RevokeCall i why) reg =
     (case pr_verified reg i of
        None \<Rightarrow> (None, reg)
      | Some record \<Rightarrow> (Some (Announce (EvRevoked (tr_namespace record) i why record)),
                        reg\<lparr> pr_verified := map_remove i (pr_verified reg) \<rparr>))"
| "task_move now c CleanupCall reg = (None, snd (cleanup_expired now reg))"
| "task_move now c (Announce event) reg = (None, send_event event reg)"

definition rest :: "registry_task option \<Rightarrow> registry_task multiset" where
  "rest t = (case t of None \<Rightarrow> {#} | Some t' \<Rightarrow> {#t'#})"

inductive concurrent_step ::
  "PeerRegistry \<times> registry_task multiset \<Rightarrow> PeerRegistry \<times> registry_task multiset \<Rightarrow> bool" where
  Call: "is_call t \<Longrightarrow> concurrent_step (reg, ts) (reg, add_mset t ts)"
| Move: "task_move now c t reg = (left, reg') \<Longrightarrow> concurrent_step (reg, add_mset t ts) (reg', ts + rest left)"

text \<open>A task that runs to its end undisturbed, with the clock readings of its sections.\<close>

fun run_alone :: "instant list \<Rightarrow> bytes \<Rightarrow> registry_task \<Rightarrow> PeerRegistry \<Rightarrow> PeerRegistry option" where
  "run_alone [] c task reg = None"
| "run_alone (now # later) c task reg =
     (case task_move now c task reg of
        (None, reg') \<Rightarrow> Some reg'
      | (Some task', reg') \<Rightarrow> run_alone later c task' reg')"

section \<open>What holds under every interleaving\<close>

text \<open>How often a challenge was stored for an instance, and how often an instance was or is about to be
  verified.\<close>

fun registers :: "InstanceId \<Rightarrow> PeerRegistryEvent \<Rightarrow> bool" where
  "registers i (EvRegistered ns j c h) = (i = j)"
| "registers i _ = False"

fun verifies :: "InstanceId \<Rightarrow> PeerRegistryEvent \<Rightarrow> bool" where
  "verifies i (EvVerified ns j r) = (i = j)"
| "verifies i _ = False"

fun announces :: "(PeerRegistryEvent \<Rightarrow> bool) \<Rightarrow> registry_task \<Rightarrow> bool" where
  "announces P (Announce e) = P e"
| "announces P _ = False"

fun about_to_verify :: "InstanceId \<Rightarrow> registry_task \<Rightarrow> bool" where
  "about_to_verify i (CompleteStore j r) = (i = j)"
| "about_to_verify i t = announces (verifies i) t"

definition sent :: "(PeerRegistryEvent \<Rightarrow> bool) \<Rightarrow> PeerRegistry \<Rightarrow> nat" where
  "sent P reg = length (filter P (pr_events reg))"

definition in_flight :: "(registry_task \<Rightarrow> bool) \<Rightarrow> registry_task multiset \<Rightarrow> nat" where
  "in_flight P ts = size (filter_mset P ts)"

definition consumed_once :: "InstanceId \<Rightarrow> PeerRegistry \<times> registry_task multiset \<Rightarrow> bool" where
  "consumed_once i = (\<lambda>(reg, ts).
     sent (verifies i) reg + in_flight (about_to_verify i) ts + (if pr_pending reg i = None then 0 else 1)
       \<le> sent (registers i) reg + in_flight (announces (registers i)) ts)"

text \<open>The records of the maps and of the tasks.\<close>

fun task_ok :: "registry_task \<Rightarrow> bool" where
  "task_ok (RegisterStore i r e) \<longleftrightarrow> record_ok state_is_pending i r \<and> registers i e"
| "task_ok (CompleteCall i s) \<longleftrightarrow> state_is_verified s"
| "task_ok (CompleteStore i r) \<longleftrightarrow> record_ok state_is_verified i r"
| "task_ok _ \<longleftrightarrow> True"

definition records_inv :: "PeerRegistry \<Rightarrow> bool" where
  "records_inv reg \<longleftrightarrow>
     finite (dom (pr_pending reg)) \<and> finite (dom (pr_verified reg)) \<and>
     (\<forall>i r. pr_pending reg i = Some r \<longrightarrow> record_ok state_is_pending i r) \<and>
     (\<forall>i r. pr_verified reg i = Some r \<longrightarrow> record_ok state_is_verified i r)"

definition concurrent_inv :: "PeerRegistry \<times> registry_task multiset \<Rightarrow> bool" where
  "concurrent_inv s \<longleftrightarrow> records_inv (fst s) \<and> (\<forall>t \<in># snd s. task_ok t) \<and> (\<forall>i. consumed_once i s)"

text \<open>The interleaving of a registration with the completion of the session that was there before: the registry
  it ends with, and the run.\<close>

definition raced ::
  "instant \<Rightarrow> bytes \<Rightarrow> PeerRegistry \<Rightarrow> InstanceId \<Rightarrow> TeeState \<Rightarrow> string \<Rightarrow> string \<Rightarrow> tee \<Rightarrow> PeerRegistry" where
  "raced now c reg i state ns h p =
     send_event (EvRegistered ns i c h)
       (store_pending i (new_pending now i ns c h p (pr_challenge_expiry reg))
         (snd (complete_verification reg i state)))"

section \<open>Lemmas\<close>

lemma in_flight_simps [simp]:
  "in_flight P {#} = 0" "in_flight P (add_mset t ts) = (if P t then 1 else 0) + in_flight P ts"
  "in_flight P (ts + us) = in_flight P ts + in_flight P us"
  by (simp_all add: in_flight_def)

lemma rest_simps [simp]: "rest None = {#}" "rest (Some t) = {#t#}"
  by (simp_all add: rest_def)

lemma sent_simps [simp]:
  "sent P (send_event e reg) = sent P reg + (if P e then 1 else 0)"
  "sent P (reg\<lparr> pr_pending := m \<rparr>) = sent P reg" "sent P (reg\<lparr> pr_verified := m \<rparr>) = sent P reg"
  by (simp_all add: sent_def send_event_def)

lemma send_event_simps [simp]:
  "pr_pending (send_event e reg) = pr_pending reg" "pr_verified (send_event e reg) = pr_verified reg"
  by (simp_all add: send_event_def)

lemma records_move:
  assumes "records_inv reg" and "task_ok t" and "task_move now c t reg = (left, reg')"
  shows "records_inv reg' \<and> (\<forall>t' \<in># rest left. task_ok t')"
  using assms
  by (cases t) (auto simp: records_inv_def record_ok_def new_pending_def cleanup_expired_def dom_map_retain
      Let_def split: option.splits if_splits)

lemma registers_not_verifies: "registers j e \<Longrightarrow> \<not> verifies i e"
  by (cases e) simp_all

lemma consumed_move:
  assumes "task_ok t" and "task_move now c t reg = (left, reg')" and "consumed_once i (reg, add_mset t ts)"
  shows "consumed_once i (reg', ts + rest left)"
  using assms
  by (cases t) (auto simp: consumed_once_def cleanup_expired_def Let_def registers_not_verifies
      split: option.splits if_splits)

interpretation concurrent: stepping_system "\<lambda>s. \<exists>d. s = (registry_with_config d, {#})" concurrent_step concurrent_inv
proof
  show "concurrent_inv s" if "\<exists>d. s = (registry_with_config d, {#})" for s
    using that by (auto simp: concurrent_inv_def records_inv_def consumed_once_def registry_with_config_def sent_def)
next
  fix s s' assume inv: "concurrent_inv s" and "concurrent_step s s'"
  from this(2) show "concurrent_inv s'"
  proof cases
    case (Call t reg ts)
    then have "task_ok t" "\<not> about_to_verify i t" "\<not> announces P t" for i P by (cases t; simp)+
    then show ?thesis using inv Call by (auto simp: concurrent_inv_def consumed_once_def)
  next
    case (Move now c t reg left reg' ts)
    then show ?thesis
      using inv records_move [of reg t now c left reg'] consumed_move [of t now c reg left reg' _ ts]
      by (auto simp: concurrent_inv_def)
  qed
qed

text \<open>Undisturbed, a task is the operation.\<close>

lemma register_alone:
  "run_alone [t1, now, later, t4, t5] c (RegisterCall i ns h p) reg = Some (snd (register now later c reg i ns h p))"
  by (simp add: register_def Let_def split: option.splits)

lemma complete_alone:
  "run_alone [t1, t2, t3] c (CompleteCall i s) reg = Some (snd (complete_verification reg i s))"
  by (simp add: complete_verification_def Let_def split: option.splits)

lemma others_alone:
  "run_alone [t1, t2] c (RejectCall i ns why) reg = Some (reject reg i ns why)"
  "run_alone [t1, t2] c (RevokeCall i why) reg = Some (snd (revoke reg i why))"
  "run_alone [now] c CleanupCall reg = Some (snd (cleanup_expired now reg))"
  by (simp_all add: reject_def revoke_def split: option.splits)

lemma task_runs:
  "run_alone clock c t reg = Some reg' \<Longrightarrow> concurrent_step\<^sup>*\<^sup>* (reg, add_mset t ts) (reg', ts)"
proof (induction clock arbitrary: t reg)
  case (Cons now later)
  obtain left reg1 where move: "task_move now c t reg = (left, reg1)" by fastforce
  then have step: "concurrent_step (reg, add_mset t ts) (reg1, ts + rest left)" by (rule concurrent_step.Move)
  show ?case
  proof (cases left)
    case None
    then show ?thesis using step Cons.prems move by (auto intro: r_into_rtranclp)
  next
    case (Some t')
    then have "concurrent_step\<^sup>*\<^sup>* (reg1, add_mset t' ts) (reg', ts)" using Cons move by simp
    then show ?thesis using step Some by (auto intro: converse_rtranclp_into_rtranclp)
  qed
qed simp

lemma race_run:
  assumes "pr_pending reg i = Some session" and "pr_verified reg i = None" and "state_is_verified state"
  shows "concurrent_step\<^sup>*\<^sup>* (reg, ts) (raced now c reg i state ns h p, ts)"
proof -
  let ?call = "RegisterCall i ns h p" and ?search = "RegisterSearch i ns h p"
  let ?reg' = "snd (complete_verification reg i state)"
  have "concurrent_step (reg, ts) (reg, add_mset ?call ts)" by (rule concurrent_step.Call) simp
  moreover have "concurrent_step (reg, add_mset ?call ts) (reg, add_mset ?search ts)"
    using concurrent_step.Move [of now c ?call reg _ reg ts] assms(2) by simp
  moreover have "concurrent_step (reg, add_mset ?search ts)
      (reg, add_mset (CompleteCall i state) (add_mset ?search ts))"
    using assms(3) by (intro concurrent_step.Call) simp
  moreover have "concurrent_step\<^sup>*\<^sup>* (reg, add_mset (CompleteCall i state) (add_mset ?search ts))
      (?reg', add_mset ?search ts)"
    by (rule task_runs, rule complete_alone [of now now now c])
  moreover have "concurrent_step\<^sup>*\<^sup>* (?reg', add_mset ?search ts) (raced now c reg i state ns h p, ts)"
    by (rule task_runs [of "[now, now, now, now]" c])
      (use assms(1) in \<open>simp add: raced_def complete_verification_def Let_def\<close>, simp add: send_event_def)
  ultimately show ?thesis by (meson converse_rtranclp_into_rtranclp rtranclp_trans)
qed

lemma raced_maps:
  assumes "pr_pending reg i = Some session"
  shows "pr_verified (raced now c reg i state ns h p) i = Some (verified_record i state session)"
    and "pr_pending (raced now c reg i state ns h p) i = Some (new_pending now i ns c h p (pr_challenge_expiry reg))"
  using assms by (simp_all add: raced_def complete_verification_def Let_def)

lemma calls_run:
  "is_call t \<Longrightarrow> run_alone clock c t reg = Some reg' \<Longrightarrow> concurrent_step\<^sup>*\<^sup>* (reg, ts) (reg', ts)"
  using concurrent_step.Call [of t reg ts] task_runs [of clock c t reg reg' ts]
  by (rule converse_rtranclp_into_rtranclp)

section \<open>Properties\<close>

text \<open>C25: However calls of the registry interleave between their critical sections, every record is filed under
  its own identity and in the state of its map, no record carries a network address, and a challenge is
  consumed at most once: for every instance, the verifications that happened, those under way and the pending
  session together are at most the challenges that were stored, so once no call is under way there are at
  most as many verifications as registrations.\<close>

theorem concurrent_registry:
  assumes "concurrent_step\<^sup>*\<^sup>* (registry_with_config d, {#}) (reg, ts)"
  shows "records_inv reg \<and> consumed_once i (reg, ts) \<and>
     (ts = {#} \<longrightarrow> sent (verifies i) reg \<le> sent (registers i) reg)"
proof -
  have "concurrent_inv (reg, ts)" using concurrent.reachable_inv assms by blast
  then show ?thesis by (auto simp: concurrent_inv_def consumed_once_def dest: spec [of _ i] add_leD1)
qed

theorem concurrent_registry_witness:
  "let i = InstanceId (replicate 32 1);
       reg = snd (register 5 5 (replicate 32 7) (registry_with_config 60) i ''guardian'' ''ab'' Tdx);
       reg' = raced 6 (replicate 32 8) reg i (Verified ''ab'' ''UpToDate'' Tdx 0) ''guardian'' ''ab'' Tdx in
     concurrent_step\<^sup>*\<^sup>* (registry_with_config 60, {#}) (reg', {#}) \<and>
     pr_verified reg' i \<noteq> None \<and> pr_pending reg' i \<noteq> None \<and>
     records_inv reg' \<and> sent (verifies i) reg' \<le> sent (registers i) reg'"
proof -
  define i where "i = InstanceId (replicate 32 1)"
  define reg where "reg = snd (register 5 5 (replicate 32 7) (registry_with_config 60) i ''guardian'' ''ab'' Tdx)"
  define reg' where
    "reg' = raced 6 (replicate 32 8) reg i (Verified ''ab'' ''UpToDate'' Tdx 0) ''guardian'' ''ab'' Tdx"
  obtain session where session: "pr_pending reg i = Some session" and new: "pr_verified reg i = None"
    by (auto simp: reg_def register_def registry_with_config_def Let_def)
  have "concurrent_step\<^sup>*\<^sup>* (registry_with_config 60, {#}) (reg, {#})"
    unfolding reg_def by (rule calls_run [OF _ register_alone [of 0 5 5 5 5]]) simp
  also have "concurrent_step\<^sup>*\<^sup>* (reg, {#}) (reg', {#})"
    unfolding reg'_def by (rule race_run [OF session new]) simp
  finally have run: "concurrent_step\<^sup>*\<^sup>* (registry_with_config 60, {#}) (reg', {#})" .
  then show ?thesis
    using concurrent_registry [OF run, of i] raced_maps [OF session]
    unfolding Let_def i_def [symmetric] reg_def [symmetric] reg'_def [symmetric] by (simp add: reg'_def)
qed

text \<open>The test whether an instance is verified does not exclude its registration. From every state in which
  an instance is pending and not verified, a registration that has passed the test, a completion of the session
  and then the rest of the registration leave the instance both verified and pending: a second
  verification of it succeeds, although a registration that starts now is refused.\<close>

theorem register_race:
  assumes "pr_pending reg i = Some session" and "pr_verified reg i = None" and "state_is_verified state"
  shows "\<exists>reg'. concurrent_step\<^sup>*\<^sup>* (reg, ts) (reg', ts) \<and>
     pr_verified reg' i = Some (verified_record i state session) \<and>
     pr_pending reg' i = Some (new_pending now i ns c h p (pr_challenge_expiry reg)) \<and>
     fst (complete_verification reg' i state') \<noteq> None \<and>
     fst (register t t' c' reg' i ns' h' p') = Err True"
  using race_run [OF assms] raced_maps [OF assms(1)]
  by (intro exI [of _ "raced now c reg i state ns h p"]) (auto simp: complete_verification_def register_def Let_def)

theorem register_race_witness:
  "let i = InstanceId (replicate 32 1);
       reg = snd (register 5 5 (replicate 32 7) (registry_with_config 60) i ''guardian'' ''ab'' Tdx) in
     \<exists>reg'. concurrent_step\<^sup>*\<^sup>* (reg, {#}) (reg', {#}) \<and> pr_verified reg' i \<noteq> None \<and> pr_pending reg' i \<noteq> None"
proof -
  define i where "i = InstanceId (replicate 32 1)"
  define reg where "reg = snd (register 5 5 (replicate 32 7) (registry_with_config 60) i ''guardian'' ''ab'' Tdx)"
  obtain session where session: "pr_pending reg i = Some session" and new: "pr_verified reg i = None"
    by (auto simp: reg_def register_def registry_with_config_def Let_def)
  show ?thesis
    unfolding Let_def i_def [symmetric] reg_def [symmetric]
    using register_race [OF session new, of "Verified ''ab'' ''UpToDate'' Tdx 0" "{#}"] by fastforce
qed

end
