(* ===== verification/Tee_Backend.thy ===== *)
theory Tee_Backend
  imports Peer_Types
begin

text \<open>
  The interface that the two-phase protocol uses of a TEE backend: structural parsing of the
  evidence, verification of its signature chain, the instance identity, the first half of the
  report data and its comparison with a challenge. \<open>Tdx_Backend\<close> and \<open>Snp_Backend\<close> interpret it on the
  definitions of \<open>TdxQuote\<close> and \<open>SnpReport\<close>; \<open>Verifier\<close> and \<open>Gossip\<close> use the facts.
\<close>

text \<open>The challenge-bound attestation of \<open>verify_tee\<close>, the same calls for both platforms: parse, verify
  the signature, compare the report data with the challenge, then continue.\<close>

definition attest ::
  "('j \<Rightarrow> ('q, 'e) outcome) \<Rightarrow> ('q \<Rightarrow> ('v, 'e) outcome) \<Rightarrow> ('v \<Rightarrow> bytes \<Rightarrow> (unit, 'e) outcome) \<Rightarrow>
   'j \<Rightarrow> bytes \<Rightarrow> ('v \<Rightarrow> 'r) \<Rightarrow> ('r, 'e) outcome" where
  "attest parse verify_sig check_binding evidence challenge k =
     and_then (parse evidence) (\<lambda>q.
       and_then (verify_sig q) (\<lambda>v.
         and_then (check_binding v challenge) (\<lambda>_. Ok (k v))))"

locale attestation_backend =
  fixes parse :: "'j \<Rightarrow> ('q, VerificationError) outcome"
    and verify_sig :: "'q \<Rightarrow> ('v, VerificationError) outcome"
    and quote_of :: "'v \<Rightarrow> 'q"
    and evidence_of :: "'q \<Rightarrow> 'j"
    and genuine :: "'j \<Rightarrow> bool"
    and report_binding :: "'q \<Rightarrow> bytes"
    and check_binding :: "'v \<Rightarrow> bytes \<Rightarrow> (unit, VerificationError) outcome"
  assumes parse_returns: "no_panic (parse e)"
    and parse_evidence: "parse e = Ok q \<Longrightarrow> evidence_of q = e"
    and sig_returns: "no_panic (verify_sig q)"
    and sig_Ok: "verify_sig q = Ok v \<Longrightarrow> quote_of v = q \<and> genuine (evidence_of q)"
    and check_returns: "no_panic (check_binding v c)"
    and check_Ok: "check_binding v c = Ok () \<longleftrightarrow> report_binding (quote_of v) = c"
begin

text \<open>Evidence that passes parsing and signature verification is genuine, and the verified value
  keeps the parsed fields.\<close>

lemma signed_evidence:
  assumes "parse e = Ok q" and "verify_sig q = Ok v"
  shows "genuine e \<and> quote_of v = q"
  using parse_evidence [OF assms(1)] sig_Ok [OF assms(2)] by simp

lemma attest_Ok:
  assumes "attest parse verify_sig check_binding e c k = Ok r"
  obtains q v where "parse e = Ok q" and "genuine e" and "quote_of v = q"
    and "report_binding q = c" and "verify_sig q = Ok v" and "k v = r"
proof -
  from assms obtain q v where qv: "parse e = Ok q" "verify_sig q = Ok v"
    "check_binding v c = Ok ()" "k v = r"
    by (auto simp: attest_def)
  then show thesis using signed_evidence [OF qv(1,2)] check_Ok that by metis
qed

lemma attest_returns: "no_panic (attest parse verify_sig check_binding e c k)"
  using parse_returns sig_returns check_returns by (auto simp: attest_def no_panic_and_then)

lemma attest_wrong_binding:
  assumes "parse e = Ok q" and "report_binding q \<noteq> c"
  shows "attest parse verify_sig check_binding e c k \<noteq> Ok r"
  using assms by (metis attest_Ok outcome.inject(1))

end

end
