(* ===== verification/Tdx_Backend.thy ===== *)
theory Tdx_Backend
  imports Tee_Backend
begin

text \<open>
  The TDX backend, \<open>peer_registry/src/backend/tdx.rs\<close>: the TD attributes bitmap, the structural
  parser of a quote, its accessors, the signature check through the DCAP verifier and the policy
  checks on a verified quote. The properties say which quotes the parser accepts and which bytes
  it reads, that it never panics, how it treats the documented body layout, and what each policy
  check accepts.
\<close>

unbundle bit_operations_syntax

section \<open>TD attributes\<close>

definition HEADER_SIZE :: nat where "HEADER_SIZE = 48"
definition BODY_SIZE :: nat where "BODY_SIZE = 584"
definition REPORT_DATA_OFFSET :: nat where "REPORT_DATA_OFFSET = 520"

datatype TdAttributes = TdAttributes "64 word"

definition TD_DEBUG :: "64 word" where "TD_DEBUG = push_bit 0 1"
definition TD_SEPT_VE_DISABLE :: "64 word" where "TD_SEPT_VE_DISABLE = push_bit 4 1"
definition TD_MIGRATABLE :: "64 word" where "TD_MIGRATABLE = push_bit 27 1"
definition TD_PKS :: "64 word" where "TD_PKS = push_bit 28 1"
definition TD_KL :: "64 word" where "TD_KL = push_bit 30 1"
definition TD_PERFMON :: "64 word" where "TD_PERFMON = push_bit 31 1"

definition td_from_bytes :: "bytes \<Rightarrow> TdAttributes" where
  "td_from_bytes bs = TdAttributes (from_le_bytes bs)"

primrec td_as_raw :: "TdAttributes \<Rightarrow> 64 word" where
  "td_as_raw (TdAttributes v) = v"

definition td_as_bytes :: "TdAttributes \<Rightarrow> bytes" where
  "td_as_bytes a = to_le_bytes 8 (td_as_raw a)"

definition td_is_set :: "TdAttributes \<Rightarrow> 64 word \<Rightarrow> bool" where
  "td_is_set a b \<longleftrightarrow> td_as_raw a AND b \<noteq> 0"

definition td_is_debug :: "TdAttributes \<Rightarrow> bool" where
  "td_is_debug a = td_is_set a TD_DEBUG"

definition is_sept_ve_disabled :: "TdAttributes \<Rightarrow> bool" where
  "is_sept_ve_disabled a = td_is_set a TD_SEPT_VE_DISABLE"

definition is_migratable :: "TdAttributes \<Rightarrow> bool" where
  "is_migratable a = td_is_set a TD_MIGRATABLE"

definition is_pks_enabled :: "TdAttributes \<Rightarrow> bool" where
  "is_pks_enabled a = td_is_set a TD_PKS"

definition is_key_locker_enabled :: "TdAttributes \<Rightarrow> bool" where
  "is_key_locker_enabled a = td_is_set a TD_KL"

definition is_perfmon_enabled :: "TdAttributes \<Rightarrow> bool" where
  "is_perfmon_enabled a = td_is_set a TD_PERFMON"

definition td_debug_fmt :: "TdAttributes \<Rightarrow> string" where
  "td_debug_fmt a =
     (let flags = (if td_is_debug a then [''DEBUG''] else []) @
                  (if is_sept_ve_disabled a then [''SEPT_VE_DISABLE''] else []) @
                  (if is_migratable a then [''MIGRATABLE''] else []) @
                  (if is_pks_enabled a then [''PKS''] else []) @
                  (if is_key_locker_enabled a then [''KL''] else []) @
                  (if is_perfmon_enabled a then [''PERFMON''] else []);
          hex = ''0x'' @ pad_left 16 CHR ''0'' (show_hex (unat (td_as_raw a)))
      in if flags = [] then ''TdAttributes('' @ hex @ '')''
         else ''TdAttributes('' @ hex @ '' ['' @ str_join ''|'' flags @ ''])'')"

definition td_display :: "TdAttributes \<Rightarrow> string" where
  "td_display a = ''0x'' @ pad_left 16 CHR ''0'' (show_hex (unat (td_as_raw a)))"

section \<open>Parsing a quote\<close>

record 'j TdxQuote =
  tq_evidence :: 'j
  tq_raw_quote :: bytes
  tq_version :: "16 word"
  tq_report_data :: bytes
  tq_rtmrs :: "bytes list"
  tq_td_attributes :: TdAttributes

definition parse_raw :: "'j \<Rightarrow> bytes \<Rightarrow> ('j TdxQuote, VerificationError) outcome" where
  "parse_raw evidence raw_quote =
     (if length raw_quote < HEADER_SIZE + BODY_SIZE
      then Err (InvalidQuoteFormat
             (''Quote too short: '' @ show_nat (length raw_quote) @ '' bytes (minimum '' @
              show_nat (HEADER_SIZE + BODY_SIZE) @ '')''))
      else and_then (slice_range raw_quote 0 2) (\<lambda>vb.
        let version = (from_le_bytes vb :: 16 word) in
        if version \<noteq> 4 \<and> version \<noteq> 5
        then Err (InvalidQuoteFormat
               (''Unsupported TDX quote version: '' @ show_nat (unat version)))
        else and_then (if version = 4 then Ok HEADER_SIZE
                       else if version = 5 then Ok (HEADER_SIZE + 6)
                       else Panic ''internal error: entered unreachable code'') (\<lambda>body_offset.
          if length raw_quote < body_offset + BODY_SIZE
          then Err (InvalidQuoteFormat ''Quote too short for body'')
          else and_then (slice_range raw_quote body_offset (body_offset + BODY_SIZE)) (\<lambda>body.
            and_then (and_then (slice_range body 32 40) (copy_from_slice 8)) (\<lambda>td_attr_bytes.
              and_then (collect_ok (map (\<lambda>i. and_then
                  (slice_range body (328 + i * 48) (328 + i * 48 + 48)) (copy_from_slice 48))
                  [0..<4])) (\<lambda>rtmrs.
                and_then (and_then
                    (slice_range body REPORT_DATA_OFFSET (REPORT_DATA_OFFSET + 64))
                    (copy_from_slice 64)) (\<lambda>report_data.
                  Ok \<lparr> tq_evidence = evidence, tq_raw_quote = raw_quote, tq_version = version,
                       tq_report_data = report_data, tq_rtmrs = rtmrs,
                       tq_td_attributes = td_from_bytes td_attr_bytes \<rparr>)))))))"

definition tdx_from_json :: "'j crates \<Rightarrow> 'j \<Rightarrow> ('j TdxQuote, VerificationError) outcome" where
  "tdx_from_json x evidence =
     and_then (ok_or (json_as_str x (json_index x evidence ''quote''))
                (InvalidQuoteFormat (''Missing '' @ quoted ''quote'' @ '' field in TDX evidence'')))
       (\<lambda>quote_b64.
         and_then (map_err (\<lambda>e. InvalidQuoteFormat (''Invalid quote base64: '' @ e))
                     (of_sum (base64_decode x quote_b64)))
           (\<lambda>raw_quote. parse_raw evidence raw_quote))"

definition tdx_from_base64 :: "'j crates \<Rightarrow> string \<Rightarrow> ('j TdxQuote, VerificationError) outcome" where
  "tdx_from_base64 x evidence_b64 =
     and_then (map_err (\<lambda>e. InvalidQuoteFormat (''Invalid evidence base64: '' @ e))
                 (of_sum (base64_decode x evidence_b64)))
       (\<lambda>evidence_bytes.
         and_then (map_err (\<lambda>e. InvalidQuoteFormat (''Invalid evidence JSON: '' @ e))
                     (of_sum (json_from_slice x evidence_bytes)))
           (tdx_from_json x))"

definition tdx_report_data_binding :: "'j TdxQuote \<Rightarrow> bytes" where
  "tdx_report_data_binding q = subslice (tq_report_data q) 0 32"

definition tdx_instance_id :: "'j TdxQuote \<Rightarrow> InstanceId" where
  "tdx_instance_id q = InstanceId (subslice (tq_report_data q) 32 64)"

definition tdx_measurement_hash :: "'j crates \<Rightarrow> 'j TdxQuote \<Rightarrow> string" where
  "tdx_measurement_hash x q = hex_encode x (sha256 x (concat (tq_rtmrs q)))"

definition tdx_is_debug :: "'j TdxQuote \<Rightarrow> bool" where
  "tdx_is_debug q = td_is_debug (tq_td_attributes q)"

section \<open>Signature and policy\<close>

record 'j VerifiedTdxQuote =
  vt_quote :: "'j TdxQuote"
  vt_claims :: 'j
  vt_tcb_status :: "string option"

definition tdx_verify_signature ::
  "'j crates \<Rightarrow> 'j TdxQuote \<Rightarrow> ('j VerifiedTdxQuote, VerificationError) outcome" where
  "tdx_verify_signature x q =
     and_then (map_err (\<lambda>e. AttestationFailed (''Failed to create TDX verifier: '' @ e))
                 (of_sum (to_verifier x Tdx)))
       (\<lambda>_. and_then (map_err (\<lambda>e. AttestationFailed (''DCAP signature verification failed: '' @ e))
                        (of_sum (evaluate x Tdx (tq_evidence q))))
         (\<lambda>results. case results of
              [] \<Rightarrow> Err (AttestationFailed ''No claims returned from DCAP verifier'')
            | claims # _ \<Rightarrow>
                Ok \<lparr> vt_quote = q, vt_claims = claims,
                     vt_tcb_status = json_as_str x (json_index x claims ''tcb_status'') \<rparr>))"

definition tdx_verify_report_data ::
  "'j crates \<Rightarrow> 'j VerifiedTdxQuote \<Rightarrow> bytes \<Rightarrow> (unit, VerificationError) outcome" where
  "tdx_verify_report_data x v expected =
     (let actual = tdx_report_data_binding (vt_quote v) in
      if actual \<noteq> expected
      then Err (NonceVerificationFailed
             (''REPORTDATA[0:32] mismatch: expected '' @ show_bytes x expected @ '', got '' @
              show_bytes x actual))
      else Ok ())"

definition tdx_verify_debug :: "'j VerifiedTdxQuote \<Rightarrow> bool \<Rightarrow> (unit, VerificationError) outcome" where
  "tdx_verify_debug v debug_allowed =
     (if tdx_is_debug (vt_quote v) \<and> \<not> debug_allowed then Err DebugNotAllowed else Ok ())"

definition tdx_claim :: "'j crates \<Rightarrow> 'j VerifiedTdxQuote \<Rightarrow> string \<Rightarrow> string \<Rightarrow> string" where
  "tdx_claim x v part field =
     (case json_as_str x (json_index x (json_index x (json_index x (vt_claims v) ''quote'') part) field)
      of None \<Rightarrow> [] | Some s \<Rightarrow> s)"

definition tdx_check_seam ::
  "'j crates \<Rightarrow> 'j VerifiedTdxQuote \<Rightarrow> TdxMinimumTcb \<Rightarrow> (unit, VerificationError) outcome" where
  "tdx_check_seam x v minimum =
     (case tm_seam_svn minimum of
        None \<Rightarrow> Ok ()
      | Some min_seam \<Rightarrow>
          (let tcb_svn_hex = tdx_claim x v ''body'' ''tcb_svn'' in
           if tcb_svn_hex = [] then Ok ()
           else case hex_decode x tcb_svn_hex of
                  Inl _ \<Rightarrow> Ok ()
                | Inr tcb_bytes \<Rightarrow>
                    (let actual_seam = (case tcb_bytes of [] \<Rightarrow> 0 | b # _ \<Rightarrow> b) in
                     if actual_seam < min_seam
                     then Err (TcbOutdated (''seam_svn '' @ show_nat (unat actual_seam) @
                            '' < minimum '' @ show_nat (unat min_seam)))
                     else Ok ())))"

fun tdx_tcb_loop :: "nat \<Rightarrow> (byte \<times> byte) list \<Rightarrow> (unit, VerificationError) outcome" where
  "tdx_tcb_loop i [] = Ok ()"
| "tdx_tcb_loop i ((actual, minimum) # rest) =
     (if actual < minimum
      then Err (TcbOutdated (''tee_tcb_svn['' @ show_nat i @ ''] '' @ show_nat (unat actual) @
             '' < minimum '' @ show_nat (unat minimum)))
      else tdx_tcb_loop (Suc i) rest)"

definition tdx_verify_tcb ::
  "'j crates \<Rightarrow> 'j VerifiedTdxQuote \<Rightarrow> TdxMinimumTcb \<Rightarrow> (unit, VerificationError) outcome" where
  "tdx_verify_tcb x v minimum =
     and_then (tdx_check_seam x v minimum) (\<lambda>_.
       case tm_tee_tcb_svn minimum of
         None \<Rightarrow> Ok ()
       | Some min_tee_tcb \<Rightarrow>
           (let tcb_svn_hex = tdx_claim x v ''body'' ''tcb_svn'' in
            if tcb_svn_hex = [] then Ok ()
            else case (hex_decode x tcb_svn_hex, hex_decode x min_tee_tcb) of
                   (Inr actual_bytes, Inr min_bytes) \<Rightarrow> tdx_tcb_loop 0 (zip actual_bytes min_bytes)
                 | _ \<Rightarrow> Ok ()))"

definition tdx_check_vendor ::
  "'j crates \<Rightarrow> 'j VerifiedTdxQuote \<Rightarrow> string list option \<Rightarrow> (unit, VerificationError) outcome" where
  "tdx_check_vendor x v allowed_vendor_ids =
     (case allowed_vendor_ids of
        None \<Rightarrow> Ok ()
      | Some allowed_vendors \<Rightarrow>
          (let vendor_id = tdx_claim x v ''header'' ''vendor_id'' in
           if vendor_id \<noteq> [] \<and> \<not> list_ex (\<lambda>a. eq_ignore_ascii_case a vendor_id) allowed_vendors
           then and_then (str_prefix_upto 16 vendor_id) (\<lambda>p.
                  Err (PlatformConstraint (''vendor_id '' @ quoted p @ '' not allowed'')))
           else Ok ()))"

definition tdx_check_body_claim ::
  "'j crates \<Rightarrow> 'j VerifiedTdxQuote \<Rightarrow> string \<Rightarrow> string option \<Rightarrow> (unit, VerificationError) outcome" where
  "tdx_check_body_claim x v field required =
     (case required of
        None \<Rightarrow> Ok ()
      | Some expected \<Rightarrow>
          (let actual = tdx_claim x v ''body'' field in
           if actual \<noteq> [] \<and> \<not> eq_ignore_ascii_case expected actual
           then and_then (str_prefix_upto 16 expected) (\<lambda>e.
                  and_then (str_prefix_upto 16 actual) (\<lambda>a.
                    Err (PlatformConstraint (field @ '' mismatch: expected '' @
                      quoted (e @ ''...'') @ '', got '' @ quoted (a @ ''...'')))))
           else Ok ()))"

definition tdx_verify_platform ::
  "'j crates \<Rightarrow> 'j VerifiedTdxQuote \<Rightarrow> TdxPlatformConstraints \<Rightarrow> (unit, VerificationError) outcome" where
  "tdx_verify_platform x v constraints =
     and_then (tdx_check_vendor x v (tp_allowed_vendor_ids constraints)) (\<lambda>_.
       and_then (tdx_check_body_claim x v ''mr_seam'' (tp_mr_seam constraints)) (\<lambda>_.
         tdx_check_body_claim x v ''mrsigner_seam'' (tp_mrsigner_seam constraints)))"

definition tdx_verify_measurements ::
  "'j crates \<Rightarrow> 'j VerifiedTdxQuote \<Rightarrow> TdxMeasurement \<Rightarrow> (unit, VerificationError) outcome" where
  "tdx_verify_measurements x v trusted =
     and_then (collect_ok (map (\<lambda>h. map_err (\<lambda>e. ParseError (''Invalid trusted RTMR hex: '' @ e))
                                          (of_sum (hex_decode x h)))
                 [td_rtmr0 trusted, td_rtmr1 trusted, td_rtmr2 trusted, td_rtmr3 trusted]))
       (\<lambda>rtmrs.
         let expected_hash = hex_encode x (sha256 x (concat rtmrs));
             actual_hash = tdx_measurement_hash x (vt_quote v)
         in if actual_hash \<noteq> expected_hash
            then Err (MeasurementMismatch expected_hash actual_hash) else Ok ())"

definition tdx_into_parsed_attestation ::
  "'j crates \<Rightarrow> 'j VerifiedTdxQuote \<Rightarrow> 'j ParsedAttestation" where
  "tdx_into_parsed_attestation x v =
     \<lparr> pa_tee = Tdx, pa_instance_id = tdx_instance_id (vt_quote v),
       pa_measurement_hash = tdx_measurement_hash x (vt_quote v),
       pa_claims = vt_claims v, pa_tcb_status = vt_tcb_status v \<rparr>"

section \<open>The documented layout\<close>

text \<open>The body of a quote as the module documentation lists it, field after field.\<close>

record TdQuoteBody =
  tb_tee_tcb_svn :: bytes
  tb_mr_seam :: bytes
  tb_mrsigner_seam :: bytes
  tb_seam_attributes :: bytes
  tb_td_attributes :: bytes
  tb_xfam :: bytes
  tb_mr_td :: bytes
  tb_mr_config_id :: bytes
  tb_mr_owner :: bytes
  tb_mr_owner_config :: bytes
  tb_rtmr_0 :: bytes
  tb_rtmr_1 :: bytes
  tb_rtmr_2 :: bytes
  tb_rtmr_3 :: bytes
  tb_report_data :: bytes

definition body_fields :: "TdQuoteBody \<Rightarrow> bytes list" where
  "body_fields b =
     [tb_tee_tcb_svn b, tb_mr_seam b, tb_mrsigner_seam b, tb_seam_attributes b, tb_td_attributes b,
      tb_xfam b, tb_mr_td b, tb_mr_config_id b, tb_mr_owner b, tb_mr_owner_config b,
      tb_rtmr_0 b, tb_rtmr_1 b, tb_rtmr_2 b, tb_rtmr_3 b, tb_report_data b]"

definition body_wf :: "TdQuoteBody \<Rightarrow> bool" where
  "body_wf b \<longleftrightarrow> map length (body_fields b) = [16, 48, 48, 8, 8, 8, 48, 48, 48, 48, 48, 48, 48, 48, 64]"

definition sample_body :: TdQuoteBody where
  "sample_body =
     \<lparr> tb_tee_tcb_svn = replicate 16 0, tb_mr_seam = replicate 48 0,
       tb_mrsigner_seam = replicate 48 0, tb_seam_attributes = replicate 8 0,
       tb_td_attributes = 1 # replicate 7 0, tb_xfam = replicate 8 0, tb_mr_td = replicate 48 0,
       tb_mr_config_id = replicate 48 0, tb_mr_owner = replicate 48 0,
       tb_mr_owner_config = replicate 48 0, tb_rtmr_0 = replicate 48 1,
       tb_rtmr_1 = replicate 48 2, tb_rtmr_2 = replicate 48 3, tb_rtmr_3 = replicate 48 4,
       tb_report_data = replicate 32 5 @ replicate 32 6 \<rparr>"

definition sample_header :: bytes where
  "sample_header = 4 # replicate 47 0"

definition sample_tdx_verified :: "sample_json VerifiedTdxQuote" where
  "sample_tdx_verified =
     \<lparr> vt_quote = \<lparr> tq_evidence = JNull, tq_raw_quote = [], tq_version = 4, tq_report_data = replicate 64 0,
                   tq_rtmrs = replicate 4 (replicate 48 0), tq_td_attributes = TdAttributes 0 \<rparr>,
       vt_claims = JObj [(''quote'', JObj [(''body'', JObj [(''tcb_svn'', JStr ''0305'')])])],
       vt_tcb_status = None \<rparr>"

text \<open>Where the body of an acceptable quote starts, and the fields read from there.\<close>

definition body_offset_of :: "bytes \<Rightarrow> nat option" where
  "body_offset_of raw =
     (let version = (from_le_bytes (subslice raw 0 2) :: 16 word)
      in if version = 4 \<and> 632 \<le> length raw then Some 48
         else if version = 5 \<and> 638 \<le> length raw then Some 54 else None)"

definition quote_at :: "'j \<Rightarrow> bytes \<Rightarrow> nat \<Rightarrow> 'j TdxQuote" where
  "quote_at evidence raw off =
     \<lparr> tq_evidence = evidence, tq_raw_quote = raw, tq_version = from_le_bytes (subslice raw 0 2),
       tq_report_data = subslice raw (off + 520) (off + 584),
       tq_rtmrs = [subslice raw (off + 328) (off + 376), subslice raw (off + 376) (off + 424),
                   subslice raw (off + 424) (off + 472), subslice raw (off + 472) (off + 520)],
       tq_td_attributes = td_from_bytes (subslice raw (off + 32) (off + 40)) \<rparr>"

text \<open>The arrays of a parsed quote have the sizes of their types.\<close>

definition quote_wf :: "'j TdxQuote \<Rightarrow> bool" where
  "quote_wf q \<longleftrightarrow> length (tq_report_data q) = 64 \<and> map length (tq_rtmrs q) = [48, 48, 48, 48] \<and>
     tq_version q \<in> {4, 5}"

definition tdx_genuine :: "'j crates \<Rightarrow> 'j \<Rightarrow> bool" where
  "tdx_genuine x e \<longleftrightarrow> (case evaluate x Tdx e of Inr (claims # rest) \<Rightarrow> True | _ \<Rightarrow> False)"

section \<open>Lemmas\<close>

lemmas tdx_sizes = HEADER_SIZE_def BODY_SIZE_def REPORT_DATA_OFFSET_def

lemma upt_4: "[0..<4] = [0, 1, 2, 3 :: nat]"
  by (simp add: upt_rec)

lemma parse_raw_Some:
  assumes "body_offset_of raw = Some off"
  shows "parse_raw evidence raw = Ok (quote_at evidence raw off)"
  using assms
  by (auto simp: parse_raw_def body_offset_of_def quote_at_def tdx_sizes upt_4 slice_range_def
      copy_from_slice_def slice_slice Let_def split: if_splits)

lemma parse_raw_None:
  assumes "body_offset_of raw = None"
  shows "\<exists>m. parse_raw evidence raw = Err (InvalidQuoteFormat m)"
  using assms
  by (auto simp: parse_raw_def body_offset_of_def tdx_sizes slice_range_def Let_def split: if_splits)

lemma parse_raw_returns: "no_panic (parse_raw evidence raw)"
  using parse_raw_Some [of raw _ evidence] parse_raw_None [of raw evidence]
  by (cases "body_offset_of raw") auto

lemma parse_raw_Ok:
  "parse_raw evidence raw = Ok q \<longleftrightarrow>
     (\<exists>off. body_offset_of raw = Some off \<and> q = quote_at evidence raw off)"
  using parse_raw_Some [of raw _ evidence] parse_raw_None [of raw evidence]
  by (cases "body_offset_of raw") auto

lemma body_offset_length: "body_offset_of raw = Some off \<Longrightarrow> off + 584 \<le> length raw"
  by (auto simp: body_offset_of_def Let_def split: if_splits)

lemma parse_raw_wf: "parse_raw evidence raw = Ok q \<Longrightarrow> quote_wf q"
  by (auto simp: parse_raw_Ok quote_wf_def quote_at_def body_offset_of_def Let_def split: if_splits)

lemma tdx_from_json_Ok:
  "tdx_from_json x e = Ok q \<longleftrightarrow>
     (\<exists>s raw. json_as_str x (json_index x e ''quote'') = Some s \<and> base64_decode x s = Inr raw \<and>
              parse_raw e raw = Ok q)"
  by (auto simp: tdx_from_json_def)

lemma tdx_from_json_returns: "no_panic (tdx_from_json x e)"
  by (auto simp: tdx_from_json_def no_panic_simps parse_raw_returns)

lemma tdx_verify_signature_Ok:
  "tdx_verify_signature x q = Ok v \<longleftrightarrow>
     to_verifier x Tdx = Inr () \<and>
     (\<exists>claims rest. evaluate x Tdx (tq_evidence q) = Inr (claims # rest) \<and>
        v = \<lparr> vt_quote = q, vt_claims = claims,
              vt_tcb_status = json_as_str x (json_index x claims ''tcb_status'') \<rparr>)"
  by (auto simp: tdx_verify_signature_def split: list.split_asm)

lemma tdx_verify_signature_returns: "no_panic (tdx_verify_signature x q)"
  by (auto simp: tdx_verify_signature_def no_panic_simps split: list.splits)

interpretation tdx: attestation_backend "tdx_from_json x" "tdx_verify_signature x" vt_quote
  tq_evidence "tdx_genuine x" tdx_report_data_binding "tdx_verify_report_data x"
  for x :: "'j crates"
proof
  fix e :: 'j and q v c
  show "no_panic (tdx_from_json x e)" by (rule tdx_from_json_returns)
  show "tdx_from_json x e = Ok q \<Longrightarrow> tq_evidence q = e"
    by (auto simp: tdx_from_json_Ok parse_raw_Ok quote_at_def)
  show "no_panic (tdx_verify_signature x q)" by (rule tdx_verify_signature_returns)
  show "tdx_verify_signature x q = Ok v \<Longrightarrow> vt_quote v = q \<and> tdx_genuine x (tq_evidence q)"
    by (auto simp: tdx_verify_signature_Ok tdx_genuine_def)
  show "no_panic (tdx_verify_report_data x v c)"
    by (simp add: tdx_verify_report_data_def Let_def)
  show "tdx_verify_report_data x v c = Ok () \<longleftrightarrow> tdx_report_data_binding (vt_quote v) = c"
    by (simp add: tdx_verify_report_data_def Let_def)
qed

lemma bit_byte_cons:
  fixes b :: byte and m :: nat
  shows "bit (unat b + 256 * m) n \<longleftrightarrow> (if n < 8 then bit b n else bit m (n - 8))"
proof -
  have "unat b + 256 * m = unat b + push_bit 8 m" by (simp add: push_bit_eq_mult)
  also have "\<dots> = unat b OR push_bit 8 m"
    by (rule disjunctive_add) (auto simp: bit_simps dest: bit_imp_le_length)
  finally show ?thesis by (auto simp: bit_simps dest: bit_imp_le_length)
qed

lemma bit_le_nat: "bit (le_nat bs) n \<longleftrightarrow> n div 8 < length bs \<and> bit (bs ! (n div 8)) (n mod 8)"
proof (induction bs arbitrary: n)
  case (Cons b bs)
  show ?case
  proof (cases "n < 8")
    case False
    then have "n div 8 = Suc ((n - 8) div 8)" "n mod 8 = (n - 8) mod 8"
      by (simp_all add: div_if mod_if)
    with False Cons show ?thesis by (simp add: bit_byte_cons)
  qed (simp add: bit_byte_cons)
qed simp

lemma bit_from_le_bytes:
  "bit (from_le_bytes bs :: 'a::len word) n \<longleftrightarrow>
     n < LENGTH('a) \<and> n div 8 < length bs \<and> bit (bs ! (n div 8)) (n mod 8)"
  by (simp add: from_le_bytes_def bit_of_nat_iff bit_le_nat)

lemma td_is_set_push_bit: "n < 64 \<Longrightarrow> td_is_set a (push_bit n 1) \<longleftrightarrow> bit (td_as_raw a) n"
proof -
  assume "n < 64"
  then have "bit (td_as_raw a AND push_bit n 1) k \<longleftrightarrow> k = n \<and> bit (td_as_raw a) n" for k
    by (auto simp: bit_simps bit_1_iff dest: bit_imp_le_length)
  then show ?thesis unfolding td_is_set_def by (metis bit_0_eq bot_apply bot_bool_def bit_eq_iff)
qed

lemma td_flag_bits:
  "td_is_debug a \<longleftrightarrow> bit (td_as_raw a) 0"
  "is_sept_ve_disabled a \<longleftrightarrow> bit (td_as_raw a) 4"
  "is_migratable a \<longleftrightarrow> bit (td_as_raw a) 27"
  "is_pks_enabled a \<longleftrightarrow> bit (td_as_raw a) 28"
  "is_key_locker_enabled a \<longleftrightarrow> bit (td_as_raw a) 30"
  "is_perfmon_enabled a \<longleftrightarrow> bit (td_as_raw a) 31"
  unfolding td_is_debug_def is_sept_ve_disabled_def is_migratable_def is_pks_enabled_def
    is_key_locker_enabled_def is_perfmon_enabled_def TD_DEBUG_def TD_SEPT_VE_DISABLE_def
    TD_MIGRATABLE_def TD_PKS_def TD_KL_def TD_PERFMON_def
  by (rule td_is_set_push_bit, simp)+

lemma body_wf_lengths:
  assumes "body_wf b"
  shows "length (tb_tee_tcb_svn b) = 16" "length (tb_mr_seam b) = 48" "length (tb_mrsigner_seam b) = 48"
    "length (tb_seam_attributes b) = 8" "length (tb_td_attributes b) = 8" "length (tb_xfam b) = 8"
    "length (tb_mr_td b) = 48" "length (tb_mr_config_id b) = 48" "length (tb_mr_owner b) = 48"
    "length (tb_mr_owner_config b) = 48" "length (tb_rtmr_0 b) = 48" "length (tb_rtmr_1 b) = 48"
    "length (tb_rtmr_2 b) = 48" "length (tb_rtmr_3 b) = 48" "length (tb_report_data b) = 64"
  using assms by (simp_all add: body_wf_def body_fields_def)

lemma body_slices:
  assumes wf: "body_wf b"
  shows "length (concat (body_fields b)) = 584"
    and "subslice (concat (body_fields b)) 32 40 = subslice (tb_mr_seam b) 16 24"
    and "subslice (concat (body_fields b)) 328 376 = tb_rtmr_0 b"
    and "subslice (concat (body_fields b)) 376 424 = tb_rtmr_1 b"
    and "subslice (concat (body_fields b)) 424 472 = tb_rtmr_2 b"
    and "subslice (concat (body_fields b)) 472 520 = tb_rtmr_3 b"
    and "subslice (concat (body_fields b)) 520 584 = tb_report_data b"
  by (simp_all add: body_fields_def subslice_def body_wf_lengths [OF wf])

lemma slice_framed:
  "length h = n \<Longrightarrow> b \<le> length body \<Longrightarrow> subslice (h @ body @ sig) (n + a) (n + b) = subslice body a b"
  by (auto simp: subslice_def)

lemma slice_header: "b \<le> length h \<Longrightarrow> subslice (h @ xs) 0 b = subslice h 0 b"
  by (simp add: subslice_def)

lemma tdx_tcb_loop_Ok:
  "tdx_tcb_loop i ps = Ok () \<longleftrightarrow> (\<forall>(actual, minimum) \<in> set ps. minimum \<le> actual)"
  by (induction i ps rule: tdx_tcb_loop.induct) auto

lemma zip_all_le:
  "(\<forall>(a, m) \<in> set (zip as ms). m \<le> a) \<longleftrightarrow>
     (\<forall>k < min (length as) (length ms). ms ! k \<le> (as ! k :: 'a::linorder))"
  by (force simp: in_set_zip set_zip)

lemma parse_framed_body:
  assumes "body_wf b" and "length header = 48"
    and "(from_le_bytes (subslice header 0 2) :: 16 word) = 4"
  obtains q where "parse_raw evidence (header @ concat (body_fields b) @ sig) = Ok q"
    and "tq_rtmrs q = [tb_rtmr_0 b, tb_rtmr_1 b, tb_rtmr_2 b, tb_rtmr_3 b]"
    and "tq_report_data q = tb_report_data b" and "tq_evidence q = evidence"
    and "tq_td_attributes q = td_from_bytes (subslice (tb_mr_seam b) 16 24)"
proof -
  let ?raw = "header @ concat (body_fields b) @ sig"
  note len = body_slices(1) [OF assms(1)]
  have "body_offset_of ?raw = Some 48"
    using assms(2,3) len by (simp add: body_offset_of_def Let_def slice_header)
  then have "parse_raw evidence ?raw = Ok (quote_at evidence ?raw 48)" by (rule parse_raw_Some)
  moreover have f: "subslice ?raw (48 + i) (48 + j) = subslice (concat (body_fields b)) i j"
    if "j \<le> 584" for i j
    using that assms(2) len by (intro slice_framed) auto
  ultimately show thesis
    using f [of 40 32] f [of 376 328] f [of 424 376] f [of 472 424] f [of 520 472] f [of 584 520]
    by (intro that [of "quote_at evidence ?raw 48"])
       (simp_all add: quote_at_def body_slices [OF assms(1)])
qed

lemma sample_body_wf: "body_wf sample_body"
  by (simp add: body_wf_def body_fields_def sample_body_def)

lemma sample_header_ok:
  "length sample_header = 48" "(from_le_bytes (subslice sample_header 0 2) :: 16 word) = 4"
  by (simp_all add: sample_header_def subslice_def from_le_bytes_def take_Cons')

section \<open>Properties\<close>

text \<open>C27: The quote parser never panics, and it accepts exactly the byte strings that start with
  the little-endian version 4 and hold at least 632 bytes, or version 5 and at least 638. What it
  returns is then determined: the body starts at 48 (54 for version 5), the four RTMRs are the 48
  byte fields from body offset 328 and the report data the 64 bytes from body offset 520. Every
  other input is an \<open>InvalidQuoteFormat\<close> error.\<close>

theorem tdx_parse_raw_spec:
  fixes raw :: bytes
  defines "version \<equiv> from_le_bytes (subslice raw 0 2) :: 16 word"
  shows "no_panic (parse_raw evidence raw) \<and>
     (parse_raw evidence raw = Ok q \<longleftrightarrow>
        (\<exists>off. (version = 4 \<and> off = 48 \<or> version = 5 \<and> off = 54) \<and>
               off + 584 \<le> length raw \<and> q = quote_at evidence raw off)) \<and>
     (is_ok (parse_raw evidence raw) \<or> (\<exists>m. parse_raw evidence raw = Err (InvalidQuoteFormat m)))"
proof (intro conjI)
  show "no_panic (parse_raw evidence raw)" by (rule parse_raw_returns)
  show "parse_raw evidence raw = Ok q \<longleftrightarrow>
        (\<exists>off. (version = 4 \<and> off = 48 \<or> version = 5 \<and> off = 54) \<and>
               off + 584 \<le> length raw \<and> q = quote_at evidence raw off)"
    unfolding parse_raw_Ok body_offset_of_def version_def Let_def by auto
  show "is_ok (parse_raw evidence raw) \<or> (\<exists>m. parse_raw evidence raw = Err (InvalidQuoteFormat m))"
    using parse_raw_Some [of raw _ evidence] parse_raw_None [of raw evidence]
    by (cases "body_offset_of raw") auto
qed

text \<open>C28: On a version 4 quote whose body follows the documented field order, the parser returns
  the documented RTMRs and report data, but the TD attributes it returns are bytes 16 to 23 of the
  documented \<open>mr_seam\<close> field: it reads body offset 32 where the documentation places TD attributes
  at offset 120. The debug flag and its policy check therefore do not depend on the documented
  TD attributes at all.\<close>

theorem tdx_documented_layout:
  assumes "body_wf b" and "length header = 48"
    and "(from_le_bytes (subslice header 0 2) :: 16 word) = 4"
  shows "\<exists>q. parse_raw evidence (header @ concat (body_fields b) @ sig) = Ok q \<and>
     tq_rtmrs q = [tb_rtmr_0 b, tb_rtmr_1 b, tb_rtmr_2 b, tb_rtmr_3 b] \<and>
     tq_report_data q = tb_report_data b \<and>
     tq_td_attributes q = td_from_bytes (subslice (tb_mr_seam b) 16 24) \<and>
     (tdx_is_debug q \<longleftrightarrow> td_is_debug (td_from_bytes (subslice (tb_mr_seam b) 16 24)))"
  using parse_framed_body [OF assms, of evidence sig] tdx_is_debug_def by metis

theorem tdx_documented_layout_witness:
  "td_is_debug (td_from_bytes (tb_td_attributes sample_body)) \<and>
   (\<exists>q. parse_raw () (sample_header @ concat (body_fields sample_body) @ []) = Ok q \<and> \<not> tdx_is_debug q)"
proof -
  obtain q where q: "parse_raw () (sample_header @ concat (body_fields sample_body) @ []) = Ok q"
    "tdx_is_debug q \<longleftrightarrow> td_is_debug (td_from_bytes (subslice (tb_mr_seam sample_body) 16 24))"
    using tdx_documented_layout [OF sample_body_wf sample_header_ok] by metis
  moreover have "td_is_debug (td_from_bytes (tb_td_attributes sample_body))"
    "\<not> td_is_debug (td_from_bytes (subslice (tb_mr_seam sample_body) 16 24))"
    by (simp_all add: sample_body_def subslice_def td_flag_bits td_from_bytes_def bit_from_le_bytes)
  ultimately show ?thesis by blast
qed

text \<open>The TD attributes bitmap is read and written as a little-endian integer without loss,
  and each named flag is the bit the table of the module documentation gives it: DEBUG and
  SEPT_VE_DISABLE are bits 0 and 4 of the first byte, MIGRATABLE, PKS, KL and PERFMON bits 3, 4, 6
  and 7 of the fourth.\<close>

theorem td_attributes_flags:
  assumes "length bs = 8"
  shows "td_as_bytes (td_from_bytes bs) = bs \<and> td_from_bytes (td_as_bytes a) = a \<and>
     (td_is_debug (td_from_bytes bs) \<longleftrightarrow> bit (bs ! 0) 0) \<and>
     (is_sept_ve_disabled (td_from_bytes bs) \<longleftrightarrow> bit (bs ! 0) 4) \<and>
     (is_migratable (td_from_bytes bs) \<longleftrightarrow> bit (bs ! 3) 3) \<and>
     (is_pks_enabled (td_from_bytes bs) \<longleftrightarrow> bit (bs ! 3) 4) \<and>
     (is_key_locker_enabled (td_from_bytes bs) \<longleftrightarrow> bit (bs ! 3) 6) \<and>
     (is_perfmon_enabled (td_from_bytes bs) \<longleftrightarrow> bit (bs ! 3) 7)"
proof (intro conjI)
  show "td_as_bytes (td_from_bytes bs) = bs"
    using to_le_bytes_from_le_bytes [of bs, where 'a = 64] assms
    by (simp add: td_as_bytes_def td_from_bytes_def)
  show "td_from_bytes (td_as_bytes a) = a"
    using from_le_bytes_to_le_bytes [of 8 "td_as_raw a"]
    by (cases a) (simp add: td_as_bytes_def td_from_bytes_def)
qed (use assms in \<open>simp_all add: td_flag_bits td_from_bytes_def bit_from_le_bytes\<close>)

theorem td_attributes_flags_witness:
  "td_is_debug (td_from_bytes [17, 0, 0, 8, 0, 0, 0, 0]) \<and>
   is_migratable (td_from_bytes [17, 0, 0, 8, 0, 0, 0, 0])"
  using td_attributes_flags [of "[17, 0, 0, 8, 0, 0, 0, 0]"]
  by (simp add: bit_simps)

text \<open>The TCB check of a verified TDX quote accepts exactly when, whenever the verifier's
  claims carry a non-empty, decodable \<open>tcb_svn\<close>, its first byte reaches the required SEAM SVN and
  every component reaches the corresponding component of a decodable required TCB, up to the
  shorter of the two. With the claim absent or not hexadecimal the check accepts whatever the
  minimum.\<close>

theorem tdx_verify_tcb_spec:
  "tdx_verify_tcb x v minimum = Ok () \<longleftrightarrow>
     (\<forall>actual. tdx_claim x v ''body'' ''tcb_svn'' \<noteq> [] \<longrightarrow>
        hex_decode x (tdx_claim x v ''body'' ''tcb_svn'') = Inr actual \<longrightarrow>
        (\<forall>m. tm_seam_svn minimum = Some m \<longrightarrow> m \<le> (case actual of [] \<Rightarrow> 0 | b # _ \<Rightarrow> b)) \<and>
        (\<forall>h ms. tm_tee_tcb_svn minimum = Some h \<longrightarrow> hex_decode x h = Inr ms \<longrightarrow>
           (\<forall>k < min (length actual) (length ms). ms ! k \<le> actual ! k)))"
  unfolding tdx_verify_tcb_def tdx_check_seam_def Let_def
  by (auto simp: tdx_tcb_loop_Ok zip_all_le not_less split: option.splits sum.splits if_splits)

theorem tdx_verify_tcb_spec_witness:
  "tdx_verify_tcb sample_crates sample_tdx_verified
     \<lparr> tm_seam_svn = Some 3, tm_tee_tcb_svn = Some ''0304'' \<rparr> = Ok () \<and>
   tdx_verify_tcb sample_crates sample_tdx_verified
     \<lparr> tm_seam_svn = Some 4, tm_tee_tcb_svn = None \<rparr> \<noteq> Ok ()"
proof -
  have "hex_decode sample_crates ''0305'' = Inr [3, 5]" "hex_decode sample_crates ''0304'' = Inr [3, 4]"
    "tdx_claim sample_crates sample_tdx_verified ''body'' ''tcb_svn'' = ''0305''"
    by code_simp+
  then show ?thesis unfolding tdx_verify_tcb_spec by (simp add: less_2_cases_iff All_less_Suc2)
qed

end
