(* ===== verification/Snp_Backend.thy ===== *)
theory Snp_Backend
  imports Tee_Backend
begin

text \<open>
  The SEV-SNP backend, \<open>peer_registry/src/backend/sev_snp.rs\<close>: extraction of the report fields from
  the evidence JSON (hexadecimal strings or arrays of numbers), the accessors, the signature check
  and the policy checks. The properties say exactly which evidence parses and to which report, and what the TCB and
  measurement checks accept.
\<close>

unbundle bit_operations_syntax

section \<open>Parsing a report\<close>

record 'j SnpReport =
  sr_evidence :: 'j
  sr_report_data :: bytes
  sr_report_id :: bytes
  sr_measurement :: bytes
  sr_host_data :: bytes
  sr_policy :: "64 word"

definition length_mismatch :: "string \<Rightarrow> nat \<Rightarrow> nat \<Rightarrow> VerificationError" where
  "length_mismatch field expected_len actual =
     ParseError (field @ '' length mismatch: expected '' @ show_nat expected_len @ '', got '' @
       show_nat actual)"

definition extract_bytes_field ::
  "'j crates \<Rightarrow> 'j \<Rightarrow> string \<Rightarrow> nat \<Rightarrow> (bytes, VerificationError) outcome" where
  "extract_bytes_field x report field expected_len =
     (case json_as_str x (json_index x report field) of
        Some hex_str \<Rightarrow>
          and_then (map_err (\<lambda>e. ParseError (''Invalid '' @ field @ '' hex: '' @ e))
                      (of_sum (hex_decode x hex_str)))
            (\<lambda>bs. if length bs \<noteq> expected_len then Err (length_mismatch field expected_len (length bs))
                  else Ok bs)
      | None \<Rightarrow>
          (case json_as_array x (json_index x report field) of
             Some arr \<Rightarrow>
               and_then (map_err (\<lambda>e. ParseError (''Invalid '' @ field @ '' array: '' @ e))
                           (collect_ok (map (\<lambda>v. and_then (ok_or (json_as_u64 x v) ''Invalid byte'')
                                                    (\<lambda>n. Ok (ucast n :: byte))) arr)))
                 (\<lambda>bs. if length bs \<noteq> expected_len
                       then Err (length_mismatch field expected_len (length bs))
                       else Ok bs)
           | None \<Rightarrow> Err (ParseError (''Missing or invalid '' @ field @ '' field''))))"

definition extract_u64_field ::
  "'j crates \<Rightarrow> 'j \<Rightarrow> string \<Rightarrow> (64 word, VerificationError) outcome" where
  "extract_u64_field x report field =
     ok_or (json_as_u64 x (json_index x report field))
       (ParseError (''Missing or invalid '' @ field @ '' field''))"

text \<open>\<open>try_into\<close> an array of the given length.\<close>

definition try_into_array :: "nat \<Rightarrow> string \<Rightarrow> bytes \<Rightarrow> (bytes, VerificationError) outcome" where
  "try_into_array n field bs =
     (if length bs = n then Ok bs else Err (ParseError (''Invalid '' @ field @ '' length'')))"

definition snp_from_json :: "'j crates \<Rightarrow> 'j \<Rightarrow> ('j SnpReport, VerificationError) outcome" where
  "snp_from_json x evidence =
     (let report = json_index x evidence ''attestation_report'' in
      if json_is_null x report
      then Err (InvalidQuoteFormat
             (''Missing '' @ quoted ''attestation_report'' @ '' field in SEV-SNP evidence''))
      else
        and_then (and_then (extract_bytes_field x report ''report_id'' 32) (try_into_array 32 ''report_id''))
          (\<lambda>report_id.
        and_then (and_then (extract_bytes_field x report ''report_data'' 64) (try_into_array 64 ''report_data''))
          (\<lambda>report_data.
        and_then (and_then (extract_bytes_field x report ''measurement'' 48) (try_into_array 48 ''measurement''))
          (\<lambda>measurement.
        and_then (and_then (extract_bytes_field x report ''host_data'' 32) (try_into_array 32 ''host_data''))
          (\<lambda>host_data.
        and_then (extract_u64_field x report ''policy'') (\<lambda>policy.
          Ok \<lparr> sr_evidence = evidence, sr_report_data = report_data, sr_report_id = report_id,
               sr_measurement = measurement, sr_host_data = host_data, sr_policy = policy \<rparr>))))))"

definition snp_from_base64 :: "'j crates \<Rightarrow> string \<Rightarrow> ('j SnpReport, VerificationError) outcome" where
  "snp_from_base64 x evidence_b64 =
     and_then (map_err (\<lambda>e. InvalidQuoteFormat (''Invalid evidence base64: '' @ e))
                 (of_sum (base64_decode x evidence_b64)))
       (\<lambda>evidence_bytes.
         and_then (map_err (\<lambda>e. InvalidQuoteFormat (''Invalid evidence JSON: '' @ e))
                     (of_sum (json_from_slice x evidence_bytes)))
           (snp_from_json x))"

definition snp_report_data_binding :: "'j SnpReport \<Rightarrow> bytes" where
  "snp_report_data_binding r = subslice (sr_report_data r) 0 32"

definition snp_instance_id :: "'j SnpReport \<Rightarrow> InstanceId" where
  "snp_instance_id r = InstanceId (sr_report_id r)"

definition snp_measurement_hash :: "'j crates \<Rightarrow> 'j SnpReport \<Rightarrow> string" where
  "snp_measurement_hash x r =
     hex_encode x (sha256 x
       (sr_measurement r @ (if list_ex (\<lambda>b. b \<noteq> 0) (sr_host_data r) then sr_host_data r else [])))"

definition snp_is_debug :: "'j SnpReport \<Rightarrow> bool" where
  "snp_is_debug r \<longleftrightarrow> sr_policy r AND push_bit 19 1 \<noteq> 0"

section \<open>Signature and policy\<close>

record 'j VerifiedSnpReport =
  vn_report :: "'j SnpReport"
  vn_claims :: 'j
  vn_tcb_status :: "string option"

definition snp_claim_u64 :: "'j crates \<Rightarrow> 'j \<Rightarrow> string \<Rightarrow> 64 word" where
  "snp_claim_u64 x claims field =
     (case json_as_u64 x (json_index x claims field) of None \<Rightarrow> 0 | Some n \<Rightarrow> n)"

definition snp_tcb_status :: "'j crates \<Rightarrow> 'j \<Rightarrow> string" where
  "snp_tcb_status x claims =
     ''bootloader='' @ show_nat (unat (snp_claim_u64 x claims ''reported_tcb_bootloader'')) @
     '', tee='' @ show_nat (unat (snp_claim_u64 x claims ''reported_tcb_tee'')) @
     '', snp='' @ show_nat (unat (snp_claim_u64 x claims ''reported_tcb_snp'')) @
     '', microcode='' @ show_nat (unat (snp_claim_u64 x claims ''reported_tcb_microcode''))"

definition snp_verify_signature ::
  "'j crates \<Rightarrow> 'j SnpReport \<Rightarrow> ('j VerifiedSnpReport, VerificationError) outcome" where
  "snp_verify_signature x r =
     and_then (map_err (\<lambda>e. AttestationFailed (''Failed to create SEV-SNP verifier: '' @ e))
                 (of_sum (to_verifier x Snp)))
       (\<lambda>_. and_then (map_err (\<lambda>e. AttestationFailed (''SNP signature verification failed: '' @ e))
                        (of_sum (evaluate x Snp (sr_evidence r))))
         (\<lambda>results. case results of
              [] \<Rightarrow> Err (AttestationFailed ''No claims returned from SNP verifier'')
            | claims # _ \<Rightarrow>
                Ok \<lparr> vn_report = r, vn_claims = claims,
                     vn_tcb_status = Some (snp_tcb_status x claims) \<rparr>))"

definition snp_verify_report_data ::
  "'j crates \<Rightarrow> 'j VerifiedSnpReport \<Rightarrow> bytes \<Rightarrow> (unit, VerificationError) outcome" where
  "snp_verify_report_data x v expected =
     (let actual = snp_report_data_binding (vn_report v) in
      if actual \<noteq> expected
      then Err (NonceVerificationFailed
             (''REPORT_DATA[0:32] mismatch: expected '' @ show_bytes x expected @ '', got '' @
              show_bytes x actual))
      else Ok ())"

definition snp_verify_debug :: "'j VerifiedSnpReport \<Rightarrow> bool \<Rightarrow> (unit, VerificationError) outcome" where
  "snp_verify_debug v debug_allowed =
     (if snp_is_debug (vn_report v) \<and> \<not> debug_allowed then Err DebugNotAllowed else Ok ())"

definition snp_check_svn ::
  "'j crates \<Rightarrow> 'j VerifiedSnpReport \<Rightarrow> string \<Rightarrow> string \<Rightarrow> byte option \<Rightarrow>
   (unit, VerificationError) outcome" where
  "snp_check_svn x v claim name required =
     (case required of
        None \<Rightarrow> Ok ()
      | Some minimum \<Rightarrow>
          (let actual = (ucast (snp_claim_u64 x (vn_claims v) claim) :: byte) in
           if actual < minimum
           then Err (TcbOutdated (name @ '' '' @ show_nat (unat actual) @ '' < minimum '' @
                  show_nat (unat minimum)))
           else Ok ()))"

definition snp_verify_tcb ::
  "'j crates \<Rightarrow> 'j VerifiedSnpReport \<Rightarrow> SnpMinimumTcb \<Rightarrow> (unit, VerificationError) outcome" where
  "snp_verify_tcb x v minimum =
     and_then (snp_check_svn x v ''reported_tcb_bootloader'' ''bootloader_svn'' (sm_bootloader_svn minimum))
       (\<lambda>_. and_then (snp_check_svn x v ''reported_tcb_tee'' ''tee_svn'' (sm_tee_svn minimum))
       (\<lambda>_. and_then (snp_check_svn x v ''reported_tcb_snp'' ''snp_svn'' (sm_snp_svn minimum))
       (\<lambda>_. snp_check_svn x v ''reported_tcb_microcode'' ''microcode_svn'' (sm_microcode_svn minimum))))"

definition snp_verify_platform ::
  "'j crates \<Rightarrow> 'j VerifiedSnpReport \<Rightarrow> SnpPlatformConstraints \<Rightarrow> (unit, VerificationError) outcome" where
  "snp_verify_platform x v constraints =
     (if sp_require_smt_disabled constraints = Some True \<and>
         json_as_bool x (json_index x (vn_claims v) ''platform_smt_enabled'') = Some True
      then Err (PlatformConstraint ''SMT (Simultaneous Multi-Threading) must be disabled'')
      else Ok ())"

definition snp_verify_measurements ::
  "'j crates \<Rightarrow> 'j VerifiedSnpReport \<Rightarrow> SnpMeasurement \<Rightarrow> (unit, VerificationError) outcome" where
  "snp_verify_measurements x v trusted =
     and_then (map_err (\<lambda>e. ParseError (''Invalid trusted measurement hex: '' @ e))
                 (of_sum (hex_decode x (sn_measurement trusted))))
       (\<lambda>measurement_bytes.
         and_then (case sn_host_data trusted of
                     None \<Rightarrow> Ok []
                   | Some host_data_hex \<Rightarrow>
                       and_then (map_err (\<lambda>e. ParseError (''Invalid trusted host_data hex: '' @ e))
                                   (of_sum (hex_decode x host_data_hex)))
                         (\<lambda>host_data. Ok (if list_ex (\<lambda>b. b \<noteq> 0) host_data then host_data else [])))
           (\<lambda>host_part.
             let expected_hash = hex_encode x (sha256 x (measurement_bytes @ host_part));
                 actual_hash = snp_measurement_hash x (vn_report v)
             in if actual_hash \<noteq> expected_hash
                then Err (MeasurementMismatch expected_hash actual_hash) else Ok ()))"

definition snp_into_parsed_attestation ::
  "'j crates \<Rightarrow> 'j VerifiedSnpReport \<Rightarrow> 'j ParsedAttestation" where
  "snp_into_parsed_attestation x v =
     \<lparr> pa_tee = Snp, pa_instance_id = snp_instance_id (vn_report v),
       pa_measurement_hash = snp_measurement_hash x (vn_report v),
       pa_claims = vn_claims v, pa_tcb_status = vn_tcb_status v \<rparr>"

text \<open>The arrays of a parsed report have the sizes of their types.\<close>

definition report_wf :: "'j SnpReport \<Rightarrow> bool" where
  "report_wf r \<longleftrightarrow> length (sr_report_data r) = 64 \<and> length (sr_report_id r) = 32 \<and>
     length (sr_measurement r) = 48 \<and> length (sr_host_data r) = 32"

text \<open>The bytes that a JSON value stands for: a hexadecimal string, or an array of unsigned integers, each modulo
  256.\<close>

definition denotes :: "'j crates \<Rightarrow> 'j \<Rightarrow> bytes \<Rightarrow> bool" where
  "denotes x v bs \<longleftrightarrow>
     (case json_as_str x v of
        Some hex_str \<Rightarrow> hex_decode x hex_str = Inr bs
      | None \<Rightarrow>
          (case json_as_array x v of
             Some arr \<Rightarrow> list_all2 (\<lambda>e b. \<exists>w. json_as_u64 x e = Some w \<and> unat b = unat w mod 256) arr bs
           | None \<Rightarrow> False))"

definition snp_genuine :: "'j crates \<Rightarrow> 'j \<Rightarrow> bool" where
  "snp_genuine x e \<longleftrightarrow> (case evaluate x Snp e of Inr (claims # rest) \<Rightarrow> True | _ \<Rightarrow> False)"

section \<open>Lemmas\<close>

lemma extract_bytes_length: "extract_bytes_field x r f n = Ok bs \<Longrightarrow> length bs = n"
  by (auto simp: extract_bytes_field_def split: option.splits if_splits)

lemma extract_bytes_returns: "no_panic (extract_bytes_field x r f n)"
  by (auto simp: extract_bytes_field_def no_panic_simps intro!: no_panic_collect_ok
      split: option.splits)

lemma extract_bytes_field_Ok:
  "extract_bytes_field x report field n = Ok bs \<longleftrightarrow> length bs = n \<and> denotes x (json_index x report field) bs"
proof -
  have u: "unat b = unat w mod 256 \<longleftrightarrow> ucast w = b" for w :: "64 word" and b :: byte
    by (auto simp: word_unat_eq_iff unsigned_ucast_eq take_bit_eq_mod)
  show ?thesis
    by (auto simp: extract_bytes_field_def denotes_def u list_all2_map1
        intro!: exI [of _ bs] dest: list_all2_lengthD split: if_splits option.splits)
qed

lemma try_into_array_Ok [simp]: "try_into_array n f bs = Ok cs \<longleftrightarrow> length bs = n \<and> cs = bs"
  by (auto simp: try_into_array_def)

lemma try_into_array_returns [no_panic_simps]: "no_panic (try_into_array n f bs)"
  by (simp add: try_into_array_def)

lemma snp_from_json_Ok:
  "snp_from_json x e = Ok r \<Longrightarrow> report_wf r \<and> sr_evidence r = e \<and>
     \<not> json_is_null x (json_index x e ''attestation_report'')"
  by (auto simp: snp_from_json_def report_wf_def Let_def split: if_splits)

lemma snp_from_json_returns: "no_panic (snp_from_json x e)"
  by (auto simp: snp_from_json_def extract_u64_field_def no_panic_simps extract_bytes_returns Let_def)

lemma snp_verify_signature_Ok:
  assumes "snp_verify_signature x r = Ok v"
  shows "to_verifier x Snp = Inr () \<and> vn_report v = r \<and> snp_genuine x (sr_evidence r)"
  using assms
  by (cases "evaluate x Snp (sr_evidence r)")
     (auto simp: snp_verify_signature_def snp_genuine_def split: list.splits)

lemma snp_verify_signature_returns: "no_panic (snp_verify_signature x r)"
  by (auto simp: snp_verify_signature_def no_panic_simps split: list.splits)

interpretation snp: attestation_backend "snp_from_json x" "snp_verify_signature x" vn_report
  sr_evidence "snp_genuine x" snp_report_data_binding "snp_verify_report_data x"
  for x :: "'j crates"
proof
  fix e :: 'j and q v c
  show "no_panic (snp_from_json x e)" by (rule snp_from_json_returns)
  show "snp_from_json x e = Ok q \<Longrightarrow> sr_evidence q = e" by (simp add: snp_from_json_Ok)
  show "no_panic (snp_verify_signature x q)" by (rule snp_verify_signature_returns)
  show "snp_verify_signature x q = Ok v \<Longrightarrow> vn_report v = q \<and> snp_genuine x (sr_evidence q)"
    by (simp add: snp_verify_signature_Ok)
  show "no_panic (snp_verify_report_data x v c)"
    by (simp add: snp_verify_report_data_def Let_def)
  show "snp_verify_report_data x v c = Ok () \<longleftrightarrow> snp_report_data_binding (vn_report v) = c"
    by (simp add: snp_verify_report_data_def Let_def)
qed

lemma snp_check_svn_Ok:
  "snp_check_svn x v claim name required = Ok () \<longleftrightarrow>
     (\<forall>m. required = Some m \<longrightarrow> unat m \<le> unat (snp_claim_u64 x (vn_claims v) claim) mod 256)"
proof -
  have "unat (ucast w :: byte) = unat w mod 256" for w :: "64 word"
    by (simp add: unsigned_ucast_eq take_bit_eq_mod)
  then show ?thesis
    by (auto simp: snp_check_svn_def Let_def word_less_nat_alt not_less split: option.splits)
qed

section \<open>Properties\<close>

text \<open>C29: Parsing SEV-SNP evidence never panics, and it gives a report exactly when the evidence has an attestation
  report whose fields for the report identity, the report data, the measurement and the host data stand for 32, 64, 48
  and 32 bytes and whose policy is an unsigned integer; the report then has these values, each from the field of
  its name, and the evidence itself. The instance identity is the report identity and the binding the first half of the
  report data.\<close>

theorem snp_report_exact:
  "no_panic (snp_from_json x e) \<and>
   (snp_from_json x e = Ok r \<longleftrightarrow>
      (let report = json_index x e ''attestation_report'' in
       \<not> json_is_null x report \<and> sr_evidence r = e \<and>
       length (sr_report_id r) = 32 \<and> denotes x (json_index x report ''report_id'') (sr_report_id r) \<and>
       length (sr_report_data r) = 64 \<and> denotes x (json_index x report ''report_data'') (sr_report_data r) \<and>
       length (sr_measurement r) = 48 \<and> denotes x (json_index x report ''measurement'') (sr_measurement r) \<and>
       length (sr_host_data r) = 32 \<and> denotes x (json_index x report ''host_data'') (sr_host_data r) \<and>
       json_as_u64 x (json_index x report ''policy'') = Some (sr_policy r))) \<and>
   snp_instance_id r = InstanceId (sr_report_id r) \<and> snp_report_data_binding r = take 32 (sr_report_data r)"
proof (intro conjI)
  show "snp_from_json x e = Ok r \<longleftrightarrow>
      (let report = json_index x e ''attestation_report'' in
       \<not> json_is_null x report \<and> sr_evidence r = e \<and>
       length (sr_report_id r) = 32 \<and> denotes x (json_index x report ''report_id'') (sr_report_id r) \<and>
       length (sr_report_data r) = 64 \<and> denotes x (json_index x report ''report_data'') (sr_report_data r) \<and>
       length (sr_measurement r) = 48 \<and> denotes x (json_index x report ''measurement'') (sr_measurement r) \<and>
       length (sr_host_data r) = 32 \<and> denotes x (json_index x report ''host_data'') (sr_host_data r) \<and>
       json_as_u64 x (json_index x report ''policy'') = Some (sr_policy r))"
    by (cases r) (auto simp: snp_from_json_def extract_bytes_field_Ok extract_u64_field_def Let_def split: if_splits)
qed (simp_all add: snp_from_json_returns snp_instance_id_def snp_report_data_binding_def subslice_def)

text \<open>A report field given as a JSON array is accepted when it has the expected number of
  entries and each is an unsigned integer, and every entry is reduced modulo 256: entries above
  255 are not rejected, so arrays that agree modulo 256 give the same field.\<close>

theorem snp_array_field_truncates:
  assumes "json_as_str x (json_index x report field) = None"
    and "json_as_array x (json_index x report field) = Some arr"
  shows "extract_bytes_field x report field n = Ok bs \<longleftrightarrow>
     length arr = n \<and>
     list_all2 (\<lambda>v b. \<exists>w. json_as_u64 x v = Some w \<and> unat b = unat w mod 256) arr bs"
  using assms by (auto simp: extract_bytes_field_Ok denotes_def dest: list_all2_lengthD)

theorem snp_array_field_truncates_witness:
  "extract_bytes_field sample_crates (JObj [(''host_data'', JArr [JNum 257, JNum 2])]) ''host_data'' 2
     = Ok [1, 2]"
proof -
  let ?r = "JObj [(''host_data'', JArr [JNum 257, JNum 2])]"
  have "json_as_str sample_crates (json_index sample_crates ?r ''host_data'') = None"
    "json_as_array sample_crates (json_index sample_crates ?r ''host_data'') = Some [JNum 257, JNum 2]"
    by (simp_all add: sample_crates_def)
  from snp_array_field_truncates [OF this, of 2 "[1, 2]"] show ?thesis
    by (simp add: sample_crates_def list_all2_Cons1)
qed

text \<open>The SEV-SNP TCB check accepts exactly when each required security version is reached by
  the reported one modulo 256; a missing claim counts as version 0.\<close>

theorem snp_verify_tcb_spec:
  "snp_verify_tcb x v minimum = Ok () \<longleftrightarrow>
     (\<forall>(claim, required) \<in> {(''reported_tcb_bootloader'', sm_bootloader_svn minimum),
                            (''reported_tcb_tee'', sm_tee_svn minimum),
                            (''reported_tcb_snp'', sm_snp_svn minimum),
                            (''reported_tcb_microcode'', sm_microcode_svn minimum)}.
        \<forall>m. required = Some m \<longrightarrow> unat m \<le> unat (snp_claim_u64 x (vn_claims v) claim) mod 256)"
  by (simp add: snp_verify_tcb_def snp_check_svn_Ok)

theorem snp_verify_tcb_spec_witness:
  "let v = \<lparr> vn_report = \<lparr> sr_evidence = JNull, sr_report_data = [], sr_report_id = [],
                          sr_measurement = [], sr_host_data = [], sr_policy = 0 \<rparr>,
             vn_claims = JObj [(''reported_tcb_snp'', JNum 9)], vn_tcb_status = None \<rparr>;
       m = \<lparr> sm_bootloader_svn = None, sm_tee_svn = None, sm_snp_svn = Some 8,
             sm_microcode_svn = None \<rparr>
   in snp_verify_tcb sample_crates v m = Ok () \<and>
      snp_verify_tcb sample_crates v (m\<lparr> sm_tee_svn := Some 1 \<rparr>) \<noteq> Ok ()"
  unfolding Let_def snp_verify_tcb_spec by (simp add: snp_claim_u64_def sample_crates_def)

text \<open>A trusted measurement written from a report's own launch measurement and host data is
  accepted by the measurement check, and host data of zeros may equally be left out: the hash of
  the report does not include it.\<close>

theorem snp_verify_measurements_own:
  assumes "hex_round_trip x"
    and "sn_measurement trusted = hex_encode x (sr_measurement (vn_report v))"
    and "sn_host_data trusted = Some (hex_encode x (sr_host_data (vn_report v))) \<or>
         sn_host_data trusted = None \<and> set (sr_host_data (vn_report v)) \<subseteq> {0}"
  shows "snp_verify_measurements x v trusted = Ok ()"
  using assms
  by (auto simp: snp_verify_measurements_def snp_measurement_hash_def hex_round_trip_def Let_def
      list_ex_iff simp del: and_then_Ok)

theorem snp_verify_measurements_own_witness:
  "let v = \<lparr> vn_report = \<lparr> sr_evidence = JNull, sr_report_data = replicate 64 0,
                          sr_report_id = replicate 32 1, sr_measurement = replicate 48 7,
                          sr_host_data = replicate 32 0, sr_policy = 0 \<rparr>,
             vn_claims = JNull, vn_tcb_status = None \<rparr>
   in snp_verify_measurements sample_crates v
        \<lparr> sn_measurement = hex_encode sample_crates (replicate 48 7), sn_host_data = None,
          sn_debug_allowed = False, sn_minimum_tcb = None, sn_platform_constraints = None \<rparr> = Ok ()"
  unfolding Let_def
  by (rule snp_verify_measurements_own [OF sample_hex_round_trip]) simp_all

end
