(* ===== verification/Backend.thy ===== *)
theory Backend
  imports Tdx_Backend Snp_Backend
begin

text \<open>
  Platform detection and evidence handling of \<open>peer_registry/src/backend/mod.rs\<close>, and the loading of
  a node's own instance identity from \<open>types/identity.rs\<close>. The file system is a parameter: which
  paths exist, and what reading the identity file gives.
\<close>

section \<open>Detection\<close>

definition is_tee_available :: "(string \<Rightarrow> bool) \<Rightarrow> tee \<Rightarrow> bool" where
  "is_tee_available path_exists tee =
     (case tee of
        Tdx \<Rightarrow> path_exists ''/sys/kernel/config/tsm/report'' \<or> path_exists ''/dev/tdx_guest''
      | Snp \<Rightarrow> path_exists ''/dev/sev-guest''
      | OtherTee _ \<Rightarrow> False)"

definition detect_available_tee :: "(string \<Rightarrow> bool) \<Rightarrow> tee option" where
  "detect_available_tee path_exists =
     (if is_tee_available path_exists Tdx then Some Tdx
      else if is_tee_available path_exists Snp then Some Snp else None)"

definition detect_tee_type :: "'j crates \<Rightarrow> 'j \<Rightarrow> tee option" where
  "detect_tee_type x evidence =
     (if json_get x evidence ''quote'' \<noteq> None then Some Tdx
      else if json_get x evidence ''attestation_report'' \<noteq> None then Some Snp else None)"

definition generate_evidence :: "'j crates \<Rightarrow> tee \<Rightarrow> bytes \<Rightarrow> ('j, VerificationError) outcome" where
  "generate_evidence x tee report_data =
     (case tee of
        Tdx \<Rightarrow> map_err (\<lambda>e. AttestationFailed (''TDX attestation failed: '' @ e))
                 (of_sum (get_evidence x Tdx report_data))
      | Snp \<Rightarrow> map_err (\<lambda>e. AttestationFailed (''SNP attestation failed: '' @ e))
                 (of_sum (get_evidence x Snp report_data))
      | OtherTee _ \<Rightarrow> Err (InvalidQuoteFormat (''Unsupported TEE type: '' @ tee_debug tee)))"

section \<open>Measurement hashes of evidence\<close>

definition measurement_hash_from_json :: "'j crates \<Rightarrow> 'j \<Rightarrow> (string, VerificationError) outcome" where
  "measurement_hash_from_json x evidence =
     and_then (ok_or (detect_tee_type x evidence) (InvalidQuoteFormat ''Cannot detect TEE type''))
       (\<lambda>tee. case tee of
          Tdx \<Rightarrow> and_then (tdx_from_json x evidence) (\<lambda>q. Ok (tdx_measurement_hash x q))
        | Snp \<Rightarrow> and_then (snp_from_json x evidence) (\<lambda>r. Ok (snp_measurement_hash x r))
        | OtherTee _ \<Rightarrow> Err (InvalidQuoteFormat (''Unsupported TEE: '' @ tee_debug tee)))"

definition measurement_hash_from_evidence ::
  "'j crates \<Rightarrow> string \<Rightarrow> (string, VerificationError) outcome" where
  "measurement_hash_from_evidence x evidence_b64 =
     and_then (map_err (\<lambda>e. InvalidQuoteFormat (''Invalid evidence base64: '' @ e))
                 (of_sum (base64_decode x evidence_b64)))
       (\<lambda>evidence_bytes.
         and_then (map_err (\<lambda>e. InvalidQuoteFormat (''Invalid evidence JSON: '' @ e))
                     (of_sum (json_from_slice x evidence_bytes)))
           (measurement_hash_from_json x))"

definition get_measurement_hash :: "'j crates \<Rightarrow> tee \<Rightarrow> (string, VerificationError) outcome" where
  "get_measurement_hash x tee =
     and_then (generate_evidence x tee (replicate 64 0)) (measurement_hash_from_json x)"

section \<open>The node's own identity\<close>

text \<open>\<open>str::trim\<close>: the UTF-8 encodings of the characters with the White_Space property.\<close>

definition whitespace :: "string list" where
  "whitespace =
     map (map (\<lambda>n. char_of (n :: nat)))
       ([[9], [10], [11], [12], [13], [32], [194, 133], [194, 160], [225, 154, 128]] @
        map (\<lambda>n. [226, 128, n]) ([128..<139] @ [168, 169, 175]) @
        [[226, 129, 159], [227, 128, 128]])"

function trim_with :: "string list \<Rightarrow> string \<Rightarrow> string" where
  "trim_with ws s =
     (case find (\<lambda>w. w \<noteq> [] \<and> prefix w s) ws of
        None \<Rightarrow> s
      | Some w \<Rightarrow> trim_with ws (drop (length w) s))"
  by pat_completeness auto
termination
  by (relation "measure (\<lambda>(ws, s). length s)")
     (auto simp: find_Some_iff prefix_def)

declare trim_with.simps [simp del]

definition str_trim :: "string \<Rightarrow> string" where
  "str_trim s = rev (trim_with (map rev whitespace) (rev (trim_with whitespace s)))"

definition load_for_tee ::
  "'j crates \<Rightarrow> (string \<Rightarrow> string + string) \<Rightarrow> tee \<Rightarrow> string \<Rightarrow> (InstanceId, VerificationError) outcome" where
  "load_for_tee x read_to_string tee instance_id_path =
     (case tee of
        Tdx \<Rightarrow>
          and_then (map_err (\<lambda>e. AttestationFailed (''Failed to read instance_id from '' @
                      instance_id_path @ '': '' @ e)) (of_sum (read_to_string instance_id_path)))
            (\<lambda>contents.
              let hex_id = str_trim contents in
              if length hex_id \<noteq> 64
              then Err (AttestationFailed (''Invalid instance_id length: '' @
                     show_nat (length hex_id) @ '' (expected 64)''))
              else map_err (\<lambda>e. AttestationFailed (''Invalid instance_id hex: '' @ e))
                     (instance_from_hex x hex_id))
      | Snp \<Rightarrow>
          and_then (generate_evidence x Snp (replicate 64 0))
            (\<lambda>evidence. and_then (snp_from_json x evidence) (\<lambda>report. Ok (snp_instance_id report)))
      | OtherTee _ \<Rightarrow> Err (InvalidQuoteFormat (''Unsupported TEE: '' @ tee_debug tee)))"

section \<open>Lemmas\<close>

lemma generate_evidence_returns: "no_panic (generate_evidence x tee d)"
  by (cases tee) (simp_all add: generate_evidence_def no_panic_simps)

lemma measurement_hash_from_json_returns: "no_panic (measurement_hash_from_json x e)"
  by (auto simp: measurement_hash_from_json_def no_panic_simps tdx_from_json_returns
      snp_from_json_returns split: tee.splits)

lemma detect_tee_type_cases: "detect_tee_type x e = Some t \<Longrightarrow> t = Tdx \<or> t = Snp"
  by (auto simp: detect_tee_type_def split: if_splits)

lemma newline_found:
  "find (\<lambda>w. w \<noteq> [] \<and> prefix w (CHR 0x0A # s)) (map rev whitespace) = Some [CHR 0x0A]"
proof -
  have "map rev whitespace = [CHR 0x09] # [CHR 0x0A] # drop 2 (map rev whitespace)" by code_simp
  then obtain rest where "map rev whitespace = [CHR 0x09] # [CHR 0x0A] # rest" by (rule that)
  then show ?thesis by (simp del: list.map)
qed

lemma whitespace_start:
  assumes "w \<in> set whitespace \<or> w \<in> set (map rev whitespace)" and "prefix w (c # s)" and "w \<noteq> []"
  shows "\<not> hex_digit c"
proof -
  have "list_all (\<lambda>w. w \<noteq> [] \<and> \<not> hex_digit (hd w) \<and> \<not> hex_digit (last w)) whitespace"
    by code_simp
  moreover have "c = hd w" using assms(2,3) by (cases w) auto
  ultimately show ?thesis using assms(1) by (auto simp: hd_rev list_all_iff)
qed

lemma trim_with_stop:
  assumes "s = [] \<or> hex_digit (hd s)"
    and "set ws \<subseteq> set whitespace \<or> set ws \<subseteq> set (map rev whitespace)"
  shows "trim_with ws s = s"
proof -
  have "find (\<lambda>w. w \<noteq> [] \<and> prefix w s) ws = None"
  proof (cases s)
    case (Cons c t)
    have "w \<in> set whitespace \<or> w \<in> set (map rev whitespace)" if "w \<in> set ws" for w
      using that assms(2) by auto
    then show ?thesis
      using whitespace_start [of _ c t] Cons assms(1) by (fastforce simp: find_None_iff)
  qed (auto simp: find_None_iff)
  then show ?thesis by (subst trim_with.simps) simp
qed

text \<open>Lower-case hexadecimal digits survive trimming, with or without a trailing newline.\<close>

lemma str_trim_hex:
  assumes "s \<noteq> []" and "\<And>c. c \<in> set s \<Longrightarrow> hex_digit c"
  shows "str_trim s = s" and "str_trim (s @ [CHR 0x0A]) = s"
proof -
  have hd: "hex_digit (hd s)"
    and last: "hex_digit (hd (rev s))"
    using assms by (auto simp: hd_rev)
  have start: "trim_with whitespace (s @ t) = s @ t" for t
    by (rule trim_with_stop) (use hd assms(1) in auto)
  have stop: "trim_with (map rev whitespace) (rev s) = rev s"
    by (rule trim_with_stop) (use last in auto)
  show "str_trim s = s" using start [of "[]"] stop by (simp add: str_trim_def)
  from newline_found [of "rev s"]
  have "trim_with (map rev whitespace) (CHR 0x0A # rev s) = trim_with (map rev whitespace) (rev s)"
    by (subst trim_with.simps) simp
  then show "str_trim (s @ [CHR 0x0A]) = s" using start [of "[CHR 0x0A]"] stop by (simp add: str_trim_def)
qed

lemma load_identity_file:
  assumes "hex_lower_digits x" and "hex_round_trip x" and "length b = 32"
    and "read path = Inr (hex_encode x b) \<or> read path = Inr (hex_encode x b @ [CHR 0x0A])"
  shows "load_for_tee x read Tdx path = Ok (InstanceId b)"
proof -
  have hex: "length (hex_encode x b) = 64" "\<And>c. c \<in> set (hex_encode x b) \<Longrightarrow> hex_digit c"
    using assms(1,3) by (auto simp: hex_lower_digits_def list_all_iff)
  then have "hex_encode x b \<noteq> []" by auto
  then have "str_trim (hex_encode x b) = hex_encode x b"
    "str_trim (hex_encode x b @ [CHR 0x0A]) = hex_encode x b"
    using str_trim_hex hex(2) by blast+
  moreover have "instance_from_hex x (hex_encode x b) = Ok (InstanceId b)"
    using assms(2,3) by (simp add: instance_from_hex_def from_hex_Ok hex_round_trip_def)
  ultimately show ?thesis
    using assms(4) hex(1) by (auto simp: load_for_tee_def Let_def simp del: and_then_Ok)
qed

section \<open>Properties\<close>

text \<open>A TDX node that wrote its 32 byte identity to the identity file in hexadecimal, with or
  without a final newline, loads exactly that identity.\<close>

theorem identity_file_round_trip:
  assumes "hex_lower_digits x" and "hex_round_trip x" and "length b = 32"
    and "read path = Inr (hex_encode x b) \<or> read path = Inr (hex_encode x b @ [CHR 0x0A])"
  shows "load_for_tee x read Tdx path = Ok (InstanceId b)"
  using load_identity_file [of x b read path] assms by blast

theorem identity_file_round_trip_witness:
  "load_for_tee sample_crates (\<lambda>p. Inr (hex_encode sample_crates (replicate 32 171) @ [CHR 0x0A])) Tdx ''id''
     = Ok (InstanceId (replicate 32 171))"
  by (rule identity_file_round_trip [OF sample_hex_lower_digits sample_hex_round_trip]) simp_all

end
