(* ===== verification/Measurement_Client.thy ===== *)
theory Measurement_Client
  imports Peer_Types
begin

text \<open>
  The client of the measurement registry service, \<open>peer_registry/src/measurement.rs\<close>. The HTTP
  library is a parameter: what the request of attempt \<open>n\<close> on a URL gives, an error or a response,
  each with the observations the program makes of it. The retry loop records what it does (sleeps
  and requests), so its bounds are statements about the recorded actions.
\<close>

section \<open>The HTTP library\<close>

record http_error =
  he_is_connect :: bool
  he_is_timeout :: bool
  he_text :: string

record 'j http_response =
  hr_is_success :: bool
  hr_is_not_found :: bool
  hr_is_server_error :: bool
  hr_status :: "16 word"
  hr_body :: "string + string"
  hr_values :: "string + 'j list"
  hr_nodes :: "string + BootstrapNode list"

type_synonym 'j http_send = "string \<Rightarrow> nat \<Rightarrow> http_error + 'j http_response"

datatype http_action = Sleep nat | Get string

section \<open>Requests with retry\<close>

record MeasurementRegistryClient =
  mc_base_url :: string
  mc_max_retries :: nat

definition DEFAULT_RETRIES :: nat where "DEFAULT_RETRIES = 3"

text \<open>Durations are in milliseconds.\<close>

definition RETRY_BASE_DELAY :: nat where "RETRY_BASE_DELAY = 500"

definition client_new :: "string \<Rightarrow> MeasurementRegistryClient" where
  "client_new base_url = \<lparr> mc_base_url = base_url, mc_max_retries = DEFAULT_RETRIES \<rparr>"

definition client_with_config :: "string \<Rightarrow> nat \<Rightarrow> MeasurementRegistryClient" where
  "client_with_config base_url max_retries =
     \<lparr> mc_base_url = base_url, mc_max_retries = max_retries \<rparr>"

definition classify_error :: "http_error \<Rightarrow> MeasurementRegistryError" where
  "classify_error e =
     (if he_is_connect e then RegConnectionFailed (he_text e)
      else if he_is_timeout e then RegTimeout (he_text e)
      else RegParseError (he_text e))"

text \<open>\<open>2u32.saturating_pow\<close>\<close>

definition saturating_pow2 :: "nat \<Rightarrow> nat" where
  "saturating_pow2 n = min (2 ^ n) (2 ^ 32 - 1)"

definition retry_sleep :: "nat \<Rightarrow> http_action list" where
  "retry_sleep attempt =
     (if 0 < attempt then [Sleep (RETRY_BASE_DELAY * saturating_pow2 (attempt - 1))] else [])"

fun retry_loop ::
  "'j http_send \<Rightarrow> string \<Rightarrow> nat \<Rightarrow> nat list \<Rightarrow> MeasurementRegistryError option \<Rightarrow>
   ('j http_response, MeasurementRegistryError) outcome \<times> http_action list" where
  "retry_loop send url max_retries [] last_error =
     ((case last_error of
         None \<Rightarrow> Panic ''Should have at least one error after retry loop''
       | Some e \<Rightarrow> Err e), [])"
| "retry_loop send url max_retries (attempt # rest) last_error =
     (let acts = retry_sleep attempt @ [Get url]
      in case send url attempt of
           Inr response \<Rightarrow>
             if hr_is_server_error response \<and> attempt < max_retries
             then (let (r, more) = retry_loop send url max_retries rest
                          (Some (RegistryError (hr_status response) ''Server error''))
                   in (r, acts @ more))
             else (Ok response, acts)
         | Inl e \<Rightarrow>
             if \<not> he_is_connect e \<and> \<not> he_is_timeout e
             then (Err (classify_error e), acts)
             else (let (r, more) = retry_loop send url max_retries rest (Some (classify_error e))
                   in (r, acts @ more)))"

definition request_with_retry ::
  "'j http_send \<Rightarrow> MeasurementRegistryClient \<Rightarrow> string \<Rightarrow>
   ('j http_response, MeasurementRegistryError) outcome \<times> http_action list" where
  "request_with_retry send c url =
     retry_loop send url (mc_max_retries c) [0..<Suc (mc_max_retries c)] None"

section \<open>The operations\<close>

definition body_or_default :: "'j http_response \<Rightarrow> string" where
  "body_or_default r = (case hr_body r of Inl _ \<Rightarrow> [] | Inr s \<Rightarrow> s)"

definition measurement_url :: "MeasurementRegistryClient \<Rightarrow> string \<Rightarrow> string \<Rightarrow> string" where
  "measurement_url c namespace measurement_hash =
     mc_base_url c @ ''/measurements/'' @ namespace @ ''/'' @ measurement_hash"

definition verify_measurement ::
  "'j http_send \<Rightarrow> MeasurementRegistryClient \<Rightarrow> string \<Rightarrow> string \<Rightarrow>
   (bool, MeasurementRegistryError) outcome" where
  "verify_measurement send c namespace measurement_hash =
     and_then (fst (request_with_retry send c (measurement_url c namespace measurement_hash)))
       (\<lambda>response.
         if hr_is_success response then Ok True
         else if hr_is_not_found response then Ok False
         else Err (RegistryError (hr_status response) (body_or_default response)))"

definition get_measurements ::
  "'j http_send \<Rightarrow> MeasurementRegistryClient \<Rightarrow> string \<Rightarrow>
   ('j list, MeasurementRegistryError) outcome" where
  "get_measurements send c namespace =
     and_then (fst (request_with_retry send c (mc_base_url c @ ''/measurements/'' @ namespace)))
       (\<lambda>response.
         if \<not> hr_is_success response
         then Err (RegistryError (hr_status response) (body_or_default response))
         else map_err RegParseError (of_sum (hr_values response)))"

definition get_nodes ::
  "'j http_send \<Rightarrow> MeasurementRegistryClient \<Rightarrow> string \<Rightarrow>
   (BootstrapNode list, MeasurementRegistryError) outcome" where
  "get_nodes send c namespace =
     and_then (fst (request_with_retry send c (mc_base_url c @ ''/nodes?namespace='' @ namespace)))
       (\<lambda>response.
         if hr_is_success response then map_err RegParseError (of_sum (hr_nodes response))
         else if hr_is_not_found response then Ok []
         else Err (RegistryError (hr_status response) (body_or_default response)))"

text \<open>What the loop does with one attempt.\<close>

definition retryable :: "'j http_send \<Rightarrow> string \<Rightarrow> nat \<Rightarrow> nat \<Rightarrow> bool" where
  "retryable send url max_retries attempt =
     (case send url attempt of
        Inr response \<Rightarrow> hr_is_server_error response \<and> attempt < max_retries
      | Inl e \<Rightarrow> he_is_connect e \<or> he_is_timeout e)"

definition final_answer ::
  "'j http_send \<Rightarrow> string \<Rightarrow> nat \<Rightarrow> ('j http_response, MeasurementRegistryError) outcome" where
  "final_answer send url attempt =
     (case send url attempt of Inr response \<Rightarrow> Ok response | Inl e \<Rightarrow> Err (classify_error e))"

definition requests :: "http_action list \<Rightarrow> nat" where
  "requests acts = length (filter (\<lambda>a. case a of Get _ \<Rightarrow> True | _ \<Rightarrow> False) acts)"

section \<open>Lemmas\<close>

lemma requests_simps [simp]:
  "requests (xs @ ys) = requests xs + requests ys"
  "requests (retry_sleep a) = 0"
  "requests (Get u # xs) = Suc (requests xs)"
  "requests [] = 0"
  by (auto simp: requests_def retry_sleep_def)

lemma retry_loop_step:
  "retry_loop send url m (a # rest) e =
     (if retryable send url m a
      then (let (r, more) = retry_loop send url m rest
                   (Some (case send url a of
                       Inr response \<Rightarrow> RegistryError (hr_status response) ''Server error''
                     | Inl err \<Rightarrow> classify_error err))
            in (r, retry_sleep a @ [Get url] @ more))
      else (final_answer send url a, retry_sleep a @ [Get url]))"
  by (auto simp: retryable_def final_answer_def Let_def split: sum.splits)

declare retry_loop.simps(2) [simp del]

text \<open>The loop stops at the first attempt that is not retried; when every attempt up to the last
  is, the last was a connection failure or timeout, and that is the error.\<close>

lemma retry_loop_spec:
  assumes "a \<le> m"
  shows "\<exists>k. a \<le> k \<and> k \<le> m \<and> (\<forall>j. a \<le> j \<and> j < k \<longrightarrow> retryable send url m j) \<and>
    (\<not> retryable send url m k \<or> k = m) \<and>
    fst (retry_loop send url m [a..<Suc m] e) = final_answer send url k \<and>
    requests (snd (retry_loop send url m [a..<Suc m] e)) = Suc (k - a)"
  using assms
proof (induction "m - a" arbitrary: a e)
  case 0
  then have "[a..<Suc m] = [a]" "a = m" by auto
  then show ?case
    by (intro exI [of _ m])
       (auto simp: retry_loop_step retryable_def final_answer_def Let_def split: sum.splits)
next
  case (Suc n)
  then have upt: "[a..<Suc m] = a # [Suc a..<Suc m]" and le: "Suc a \<le> m"
    by (auto simp: upt_conv_Cons)
  show ?case
  proof (cases "retryable send url m a")
    case False
    then show ?thesis
      using Suc.prems by (intro exI [of _ a]) (auto simp: upt retry_loop_step simp del: upt_Suc)
  next
    case True
    let ?e = "Some (case send url a of
        Inr response \<Rightarrow> RegistryError (hr_status response) ''Server error''
      | Inl err \<Rightarrow> classify_error err)"
    have n: "n = m - Suc a" using Suc.hyps(2) by simp
    from Suc.hyps(1) [OF n le, of ?e] obtain k where
      k: "Suc a \<le> k" "k \<le> m" "\<forall>j. Suc a \<le> j \<and> j < k \<longrightarrow> retryable send url m j"
        "\<not> retryable send url m k \<or> k = m"
        "fst (retry_loop send url m [Suc a..<Suc m] ?e) = final_answer send url k"
        "requests (snd (retry_loop send url m [Suc a..<Suc m] ?e)) = Suc (k - Suc a)"
      by blast
    moreover have "retryable send url m j" if "a \<le> j" "j < k" for j
      using that k(3) True by (cases "j = a") auto
    ultimately show ?thesis
      using True by (intro exI [of _ k]) (auto simp: upt retry_loop_step split_beta simp del: upt_Suc)
  qed
qed

lemma request_answer:
  obtains k where "k \<le> mc_max_retries c" and "fst (request_with_retry send c url) = final_answer send url k"
  using retry_loop_spec [of 0 "mc_max_retries c" send url None] unfolding request_with_retry_def by blast

lemma verify_measurement_returns: "no_panic (verify_measurement send c ns h)"
proof -
  obtain k where "fst (request_with_retry send c (measurement_url c ns h)) =
      final_answer send (measurement_url c ns h) k" by (rule request_answer)
  then show ?thesis
    by (simp add: verify_measurement_def final_answer_def no_panic_simps split: sum.splits)
qed

section \<open>Properties\<close>

text \<open>C35: A request with retries always ends in an answer or an error, never in the panic of the
  final \<open>expect\<close>. It stops at the first attempt that is not a server error or a connection or
  timeout error, and at attempt \<open>max_retries\<close> at the latest; the result is that attempt's response
  or classified error, and exactly one request per attempt was sent.\<close>

theorem request_with_retry_spec:
  "\<exists>k \<le> mc_max_retries c.
     (\<forall>j < k. retryable send url (mc_max_retries c) j) \<and>
     (\<not> retryable send url (mc_max_retries c) k \<or> k = mc_max_retries c) \<and>
     fst (request_with_retry send c url) = final_answer send url k \<and>
     requests (snd (request_with_retry send c url)) = Suc k \<and>
     no_panic (fst (request_with_retry send c url))"
proof -
  have "no_panic (final_answer send url k)" for k by (simp add: final_answer_def split: sum.splits)
  with retry_loop_spec [of 0 "mc_max_retries c" send url None] show ?thesis
    unfolding request_with_retry_def by fastforce
qed

theorem request_with_retry_spec_witness:
  "let err = \<lparr> he_is_connect = True, he_is_timeout = False, he_text = ''refused'' \<rparr>;
       send = (\<lambda>(u :: string) (n :: nat). Inl err :: http_error + sample_json http_response)
   in fst (request_with_retry send (client_new ''u'') ''u'') = Err (RegConnectionFailed ''refused'') \<and>
      requests (snd (request_with_retry send (client_new ''u'') ''u'')) = 4"
proof -
  define err where "err = \<lparr> he_is_connect = True, he_is_timeout = False, he_text = ''refused'' \<rparr>"
  define send where "send = (\<lambda>(u :: string) (n :: nat). Inl err :: http_error + sample_json http_response)"
  have "retryable send ''u'' 3 k" for k by (simp add: retryable_def send_def err_def)
  moreover have "mc_max_retries (client_new ''u'') = 3" by (simp add: client_new_def DEFAULT_RETRIES_def)
  moreover have "final_answer send ''u'' k = Err (RegConnectionFailed ''refused'')" for k
    by (simp add: final_answer_def send_def err_def classify_error_def)
  ultimately have "fst (request_with_retry send (client_new ''u'') ''u'') = Err (RegConnectionFailed ''refused'')
      \<and> requests (snd (request_with_retry send (client_new ''u'') ''u'')) = 4"
    using request_with_retry_spec [of "client_new ''u''" send "''u''"] by auto
  then show ?thesis by (simp add: Let_def send_def err_def)
qed

text \<open>A measurement counts as trusted only on a success response of the registry to a request
  for exactly this namespace and hash; an absent entry (not found) gives untrusted, and every
  other response and every failed connection is an error, never trust.\<close>

theorem verify_measurement_sound:
  "(verify_measurement send c ns h = Ok True \<longleftrightarrow>
      (\<exists>r. fst (request_with_retry send c (measurement_url c ns h)) = Ok r \<and> hr_is_success r)) \<and>
   (verify_measurement send c ns h = Ok True \<longrightarrow>
      (\<exists>k \<le> mc_max_retries c. \<exists>r. send (measurement_url c ns h) k = Inr r \<and> hr_is_success r)) \<and>
   no_panic (verify_measurement send c ns h)"
proof -
  obtain k where k: "k \<le> mc_max_retries c"
    "fst (request_with_retry send c (measurement_url c ns h)) = final_answer send (measurement_url c ns h) k"
    by (rule request_answer)
  then show ?thesis using verify_measurement_returns [of send c ns h]
    by (auto simp: verify_measurement_def final_answer_def split: if_splits sum.splits)
qed

theorem verify_measurement_sound_witness:
  "let ok = \<lparr> hr_is_success = True, hr_is_not_found = False, hr_is_server_error = False, hr_status = 200,
              hr_body = Inr [], hr_values = Inr [], hr_nodes = Inr [] \<rparr> :: sample_json http_response
   in verify_measurement (\<lambda>u n. Inr ok) (client_new ''http://r'') ''guardian'' ''ab'' = Ok True \<and>
      measurement_url (client_new ''http://r'') ''guardian'' ''ab'' = ''http://r/measurements/guardian/ab''"
proof -
  define ok :: "sample_json http_response" where
    "ok = \<lparr> hr_is_success = True, hr_is_not_found = False, hr_is_server_error = False, hr_status = 200,
            hr_body = Inr [], hr_values = Inr [], hr_nodes = Inr [] \<rparr>"
  have "fst (request_with_retry (\<lambda>u n. Inr ok) (client_new ''http://r'') url) = Ok ok" for url
    by (simp add: request_with_retry_def upt_conv_Cons retry_loop_step retryable_def final_answer_def
        ok_def del: upt_Suc)
  then have "verify_measurement (\<lambda>u n. Inr ok) (client_new ''http://r'') ''guardian'' ''ab'' = Ok True"
    using verify_measurement_sound [of "\<lambda>u n. Inr ok" "client_new ''http://r''" "''guardian''" "''ab''"]
    by (auto simp: ok_def)
  then show ?thesis by (simp add: Let_def ok_def measurement_url_def client_new_def)
qed

end
