(* ===== verification/Verifier.thy ===== *)
theory Verifier
  imports Backend Measurement_Client Peer_Registry
begin

text \<open>
  The two-phase attestation protocol of \<open>peer_registry/src/verifier.rs\<close>. Phase 1 (\<open>register_tee\<close>)
  checks the signature and the whitelist and issues a challenge; phase 2 (\<open>verify_tee\<close>) checks that
  signed evidence of the same instance carries the challenge. Phase 2 reads the registry, awaits
  the signature check and then writes the registry, so it is the composition of a check and a
  commit. The properties state what an accepted request proves, that failures leave the registry as
  it was, that an accepted request cannot be replayed, that no request makes a handler panic, and
  which phase 1 fact phase 2 does not use.
\<close>

section \<open>Evidence\<close>

definition decode_evidence :: "'j crates \<Rightarrow> string \<Rightarrow> (tee \<times> 'j, VerificationError) outcome" where
  "decode_evidence x evidence =
     and_then (map_err (\<lambda>e. InvalidQuoteFormat (''Invalid base64 evidence: '' @ e))
                 (of_sum (base64_decode x evidence)))
       (\<lambda>json_bytes.
         and_then (map_err (\<lambda>e. InvalidQuoteFormat (''Invalid JSON evidence: '' @ e))
                     (of_sum (json_from_slice x json_bytes)))
           (\<lambda>evidence_json.
             and_then (ok_or (detect_tee_type x evidence_json)
                         (InvalidQuoteFormat (''Cannot detect TEE type: evidence must contain '' @
                            quoted ''quote'' @ '' (TDX) or '' @ quoted ''attestation_report'' @
                            '' (SEV-SNP)'')))
               (\<lambda>tee. Ok (tee, evidence_json))))"

definition unsupported_tee :: "tee \<Rightarrow> VerificationError" where
  "unsupported_tee tee = InvalidQuoteFormat (''Unsupported TEE type: '' @ tee_debug tee)"

definition extract_instance_id :: "'j crates \<Rightarrow> tee \<Rightarrow> 'j \<Rightarrow> (InstanceId, VerificationError) outcome" where
  "extract_instance_id x tee evidence =
     (case tee of
        Tdx \<Rightarrow> and_then (tdx_from_json x evidence) (\<lambda>q. Ok (tdx_instance_id q))
      | Snp \<Rightarrow> and_then (snp_from_json x evidence) (\<lambda>r. Ok (snp_instance_id r))
      | OtherTee _ \<Rightarrow> Err (unsupported_tee tee))"

section \<open>Phase 1\<close>

definition phase1_attest ::
  "'j crates \<Rightarrow> tee \<Rightarrow> 'j \<Rightarrow> (InstanceId \<times> string, VerificationError) outcome" where
  "phase1_attest x tee evidence_json =
     (case tee of
        Tdx \<Rightarrow>
          and_then (tdx_from_json x evidence_json) (\<lambda>quote.
            if is_zero (tdx_instance_id quote) then Err IdentityRequired
            else and_then (tdx_verify_signature x quote) (\<lambda>v.
                   Ok (tdx_instance_id (vt_quote v), tdx_measurement_hash x (vt_quote v))))
      | Snp \<Rightarrow>
          and_then (snp_from_json x evidence_json) (\<lambda>report.
            and_then (snp_verify_signature x report) (\<lambda>v.
              Ok (snp_instance_id (vn_report v), snp_measurement_hash x (vn_report v))))
      | OtherTee _ \<Rightarrow> Err (unsupported_tee tee))"

definition check_whitelist ::
  "'j http_send \<Rightarrow> MeasurementRegistryClient \<Rightarrow> string \<Rightarrow> string \<Rightarrow> (unit, VerificationError) outcome" where
  "check_whitelist send client namespace measurement_hash =
     and_then (map_err (\<lambda>e. ConnectionFailed (''Registry query failed: '' @ show_registry_error e))
                 (verify_measurement send client namespace measurement_hash))
       (\<lambda>is_trusted.
         if \<not> is_trusted
         then and_then (str_prefix_upto 16 measurement_hash) (\<lambda>p.
                Err (MeasurementNotTrusted (''Measurement '' @ quoted (p @ ''...'') @
                  '' not found in namespace '' @ quoted namespace)))
         else Ok ())"

definition phase1_checks ::
  "'j crates \<Rightarrow> 'j http_send \<Rightarrow> MeasurementRegistryClient \<Rightarrow> string \<Rightarrow> string \<Rightarrow>
   (tee \<times> InstanceId \<times> string, VerificationError) outcome" where
  "phase1_checks x send client namespace evidence =
     and_then (decode_evidence x evidence) (\<lambda>(tee, evidence_json).
       and_then (phase1_attest x tee evidence_json) (\<lambda>(instance_id, measurement_hash).
         and_then (check_whitelist send client namespace measurement_hash) (\<lambda>_.
           Ok (tee, instance_id, measurement_hash))))"

text \<open>\<open>now\<close> and \<open>later\<close> are the readings of the monotonic clock in \<open>PeerRegistry::register\<close>, \<open>utc\<close>
  the wall clock after it.\<close>

definition register_tee ::
  "'j crates \<Rightarrow> 'j http_send \<Rightarrow> MeasurementRegistryClient \<Rightarrow> instant \<Rightarrow> instant \<Rightarrow> utc \<Rightarrow> bytes \<Rightarrow>
   PeerRegistry \<Rightarrow> string \<Rightarrow> string \<Rightarrow>
   (RegistrationResponse, VerificationError) outcome \<times> PeerRegistry" where
  "register_tee x send client now later utc random_challenge reg namespace evidence =
     (case phase1_checks x send client namespace evidence of
        Err e \<Rightarrow> (Err e, reg)
      | Panic m \<Rightarrow> (Panic m, reg)
      | Ok (tee, instance_id, measurement_hash) \<Rightarrow>
          (let (r, reg') = register now later random_challenge reg instance_id namespace
                             measurement_hash tee
           in (and_then (map_err (\<lambda>_. IdentityConflict (instance_to_hex x instance_id)) r)
                 (\<lambda>(challenge, is_new).
                   Ok \<lparr> rr_challenge = hex_encode x challenge,
                        rr_expires_at = word_of_int (utc + 60) \<rparr>),
               reg')))"

section \<open>Phase 2\<close>

definition phase2_attest ::
  "'j crates \<Rightarrow> tee \<Rightarrow> 'j \<Rightarrow> bytes \<Rightarrow>
   (InstanceId \<times> string \<times> string option, VerificationError) outcome" where
  "phase2_attest x tee evidence_json challenge =
     (case tee of
        Tdx \<Rightarrow> attest (tdx_from_json x) (tdx_verify_signature x) (tdx_verify_report_data x)
                 evidence_json challenge
                 (\<lambda>v. (tdx_instance_id (vt_quote v), tdx_measurement_hash x (vt_quote v), vt_tcb_status v))
      | Snp \<Rightarrow> attest (snp_from_json x) (snp_verify_signature x) (snp_verify_report_data x)
                 evidence_json challenge
                 (\<lambda>v. (snp_instance_id (vn_report v), snp_measurement_hash x (vn_report v), vn_tcb_status v))
      | OtherTee _ \<Rightarrow> Err (unsupported_tee tee))"

definition phase2_session ::
  "instant \<Rightarrow> PeerRegistry \<Rightarrow> string \<Rightarrow> InstanceId \<Rightarrow> (bytes, VerificationError) outcome" where
  "phase2_session now reg namespace instance_id =
     and_then (ok_or (get_pending_record reg instance_id) NoPendingChallenge) (\<lambda>pending.
       if tr_namespace pending \<noteq> namespace
       then Err (NonceVerificationFailed (''Namespace mismatch: expected '' @
              quoted (tr_namespace pending) @ '', got '' @ quoted namespace))
       else ok_or (get_valid_challenge now pending) (NonceVerificationFailed ''Challenge expired''))"

definition verify_tee_check ::
  "'j crates \<Rightarrow> instant \<Rightarrow> PeerRegistry \<Rightarrow> string \<Rightarrow> string \<Rightarrow>
   (tee \<times> InstanceId \<times> string \<times> string option, VerificationError) outcome" where
  "verify_tee_check x now reg namespace evidence =
     and_then (decode_evidence x evidence) (\<lambda>(tee, evidence_json).
       and_then (extract_instance_id x tee evidence_json) (\<lambda>instance_id.
         and_then (phase2_session now reg namespace instance_id) (\<lambda>challenge.
           and_then (phase2_attest x tee evidence_json challenge)
             (\<lambda>(verified_instance_id, measurement_hash, tcb_status).
               if verified_instance_id \<noteq> instance_id
               then Err (NonceVerificationFailed ''Instance ID mismatch between phases'')
               else Ok (tee, instance_id, measurement_hash, tcb_status)))))"

definition verify_tee_commit ::
  "utc \<Rightarrow> PeerRegistry \<Rightarrow> tee \<times> InstanceId \<times> string \<times> string option \<Rightarrow>
   (VerificationResponse, VerificationError) outcome \<times> PeerRegistry" where
  "verify_tee_commit utc reg checked =
     (let (tee, instance_id, measurement_hash, tcb_status) = checked;
          state = Verified measurement_hash
                    (case tcb_status of None \<Rightarrow> ''Unknown'' | Some s \<Rightarrow> s) tee utc;
          (r, reg') = complete_verification reg instance_id state
      in (and_then (ok_or r (AttestationFailed ''Failed to complete verification'')) (\<lambda>_.
            Ok \<lparr> vr_verified = True, vr_measurement_hash = Some measurement_hash,
                 vr_tcb_status = tcb_status \<rparr>), reg'))"

definition verify_tee ::
  "'j crates \<Rightarrow> instant \<Rightarrow> utc \<Rightarrow> PeerRegistry \<Rightarrow> string \<Rightarrow> string \<Rightarrow>
   (VerificationResponse, VerificationError) outcome \<times> PeerRegistry" where
  "verify_tee x now utc reg namespace evidence =
     (case verify_tee_check x now reg namespace evidence of
        Err e \<Rightarrow> (Err e, reg)
      | Panic m \<Rightarrow> (Panic m, reg)
      | Ok checked \<Rightarrow> verify_tee_commit utc reg checked)"

section \<open>What the protocol promises\<close>

text \<open>Evidence that a platform's verifier accepts, and the challenge and identity it carries.\<close>

definition genuine_evidence :: "'j crates \<Rightarrow> tee \<Rightarrow> 'j \<Rightarrow> bool" where
  "genuine_evidence x tee e \<longleftrightarrow>
     (case tee of Tdx \<Rightarrow> tdx_genuine x e | Snp \<Rightarrow> snp_genuine x e | OtherTee _ \<Rightarrow> False)"

definition evidence_carries ::
  "'j crates \<Rightarrow> tee \<Rightarrow> 'j \<Rightarrow> InstanceId \<Rightarrow> bytes \<Rightarrow> string \<Rightarrow> bool" where
  "evidence_carries x tee e i c h \<longleftrightarrow>
     (case tee of
        Tdx \<Rightarrow> (case tdx_from_json x e of
                  Ok q \<Rightarrow> tdx_instance_id q = i \<and> tdx_report_data_binding q = c \<and> tdx_measurement_hash x q = h
                | _ \<Rightarrow> False)
      | Snp \<Rightarrow> (case snp_from_json x e of
                  Ok r \<Rightarrow> snp_instance_id r = i \<and> snp_report_data_binding r = c \<and> snp_measurement_hash x r = h
                | _ \<Rightarrow> False)
      | OtherTee _ \<Rightarrow> False)"

definition sample_raw_quote :: bytes where
  "sample_raw_quote = sample_header @ concat (body_fields sample_body) @ []"

text \<open>Crates that decode every evidence string to the sample quote.\<close>

definition sample_node :: "sample_json crates" where
  "sample_node = sample_crates\<lparr> base64_decode := (\<lambda>_. Inr sample_raw_quote) \<rparr>"

definition sample_pending :: "string \<Rightarrow> PeerRegistry" where
  "sample_pending h =
     registry_new\<lparr> pr_pending := [InstanceId (replicate 32 6) \<mapsto>
        new_pending 0 (InstanceId (replicate 32 6)) ''guardian'' (replicate 32 5) h Tdx 60] \<rparr>"

definition trusting_registry :: "sample_json http_send" where
  "trusting_registry url attempt =
     Inr \<lparr> hr_is_success = True, hr_is_not_found = False, hr_is_server_error = False,
           hr_status = 200, hr_body = Inr [], hr_values = Inr [], hr_nodes = Inr [] \<rparr>"

section \<open>Lemmas\<close>

lemma decode_evidence_returns: "no_panic (decode_evidence x e)"
  by (auto simp: decode_evidence_def no_panic_simps)

lemma extract_instance_id_returns: "no_panic (extract_instance_id x tee e)"
  by (auto simp: extract_instance_id_def no_panic_simps tdx_from_json_returns snp_from_json_returns
      split: tee.splits)

lemma phase1_attest_returns: "no_panic (phase1_attest x tee e)"
  by (auto simp: phase1_attest_def no_panic_simps tdx_from_json_returns snp_from_json_returns
      tdx_verify_signature_returns snp_verify_signature_returns split: tee.splits)

lemma phase2_attest_returns: "no_panic (phase2_attest x tee e c)"
  by (auto simp: phase2_attest_def tdx.attest_returns snp.attest_returns split: tee.splits)

lemma phase2_session_returns: "no_panic (phase2_session now reg ns i)"
  by (auto simp: phase2_session_def no_panic_simps)

lemma phase2_session_Ok:
  "phase2_session now reg ns i = Ok c \<longleftrightarrow>
     (\<exists>p. get_pending_record reg i = Some p \<and> tr_namespace p = ns \<and> get_valid_challenge now p = Some c)"
  by (auto simp: phase2_session_def)

lemma phase2_attest_Ok:
  assumes "phase2_attest x tee e c = Ok (i, h, t)"
  shows "genuine_evidence x tee e \<and> evidence_carries x tee e i c h"
proof (cases tee)
  case Tdx
  with assms have "attest (tdx_from_json x) (tdx_verify_signature x) (tdx_verify_report_data x) e c
      (\<lambda>v. (tdx_instance_id (vt_quote v), tdx_measurement_hash x (vt_quote v), vt_tcb_status v)) = Ok (i, h, t)"
    by (simp add: phase2_attest_def)
  then obtain q v where "tdx_from_json x e = Ok q" "tdx_genuine x e" "vt_quote v = q"
    "tdx_report_data_binding q = c" "tdx_verify_signature x q = Ok v"
    "(tdx_instance_id (vt_quote v), tdx_measurement_hash x (vt_quote v), vt_tcb_status v) = (i, h, t)"
    by (rule tdx.attest_Ok)
  with Tdx show ?thesis by (auto simp: genuine_evidence_def evidence_carries_def)
next
  case Snp
  with assms have "attest (snp_from_json x) (snp_verify_signature x) (snp_verify_report_data x) e c
      (\<lambda>v. (snp_instance_id (vn_report v), snp_measurement_hash x (vn_report v), vn_tcb_status v)) = Ok (i, h, t)"
    by (simp add: phase2_attest_def)
  then obtain q v where "snp_from_json x e = Ok q" "snp_genuine x e" "vn_report v = q"
    "snp_report_data_binding q = c" "snp_verify_signature x q = Ok v"
    "(snp_instance_id (vn_report v), snp_measurement_hash x (vn_report v), vn_tcb_status v) = (i, h, t)"
    by (rule snp.attest_Ok)
  with Snp show ?thesis by (auto simp: genuine_evidence_def evidence_carries_def)
qed (use assms in \<open>simp add: phase2_attest_def\<close>)

lemma phase1_attest_Ok:
  assumes "phase1_attest x tee e = Ok (i, h)"
  shows "genuine_evidence x tee e \<and> (\<exists>c. evidence_carries x tee e i c h) \<and> (tee = Tdx \<longrightarrow> \<not> is_zero i)"
proof (cases tee)
  case Tdx
  with assms obtain q v where "tdx_from_json x e = Ok q" "tdx_verify_signature x q = Ok v"
    "\<not> is_zero (tdx_instance_id q)" "i = tdx_instance_id (vt_quote v)" "h = tdx_measurement_hash x (vt_quote v)"
    by (auto simp: phase1_attest_def split: if_splits)
  with tdx.signed_evidence [of x e q v] Tdx show ?thesis
    by (simp add: genuine_evidence_def evidence_carries_def)
next
  case Snp
  with assms obtain q v where "snp_from_json x e = Ok q" "snp_verify_signature x q = Ok v"
    "i = snp_instance_id (vn_report v)" "h = snp_measurement_hash x (vn_report v)"
    by (auto simp: phase1_attest_def split: if_splits)
  with snp.signed_evidence [of x e q v] Snp show ?thesis
    by (simp add: genuine_evidence_def evidence_carries_def)
qed (use assms in \<open>simp add: phase1_attest_def\<close>)

lemma verify_tee_check_Ok:
  assumes "verify_tee_check x now reg ns ev = Ok (tee, i, h, t)"
  obtains e p c where "decode_evidence x ev = Ok (tee, e)" and "genuine_evidence x tee e"
    and "evidence_carries x tee e i c h" and "get_pending_record reg i = Some p"
    and "tr_namespace p = ns" and "get_valid_challenge now p = Some c"
proof -
  from assms obtain e c where "decode_evidence x ev = Ok (tee, e)"
    and "phase2_session now reg ns i = Ok c" and "phase2_attest x tee e c = Ok (i, h, t)"
    by (auto simp: verify_tee_check_def split: if_splits)
  with phase2_attest_Ok [of x tee e c i h t] that show thesis by (auto simp: phase2_session_Ok)
qed

lemma verify_tee_check_returns: "no_panic (verify_tee_check x now reg ns ev)"
  by (auto simp: verify_tee_check_def no_panic_simps decode_evidence_returns
      extract_instance_id_returns phase2_session_returns phase2_attest_returns)

lemma verify_tee_commit_pending:
  assumes "get_pending_record reg i = Some p"
  shows "\<exists>r. verify_tee_commit utc reg (tee, i, h, t) =
      (Ok \<lparr> vr_verified = True, vr_measurement_hash = Some h, vr_tcb_status = t \<rparr>,
       snd (complete_verification reg i (Verified h (case t of None \<Rightarrow> ''Unknown'' | Some s \<Rightarrow> s) tee utc))) \<and>
     get_verified (snd (verify_tee_commit utc reg (tee, i, h, t))) i = Some r \<and>
     tr_namespace r = tr_namespace p \<and>
     tr_state r = Verified h (case t of None \<Rightarrow> ''Unknown'' | Some s \<Rightarrow> s) tee utc"
  using assms
  by (auto simp: verify_tee_commit_def complete_verification_def get_pending_record_def
      get_verified_def send_event_def Let_def)

lemma check_whitelist_Ok:
  "check_whitelist send client ns h = Ok () \<longleftrightarrow> verify_measurement send client ns h = Ok True"
  by (auto simp: check_whitelist_def split: if_splits)

lemma register_outcome:
  obtains "register now later c reg i ns h tee = (Err True, reg)"
  | d new reg' where "register now later c reg i ns h tee = (Ok (d, new), reg')"
proof -
  have "register now later c reg i ns h tee = (Err True, reg) \<or>
      (\<exists>d new reg'. register now later c reg i ns h tee = (Ok (d, new), reg'))"
    by (auto simp: register_def Let_def split: option.splits)
  then show thesis using that by blast
qed

lemma evidence_hash_ascii:
  assumes "hex_two_chars x" and "evidence_carries x tee e i c h"
  shows "\<forall>b \<in> set h. (of_char b :: nat) < 128"
  using assms
  by (auto simp: evidence_carries_def hex_two_chars_def tdx_measurement_hash_def
      snp_measurement_hash_def split: tee.splits outcome.splits)

text \<open>Everything phase 2 asks of TDX evidence.\<close>

lemma verify_tee_tdx_accepts:
  assumes "decode_evidence x ev = Ok (Tdx, e)" and "tdx_from_json x e = Ok q"
    and "tdx_verify_signature x q = Ok v"
    and "get_pending_record reg (tdx_instance_id q) = Some p" and "tr_namespace p = ns"
    and "get_valid_challenge now p = Some (tdx_report_data_binding q)"
  shows "\<exists>reg' r. verify_tee x now utc reg ns ev =
      (Ok \<lparr> vr_verified = True, vr_measurement_hash = Some (tdx_measurement_hash x q),
            vr_tcb_status = vt_tcb_status v \<rparr>, reg') \<and>
     get_verified reg' (tdx_instance_id q) = Some r \<and>
     state_measurement_hash (tr_state r) = Some (tdx_measurement_hash x q)"
proof -
  have "vt_quote v = q" using tdx.signed_evidence [OF assms(2,3)] by simp
  then have "phase2_attest x Tdx e (tdx_report_data_binding q) =
      Ok (tdx_instance_id q, tdx_measurement_hash x q, vt_tcb_status v)"
    using assms(2,3) by (simp add: phase2_attest_def attest_def tdx_verify_report_data_def)
  then have "verify_tee_check x now reg ns ev =
      Ok (Tdx, tdx_instance_id q, tdx_measurement_hash x q, vt_tcb_status v)"
    using assms by (simp add: verify_tee_check_def extract_instance_id_def phase2_session_def
        del: and_then_Ok)
  then show ?thesis
    using verify_tee_commit_pending [OF assms(4), of utc Tdx "tdx_measurement_hash x q" "vt_tcb_status v"]
    by (auto simp: verify_tee_def)
qed

lemma sample_node_quote:
  obtains e q v where "decode_evidence sample_node ev = Ok (Tdx, e)"
    and "tdx_from_json sample_node e = Ok q" and "tdx_verify_signature sample_node q = Ok v"
    and "tdx_instance_id q = InstanceId (replicate 32 6)"
    and "tdx_report_data_binding q = replicate 32 5"
    and "tdx_measurement_hash sample_node q = sample_hex_encode (replicate 32 1)"
proof -
  define e where "e = JObj [(''quote'', JStr (map (\<lambda>b. char_of (unat b)) sample_raw_quote))]"
  obtain q where q: "parse_raw e sample_raw_quote = Ok q"
    "tq_rtmrs q = [tb_rtmr_0 sample_body, tb_rtmr_1 sample_body, tb_rtmr_2 sample_body, tb_rtmr_3 sample_body]"
    "tq_report_data q = tb_report_data sample_body"
    unfolding sample_raw_quote_def by (rule parse_framed_body [OF sample_body_wf sample_header_ok])
  have "decode_evidence sample_node ev = Ok (Tdx, e)"
    by (simp add: decode_evidence_def sample_node_def sample_crates_def detect_tee_type_def e_def)
  moreover have "tdx_from_json sample_node e = Ok q"
    using q(1) by (simp add: tdx_from_json_Ok sample_node_def sample_crates_def e_def)
  moreover have "\<exists>v. tdx_verify_signature sample_node q = Ok v"
    by (simp add: tdx_verify_signature_Ok sample_node_def sample_crates_def)
  ultimately show thesis
    using that q(2,3)
    by (auto simp: tdx_instance_id_def tdx_report_data_binding_def tdx_measurement_hash_def
        sample_body_def subslice_def sample_node_def sample_crates_def)
qed

lemma sample_verify_tee:
  obtains resp reg' where
    "verify_tee sample_node 10 100 (sample_pending h) ''guardian'' ev = (Ok resp, reg')"
proof -
  obtain e q v where s: "decode_evidence sample_node ev = Ok (Tdx, e)"
    "tdx_from_json sample_node e = Ok q" "tdx_verify_signature sample_node q = Ok v"
    "tdx_instance_id q = InstanceId (replicate 32 6)" "tdx_report_data_binding q = replicate 32 5"
    by (rule sample_node_quote)
  show thesis
    using verify_tee_tdx_accepts [OF s(1-3), of "sample_pending h" _ "''guardian''" 10 100] s(4,5) that
    by (fastforce simp: sample_pending_def get_pending_record_def new_pending_def get_valid_challenge_def)
qed

lemma trusting_registry_answer:
  "verify_measurement trusting_registry (client_new u) ns h = Ok True"
  by (simp add: verify_measurement_def request_with_retry_def upt_conv_Cons retry_loop_step
      retryable_def final_answer_def trusting_registry_def del: upt_Suc)

lemma sample_register_tee:
  obtains resp reg' where
    "register_tee sample_node trusting_registry (client_new ''u'') 3 4 100 (replicate 32 9) registry_new
       ''guardian'' ev = (Ok resp, reg')"
proof -
  obtain e q v where s: "decode_evidence sample_node ev = Ok (Tdx, e)"
    "tdx_from_json sample_node e = Ok q" "tdx_verify_signature sample_node q = Ok v"
    "tdx_instance_id q = InstanceId (replicate 32 6)"
    by (rule sample_node_quote)
  have "vt_quote v = q" using tdx.signed_evidence [OF s(2,3)] by simp
  then have "phase1_checks sample_node trusting_registry (client_new ''u'') ''guardian'' ev =
      Ok (Tdx, tdx_instance_id q, tdx_measurement_hash sample_node q)"
    using s by (simp add: phase1_checks_def phase1_attest_def is_zero_def replicate_eq_replicate
        check_whitelist_def trusting_registry_answer del: and_then_Ok)
  then show thesis
    using that by (fastforce simp: register_tee_def register_def registry_new_def
        registry_with_config_def Let_def)
qed

section \<open>Properties\<close>

text \<open>C1: When phase 2 accepts a request, the evidence decodes to evidence that the platform's
  verifier accepted; it carries the identity of a session that was pending in the request's
  namespace, and the unexpired challenge of that session in the first half of its report data. The
  session is consumed and the instance filed as verified with the evidence's measurement hash.\<close>

theorem verify_tee_sound:
  assumes "verify_tee x now utc reg ns ev = (Ok resp, reg')"
  shows "\<exists>tee e i c h p r. decode_evidence x ev = Ok (tee, e) \<and> genuine_evidence x tee e \<and>
     evidence_carries x tee e i c h \<and>
     get_pending_record reg i = Some p \<and> tr_namespace p = ns \<and> get_valid_challenge now p = Some c \<and>
     vr_verified resp \<and> vr_measurement_hash resp = Some h \<and>
     get_pending_record reg' i = None \<and> get_verified reg' i = Some r \<and>
     tr_namespace r = ns \<and> state_measurement_hash (tr_state r) = Some h"
proof -
  from assms obtain tee i h t where ok: "verify_tee_check x now reg ns ev = Ok (tee, i, h, t)"
    and commit: "verify_tee_commit utc reg (tee, i, h, t) = (Ok resp, reg')"
    by (auto simp: verify_tee_def split: outcome.splits)
  from verify_tee_check_Ok [OF ok] obtain e p c where
    e: "decode_evidence x ev = Ok (tee, e)" "genuine_evidence x tee e" "evidence_carries x tee e i c h"
    and p: "get_pending_record reg i = Some p" "tr_namespace p = ns" "get_valid_challenge now p = Some c" .
  from verify_tee_commit_pending [OF p(1), of utc tee h t] commit obtain r where
    "vr_verified resp" "vr_measurement_hash resp = Some h" "get_verified reg' i = Some r"
    "tr_namespace r = ns" "state_measurement_hash (tr_state r) = Some h"
    "reg' = snd (complete_verification reg i (Verified h (case t of None \<Rightarrow> ''Unknown'' | Some s \<Rightarrow> s) tee utc))"
    using p(2) by auto
  moreover from this(6) have "get_pending_record reg' i = None"
    using sessions.complete_clears by (simp add: get_pending_record_def)
  ultimately show ?thesis using e p by blast
qed

theorem verify_tee_sound_witness:
  "\<exists>tee e i. decode_evidence sample_node ''ev'' = Ok (tee, e) \<and> genuine_evidence sample_node tee e \<and>
     get_pending_record (sample_pending ''ab'') i \<noteq> None \<and>
     get_verified (snd (verify_tee sample_node 10 100 (sample_pending ''ab'') ''guardian'' ''ev'')) i \<noteq> None"
proof -
  obtain resp reg' where
    v: "verify_tee sample_node 10 100 (sample_pending ''ab'') ''guardian'' ''ev'' = (Ok resp, reg')"
    by (rule sample_verify_tee)
  from verify_tee_sound [OF this] show ?thesis by (auto simp: v)
qed

text \<open>C4: An accepted phase 2 request cannot be replayed: the same evidence, sent again at any time
  and for any namespace, is answered with \<open>NoPendingChallenge\<close> and changes nothing.\<close>

theorem verify_tee_no_replay:
  assumes "verify_tee x now utc reg ns ev = (Ok resp, reg')"
  shows "verify_tee x now' utc' reg' ns' ev = (Err NoPendingChallenge, reg')"
proof -
  from assms obtain tee i h t where ok: "verify_tee_check x now reg ns ev = Ok (tee, i, h, t)"
    and commit: "verify_tee_commit utc reg (tee, i, h, t) = (Ok resp, reg')"
    by (auto simp: verify_tee_def split: outcome.splits)
  from commit have "get_pending_record reg' i = None"
    using sessions.complete_clears [of reg i]
    by (auto simp: verify_tee_commit_def get_pending_record_def Let_def split: prod.splits)
       (metis snd_conv)
  then have "phase2_session now' reg' ns' i = Err NoPendingChallenge"
    by (simp add: phase2_session_def)
  with ok have "verify_tee_check x now' reg' ns' ev = Err NoPendingChallenge"
    by (auto simp: verify_tee_check_def split: if_splits)
  then show ?thesis by (simp add: verify_tee_def)
qed

theorem verify_tee_no_replay_witness:
  "let reg' = snd (verify_tee sample_node 10 100 (sample_pending ''ab'') ''guardian'' ''ev'')
   in verify_tee sample_node 11 101 reg' ''guardian'' ''ev'' = (Err NoPendingChallenge, reg')"
proof -
  obtain resp reg' where
    v: "verify_tee sample_node 10 100 (sample_pending ''ab'') ''guardian'' ''ev'' = (Ok resp, reg')"
    by (rule sample_verify_tee)
  from verify_tee_no_replay [OF this, of 11 101 "''guardian''"] show ?thesis by (simp add: v)
qed

text \<open>C36: No phase 2 request, whatever its bytes, makes the handler panic, and a request that is
  not accepted leaves the registry as it was. In particular the final \<open>complete_verification\<close> does
  not fail when no other request runs in between.\<close>

theorem verify_tee_total:
  "no_panic (fst (verify_tee x now utc reg ns ev)) \<and>
   (is_ok (fst (verify_tee x now utc reg ns ev)) \<or> snd (verify_tee x now utc reg ns ev) = reg) \<and>
   is_ok (fst (verify_tee x now utc reg ns ev)) = is_ok (verify_tee_check x now reg ns ev)"
proof (cases "verify_tee_check x now reg ns ev")
  case (Ok checked)
  obtain tee i h t where c: "checked = (tee, i, h, t)" by (cases checked)
  with Ok obtain p where "get_pending_record reg i = Some p"
    using verify_tee_check_Ok by metis
  from verify_tee_commit_pending [OF this, of utc tee h t] show ?thesis
    using Ok c by (auto simp: verify_tee_def)
qed (use verify_tee_check_returns [of x now reg ns ev] in \<open>auto simp: verify_tee_def\<close>)

text \<open>C2: When phase 1 issues a challenge, the evidence was accepted by the platform's verifier,
  the measurement registry answered success for its hash in the request's namespace, a TDX
  instance has a non-zero identity, and the challenge returned is that of a pending session of
  the instance that was valid at the time of the request.\<close>

theorem register_tee_sound:
  assumes "register_tee x send client now later utc rnd reg ns ev = (Ok resp, reg')"
  shows "\<exists>tee e i c h b. decode_evidence x ev = Ok (tee, e) \<and> genuine_evidence x tee e \<and>
     evidence_carries x tee e i b h \<and> (tee = Tdx \<longrightarrow> \<not> is_zero i) \<and>
     verify_measurement send client ns h = Ok True \<and>
     \<not> is_verified reg i \<and> rr_challenge resp = hex_encode x c \<and>
     (get_pending_challenge now reg i = Some c \<and> reg' = reg \<or>
      c = rnd \<and> get_pending_record reg' i =
        Some (new_pending later i ns rnd h tee (pr_challenge_expiry reg)))"
proof -
  from assms obtain tee i h where ok: "phase1_checks x send client ns ev = Ok (tee, i, h)"
    by (auto simp: register_tee_def split: outcome.splits)
  then obtain e where e: "decode_evidence x ev = Ok (tee, e)" "phase1_attest x tee e = Ok (i, h)"
    "verify_measurement send client ns h = Ok True"
    by (auto simp: phase1_checks_def check_whitelist_Ok)
  from assms ok obtain c where "\<not> is_verified reg i" "rr_challenge resp = hex_encode x c"
    "get_pending_challenge now reg i = Some c \<and> reg' = reg \<or>
      c = rnd \<and> get_pending_record reg' i = Some (new_pending later i ns rnd h tee (pr_challenge_expiry reg))"
    by (auto simp: register_tee_def register_def is_verified_def get_pending_challenge_def
        get_pending_record_def send_event_def Let_def split: if_splits option.splits)
  then show ?thesis using e phase1_attest_Ok [OF e(2)] by blast
qed

theorem register_tee_sound_witness:
  "\<exists>resp reg' i c. register_tee sample_node trusting_registry (client_new ''u'') 3 4 100
        (replicate 32 9) registry_new ''guardian'' ''ev'' = (Ok resp, reg') \<and>
     rr_challenge resp = hex_encode sample_node c \<and> \<not> is_zero i \<and> \<not> is_verified registry_new i"
proof -
  obtain resp reg' where
    v: "register_tee sample_node trusting_registry (client_new ''u'') 3 4 100 (replicate 32 9) registry_new
       ''guardian'' ''ev'' = (Ok resp, reg')" by (rule sample_register_tee)
  obtain e q v' where "decode_evidence sample_node ''ev'' = Ok (Tdx, e)" by (rule sample_node_quote)
  with register_tee_sound [OF v] obtain i c where "\<not> is_zero i" "\<not> is_verified registry_new i"
    "rr_challenge resp = hex_encode sample_node c" by auto
  with v show ?thesis by blast
qed

text \<open>No phase 1 request makes the handler panic, provided hexadecimal text is ASCII (the
  handler slices the hash for its error message), and a rejected request leaves the registry as it
  was.\<close>

theorem register_tee_total:
  assumes "hex_two_chars x"
  shows "no_panic (fst (register_tee x send client now later utc rnd reg ns ev)) \<and>
    (is_ok (fst (register_tee x send client now later utc rnd reg ns ev)) \<or>
     snd (register_tee x send client now later utc rnd reg ns ev) = reg)"
proof -
  let ?run = "register_tee x send client now later utc rnd reg ns ev"
  have "no_panic (check_whitelist send client ns h)" if at: "phase1_attest x tee e = Ok (i, h)" for tee e i h
  proof -
    obtain c where "evidence_carries x tee e i c h" using phase1_attest_Ok [OF at] by blast
    then have "\<forall>b \<in> set h. (of_char b :: nat) < 128" by (rule evidence_hash_ascii [OF assms])
    then show ?thesis
      using verify_measurement_returns
      by (auto simp: check_whitelist_def no_panic_simps str_prefix_upto_ascii)
  qed
  then have checks: "no_panic (phase1_checks x send client ns ev)"
    by (auto simp: phase1_checks_def no_panic_simps decode_evidence_returns phase1_attest_returns)
  show "no_panic (fst ?run) \<and> (is_ok (fst ?run) \<or> snd ?run = reg)"
  proof (cases "phase1_checks x send client ns ev")
    case (Ok a)
    obtain tee i h where a: "a = (tee, i, h)" by (cases a)
    show ?thesis
      by (rule register_outcome [of now later rnd reg i ns h tee])
         (simp_all add: register_tee_def Ok a)
  qed (use checks in \<open>simp_all add: register_tee_def\<close>)
qed

theorem register_tee_total_witness:
  "no_panic (fst (register_tee sample_crates trusting_registry (client_new ''u'') 3 4 100 (replicate 32 9)
     registry_new ''guardian'' ''garbage''))"
  by (rule register_tee_total [OF sample_hex_two_chars, THEN conjunct1])

text \<open>C19: Phase 2 does not compare the measurement with the one that phase 1 checked against the
  whitelist. Any signed TDX quote with the identity and the challenge of a pending session is
  accepted, and the instance is filed as verified with the new quote's hash, whatever hash the
  session was registered with.\<close>

theorem phase2_hash_unchecked:
  assumes "decode_evidence x ev = Ok (Tdx, e)" and "tdx_from_json x e = Ok q"
    and "tdx_verify_signature x q = Ok v"
    and "get_pending_record reg (tdx_instance_id q) = Some p" and "tr_namespace p = ns"
    and "tr_state p = PendingChallenge (tdx_report_data_binding q) issued expires whitelisted_hash tee"
    and "now \<le> expires"
  shows "\<exists>reg' resp r. verify_tee x now utc reg ns ev = (Ok resp, reg') \<and>
     get_verified reg' (tdx_instance_id q) = Some r \<and>
     state_measurement_hash (tr_state r) = Some (tdx_measurement_hash x q)"
  using verify_tee_tdx_accepts [OF assms(1-5), of now utc] assms(6,7)
  by (auto simp: get_valid_challenge_def)

theorem phase2_hash_unchecked_witness:
  "\<exists>reg' resp r. verify_tee sample_node 10 100 (sample_pending ''whitelisted'') ''guardian'' ''ev'' = (Ok resp, reg') \<and>
     get_verified reg' (InstanceId (replicate 32 6)) = Some r \<and>
     state_measurement_hash (tr_state r) \<noteq> Some ''whitelisted''"
proof -
  obtain e q v where s: "decode_evidence sample_node ''ev'' = Ok (Tdx, e)"
    "tdx_from_json sample_node e = Ok q" "tdx_verify_signature sample_node q = Ok v"
    "tdx_instance_id q = InstanceId (replicate 32 6)" "tdx_report_data_binding q = replicate 32 5"
    "tdx_measurement_hash sample_node q = sample_hex_encode (replicate 32 1)"
    by (rule sample_node_quote)
  have "length (sample_hex_encode (replicate 32 1)) = 64"
    using sample_hex_two_chars by (simp add: hex_two_chars_def sample_crates_def)
  then have "sample_hex_encode (replicate 32 1) \<noteq> ''whitelisted''" by auto
  moreover have "get_pending_record (sample_pending ''whitelisted'') (tdx_instance_id q) =
      Some (new_pending 0 (InstanceId (replicate 32 6)) ''guardian'' (replicate 32 5) ''whitelisted'' Tdx 60)"
    by (simp add: s(4) sample_pending_def get_pending_record_def)
  from phase2_hash_unchecked [OF s(1-3) this, of "''guardian''" 0 60 "''whitelisted''" Tdx 10 100]
  have "\<exists>reg' resp r. verify_tee sample_node 10 100 (sample_pending ''whitelisted'') ''guardian'' ''ev'' = (Ok resp, reg') \<and>
     get_verified reg' (tdx_instance_id q) = Some r \<and>
     state_measurement_hash (tr_state r) = Some (tdx_measurement_hash sample_node q)"
    by (simp add: s(5) new_pending_def)
  ultimately show ?thesis unfolding s(4,6) by force
qed

end
