(* ===== verification/Api_Error.thy ===== *)
theory Api_Error
  imports Externals
begin

text \<open>
  The errors of the HTTP APIs and the responses they become, \<open>common/src/api/error.rs\<close>. The clock is
  an argument of what reads it.
\<close>

section \<open>Errors and responses\<close>

datatype ApiError =
    BadRequest string
  | Internal string
  | ServiceUnavailable string
  | Bootstrapping_Error
  | NotFound string
  | Forbidden string

text \<open>The argument is the time since the Unix epoch in nanoseconds, if the clock is past it.\<close>

definition generate_error_id :: "nat option \<Rightarrow> string" where
  "generate_error_id since_epoch =
     (let timestamp = (case since_epoch of Some d \<Rightarrow> d | None \<Rightarrow> 0)
      in pad_left 8 (CHR ''0'') (show_hex (timestamp mod 2 ^ 32)))"

fun api_status_code :: "ApiError \<Rightarrow> 16 word" where
  "api_status_code (BadRequest m) = 400"
| "api_status_code (Forbidden m) = 403"
| "api_status_code (NotFound m) = 404"
| "api_status_code (Internal m) = 500"
| "api_status_code (ServiceUnavailable m) = 503"
| "api_status_code Bootstrapping_Error = 503"

fun client_message :: "nat option \<Rightarrow> ApiError \<Rightarrow> string" where
  "client_message t (BadRequest m) = m"
| "client_message t (NotFound m) = m"
| "client_message t (ServiceUnavailable m) = m"
| "client_message t (Forbidden m) = m"
| "client_message t Bootstrapping_Error = ''Node is bootstrapping''"
| "client_message t (Internal m) =
     ''Internal server error (error_id: '' @ generate_error_id t @ '')''"

fun show_api_error :: "ApiError \<Rightarrow> string" where
  "show_api_error (BadRequest m) = ''Bad request: '' @ m"
| "show_api_error (Forbidden m) = ''Forbidden: '' @ m"
| "show_api_error (NotFound m) = ''Not found: '' @ m"
| "show_api_error (Internal m) = ''Internal error: '' @ m"
| "show_api_error (ServiceUnavailable m) = ''Service unavailable: '' @ m"
| "show_api_error Bootstrapping_Error = ''Node is bootstrapping''"

record ErrorResponse =
  er_error :: string

definition error_response_new :: "string \<Rightarrow> ErrorResponse" where
  "error_response_new message = \<lparr> er_error = message \<rparr>"

definition into_response :: "nat option \<Rightarrow> ApiError \<Rightarrow> 16 word \<times> ErrorResponse" where
  "into_response t e =
     (let code = api_status_code e;
          status = (if code = 400 then 400 else if code = 403 then 403 else if code = 404 then 404
                    else if code = 503 then 503 else 500)
      in (status, error_response_new (client_message t e)))"

section \<open>Lemmas\<close>

lemma show_hex_shape: "n < 16 ^ Suc k \<Longrightarrow> length (show_hex n) \<le> Suc k \<and> list_all hex_digit (show_hex n)"
proof (induction k arbitrary: n)
  case 0
  then show ?case by (subst (1 2) show_hex.simps) (simp add: hex_digit_digit_char)
next
  case (Suc k)
  show ?case
  proof (cases "n < 16")
    case True
    then show ?thesis by (subst (1 2) show_hex.simps) (simp add: hex_digit_digit_char)
  next
    case False
    have "n div 16 < 16 ^ Suc k" using Suc.prems by (simp add: less_mult_imp_div_less mult.commute)
    from Suc.IH [OF this] False show ?thesis
      by (subst (1 2) show_hex.simps) (simp add: hex_digit_digit_char)
  qed
qed

lemma generate_error_id_shape:
  "length (generate_error_id t) = 8 \<and> list_all hex_digit (generate_error_id t)"
proof -
  define n where "n = (case t of Some d \<Rightarrow> d | None \<Rightarrow> 0) mod 2 ^ 32"
  have "n < 16 ^ Suc 7" by (simp add: n_def)
  from show_hex_shape [OF this] have "length (show_hex n) \<le> 8" "list_all hex_digit (show_hex n)" by auto
  moreover have "generate_error_id t = pad_left 8 (CHR ''0'') (show_hex n)"
    by (simp add: generate_error_id_def n_def)
  ultimately show ?thesis by (auto simp: pad_left_def list_all_iff hex_digit_def)
qed

section \<open>Properties\<close>

text \<open>A client learns nothing of an internal error: the response has status 500 and a body that
  depends on the clock alone, a fixed text around eight lower-case hexadecimal digits.\<close>

theorem internal_error_sanitised:
  "\<exists>error_id. length error_id = 8 \<and> list_all hex_digit error_id \<and>
     (\<forall>m. into_response t (Internal m) =
        (500, \<lparr> er_error = ''Internal server error (error_id: '' @ error_id @ '')'' \<rparr>))"
  using generate_error_id_shape [of t]
  by (intro exI [of _ "generate_error_id t"]) (simp add: into_response_def error_response_new_def)

end
