(* ===== verification/Trusted_Peers.thy ===== *)
theory Trusted_Peers
  imports Node_Types
begin

text \<open>
  The registry of trusted peers, \<open>bootstrap/src/trusted_peers.rs\<close>, the process-wide singleton that
  gates inter-node traffic. The singleton cell is an option (\<open>None\<close> before \<open>init\<close>); the ordered
  map is a finite map, and its key order is the order of node identities. The locale \<open>trust_store\<close>
  is what the router, the coordinator and the event handler rely on.
\<close>

section \<open>Socket addresses\<close>

text \<open>The program only displays IPv6 addresses, so one is represented by its text.\<close>

datatype ip_addr = V4 ipv4 | V6 string

datatype socket_addr = SocketAddr (sa_ip: ip_addr) (sa_port: "16 word")

fun show_socket_addr :: "socket_addr \<Rightarrow> string" where
  "show_socket_addr (SocketAddr (V4 ip) port) = show_ipv4 ip @ '':'' @ show_nat (unat port)"
| "show_socket_addr (SocketAddr (V6 text) port) = ''['' @ text @ '']:'' @ show_nat (unat port)"

section \<open>The registry\<close>

record PeerInfo =
  pi_raft_addr :: socket_addr
  pi_api_addr :: socket_addr

type_synonym trusted_nodes = "(NodeId, PeerInfo) hash_map"

type_synonym trusted_cell = "trusted_nodes option"

definition trusted_init :: "trusted_cell \<Rightarrow> (trusted_cell, unit) outcome" where
  "trusted_init cell =
     (case cell of
        None \<Rightarrow> Ok (Some Map.empty)
      | Some _ \<Rightarrow> Panic ''BUG: TrustedPeerRegistry::init() called more than once!'')"

definition trusted_get :: "trusted_cell \<Rightarrow> (trusted_nodes, unit) outcome" where
  "trusted_get cell =
     (case cell of
        None \<Rightarrow> Panic ''BUG: TrustedPeerRegistry::get() called before init()!''
      | Some t \<Rightarrow> Ok t)"

definition mark_trusted ::
  "trusted_nodes \<Rightarrow> NodeId \<Rightarrow> socket_addr \<Rightarrow> socket_addr \<Rightarrow> trusted_nodes" where
  "mark_trusted t node_id raft_addr api_addr =
     t(node_id \<mapsto> \<lparr> pi_raft_addr = raft_addr, pi_api_addr = api_addr \<rparr>)"

definition is_trusted :: "trusted_nodes \<Rightarrow> NodeId \<Rightarrow> bool" where
  "is_trusted t node_id \<longleftrightarrow> t node_id \<noteq> None"

definition trusted_count :: "trusted_nodes \<Rightarrow> nat" where
  "trusted_count t = map_len t"

definition get_trusted_nodes :: "trusted_nodes \<Rightarrow> NodeId list" where
  "get_trusted_nodes t = sorted_list_of_set (dom t)"

definition get_raft_addresses :: "trusted_nodes \<Rightarrow> (NodeId, socket_addr) hash_map" where
  "get_raft_addresses t = (\<lambda>n. map_option pi_raft_addr (t n))"

definition get_api_addr :: "trusted_nodes \<Rightarrow> NodeId \<Rightarrow> socket_addr option" where
  "get_api_addr t node_id = map_option pi_api_addr (t node_id)"

definition get_raft_addr :: "trusted_nodes \<Rightarrow> NodeId \<Rightarrow> socket_addr option" where
  "get_raft_addr t node_id = map_option pi_raft_addr (t node_id)"

definition revoke_trust :: "trusted_nodes \<Rightarrow> NodeId \<Rightarrow> trusted_nodes" where
  "revoke_trust t node_id = map_remove node_id t"

definition trusted_clear :: "trusted_nodes \<Rightarrow> trusted_nodes" where
  "trusted_clear t = Map.empty"

section \<open>The contract\<close>

datatype trust_op = Mark NodeId socket_addr socket_addr | Revoke NodeId | Clear

fun apply_op :: "trust_op \<Rightarrow> trusted_nodes \<Rightarrow> trusted_nodes" where
  "apply_op (Mark n r a) t = mark_trusted t n r a"
| "apply_op (Revoke n) t = revoke_trust t n"
| "apply_op Clear t = trusted_clear t"

text \<open>What an operation says of a node, if it concerns the node: the RAFT and API address it is trusted with, or
  that it is not trusted. The latest such operation of a history (newest first) decides.\<close>

fun op_verdict :: "NodeId \<Rightarrow> trust_op \<Rightarrow> (socket_addr \<times> socket_addr) option option" where
  "op_verdict n (Mark m r a) = (if m = n then Some (Some (r, a)) else None)"
| "op_verdict n (Revoke m) = (if m = n then Some None else None)"
| "op_verdict n Clear = Some None"

fun last_verdict :: "NodeId \<Rightarrow> trust_op list \<Rightarrow> (socket_addr \<times> socket_addr) option" where
  "last_verdict n [] = None"
| "last_verdict n (newest # older) =
     (case op_verdict n newest of Some v \<Rightarrow> v | None \<Rightarrow> last_verdict n older)"

locale trust_store =
  fixes trusts :: "'s \<Rightarrow> NodeId \<Rightarrow> bool"
    and mark :: "'s \<Rightarrow> NodeId \<Rightarrow> socket_addr \<Rightarrow> socket_addr \<Rightarrow> 's"
    and withdraw :: "'s \<Rightarrow> NodeId \<Rightarrow> 's"
    and reset :: "'s \<Rightarrow> 's"
  assumes trusts_mark: "trusts (mark s n r a) m \<longleftrightarrow> m = n \<or> trusts s m"
    and trusts_withdraw: "trusts (withdraw s n) m \<longleftrightarrow> m \<noteq> n \<and> trusts s m"
    and trusts_reset: "\<not> trusts (reset s) m"
begin

lemma withdraw_blocks: "\<not> trusts (withdraw s n) n"
  by (simp add: trusts_withdraw)

lemma mark_after_withdraw: "trusts (mark (withdraw s n) n r a) m \<longleftrightarrow> m = n \<or> trusts s m"
  by (auto simp: trusts_mark trusts_withdraw)

end

section \<open>Lemmas\<close>

interpretation peers: trust_store is_trusted mark_trusted revoke_trust trusted_clear
  by unfold_locales
     (auto simp: is_trusted_def mark_trusted_def revoke_trust_def trusted_clear_def)

lemma mark_trusted_addrs [simp]:
  "get_raft_addr (mark_trusted t n r a) n = Some r"
  "get_api_addr (mark_trusted t n r a) n = Some a"
  by (simp_all add: get_raft_addr_def get_api_addr_def mark_trusted_def)

lemma lookup_apply_op:
  "apply_op p t n = (case op_verdict n p of
     Some v \<Rightarrow> map_option (\<lambda>(r, a). \<lparr> pi_raft_addr = r, pi_api_addr = a \<rparr>) v
   | None \<Rightarrow> t n)"
  by (cases p) (auto simp: mark_trusted_def revoke_trust_def trusted_clear_def)

lemma finite_apply_op: "finite (dom t) \<Longrightarrow> finite (dom (apply_op p t))"
  by (cases p) (simp_all add: mark_trusted_def revoke_trust_def trusted_clear_def)

lemma finite_history: "finite (dom (fold apply_op ops Map.empty))"
proof -
  have "finite (dom t) \<Longrightarrow> finite (dom (fold apply_op ops t))" for t
    by (induction ops arbitrary: t) (auto intro: finite_apply_op)
  then show ?thesis by simp
qed

lemma set_get_trusted_nodes: "finite (dom t) \<Longrightarrow> set (get_trusted_nodes t) = {n. is_trusted t n}"
  by (auto simp: get_trusted_nodes_def is_trusted_def)

lemma lookup_history:
  "fold apply_op ops Map.empty n =
     map_option (\<lambda>(r, a). \<lparr> pi_raft_addr = r, pi_api_addr = a \<rparr>) (last_verdict n (rev ops))"
  by (induction ops rule: rev_induct) (auto simp: lookup_apply_op split: option.splits)

lemma addresses_history:
  "get_raft_addr (fold apply_op ops Map.empty) n = map_option fst (last_verdict n (rev ops))"
  "get_api_addr (fold apply_op ops Map.empty) n = map_option snd (last_verdict n (rev ops))"
  by (simp_all add: get_raft_addr_def get_api_addr_def lookup_history option.map_comp comp_def split_beta)

lemma is_trusted_history: "is_trusted (fold apply_op ops Map.empty) n \<longleftrightarrow> last_verdict n (rev ops) \<noteq> None"
  by (simp add: is_trusted_def lookup_history)

section \<open>Properties\<close>

text \<open>C24: After any history of markings, revocations and clears, a node is trusted exactly when
  the latest operation that concerns it marked it, and then its RAFT and its API address are those of this
  marking, in the lookups by identity as in the map of all RAFT addresses; a revocation or a clear takes effect
  at once and for all lookups. The listed identities are the trusted nodes in increasing order
  without repetition, and the count is their number.\<close>

theorem trust_history:
  fixes ops :: "trust_op list"
  defines "t \<equiv> fold apply_op ops Map.empty"
  shows "(is_trusted t n \<longleftrightarrow> last_verdict n (rev ops) \<noteq> None) \<and>
     get_raft_addr t n = map_option fst (last_verdict n (rev ops)) \<and>
     get_api_addr t n = map_option snd (last_verdict n (rev ops)) \<and>
     get_raft_addresses t = (\<lambda>m. map_option fst (last_verdict m (rev ops))) \<and>
     get_trusted_nodes t = sorted_list_of_set {m. last_verdict m (rev ops) \<noteq> None} \<and>
     set (get_trusted_nodes t) = {m. last_verdict m (rev ops) \<noteq> None} \<and>
     trusted_count t = card {m. last_verdict m (rev ops) \<noteq> None}"
proof -
  have dom: "dom t = {m. last_verdict m (rev ops) \<noteq> None}" by (auto simp: t_def lookup_history)
  have fin: "finite (dom t)" unfolding t_def by (rule finite_history)
  have "get_raft_addresses t = get_raft_addr t"
    by (rule ext) (simp add: get_raft_addresses_def get_raft_addr_def)
  then show ?thesis
    using addresses_history [of ops] is_trusted_history [of ops] fin dom
    by (auto simp: t_def get_trusted_nodes_def trusted_count_def map_len_def)
qed

end
