(* ===== verification/Attestation.thy ===== *)
theory Attestation
  imports Verifier Trusted_Peers
begin

text \<open>
  The attestation API and its event handler, \<open>bootstrap/src/attestation.rs\<close>. The handler task reads
  registry events and maintains the trusted peers; its loop is a recursion over the messages it
  receives from the broadcast channel (an event, a lag notice, or the closing of the channel), and
  a panic ends the task. The properties say what one event does, and what becomes of the handler
  on the events that the session registry can actually send.
\<close>

section \<open>API state and requests\<close>

record AttestationApiState =
  as_peer_registry :: PeerRegistry
  as_measurement_client :: MeasurementRegistryClient

definition attestation_api_new :: "string \<Rightarrow> AttestationApiState" where
  "attestation_api_new registry_url =
     \<lparr> as_peer_registry = registry_new, as_measurement_client = client_new registry_url \<rparr>"

definition handle_register ::
  "'j crates \<Rightarrow> 'j http_send \<Rightarrow> instant \<Rightarrow> instant \<Rightarrow> utc \<Rightarrow> bytes \<Rightarrow> AttestationApiState \<Rightarrow> string \<Rightarrow>
   string \<Rightarrow> (RegistrationResponse, VerificationError) outcome \<times> AttestationApiState" where
  "handle_register x send now later utc rnd state namespace evidence =
     (let (r, reg) = register_tee x send (as_measurement_client state) now later utc rnd
                       (as_peer_registry state) namespace evidence
      in (r, state\<lparr> as_peer_registry := reg \<rparr>))"

definition handle_verify ::
  "'j crates \<Rightarrow> instant \<Rightarrow> utc \<Rightarrow> AttestationApiState \<Rightarrow> string \<Rightarrow> string \<Rightarrow>
   (VerificationResponse, VerificationError) outcome \<times> AttestationApiState" where
  "handle_verify x now utc state namespace evidence =
     (let (r, reg) = verify_tee x now utc (as_peer_registry state) namespace evidence
      in (r, state\<lparr> as_peer_registry := reg \<rparr>))"

section \<open>The event handler\<close>

definition CONSENSUS_API_PORT :: "16 word" where
  "CONSENSUS_API_PORT = 8444"

definition CLEANUP_INTERVAL_SECS :: nat where
  "CLEANUP_INTERVAL_SECS = 30"

definition handle_event :: "trusted_cell \<Rightarrow> PeerRegistryEvent \<Rightarrow> (trusted_cell, unit) outcome" where
  "handle_event cell event =
     (case event of
        EvVerified namespace instance_id record \<Rightarrow>
          (case tr_ip_address record of
             None \<Rightarrow> Panic ''BUG: verified TEE record must have ip_address''
           | Some ip \<Rightarrow>
               (case tr_api_port record of
                  None \<Rightarrow> Panic ''BUG: verified TEE record must have api_port''
                | Some api_port \<Rightarrow>
                    and_then (trusted_get cell) (\<lambda>t.
                      Ok (Some (mark_trusted t (ip_to_node_id ip)
                            (SocketAddr (V4 ip) CONSENSUS_API_PORT) (SocketAddr (V4 ip) api_port))))))
      | EvRevoked namespace instance_id reason record \<Rightarrow>
          (case tr_ip_address record of
             None \<Rightarrow> Panic ''BUG: revoked TEE record must have ip_address''
           | Some ip \<Rightarrow>
               and_then (trusted_get cell) (\<lambda>t. Ok (Some (revoke_trust t (ip_to_node_id ip)))))
      | EvRegistered namespace instance_id challenge measurement_hash \<Rightarrow> Ok cell
      | EvRejected namespace instance_id reason \<Rightarrow> Ok cell)"

datatype received = Received PeerRegistryEvent | Lagged nat | Closed

fun run_handler :: "string \<Rightarrow> trusted_cell \<Rightarrow> received list \<Rightarrow> (trusted_cell, unit) outcome" where
  "run_handler namespace cell [] = Ok cell"
| "run_handler namespace cell (Received event # rest) =
     (if event_namespace event \<noteq> namespace then run_handler namespace cell rest
      else and_then (handle_event cell event) (\<lambda>cell'. run_handler namespace cell' rest))"
| "run_handler namespace cell (Lagged n # rest) = run_handler namespace cell rest"
| "run_handler namespace cell (Closed # rest) =
     Panic (''BUG: PeerRegistry event channel closed for namespace '' @ quoted namespace)"

text \<open>The periodic cleanup task, one cleanup per clock reading.\<close>

fun cleanup_task :: "instant list \<Rightarrow> PeerRegistry \<Rightarrow> PeerRegistry" where
  "cleanup_task [] reg = reg"
| "cleanup_task (now # ticks) reg = cleanup_task ticks (snd (cleanup_expired now reg))"

section \<open>Events the registry sends\<close>

fun event_record :: "PeerRegistryEvent \<Rightarrow> TeeRecord option" where
  "event_record (EvVerified ns i r) = Some r"
| "event_record (EvRevoked ns i why r) = Some r"
| "event_record (EvRegistered ns i c h) = None"
| "event_record (EvRejected ns i why) = None"

definition log_unaddressed :: "PeerRegistry \<Rightarrow> bool" where
  "log_unaddressed reg \<longleftrightarrow> registry_inv reg \<and>
     (\<forall>e \<in> set (pr_events reg). \<forall>r. event_record e = Some r \<longrightarrow> tr_ip_address r = None)"

text \<open>Some message is an event of the namespace that carries a record.\<close>

fun decisive :: "string \<Rightarrow> received list \<Rightarrow> bool" where
  "decisive ns [] = False"
| "decisive ns (Received e # rest) =
     (event_namespace e = ns \<and> event_record e \<noteq> None \<or> decisive ns rest)"
| "decisive ns (Lagged n # rest) = decisive ns rest"
| "decisive ns (Closed # rest) = decisive ns rest"

section \<open>Lemmas\<close>

lemma register_is_step: "registry_step\<^sup>*\<^sup>* reg (snd (register_tee x send c now later utc rnd reg ns ev))"
proof (cases "phase1_checks x send c ns ev")
  case (Ok a)
  obtain tee i h where a: "a = (tee, i, h)" by (cases a)
  show ?thesis
    using registry_step.Register [of reg now later rnd i ns h tee]
    by (auto simp: register_tee_def Ok a split_beta)
qed (simp_all add: register_tee_def)

lemma verify_is_step: "registry_step\<^sup>*\<^sup>* reg (snd (verify_tee x now utc reg ns ev))"
proof (cases "verify_tee_check x now reg ns ev")
  case (Ok a)
  obtain tee i h t where a: "a = (tee, i, h, t)" by (cases a)
  show ?thesis
    using registry_step.Complete [of "Verified h (case t of None \<Rightarrow> ''Unknown'' | Some s \<Rightarrow> s) tee utc" reg i]
    by (auto simp: verify_tee_def verify_tee_commit_def Ok a split_beta Let_def)
qed (simp_all add: verify_tee_def)

lemma log_unaddressed_step:
  assumes "log_unaddressed reg" and "registry_step reg reg'"
  shows "log_unaddressed reg'"
proof -
  have "registry_inv reg'" using assms registry_inv_step [of reg reg'] by (simp add: log_unaddressed_def)
  moreover have "\<forall>e \<in> set (pr_events reg'). \<forall>r. event_record e = Some r \<longrightarrow> tr_ip_address r = None"
    using assms(2,1)
    by (cases rule: registry_step.cases)
       (auto simp: log_unaddressed_def registry_inv_def record_ok_def registry_ops Let_def
         split: option.splits)
  ultimately show ?thesis by (simp add: log_unaddressed_def)
qed

interpretation addresses: stepping_system "\<lambda>reg. \<exists>d. reg = registry_with_config d" registry_step
  log_unaddressed
proof
  show "log_unaddressed reg" if "\<exists>d. reg = registry_with_config d" for reg
    using that registry_inv_new by (auto simp: log_unaddressed_def registry_with_config_def)
qed (rule log_unaddressed_step)

lemma handle_event_unaddressed:
  assumes "\<And>r. event_record e = Some r \<Longrightarrow> tr_ip_address r = None"
  shows "if event_record e = None then handle_event cell e = Ok cell
         else \<exists>m. handle_event cell e = Panic m"
  using assms by (cases e) (auto simp: handle_event_def)

section \<open>Properties\<close>

text \<open>A verified event whose record carries an address makes exactly that node trusted: its
  identity is the packed IPv4 address, its RAFT address uses the fixed consensus port and its API
  address the recorded port. A revoked event with an address makes exactly that node untrusted.
  Registration and rejection events change nothing.\<close>

theorem handle_event_spec:
  assumes "tr_ip_address r = Some ip" and "tr_api_port r = Some port"
  shows "\<exists>t' t''. handle_event (Some t) (EvVerified ns i r) = Ok (Some t') \<and>
     handle_event (Some t) (EvRevoked ns i why r) = Ok (Some t'') \<and>
     (\<forall>n. is_trusted t' n \<longleftrightarrow> n = ip_to_node_id ip \<or> is_trusted t n) \<and>
     get_raft_addr t' (ip_to_node_id ip) = Some (SocketAddr (V4 ip) CONSENSUS_API_PORT) \<and>
     get_api_addr t' (ip_to_node_id ip) = Some (SocketAddr (V4 ip) port) \<and>
     (\<forall>n. is_trusted t'' n \<longleftrightarrow> n \<noteq> ip_to_node_id ip \<and> is_trusted t n) \<and>
     handle_event (Some t) (EvRegistered ns i c h) = Ok (Some t) \<and>
     handle_event (Some t) (EvRejected ns i why) = Ok (Some t)"
  using assms
  by (simp add: handle_event_def trusted_get_def peers.trusts_mark peers.trusts_withdraw)

theorem handle_event_spec_witness:
  "\<exists>t'. handle_event (Some Map.empty) (EvVerified ''guardian'' (InstanceId [])
      \<lparr> tr_instance_id = InstanceId [], tr_namespace = ''guardian'', tr_state = Rejected [] 0,
        tr_ip_address = Some (Ipv4Addr 10 0 0 1), tr_api_port = Some 8443 \<rparr>) = Ok (Some t') \<and>
     is_trusted t' (ip_to_node_id (Ipv4Addr 10 0 0 1))"
  using handle_event_spec [of "\<lparr> tr_instance_id = InstanceId [], tr_namespace = ''guardian'',
      tr_state = Rejected [] 0, tr_ip_address = Some (Ipv4Addr 10 0 0 1), tr_api_port = Some 8443 \<rparr>"
      "Ipv4Addr 10 0 0 1" 8443 Map.empty "''guardian''" "InstanceId []"
      "[]" "[]" "[]"]
  by auto

text \<open>On the events the session registry can send, the handler never changes the trusted peers.
  No reachable registry state has ever sent a record with an address, so the handler either passes
  over what it receives or panics, and it does panic on the first verified or revoked event of its
  namespace. No attestation ever makes a peer trusted.\<close>

theorem handler_never_trusts:
  assumes "registry_step\<^sup>*\<^sup>* (registry_with_config d) reg"
    and "\<And>e. Received e \<in> set msgs \<Longrightarrow> e \<in> set (pr_events reg)" and "Closed \<notin> set msgs"
  shows "if decisive ns msgs then \<exists>m. run_handler ns cell msgs = Panic m
         else run_handler ns cell msgs = Ok cell"
proof -
  have log: "log_unaddressed reg" using addresses.reachable_inv assms(1) by blast
  show ?thesis
    using assms(2,3)
  proof (induction msgs)
    case (Cons a rest)
    note IH = Cons.IH [OF Cons.prems(1)]
    show ?case
    proof (cases a)
      case (Received e)
      with Cons.prems(1) have "e \<in> set (pr_events reg)" by simp
      then have e: "if event_record e = None then handle_event cell e = Ok cell
          else \<exists>m. handle_event cell e = Panic m"
        using log by (intro handle_event_unaddressed) (auto simp: log_unaddressed_def)
      consider "event_namespace e \<noteq> ns" | "event_namespace e = ns" "event_record e = None"
        | "event_namespace e = ns" "event_record e \<noteq> None" by blast
      then show ?thesis
      proof cases
        case 3
        then obtain m where "handle_event cell e = Panic m" using e by auto
        with 3 Received show ?thesis by auto
      qed (use IH Cons.prems(2) e Received in simp_all)
    qed (use IH Cons.prems in auto)
  qed simp
qed

theorem handler_never_trusts_witness:
  "let reg = snd (complete_verification (snd (register 5 5 (replicate 32 7) registry_new
               (InstanceId (replicate 32 1)) ''guardian'' ''ab'' Tdx))
               (InstanceId (replicate 32 1)) (Verified ''ab'' ''UpToDate'' Tdx 0))
   in \<exists>m. run_handler ''guardian'' (Some Map.empty) (map Received (pr_events reg)) = Panic m"
proof -
  define reg1 where "reg1 = snd (register 5 5 (replicate 32 7) registry_new
     (InstanceId (replicate 32 1)) ''guardian'' ''ab'' Tdx)"
  define reg where "reg = snd (complete_verification reg1 (InstanceId (replicate 32 1))
     (Verified ''ab'' ''UpToDate'' Tdx 0))"
  have "registry_step registry_new reg1" unfolding reg1_def by (rule registry_step.Register)
  moreover have "registry_step reg1 reg"
    unfolding reg_def by (rule registry_step.Complete) simp
  ultimately have reach: "registry_step\<^sup>*\<^sup>* (registry_with_config DEFAULT_CHALLENGE_EXPIRY) reg"
    by (simp add: registry_new_def)
  have dec: "decisive ''guardian'' (map Received (pr_events reg))"
    by (simp add: reg_def reg1_def registry_new_def registry_with_config_def registry_ops
        new_pending_def Let_def)
  have sub: "e \<in> set (pr_events reg)" if "Received e \<in> set (map Received (pr_events reg))" for e
    using that by auto
  have "Closed \<notin> set (map Received (pr_events reg))" by auto
  from handler_never_trusts [OF reach sub this, of "''guardian''" "Some Map.empty"]
  have "\<exists>m. run_handler ''guardian'' (Some Map.empty) (map Received (pr_events reg)) = Panic m"
    unfolding if_P [OF dec] .
  then show ?thesis unfolding Let_def reg_def reg1_def .
qed

end
