(* ===== verification/Gossip.thy ===== *)
theory Gossip
  imports Backend Measurement_Client Trusted_Peers
begin

text \<open>
  The gossip protocol, \<open>bootstrap/src/gossip\<close>: advertisements with their address binding and evidence
  check, the cache of verified advertisements, and the manager that pulls, validates and sends
  advertisements. The clock (seconds since the epoch), the network and the random choice of a peer
  are arguments. The properties give what an accepted advertisement proves, what its evidence does
  not bind, when two address pairs have the same binding, and that the cache only ever holds
  verified advertisements, newest first.
\<close>

section \<open>Advertisements\<close>

record PeerAdvertisement =
  ad_node_id :: NodeId
  ad_raft_address :: socket_addr
  ad_api_address :: socket_addr
  ad_measurement_hash :: string
  ad_instance_id :: string
  ad_timestamp :: "64 word"
  ad_evidence :: string

definition advertisement_new ::
  "64 word \<Rightarrow> NodeId \<Rightarrow> socket_addr \<Rightarrow> socket_addr \<Rightarrow> string \<Rightarrow> string \<Rightarrow> string \<Rightarrow> PeerAdvertisement" where
  "advertisement_new now node_id raft_address api_address measurement_hash instance_id evidence =
     \<lparr> ad_node_id = node_id, ad_raft_address = raft_address, ad_api_address = api_address,
       ad_measurement_hash = measurement_hash, ad_instance_id = instance_id,
       ad_timestamp = now, ad_evidence = evidence \<rparr>"

definition compute_address_binding :: "'j crates \<Rightarrow> socket_addr \<Rightarrow> socket_addr \<Rightarrow> bytes" where
  "compute_address_binding x raft api =
     sha256 x (str_bytes (show_socket_addr raft) @ str_bytes (show_socket_addr api))"

definition validate_format :: "'j crates \<Rightarrow> nat \<Rightarrow> PeerAdvertisement \<Rightarrow> (unit, string) outcome" where
  "validate_format x now ad =
     (if length (ad_instance_id ad) \<noteq> 64
      then Err (''Invalid instance_id length: '' @ show_nat (length (ad_instance_id ad)) @
             '' (expected 64 hex chars)'')
      else and_then (map_err (\<lambda>e. ''Invalid instance_id hex: '' @ e)
                       (of_sum (hex_decode x (ad_instance_id ad)))) (\<lambda>_.
        if length (ad_measurement_hash ad) \<noteq> 64
        then Err (''Invalid measurement_hash length: '' @ show_nat (length (ad_measurement_hash ad)) @
               '' (expected 64 hex chars)'')
        else and_then (map_err (\<lambda>e. ''Invalid measurement_hash hex: '' @ e)
                         (of_sum (hex_decode x (ad_measurement_hash ad)))) (\<lambda>_.
          if unat (ad_timestamp ad) > now + 300
          then Err ''Advertisement timestamp is in the future''
          else Ok ())))"

text \<open>The checks on the evidence of one platform; both branches of \<open>verify_evidence\<close> are this
  sequence with the platform's functions and texts.\<close>

definition check_bound_evidence ::
  "'j crates \<Rightarrow> string \<Rightarrow> string \<Rightarrow> ('j \<Rightarrow> ('q, VerificationError) outcome) \<Rightarrow>
   ('q \<Rightarrow> ('v, VerificationError) outcome) \<Rightarrow>
   ('v \<Rightarrow> bytes \<Rightarrow> (unit, VerificationError) outcome) \<Rightarrow> ('v \<Rightarrow> InstanceId) \<Rightarrow>
   'j \<Rightarrow> bytes \<Rightarrow> bytes \<Rightarrow> string \<Rightarrow> (unit, string) outcome" where
  "check_bound_evidence x parse_text sig_text parse verify_sig check_binding ident e binding_bytes
     expected_instance_id claimed =
     and_then (map_err (\<lambda>err. parse_text @ show_verification_error err) (parse e)) (\<lambda>q.
       and_then (map_err (\<lambda>err. sig_text @ show_verification_error err) (verify_sig q)) (\<lambda>v.
         and_then (map_err (\<lambda>err. ''Address binding mismatch: '' @ show_verification_error err)
                     (check_binding v binding_bytes)) (\<lambda>_.
           if instance_as_bytes (ident v) \<noteq> expected_instance_id
           then Err (''Instance ID mismatch: expected '' @ claimed @ '', got '' @
                  instance_to_hex x (ident v))
           else Ok ())))"

definition verify_evidence :: "'j crates \<Rightarrow> PeerAdvertisement \<Rightarrow> (unit, string) outcome" where
  "verify_evidence x ad =
     (if ad_evidence ad = [] then Err ''TEE evidence required''
      else and_then (map_err (\<lambda>e. ''Invalid evidence base64: '' @ e)
                       (of_sum (base64_decode x (ad_evidence ad)))) (\<lambda>evidence_bytes.
        and_then (map_err (\<lambda>e. ''Invalid evidence JSON: '' @ e)
                    (of_sum (json_from_slice x evidence_bytes))) (\<lambda>evidence_json.
          and_then (ok_or (detect_tee_type x evidence_json) ''Cannot detect TEE type from evidence'')
            (\<lambda>tee.
              let expected_binding = compute_address_binding x (ad_raft_address ad) (ad_api_address ad)
              in and_then (map_err (\<lambda>e. ''Invalid instance_id hex: '' @ e)
                             (of_sum (hex_decode x (ad_instance_id ad)))) (\<lambda>id_bytes.
                   if length id_bytes \<noteq> 32 then Err ''Instance ID must be 32 bytes''
                   else case tee of
                     Tdx \<Rightarrow> check_bound_evidence x ''Failed to parse TDX quote: ''
                              ''TDX signature verification failed: '' (tdx_from_json x)
                              (tdx_verify_signature x) (tdx_verify_report_data x)
                              (\<lambda>v. tdx_instance_id (vt_quote v)) evidence_json expected_binding id_bytes
                              (ad_instance_id ad)
                   | Snp \<Rightarrow> check_bound_evidence x ''Failed to parse SEV-SNP report: ''
                              ''SEV-SNP signature verification failed: '' (snp_from_json x)
                              (snp_verify_signature x) (snp_verify_report_data x)
                              (\<lambda>v. snp_instance_id (vn_report v)) evidence_json expected_binding id_bytes
                              (ad_instance_id ad)
                   | OtherTee _ \<Rightarrow> Err (''Unsupported TEE type: '' @ tee_debug tee))))))"

section \<open>The cache\<close>

type_synonym GossipedPeerCache = "(NodeId, PeerAdvertisement \<times> instant) hash_map"

definition cache_new :: GossipedPeerCache where
  "cache_new = Map.empty"

definition add_verified :: "instant \<Rightarrow> GossipedPeerCache \<Rightarrow> PeerAdvertisement \<Rightarrow> GossipedPeerCache" where
  "add_verified now peers ad =
     (case peers (ad_node_id ad) of
        Some (existing, _) \<Rightarrow>
          if ad_timestamp ad \<le> ad_timestamp existing then peers
          else peers(ad_node_id ad \<mapsto> (ad, now))
      | None \<Rightarrow> peers(ad_node_id ad \<mapsto> (ad, now)))"

definition cache_contains :: "GossipedPeerCache \<Rightarrow> NodeId \<Rightarrow> bool" where
  "cache_contains peers node_id \<longleftrightarrow> peers node_id \<noteq> None"

definition cache_get :: "GossipedPeerCache \<Rightarrow> NodeId \<Rightarrow> PeerAdvertisement option" where
  "cache_get peers node_id = map_option fst (peers node_id)"

text \<open>The values of a hash map come in some order, given by the order of the keys.\<close>

definition get_all_advertisements :: "NodeId list \<Rightarrow> GossipedPeerCache \<Rightarrow> PeerAdvertisement list" where
  "get_all_advertisements order peers = List.map_filter (cache_get peers) order"

definition advertised_node :: "PeerAdvertisement \<Rightarrow> (BootstrapNode, unit) outcome" where
  "advertised_node ad =
     (case sa_ip (ad_raft_address ad) of
        V4 ip \<Rightarrow> Ok \<lparr> bn_ip_address = ip, bn_raft_port = sa_port (ad_raft_address ad),
                      bn_api_port = sa_port (ad_api_address ad) \<rparr>
      | V6 text \<Rightarrow> Panic (''BUG: IPv6 address '' @ text @ '' in gossip cache for node '' @
                     show_nat (unat (ad_node_id ad)) @ '' - system is IPv4-only''))"

definition cache_get_all :: "NodeId list \<Rightarrow> GossipedPeerCache \<Rightarrow> (BootstrapNode list, unit) outcome" where
  "cache_get_all order peers = collect_ok (map advertised_node (get_all_advertisements order peers))"

section \<open>The manager\<close>

record GossipConfig =
  gc_pull_interval_secs :: nat
  gc_max_peers_per_message :: nat
  gc_max_advertisement_age_hours :: nat

definition gossip_config_default :: GossipConfig where
  "gossip_config_default =
     \<lparr> gc_pull_interval_secs = 300, gc_max_peers_per_message = 50,
       gc_max_advertisement_age_hours = 24 \<rparr>"

definition generate_gossip_evidence ::
  "'j crates \<Rightarrow> (string \<Rightarrow> bool) \<Rightarrow> socket_addr \<Rightarrow> socket_addr \<Rightarrow> string \<Rightarrow> (string, string) outcome" where
  "generate_gossip_evidence x path_exists raft_address api_address instance_id =
     and_then (ok_or (detect_available_tee path_exists)
                 ''No TEE platform available (TDX or SEV-SNP required)'') (\<lambda>tee.
       let binding_bytes = compute_address_binding x raft_address api_address in
       and_then (map_err (\<lambda>e. ''Invalid instance_id hex: '' @ e) (of_sum (hex_decode x instance_id)))
         (\<lambda>instance_bytes.
           if length instance_bytes \<noteq> 32 then Err ''Instance ID must be 32 bytes''
           else and_then (copy_from_slice 32 binding_bytes) (\<lambda>b.
             and_then (copy_from_slice 32 instance_bytes) (\<lambda>i.
               and_then (map_err show_verification_error (generate_evidence x tee (b @ i)))
                 (\<lambda>evidence.
                   and_then (map_err (\<lambda>e. ''Failed to serialize evidence: '' @ e)
                               (of_sum (json_to_vec x evidence)))
                     (\<lambda>json. Ok (base64_encode x json)))))))"

record PeerGossipManager =
  gm_node_id :: NodeId
  gm_raft_address :: socket_addr
  gm_api_address :: socket_addr
  gm_instance_id :: string
  gm_gossip_cache :: GossipedPeerCache
  gm_config :: GossipConfig
  gm_registry_client :: MeasurementRegistryClient
  gm_namespace :: string
  gm_cached_evidence :: "(string \<times> string) option"

definition gossip_manager_new ::
  "trusted_cell \<Rightarrow> NodeId \<Rightarrow> socket_addr \<Rightarrow> socket_addr \<Rightarrow> string \<Rightarrow> string \<Rightarrow> string \<Rightarrow>
   (PeerGossipManager, unit) outcome" where
  "gossip_manager_new cell node_id raft_address api_address instance_id registry_url namespace =
     and_then (trusted_get cell) (\<lambda>_.
       Ok \<lparr> gm_node_id = node_id, gm_raft_address = raft_address, gm_api_address = api_address,
            gm_instance_id = instance_id, gm_gossip_cache = cache_new,
            gm_config = gossip_config_default, gm_registry_client = client_new registry_url,
            gm_namespace = namespace, gm_cached_evidence = None \<rparr>)"

definition get_or_generate_evidence ::
  "'j crates \<Rightarrow> (string \<Rightarrow> bool) \<Rightarrow> PeerGossipManager \<Rightarrow>
   (string \<times> string, string) outcome \<times> PeerGossipManager" where
  "get_or_generate_evidence x path_exists m =
     (case gm_cached_evidence m of
        Some cached \<Rightarrow> (Ok cached, m)
      | None \<Rightarrow>
          (let r = and_then (generate_gossip_evidence x path_exists (gm_raft_address m)
                               (gm_api_address m) (gm_instance_id m)) (\<lambda>evidence.
                     and_then (map_err show_verification_error (measurement_hash_from_evidence x evidence))
                       (\<lambda>measurement_hash. Ok (evidence, measurement_hash)))
           in case r of
                Ok cached \<Rightarrow> (r, m\<lparr> gm_cached_evidence := Some cached \<rparr>)
              | _ \<Rightarrow> (r, m)))"

definition create_advertisement ::
  "'j crates \<Rightarrow> (string \<Rightarrow> bool) \<Rightarrow> 64 word \<Rightarrow> PeerGossipManager \<Rightarrow>
   (PeerAdvertisement, string) outcome \<times> PeerGossipManager" where
  "create_advertisement x path_exists now m =
     (let (r, m') = get_or_generate_evidence x path_exists m
      in (and_then r (\<lambda>(evidence, measurement_hash).
            Ok (advertisement_new now (gm_node_id m) (gm_raft_address m) (gm_api_address m)
                  measurement_hash (gm_instance_id m) evidence)), m'))"

text \<open>The advertisements sent at startup: target address, port and advertisement.\<close>

definition initial_advertise ::
  "'j crates \<Rightarrow> 'j http_send \<Rightarrow> (string \<Rightarrow> bool) \<Rightarrow> 64 word \<Rightarrow> PeerGossipManager \<Rightarrow>
   ((ipv4 \<times> 16 word \<times> PeerAdvertisement) list, unit) outcome \<times> PeerGossipManager" where
  "initial_advertise x send path_exists now m =
     (case get_nodes send (gm_registry_client m) (gm_namespace m) of
        Err _ \<Rightarrow> (Panic ''Failed to query measurement registry - cannot join cluster'', m)
      | Panic s \<Rightarrow> (Panic s, m)
      | Ok registry_nodes \<Rightarrow>
          if registry_nodes = [] then (Panic ''No nodes in registry - cannot join cluster'', m)
          else (case create_advertisement x path_exists now m of
                  (Ok ad, m') \<Rightarrow>
                    (Ok (map (\<lambda>n. (bn_ip_address n, bn_api_port n, ad))
                           (filter (\<lambda>n. ip_to_node_id (bn_ip_address n) \<noteq> gm_node_id m) registry_nodes)), m')
                | (Err _, m') \<Rightarrow> (Ok [], m')
                | (Panic s, m') \<Rightarrow> (Panic s, m')))"

definition age_hours :: "nat \<Rightarrow> PeerAdvertisement \<Rightarrow> nat" where
  "age_hours now ad = (now - unat (ad_timestamp ad)) div 3600"

definition validate_and_add_advertisement ::
  "'j crates \<Rightarrow> nat \<Rightarrow> instant \<Rightarrow> PeerGossipManager \<Rightarrow> PeerAdvertisement \<Rightarrow>
   (unit, string) outcome \<times> PeerGossipManager" where
  "validate_and_add_advertisement x now received m ad =
     (case validate_format x now ad of
        Err e \<Rightarrow> (Err e, m)
      | Panic s \<Rightarrow> (Panic s, m)
      | Ok _ \<Rightarrow>
          if age_hours now ad > gc_max_advertisement_age_hours (gm_config m)
          then (Err (''Advertisement too old: '' @ show_nat (age_hours now ad) @ '' hours''), m)
          else if ad_node_id ad = gm_node_id m then (Ok (), m)
          else if (case cache_get (gm_gossip_cache m) (ad_node_id ad) of
                     Some existing \<Rightarrow> ad_timestamp ad \<le> ad_timestamp existing | None \<Rightarrow> False)
          then (Ok (), m)
          else (case verify_evidence x ad of
                  Ok _ \<Rightarrow> (Ok (), m\<lparr> gm_gossip_cache := add_verified received (gm_gossip_cache m) ad \<rparr>)
                | Err e \<Rightarrow> (Err e, m)
                | Panic s \<Rightarrow> (Panic s, m)))"

text \<open>The clock is read for every advertisement; the readings are given by how many are left after it.\<close>

fun add_all ::
  "'j crates \<Rightarrow> (nat \<Rightarrow> nat) \<Rightarrow> (nat \<Rightarrow> instant) \<Rightarrow> PeerGossipManager \<Rightarrow> PeerAdvertisement list \<Rightarrow>
   PeerGossipManager" where
  "add_all x now received m [] = m"
| "add_all x now received m (ad # ads) =
     add_all x now received
       (snd (validate_and_add_advertisement x (now (length ads)) (received (length ads)) m ad)) ads"

text \<open>\<open>pick\<close> is the random index, \<open>fetch\<close> what the peer list request to a URL gives: an error, a
  response that is not a success or does not parse (\<open>None\<close>), or the advertisements.\<close>

definition pull_peer_list ::
  "'j crates \<Rightarrow> trusted_cell \<Rightarrow> (NodeId list \<Rightarrow> nat) \<Rightarrow> (string \<Rightarrow> PeerAdvertisement list option) \<Rightarrow>
   (nat \<Rightarrow> nat) \<Rightarrow> (nat \<Rightarrow> instant) \<Rightarrow> PeerGossipManager \<Rightarrow> (PeerGossipManager, unit) outcome" where
  "pull_peer_list x cell pick fetch now received m =
     and_then (trusted_get cell) (\<lambda>t.
       let nodes = get_trusted_nodes t in
       if nodes = [] then Ok m
       else (let random_peer = nodes ! (pick nodes mod length nodes) in
         if random_peer = gm_node_id m then Ok m
         else case get_api_addr t random_peer of
                None \<Rightarrow> Panic ''BUG: trusted peer must have api_addr''
              | Some addr \<Rightarrow>
                  (case fetch (''http://'' @ show_ipv4 (node_id_to_ip random_peer) @ '':'' @
                          show_nat (unat (sa_port addr)) @ ''/guardian_node/peers'') of
                     None \<Rightarrow> Ok m
                   | Some ads \<Rightarrow> Ok (add_all x now received m ads))))"

section \<open>Steps and invariant\<close>

text \<open>A node's cache changes by validated advertisements only.\<close>

inductive gossip_step :: "'j crates \<Rightarrow> PeerGossipManager \<Rightarrow> PeerGossipManager \<Rightarrow> bool" for x where
  Advertised: "gossip_step x m (snd (validate_and_add_advertisement x now received m ad))"
| Pulled: "pull_peer_list x cell pick fetch now received m = Ok m' \<Longrightarrow> gossip_step x m m'"
| Announced: "gossip_step x m (snd (create_advertisement x path_exists stamp m))"

definition verified_cache :: "'j crates \<Rightarrow> NodeId \<Rightarrow> GossipedPeerCache \<Rightarrow> bool" where
  "verified_cache x own peers \<longleftrightarrow>
     (\<forall>n ad. cache_get peers n = Some ad \<longrightarrow>
        ad_node_id ad = n \<and> n \<noteq> own \<and> verify_evidence x ad = Ok ())"

definition cache_ok :: "'j crates \<Rightarrow> PeerGossipManager \<Rightarrow> bool" where
  "cache_ok x m \<longleftrightarrow> verified_cache x (gm_node_id m) (gm_gossip_cache m)"

text \<open>What accepted evidence proves of an advertisement.\<close>

definition advertisement_proved :: "'j crates \<Rightarrow> PeerAdvertisement \<Rightarrow> bool" where
  "advertisement_proved x ad \<longleftrightarrow>
     (\<exists>bs e i. base64_decode x (ad_evidence ad) = Inr bs \<and> json_from_slice x bs = Inr e \<and>
        hex_decode x (ad_instance_id ad) = Inr i \<and> length i = 32 \<and>
        (detect_tee_type x e = Some Tdx \<and> tdx_genuine x e \<and>
           (\<exists>q. tdx_from_json x e = Ok q \<and> tdx_instance_id q = InstanceId i \<and>
              tdx_report_data_binding q =
                compute_address_binding x (ad_raft_address ad) (ad_api_address ad)) \<or>
         detect_tee_type x e = Some Snp \<and> snp_genuine x e \<and>
           (\<exists>r. snp_from_json x e = Ok r \<and> snp_instance_id r = InstanceId i \<and>
              snp_report_data_binding r =
                compute_address_binding x (ad_raft_address ad) (ad_api_address ad))))"

text \<open>Documented behaviour of the attester and the encoders on the evidence of a TDX host: the
  evidence carries the given report data, the verifier accepts it, and encoding it for transport
  can be undone.\<close>

definition tdx_attester_faithful :: "'j crates \<Rightarrow> bool" where
  "tdx_attester_faithful x \<longleftrightarrow>
     (\<forall>d e. length d = 64 \<longrightarrow> get_evidence x Tdx d = Inr e \<longrightarrow>
        json_get x e ''quote'' \<noteq> None \<and>
        (\<exists>q. tdx_from_json x e = Ok q \<and> tq_report_data q = d) \<and>
        to_verifier x Tdx = Inr () \<and> tdx_genuine x e \<and>
        (\<forall>bs. json_to_vec x e = Inr bs \<longrightarrow> json_from_slice x bs = Inr e \<and>
           base64_encode x bs \<noteq> [] \<and> base64_decode x (base64_encode x bs) = Inr bs))"

text \<open>Instances for the witnesses: crates that decode every evidence to the sample quote, with a
  constant digest, and a host whose attester builds quotes.\<close>

definition gossip_node :: "sample_json crates" where
  "gossip_node = sample_crates\<lparr> base64_decode := (\<lambda>_. Inr (sample_header @ concat (body_fields sample_body) @ [])),
                                sha256 := (\<lambda>_. replicate 32 5) \<rparr>"

definition quote_with :: "bytes \<Rightarrow> bytes" where
  "quote_with d = sample_header @ concat (body_fields (sample_body\<lparr> tb_report_data := d \<rparr>)) @ []"

definition attesting_node :: "sample_json crates" where
  "attesting_node = sample_crates\<lparr>
     get_evidence := (\<lambda>_ d. Inr (JObj [(''quote'', JStr (map (\<lambda>b. char_of (unat b)) (quote_with d)))])),
     json_to_vec := (\<lambda>v. case sample_as_str (sample_index v ''quote'') of
                        Some s \<Rightarrow> Inr (map (\<lambda>c. word_of_nat (of_char c)) s)
                      | None \<Rightarrow> Inl ''unsupported''),
     json_to_string := (\<lambda>v. case sample_as_str (sample_index v ''quote'') of Some s \<Rightarrow> s | None \<Rightarrow> ''{}'') \<rparr>"

definition sample_ad :: "NodeId \<Rightarrow> 64 word \<Rightarrow> PeerAdvertisement" where
  "sample_ad n stamp =
     \<lparr> ad_node_id = n, ad_raft_address = SocketAddr (V4 (Ipv4Addr 10 0 0 1)) 8444,
       ad_api_address = SocketAddr (V4 (Ipv4Addr 10 0 0 1)) 8443,
       ad_measurement_hash = sample_hex_encode (replicate 32 1),
       ad_instance_id = sample_hex_encode (replicate 32 6), ad_timestamp = stamp,
       ad_evidence = ''evidence'' \<rparr>"

definition sample_manager :: PeerGossipManager where
  "sample_manager =
     \<lparr> gm_node_id = 1, gm_raft_address = SocketAddr (V4 (Ipv4Addr 0 0 0 1)) 8444,
       gm_api_address = SocketAddr (V4 (Ipv4Addr 0 0 0 1)) 8443,
       gm_instance_id = sample_hex_encode (replicate 32 6), gm_gossip_cache = cache_new,
       gm_config = gossip_config_default, gm_registry_client = client_new ''http://r'',
       gm_namespace = ''guardian'', gm_cached_evidence = None \<rparr>"

section \<open>Lemmas\<close>

context attestation_backend
begin

lemma check_bound_returns:
  "no_panic (check_bound_evidence x p s parse verify_sig check_binding ident e b i claimed)"
  using parse_returns sig_returns check_returns
  by (auto simp: check_bound_evidence_def no_panic_simps)

lemma check_bound_Ok:
  assumes "check_bound_evidence x p s parse verify_sig check_binding (\<lambda>v. ident (quote_of v)) e b i claimed = Ok ()"
  shows "genuine e \<and> (\<exists>q. parse e = Ok q \<and> report_binding q = b \<and> instance_as_bytes (ident q) = i)"
proof -
  from assms obtain q v where "parse e = Ok q" "verify_sig q = Ok v" "check_binding v b = Ok ()"
    "instance_as_bytes (ident (quote_of v)) = i"
    by (auto simp: check_bound_evidence_def split: if_splits)
  then show ?thesis using signed_evidence [of e q v] check_Ok [of v b] by auto
qed

end

lemma instance_as_bytes_eq: "instance_as_bytes i = b \<longleftrightarrow> i = InstanceId b"
  by (cases i) auto

lemma verify_evidence_returns: "no_panic (verify_evidence x ad)"
  by (auto simp: verify_evidence_def no_panic_simps Let_def tdx.check_bound_returns
      snp.check_bound_returns split: tee.splits)

lemma verify_evidence_Ok:
  assumes "verify_evidence x ad = Ok ()"
  shows "advertisement_proved x ad"
proof -
  let ?b = "compute_address_binding x (ad_raft_address ad) (ad_api_address ad)"
  from assms obtain bs e i tee where
    d: "base64_decode x (ad_evidence ad) = Inr bs" "json_from_slice x bs = Inr e"
    "hex_decode x (ad_instance_id ad) = Inr i" "length i = 32" "detect_tee_type x e = Some tee"
    and tdx: "tee = Tdx \<Longrightarrow> check_bound_evidence x ''Failed to parse TDX quote: ''
      ''TDX signature verification failed: '' (tdx_from_json x) (tdx_verify_signature x)
      (tdx_verify_report_data x) (\<lambda>v. tdx_instance_id (vt_quote v)) e ?b i (ad_instance_id ad) = Ok ()"
    and snp: "tee = Snp \<Longrightarrow> check_bound_evidence x ''Failed to parse SEV-SNP report: ''
      ''SEV-SNP signature verification failed: '' (snp_from_json x) (snp_verify_signature x)
      (snp_verify_report_data x) (\<lambda>v. snp_instance_id (vn_report v)) e ?b i (ad_instance_id ad) = Ok ()"
    by (auto simp: verify_evidence_def Let_def split: if_splits tee.splits)
  from detect_tee_type_cases [OF d(5)] show ?thesis
  proof
    assume "tee = Tdx"
    with tdx.check_bound_Ok [OF tdx] d show ?thesis
      by (auto simp: advertisement_proved_def instance_as_bytes_eq)
  next
    assume "tee = Snp"
    with snp.check_bound_Ok [OF snp] d show ?thesis
      by (auto simp: advertisement_proved_def instance_as_bytes_eq)
  qed
qed

lemma validate_format_returns: "no_panic (validate_format x now ad)"
  by (auto simp: validate_format_def no_panic_simps)

lemma validate_and_add_returns: "no_panic (fst (validate_and_add_advertisement x now r m ad))"
  using validate_format_returns [of x now ad] verify_evidence_returns [of x ad]
  by (auto simp: validate_and_add_advertisement_def split: outcome.splits)

lemma validate_and_add_keeps:
  "gm_node_id (snd (validate_and_add_advertisement x now r m ad)) = gm_node_id m"
  by (auto simp: validate_and_add_advertisement_def split: outcome.splits)

lemma verified_cache_new: "verified_cache x own cache_new"
  by (simp add: verified_cache_def cache_new_def cache_get_def)

lemma verified_cache_add:
  assumes "verified_cache x own peers" and "verify_evidence x ad = Ok ()" and "ad_node_id ad \<noteq> own"
  shows "verified_cache x own (add_verified r peers ad)"
proof -
  have "cache_get (add_verified r peers ad) n = cache_get peers n \<or>
      n = ad_node_id ad \<and> cache_get (add_verified r peers ad) n = Some ad" for n
    by (auto simp: add_verified_def cache_get_def split: option.splits)
  then show ?thesis using assms unfolding verified_cache_def by (metis option.inject)
qed

lemma cache_ok_add: "cache_ok x m \<Longrightarrow> cache_ok x (snd (validate_and_add_advertisement x now r m ad))"
  by (auto simp: cache_ok_def validate_and_add_advertisement_def verified_cache_add
      split: outcome.splits)

lemma add_all_keeps: "gm_node_id (add_all x now r m ads) = gm_node_id m"
  by (induction x now r m ads rule: add_all.induct) (auto simp: validate_and_add_keeps)

lemma cache_ok_add_all: "cache_ok x m \<Longrightarrow> cache_ok x (add_all x now r m ads)"
  by (induction x now r m ads rule: add_all.induct) (auto intro: cache_ok_add)

lemma cache_ok_step:
  assumes "cache_ok x m" and "gossip_step x m m'"
  shows "cache_ok x m'"
  using assms(2,1)
proof cases
  case (Pulled cell pick fetch now received)
  then show ?thesis using assms(1) cache_ok_add_all
    by (auto simp: pull_peer_list_def Let_def split: if_splits option.splits)
next
  case (Announced path_exists stamp)
  have "gm_gossip_cache m' = gm_gossip_cache m \<and> gm_node_id m' = gm_node_id m"
    unfolding Announced
    by (auto simp: create_advertisement_def get_or_generate_evidence_def Let_def split_beta
        split: option.splits outcome.splits)
  then show ?thesis using assms(1) by (simp add: cache_ok_def)
qed (auto intro: cache_ok_add)

interpretation gossip: stepping_system "\<lambda>m. gm_gossip_cache m = cache_new" "gossip_step x" "cache_ok x"
  for x :: "'j crates"
proof
  show "cache_ok x m" if "gm_gossip_cache m = cache_new" for m
    using that by (simp add: cache_ok_def verified_cache_new)
qed (rule cache_ok_step)

lemma verify_evidence_unbound:
  "verify_evidence x (ad\<lparr> ad_node_id := n, ad_timestamp := t, ad_measurement_hash := h \<rparr>) =
     verify_evidence x ad"
  by (cases ad) (simp only: verify_evidence_def PeerAdvertisement.simps)

lemma add_verified_mono:
  assumes "cache_get peers n = Some ad"
  shows "\<exists>ad'. cache_get (add_verified now peers new) n = Some ad' \<and> ad_timestamp ad \<le> ad_timestamp ad'"
  using assms by (auto simp: cache_get_def add_verified_def split: option.splits)

lemma validate_and_add_mono:
  assumes "cache_get (gm_gossip_cache m) n = Some ad"
  shows "\<exists>ad'. cache_get (gm_gossip_cache (snd (validate_and_add_advertisement x now r m new))) n = Some ad' \<and>
     ad_timestamp ad \<le> ad_timestamp ad'"
  using assms add_verified_mono [OF assms]
  by (auto simp: validate_and_add_advertisement_def split: outcome.splits)

lemma add_all_mono:
  assumes "cache_get (gm_gossip_cache m) n = Some ad"
  shows "\<exists>ad'. cache_get (gm_gossip_cache (add_all x now r m ads)) n = Some ad' \<and>
     ad_timestamp ad \<le> ad_timestamp ad'"
  using assms
proof (induction x now r m ads arbitrary: ad rule: add_all.induct)
  case (2 x now r m new ads)
  from validate_and_add_mono [OF 2(2), of x "now (length ads)" "r (length ads)" new] obtain ad1 where
    "cache_get (gm_gossip_cache (snd (validate_and_add_advertisement x (now (length ads)) (r (length ads)) m new))) n = Some ad1"
    "ad_timestamp ad \<le> ad_timestamp ad1" by blast
  with 2(1) [of ad1] show ?case by fastforce
qed auto

lemma sample_ad_verified: "verify_evidence gossip_node (sample_ad n t) = Ok ()"
proof -
  define e where "e = JObj [(''quote'', JStr (map (\<lambda>b. char_of (unat b))
     (sample_header @ concat (body_fields sample_body) @ [])))]"
  obtain q where q: "parse_raw e (sample_header @ concat (body_fields sample_body) @ []) = Ok q"
    "tq_report_data q = tb_report_data sample_body"
    by (rule parse_framed_body [OF sample_body_wf sample_header_ok])
  have parse: "tdx_from_json gossip_node e = Ok q"
    using q(1) by (simp add: tdx_from_json_Ok gossip_node_def sample_crates_def e_def)
  have "\<exists>v. tdx_verify_signature gossip_node q = Ok v"
    by (simp add: tdx_verify_signature_Ok gossip_node_def sample_crates_def)
  then obtain v where v: "tdx_verify_signature gossip_node q = Ok v" "vt_quote v = q"
    using tdx.signed_evidence [OF parse] by blast
  have bind: "tdx_report_data_binding q = replicate 32 5" and ident: "tdx_instance_id q = InstanceId (replicate 32 6)"
    using q(2) by (simp_all add: tdx_report_data_binding_def tdx_instance_id_def sample_body_def subslice_def)
  have hex: "hex_decode gossip_node (sample_hex_encode (replicate 32 6)) = Inr (replicate 32 6)"
    using sample_hex_round_trip by (simp add: hex_round_trip_def gossip_node_def sample_crates_def)
  have pre: "base64_decode gossip_node s = Inr (sample_header @ concat (body_fields sample_body) @ [])"
    "json_from_slice gossip_node (sample_header @ concat (body_fields sample_body) @ []) = Inr e"
    "detect_tee_type gossip_node e = Some Tdx" "sha256 gossip_node bs = replicate 32 5" for s bs
    by (simp_all add: gossip_node_def sample_crates_def e_def detect_tee_type_def)
  show ?thesis
    using parse v bind ident hex pre
    by (simp add: verify_evidence_def sample_ad_def check_bound_evidence_def compute_address_binding_def
        tdx_verify_report_data_def del: and_then_Ok)
qed

lemma gossip_step_mono:
  assumes "gossip_step x m m'" and "cache_get (gm_gossip_cache m) n = Some ad"
  shows "\<exists>ad'. cache_get (gm_gossip_cache m') n = Some ad' \<and> ad_timestamp ad \<le> ad_timestamp ad'"
  using assms(1)
proof cases
  case (Advertised now received new)
  then show ?thesis using validate_and_add_mono [OF assms(2)] by simp
next
  case (Pulled cell pick fetch now received)
  then have "m' = m \<or> (\<exists>ads. m' = add_all x now received m ads)"
    by (auto simp: pull_peer_list_def Let_def split: if_splits option.splits)
  then show ?thesis using assms(2) add_all_mono [OF assms(2)] by auto
next
  case (Announced path_exists stamp)
  then have "gm_gossip_cache m' = gm_gossip_cache m"
    by (auto simp: create_advertisement_def get_or_generate_evidence_def Let_def
        split: option.splits outcome.splits)
  then show ?thesis using assms(2) by auto
qed

lemma validate_and_add_fresh:
  assumes "validate_format x now ad = Ok ()" and "verify_evidence x ad = Ok ()"
    and "age_hours now ad \<le> gc_max_advertisement_age_hours (gm_config m)"
    and "ad_node_id ad \<noteq> gm_node_id m"
    and "\<And>old. cache_get (gm_gossip_cache m) (ad_node_id ad) = Some old \<Longrightarrow> ad_timestamp old < ad_timestamp ad"
  shows "validate_and_add_advertisement x now r m ad =
    (Ok (), m\<lparr> gm_gossip_cache := (gm_gossip_cache m)(ad_node_id ad \<mapsto> (ad, r)) \<rparr>)"
  using assms
  by (fastforce simp: validate_and_add_advertisement_def add_verified_def cache_get_def
      split: option.splits)

lemma sample_ad_format:
  assumes "unat stamp \<le> now + 300"
  shows "validate_format gossip_node now (sample_ad n stamp) = Ok ()"
proof -
  have "hex_decode gossip_node (sample_hex_encode bs) = Inr bs" for bs
    using sample_hex_round_trip by (simp add: hex_round_trip_def gossip_node_def sample_crates_def)
  moreover have "length (sample_hex_encode bs) = 2 * length bs" for bs
    using sample_hex_two_chars by (simp add: hex_two_chars_def sample_crates_def)
  ultimately show ?thesis using assms by (simp add: validate_format_def sample_ad_def)
qed

lemma get_or_generate_fresh:
  assumes "get_or_generate_evidence x path_exists m = (Ok (ev, h), m')" and "gm_cached_evidence m = None"
  shows "generate_gossip_evidence x path_exists (gm_raft_address m) (gm_api_address m) (gm_instance_id m) = Ok ev"
    and "measurement_hash_from_evidence x ev = Ok h"
  using assms by (auto simp: get_or_generate_evidence_def Let_def split: outcome.splits)

lemma generate_gossip_tdx:
  assumes "generate_gossip_evidence x path_exists raft api inst = Ok ev"
    and "detect_available_tee path_exists = Some Tdx"
  obtains i e bs where "hex_decode x inst = Inr i" "length i = 32"
    "length (compute_address_binding x raft api) = 32"
    "get_evidence x Tdx (compute_address_binding x raft api @ i) = Inr e"
    "json_to_vec x e = Inr bs" "ev = base64_encode x bs"
  using assms
  by (auto simp: generate_gossip_evidence_def generate_evidence_def copy_from_slice_def Let_def
      split: if_splits)

lemma honest_tdx_evidence:
  assumes "tdx_attester_faithful x" and "length d = 64" and "get_evidence x Tdx d = Inr e"
  obtains q v where "detect_tee_type x e = Some Tdx" "tdx_from_json x e = Ok q"
    "tdx_verify_signature x q = Ok v" "vt_quote v = q" "tq_report_data q = d"
proof -
  from assms obtain q where q: "tdx_from_json x e = Ok q" "tq_report_data q = d"
    "to_verifier x Tdx = Inr ()" "tdx_genuine x e" "json_get x e ''quote'' \<noteq> None"
    unfolding tdx_attester_faithful_def by blast
  obtain raw where raw: "parse_raw e raw = Ok q" using q(1) by (auto simp: tdx_from_json_Ok)
  then have "tq_evidence q = e"
    by (auto simp: parse_raw_def Let_def split: if_splits outcome.splits)
  then obtain v where "tdx_verify_signature x q = Ok v"
    using q(3,4) by (auto simp: tdx_genuine_def tdx_verify_signature_Ok split: sum.splits list.splits)
  moreover from this have "vt_quote v = q" by (auto simp: tdx_verify_signature_Ok)
  ultimately show thesis using q that by (simp add: detect_tee_type_def)
qed

lemma honest_tdx_verified:
  assumes "tdx_attester_faithful x" and "hex_decode x (ad_instance_id ad) = Inr i" and "length i = 32"
    and b: "b = compute_address_binding x (ad_raft_address ad) (ad_api_address ad)" "length b = 32"
    and "get_evidence x Tdx (b @ i) = Inr e" and "json_from_slice x bs = Inr e"
    and "ad_evidence ad \<noteq> []" and "base64_decode x (ad_evidence ad) = Inr bs"
  shows "verify_evidence x ad = Ok ()"
proof -
  have len: "length (b @ i) = 64" using assms by simp
  obtain q v where q: "detect_tee_type x e = Some Tdx" "tdx_from_json x e = Ok q"
    "tdx_verify_signature x q = Ok v" "vt_quote v = q" "tq_report_data q = b @ i"
    by (rule honest_tdx_evidence [OF assms(1) len assms(6)])
  have "tdx_report_data_binding q = b" "tdx_instance_id q = InstanceId i"
    using q(5) assms(3,5) by (simp_all add: tdx_report_data_binding_def tdx_instance_id_def subslice_def)
  then show ?thesis
    using q assms(2,3,7-9) b(1)
    by (simp add: verify_evidence_def check_bound_evidence_def tdx_verify_report_data_def del: and_then_Ok)
qed

lemma byte_char_bytes [simp]: "map (\<lambda>b. word_of_nat (unat b mod 256)) bs = (bs :: bytes)"
proof -
  have "unat b mod 256 = unat b" for b :: "8 word" using unat_bound [of b] by simp
  then show ?thesis by (induction bs) simp_all
qed

lemma byte_char_round_trip [simp]:
  "map ((\<lambda>c. word_of_nat (of_char c)) \<circ> (\<lambda>b. char_of (unat b))) bs = (bs :: bytes)"
  by (simp add: comp_def)

lemma attesting_node_sel:
  "get_evidence attesting_node t d = Inr (JObj [(''quote'', JStr (map (\<lambda>b. char_of (unat b)) (quote_with d)))])"
  "json_to_vec attesting_node (JObj [(''quote'', JStr (map (\<lambda>b. char_of (unat b)) bs))]) = Inr bs"
  "json_from_slice attesting_node bs = Inr (JObj [(''quote'', JStr (map (\<lambda>b. char_of (unat b)) bs))])"
  "base64_decode attesting_node (base64_encode attesting_node bs) = Inr bs"
  "base64_encode attesting_node bs = [] \<longleftrightarrow> bs = []"
  "json_get attesting_node (JObj [(''quote'', j)]) ''quote'' = Some j"
  "json_as_str attesting_node (json_index attesting_node (JObj [(''quote'', JStr s)]) ''quote'') = Some s"
  "base64_decode attesting_node (map (\<lambda>b. char_of (unat b)) bs) = Inr bs"
  "json_to_string attesting_node (JObj [(''quote'', JStr s)]) = s"
  "to_verifier attesting_node t = Inr ()" "evaluate attesting_node t e = Inr [e]"
  by (simp_all add: attesting_node_def sample_crates_def)

lemma quote_with_parsed:
  assumes "length d = 64"
  obtains q where "parse_raw e (quote_with d) = Ok q" and "tq_report_data q = d"
proof -
  have "body_wf (sample_body\<lparr> tb_report_data := d \<rparr>)"
    using assms sample_body_wf by (simp add: body_wf_def body_fields_def)
  from parse_framed_body [OF this sample_header_ok] obtain q
    where "parse_raw e (quote_with d) = Ok q" "tq_report_data q = d"
    unfolding quote_with_def by (metis TdQuoteBody.select_convs(15) TdQuoteBody.surjective
        TdQuoteBody.update_convs(15))
  then show thesis by (rule that)
qed

lemma attesting_node_faithful: "tdx_attester_faithful attesting_node"
proof -
  have quote_ne: "quote_with d \<noteq> []" for d
    by (simp add: quote_with_def sample_header_def)
  have "\<exists>q. tdx_from_json attesting_node e = Ok q \<and> tq_report_data q = d"
    if "length d = 64" "e = JObj [(''quote'', JStr (map (\<lambda>b. char_of (unat b)) (quote_with d)))]" for d e
    using quote_with_parsed [OF that(1), of e] that(2)
    by (metis tdx_from_json_Ok attesting_node_sel(7,8))
  then show ?thesis
    by (simp add: tdx_attester_faithful_def attesting_node_sel tdx_genuine_def quote_ne)
qed

lemma attesting_node_evidence:
  "\<exists>ev h. generate_gossip_evidence attesting_node (\<lambda>_. True) raft api (sample_hex_encode (replicate 32 6)) = Ok ev \<and>
     measurement_hash_from_evidence attesting_node ev = Ok h"
proof -
  let ?b = "compute_address_binding attesting_node raft api"
  define raw where "raw = quote_with (?b @ replicate 32 6)"
  define e where "e = JObj [(''quote'', JStr (map (\<lambda>b. char_of (unat b)) raw))]"
  have b: "length ?b = 32"
    by (simp add: compute_address_binding_def attesting_node_def sample_crates_def)
  then obtain q where q: "parse_raw e raw = Ok q"
    using quote_with_parsed [of "?b @ replicate 32 6" e] unfolding raw_def by auto
  have hex: "hex_decode attesting_node (sample_hex_encode (replicate 32 6)) = Inr (replicate 32 6)"
    using sample_hex_round_trip by (simp add: hex_round_trip_def attesting_node_def sample_crates_def)
  have ev: "get_evidence attesting_node Tdx (?b @ replicate 32 6) = Inr e"
    "json_to_vec attesting_node e = Inr raw"
    "base64_decode attesting_node (base64_encode attesting_node raw) = Inr raw"
    "json_from_slice attesting_node raw = Inr e" "detect_tee_type attesting_node e = Some Tdx"
    by (simp_all add: attesting_node_sel e_def detect_tee_type_def) (simp add: raw_def)
  have "tdx_from_json attesting_node e = Ok q"
    using q by (simp add: tdx_from_json_Ok attesting_node_sel e_def)
  then show ?thesis
    using b hex ev unfolding raw_def [symmetric]
    by (simp add: generate_gossip_evidence_def detect_available_tee_def is_tee_available_def
        copy_from_slice_def generate_evidence_def measurement_hash_from_evidence_def
        measurement_hash_from_json_def del: and_then_Ok)
qed

lemma manager_same_cache: "\<exists>c. m = m\<lparr> gm_gossip_cache := c \<rparr>" for m :: PeerGossipManager
  by (rule exI [of _ "gm_gossip_cache m"]) simp

lemma add_all_cache_only: "\<exists>c. add_all x now r m ads = m\<lparr> gm_gossip_cache := c \<rparr>"
proof (induction x now r m ads rule: add_all.induct)
  case (2 x now r m ad ads)
  have "\<exists>c. snd (validate_and_add_advertisement x (now (length ads)) (r (length ads)) m ad) = m\<lparr> gm_gossip_cache := c \<rparr>"
    by (cases m) (auto simp: validate_and_add_advertisement_def split: outcome.splits)
  with 2 show ?case by auto
qed (simp add: manager_same_cache)

section \<open>Properties\<close>

text \<open>C14: Every advertisement in a node's cache was verified: its evidence decodes to evidence that
  the platform's verifier accepted, which carries the claimed instance identity and, as its
  binding, the hash of the advertised address texts. It is filed under its own node identity,
  which is never the node's own. This holds after any sequence of received, pulled and announced
  advertisements.\<close>

theorem gossip_cache_verified:
  assumes "(gossip_step x)\<^sup>*\<^sup>* m0 m" and "gm_gossip_cache m0 = cache_new"
    and "cache_get (gm_gossip_cache m) n = Some ad"
  shows "advertisement_proved x ad \<and> ad_node_id ad = n \<and> n \<noteq> gm_node_id m"
  using gossip.reachable_inv [OF assms(2,1)] assms(3) verify_evidence_Ok [of x ad]
  by (auto simp: cache_ok_def verified_cache_def)

theorem gossip_cache_verified_witness:
  "let m = snd (validate_and_add_advertisement gossip_node 1000 7 sample_manager (sample_ad 2 900))
   in cache_get (gm_gossip_cache m) 2 = Some (sample_ad 2 900) \<and>
      advertisement_proved gossip_node (sample_ad 2 900)"
proof -
  let ?m = "snd (validate_and_add_advertisement gossip_node 1000 7 sample_manager (sample_ad 2 900))"
  have step: "(gossip_step gossip_node)\<^sup>*\<^sup>* sample_manager ?m"
    by (rule r_into_rtranclp) (rule gossip_step.Advertised)
  have get: "cache_get (gm_gossip_cache ?m) 2 = Some (sample_ad 2 900)"
    using sample_ad_verified [of 2 900] sample_ad_format [of 900 1000 2]
    by (subst validate_and_add_fresh)
      (simp_all add: age_hours_def sample_manager_def cache_new_def gossip_config_default_def
         cache_get_def sample_ad_def)
  moreover have "gm_gossip_cache sample_manager = cache_new" by (simp add: sample_manager_def)
  ultimately show ?thesis using gossip_cache_verified [OF step] by simp
qed

text \<open>The cache never forgets a peer and never goes back in time: after any sequence of received,
  pulled and announced advertisements, a cached node still has an entry, with a timestamp at least
  as new.\<close>

theorem gossip_cache_monotone:
  assumes "(gossip_step x)\<^sup>*\<^sup>* m m'" and "cache_get (gm_gossip_cache m) n = Some ad"
  shows "\<exists>ad'. cache_get (gm_gossip_cache m') n = Some ad' \<and> ad_timestamp ad \<le> ad_timestamp ad'"
  using assms(1)
proof (induction rule: rtranclp_induct)
  case base
  then show ?case using assms(2) by auto
next
  case (step m1 m2)
  then obtain ad1 where "cache_get (gm_gossip_cache m1) n = Some ad1" "ad_timestamp ad \<le> ad_timestamp ad1"
    by blast
  then show ?case using gossip_step_mono [OF step(2)] by (meson order_trans)
qed

theorem gossip_cache_monotone_witness:
  "let m = sample_manager\<lparr> gm_gossip_cache := [2 \<mapsto> (sample_ad 2 950, 7)] \<rparr>;
       m' = snd (validate_and_add_advertisement gossip_node 1000 8 m (sample_ad 2 900))
   in \<exists>ad'. cache_get (gm_gossip_cache m') 2 = Some ad' \<and> 950 \<le> ad_timestamp ad'"
proof -
  define m where "m = sample_manager\<lparr> gm_gossip_cache := [2 \<mapsto> (sample_ad 2 950, 7)] \<rparr>"
  have "(gossip_step gossip_node)\<^sup>*\<^sup>* m
          (snd (validate_and_add_advertisement gossip_node 1000 8 m (sample_ad 2 900)))"
    by (rule r_into_rtranclp) (rule gossip_step.Advertised)
  moreover have "cache_get (gm_gossip_cache m) 2 = Some (sample_ad 2 950)"
    by (simp add: m_def cache_get_def)
  moreover have "ad_timestamp (sample_ad 2 950) = 950" by (simp add: sample_ad_def)
  ultimately show ?thesis
    using gossip_cache_monotone [of gossip_node m _ 2 "sample_ad 2 950"]
    unfolding Let_def m_def by metis
qed

text \<open>C15: The evidence does not cover the claimed node identity, the timestamp or the measurement hash.
  Whoever holds one advertisement with accepted evidence can relabel it with another node's
  identity and a newer timestamp: every node that has that identity cached then replaces the entry,
  and the identity leads to the addresses of the relabelled advertisement.\<close>

theorem gossip_entry_takeover:
  assumes "verify_evidence x ad = Ok ()"
    and "forged = ad\<lparr> ad_node_id := n, ad_timestamp := stamp, ad_measurement_hash := h \<rparr>"
    and "validate_format x now forged = Ok ()"
    and "age_hours now forged \<le> gc_max_advertisement_age_hours (gm_config m)"
    and "n \<noteq> gm_node_id m"
    and "cache_get (gm_gossip_cache m) n = Some existing" and "ad_timestamp existing < stamp"
  shows "\<exists>m'. validate_and_add_advertisement x now r m forged = (Ok (), m') \<and>
     cache_get (gm_gossip_cache m') n = Some forged \<and>
     ad_raft_address forged = ad_raft_address ad \<and> ad_api_address forged = ad_api_address ad"
  using assms by (subst validate_and_add_fresh) (auto simp: verify_evidence_unbound cache_get_def)

theorem gossip_entry_takeover_witness:
  "let victim = (sample_ad 2 900)\<lparr> ad_raft_address := SocketAddr (V4 (Ipv4Addr 0 0 0 2)) 8444 \<rparr>;
       m = sample_manager\<lparr> gm_gossip_cache := [2 \<mapsto> (victim, 7)] \<rparr>
   in \<exists>m'. validate_and_add_advertisement gossip_node 1000 8 m (sample_ad 2 950) = (Ok (), m') \<and>
        cache_get (gm_gossip_cache m') 2 = Some (sample_ad 2 950)"
proof -
  define v where "v = (sample_ad 2 900)\<lparr> ad_raft_address := SocketAddr (V4 (Ipv4Addr 0 0 0 2)) 8444 \<rparr>"
  define m where "m = sample_manager\<lparr> gm_gossip_cache := [2 \<mapsto> (v, 7)] \<rparr>"
  have forged: "sample_ad 2 950 = (sample_ad 3 900)\<lparr> ad_node_id := 2, ad_timestamp := 950,
      ad_measurement_hash := sample_hex_encode (replicate 32 1) \<rparr>"
    by (simp add: sample_ad_def)
  have "validate_format gossip_node 1000 (sample_ad 2 950) = Ok ()"
    using sample_ad_format by simp
  moreover have "age_hours 1000 (sample_ad 2 950) \<le> gc_max_advertisement_age_hours (gm_config m)"
    by (simp add: age_hours_def sample_ad_def m_def sample_manager_def gossip_config_default_def)
  moreover have "(2::NodeId) \<noteq> gm_node_id m" by (simp add: m_def sample_manager_def)
  moreover have "cache_get (gm_gossip_cache m) 2 = Some v" by (simp add: m_def cache_get_def)
  moreover have "ad_timestamp v < 950" by (simp add: v_def sample_ad_def)
  ultimately have "\<exists>m'. validate_and_add_advertisement gossip_node 1000 8 m (sample_ad 2 950) = (Ok (), m') \<and>
        cache_get (gm_gossip_cache m') 2 = Some (sample_ad 2 950)"
    using gossip_entry_takeover [OF sample_ad_verified forged] by blast
  then show ?thesis unfolding Let_def m_def v_def .
qed

text \<open>The address binding hashes the two address texts without a separator, so different address
  pairs have the same binding whatever the hash function is: evidence made for one pair also
  vouches for the other.\<close>

theorem address_binding_ambiguous:
  "compute_address_binding x (SocketAddr (V4 (Ipv4Addr 1 2 3 4)) 8) (SocketAddr (V4 (Ipv4Addr 44 5 6 7)) 1) =
   compute_address_binding x (SocketAddr (V4 (Ipv4Addr 1 2 3 4)) 84) (SocketAddr (V4 (Ipv4Addr 4 5 6 7)) 1)"
proof -
  have "show_socket_addr (SocketAddr (V4 (Ipv4Addr 1 2 3 4)) 8) @ show_socket_addr (SocketAddr (V4 (Ipv4Addr 44 5 6 7)) 1) =
    show_socket_addr (SocketAddr (V4 (Ipv4Addr 1 2 3 4)) 84) @ show_socket_addr (SocketAddr (V4 (Ipv4Addr 4 5 6 7)) 1)"
    by code_simp
  then show ?thesis
    unfolding compute_address_binding_def str_bytes_def map_append [symmetric] by (simp only:)
qed

text \<open>The advertisement a TDX node makes is accepted by its peers: with an attester whose evidence
  carries the given report data and encoders that can be undone, a freshly created advertisement
  passes the evidence check, and the measurement hash it states is the one of its evidence.\<close>

theorem honest_advertisement_accepted:
  assumes "tdx_attester_faithful x"
    and "detect_available_tee path_exists = Some Tdx" and "gm_cached_evidence m = None"
    and "create_advertisement x path_exists stamp m = (Ok ad, m')"
  shows "verify_evidence x ad = Ok () \<and>
     measurement_hash_from_evidence x (ad_evidence ad) = Ok (ad_measurement_hash ad)"
proof -
  let ?b = "compute_address_binding x (gm_raft_address m) (gm_api_address m)"
  from assms(4) obtain ev h where g: "get_or_generate_evidence x path_exists m = (Ok (ev, h), m')"
    and ad: "ad = advertisement_new stamp (gm_node_id m) (gm_raft_address m) (gm_api_address m) h
        (gm_instance_id m) ev"
    by (auto simp: create_advertisement_def split: prod.splits)
  note fresh = get_or_generate_fresh [OF g assms(3)]
  obtain i e bs where d: "hex_decode x (gm_instance_id m) = Inr i" "length i = 32" "length ?b = 32"
    "get_evidence x Tdx (?b @ i) = Inr e" "json_to_vec x e = Inr bs" "ev = base64_encode x bs"
    by (rule generate_gossip_tdx [OF fresh(1) assms(2)])
  then have len: "length (?b @ i) = 64" by simp
  have "json_from_slice x bs = Inr e" "ev \<noteq> []" "base64_decode x ev = Inr bs"
    using assms(1) len d(4,5) unfolding tdx_attester_faithful_def d(6) by blast+
  then have "verify_evidence x ad = Ok ()"
    using d by (intro honest_tdx_verified [OF assms(1), where b = ?b])
      (simp_all add: ad advertisement_new_def)
  then show ?thesis using fresh(2) by (simp add: ad advertisement_new_def)
qed

theorem honest_advertisement_accepted_witness:
  "\<exists>ad m'. create_advertisement attesting_node (\<lambda>_. True) 900 sample_manager = (Ok ad, m') \<and>
     verify_evidence attesting_node ad = Ok ()"
proof -
  have tee: "detect_available_tee (\<lambda>_. True) = Some Tdx"
    by (simp add: detect_available_tee_def is_tee_available_def)
  have "\<exists>ad m'. create_advertisement attesting_node (\<lambda>_. True) 900 sample_manager = (Ok ad, m')"
    using attesting_node_evidence [of "gm_raft_address sample_manager" "gm_api_address sample_manager"]
    by (auto simp: create_advertisement_def get_or_generate_evidence_def sample_manager_def Let_def
        del: and_then_Ok)
  then show ?thesis
    using honest_advertisement_accepted [OF attesting_node_faithful tee, of sample_manager 900]
    by (auto simp: sample_manager_def)
qed

text \<open>Pulling a peer list never panics: every node the trusted registry lists has an API address,
  and checking a received advertisement always returns. The result differs from the manager before
  in its cache at most.\<close>

theorem pull_peer_list_total:
  "\<exists>c. pull_peer_list x (Some t) pick fetch now received m = Ok (m\<lparr> gm_gossip_cache := c \<rparr>)"
proof -
  let ?nodes = "get_trusted_nodes t"
  have "?nodes = [] \<or> get_api_addr t (?nodes ! (pick ?nodes mod length ?nodes)) \<noteq> None"
  proof (cases "?nodes = []")
    case False
    have "?nodes ! (pick ?nodes mod length ?nodes) \<in> set ?nodes" using False by simp
    then show ?thesis using set_get_trusted_nodes [of t] by (auto simp: is_trusted_def get_api_addr_def)
  qed simp
  then show ?thesis
    using add_all_cache_only [of x now received m] manager_same_cache [of m]
    by (auto simp: pull_peer_list_def Let_def trusted_get_def split: option.splits)
qed

end
