(* ===== verification/Node_Api.thy ===== *)
theory Node_Api
  imports Api_Error Attestation Gossip
begin

text \<open>
  The HTTP handlers of a guardian node, \<open>bootstrap/src/guardian_node_api.rs\<close>. A handler takes the API
  state and the decoded request and gives the response, or an \<open>ApiError\<close>, and the new state; the
  clocks are arguments. The properties cover the statuses clients see, which advertisements are
  accepted, what the peer list may contain after any sequence of requests, and what the quote
  endpoint signs.
\<close>

section \<open>Handlers\<close>

record GuardianNodeApiState =
  na_node_id :: NodeId
  na_attestation :: AttestationApiState
  na_gossip_cache :: GossipedPeerCache
  na_gossip_config :: GossipConfig

definition node_api_new ::
  "NodeId \<Rightarrow> AttestationApiState \<Rightarrow> GossipedPeerCache \<Rightarrow> GossipConfig \<Rightarrow> GuardianNodeApiState" where
  "node_api_new node_id attestation gossip_cache gossip_config =
     \<lparr> na_node_id = node_id, na_attestation = attestation, na_gossip_cache = gossip_cache,
       na_gossip_config = gossip_config \<rparr>"

record QuoteResponse =
  qr_evidence :: string
  qr_timestamp :: nat

record AdvertiseResponse =
  ar_accepted :: bool
  ar_reason :: "string option"

definition verification_error_to_api :: "VerificationError \<Rightarrow> ApiError" where
  "verification_error_to_api e =
     (let msg = show_verification_error e in
      if str_contains msg ''not trusted'' \<or> str_contains msg ''not found'' then Forbidden msg
      else if str_contains msg ''expired'' \<or> str_contains msg ''mismatch'' then BadRequest msg
      else Internal msg)"

definition register_handler ::
  "'j crates \<Rightarrow> 'j http_send \<Rightarrow> instant \<Rightarrow> instant \<Rightarrow> utc \<Rightarrow> bytes \<Rightarrow> GuardianNodeApiState \<Rightarrow> string \<Rightarrow>
   string \<Rightarrow> (RegistrationResponse, ApiError) outcome \<times> GuardianNodeApiState" where
  "register_handler x send now later utc rnd state namespace evidence =
     (let (r, a) = handle_register x send now later utc rnd (na_attestation state) namespace evidence
      in (map_err verification_error_to_api r, state\<lparr> na_attestation := a \<rparr>))"

definition verify_handler ::
  "'j crates \<Rightarrow> instant \<Rightarrow> utc \<Rightarrow> GuardianNodeApiState \<Rightarrow> string \<Rightarrow> string \<Rightarrow>
   (VerificationResponse, ApiError) outcome \<times> GuardianNodeApiState" where
  "verify_handler x now utc state namespace evidence =
     (let (r, a) = handle_verify x now utc (na_attestation state) namespace evidence
      in (map_err verification_error_to_api r, state\<lparr> na_attestation := a \<rparr>))"

definition quote_handler ::
  "'j crates \<Rightarrow> (string \<Rightarrow> bool) \<Rightarrow> nat \<Rightarrow> string \<Rightarrow> (QuoteResponse, ApiError) outcome" where
  "quote_handler x path_exists now nonce =
     (if \<not> is_tee_available path_exists Tdx
      then Err (ServiceUnavailable ''TDX platform not available'')
      else and_then (map_err (\<lambda>e. BadRequest (''Invalid hex nonce: '' @ e)) (of_sum (hex_decode x nonce)))
        (\<lambda>nonce_bytes.
          if length nonce_bytes > 64 then Err (BadRequest ''Nonce must be 64 bytes or less'')
          else (let copy_len = min (length nonce_bytes) 64;
                    report_data = take copy_len nonce_bytes @ drop copy_len (replicate 64 0)
                in and_then (map_err (\<lambda>e. Internal (''Failed to generate attestation: '' @ e))
                               (of_sum (get_evidence x Tdx report_data)))
                     (\<lambda>raw_evidence.
                       Ok \<lparr> qr_evidence = base64_encode x (str_bytes (json_to_string x raw_evidence)),
                            qr_timestamp = now \<rparr>))))"

definition peers_handler :: "NodeId list \<Rightarrow> GuardianNodeApiState \<Rightarrow> PeerAdvertisement list" where
  "peers_handler order state =
     take (gc_max_peers_per_message (na_gossip_config state))
       (get_all_advertisements order (na_gossip_cache state))"

definition advertise_handler ::
  "'j crates \<Rightarrow> nat \<Rightarrow> instant \<Rightarrow> GuardianNodeApiState \<Rightarrow> PeerAdvertisement \<Rightarrow>
   (AdvertiseResponse, ApiError) outcome \<times> GuardianNodeApiState" where
  "advertise_handler x now received state ad =
     (case validate_format x now ad of
        Err e \<Rightarrow> (Ok \<lparr> ar_accepted = False, ar_reason = Some (''Invalid format: '' @ e) \<rparr>, state)
      | Panic s \<Rightarrow> (Panic s, state)
      | Ok _ \<Rightarrow>
          if age_hours now ad > gc_max_advertisement_age_hours (na_gossip_config state)
          then (Ok \<lparr> ar_accepted = False,
                     ar_reason = Some (''Advertisement too old: '' @ show_nat (age_hours now ad) @ '' hours'') \<rparr>,
                state)
          else (case verify_evidence x ad of
                  Err e \<Rightarrow> (Ok \<lparr> ar_accepted = False,
                                ar_reason = Some (''Evidence verification failed: '' @ e) \<rparr>, state)
                | Panic s \<Rightarrow> (Panic s, state)
                | Ok _ \<Rightarrow>
                    if ad_node_id ad = na_node_id state
                    then (Ok \<lparr> ar_accepted = False, ar_reason = Some ''Cannot advertise as this node'' \<rparr>, state)
                    else (Ok \<lparr> ar_accepted = True, ar_reason = None \<rparr>,
                          state\<lparr> na_gossip_cache := add_verified received (na_gossip_cache state) ad \<rparr>)))"

section \<open>Steps and invariant\<close>

text \<open>The requests that change the state, and the cleanup task that shares the session registry.\<close>

inductive api_step :: "'j crates \<Rightarrow> GuardianNodeApiState \<Rightarrow> GuardianNodeApiState \<Rightarrow> bool" for x where
  Register: "api_step x s (snd (register_handler x send now later utc rnd s ns ev))"
| Verify: "api_step x s (snd (verify_handler x now utc s ns ev))"
| Advertise: "api_step x s (snd (advertise_handler x now received s ad))"
| Cleanup: "api_step x s (s\<lparr> na_attestation := (na_attestation s)\<lparr> as_peer_registry :=
     snd (cleanup_expired now (as_peer_registry (na_attestation s))) \<rparr> \<rparr>)"

definition api_init :: "GuardianNodeApiState \<Rightarrow> bool" where
  "api_init s \<longleftrightarrow> na_gossip_cache s = cache_new \<and>
     (\<exists>url. na_attestation s = attestation_api_new url) \<and> na_gossip_config s = gossip_config_default"

definition api_inv :: "'j crates \<Rightarrow> GuardianNodeApiState \<Rightarrow> bool" where
  "api_inv x s \<longleftrightarrow> registry_inv (as_peer_registry (na_attestation s)) \<and>
     na_gossip_config s = gossip_config_default \<and>
     verified_cache x (na_node_id s) (na_gossip_cache s)"

text \<open>Documented behaviour of \<open>serde_json\<close> and \<open>base64\<close> on the text of TDX evidence.\<close>

definition evidence_text_faithful :: "'j crates \<Rightarrow> bool" where
  "evidence_text_faithful x \<longleftrightarrow>
     (\<forall>d e. get_evidence x Tdx d = Inr e \<longrightarrow>
        json_from_slice x (str_bytes (json_to_string x e)) = Inr e \<and>
        base64_encode x (str_bytes (json_to_string x e)) \<noteq> [] \<and>
        base64_decode x (base64_encode x (str_bytes (json_to_string x e))) =
          Inr (str_bytes (json_to_string x e)))"

section \<open>Lemmas\<close>

lemma advertise_handler_returns: "no_panic (fst (advertise_handler x now r s ad))"
  using validate_format_returns [of x now ad] verify_evidence_returns [of x ad]
  by (auto simp: advertise_handler_def split: outcome.splits)

lemma advertise_handler_cases:
  "(validate_format x now ad = Ok () \<and>
      age_hours now ad \<le> gc_max_advertisement_age_hours (na_gossip_config s) \<and>
      verify_evidence x ad = Ok () \<and> ad_node_id ad \<noteq> na_node_id s \<and>
      advertise_handler x now r s ad = (Ok \<lparr> ar_accepted = True, ar_reason = None \<rparr>,
        s\<lparr> na_gossip_cache := add_verified r (na_gossip_cache s) ad \<rparr>)) \<or>
   ((validate_format x now ad \<noteq> Ok () \<or>
      age_hours now ad > gc_max_advertisement_age_hours (na_gossip_config s) \<or>
      verify_evidence x ad \<noteq> Ok () \<or> ad_node_id ad = na_node_id s) \<and>
      (\<exists>why. advertise_handler x now r s ad = (Ok \<lparr> ar_accepted = False, ar_reason = Some why \<rparr>, s)))"
  using validate_format_returns [of x now ad] verify_evidence_returns [of x ad]
  by (auto simp: advertise_handler_def split: outcome.splits)

lemma registry_inv_steps: "registry_step\<^sup>*\<^sup>* reg reg' \<Longrightarrow> registry_inv reg \<Longrightarrow> registry_inv reg'"
  by (rule registry.steps_inv)

lemma api_inv_step:
  assumes "api_inv x s" and "api_step x s t"
  shows "api_inv x t"
  using assms(2)
proof cases
  case (Register send now later utc rnd ns ev)
  let ?reg = "as_peer_registry (na_attestation s)"
  have "registry_inv (snd (register_tee x send (as_measurement_client (na_attestation s)) now later utc rnd ?reg ns ev))"
    by (rule registry_inv_steps [OF register_is_step]) (use assms(1) in \<open>simp add: api_inv_def\<close>)
  then show ?thesis
    using assms(1) Register by (simp add: api_inv_def register_handler_def handle_register_def split_beta)
next
  case (Verify now utc ns ev)
  have "registry_inv (snd (verify_tee x now utc (as_peer_registry (na_attestation s)) ns ev))"
    by (rule registry_inv_steps [OF verify_is_step]) (use assms(1) in \<open>simp add: api_inv_def\<close>)
  then show ?thesis
    using assms(1) Verify by (simp add: api_inv_def verify_handler_def handle_verify_def split_beta)
next
  case (Advertise now received ad)
  then show ?thesis
    using assms(1) advertise_handler_cases [of x now ad s received]
    by (auto simp: api_inv_def verified_cache_add)
next
  case (Cleanup now)
  then show ?thesis using assms(1) registry_inv_cleanup by (simp add: api_inv_def)
qed

interpretation node_api: stepping_system api_init "api_step x" "api_inv x"
  for x :: "'j crates"
proof
  show "api_inv x s" if "api_init s" for s
    using that registry_inv_new
    by (auto simp: api_inv_def api_init_def verified_cache_new attestation_api_new_def registry_new_def)
qed (rule api_inv_step)

lemma in_get_all_advertisements:
  "ad \<in> set (get_all_advertisements order peers) \<longleftrightarrow> (\<exists>n \<in> set order. cache_get peers n = Some ad)"
  by (induction order) (auto simp: get_all_advertisements_def List.map_filter_simps split: option.splits)

lemma attesting_node_text: "evidence_text_faithful attesting_node"
proof -
  have "str_bytes (map (\<lambda>b. char_of (unat b)) bs) = bs" for bs
    by (simp add: str_bytes_def)
  moreover have "quote_with d \<noteq> []" for d by (simp add: quote_with_def sample_header_def)
  ultimately show ?thesis by (simp add: evidence_text_faithful_def attesting_node_sel)
qed

section \<open>Properties\<close>

text \<open>What a node hands to its peers is verified: after any sequence of register, verify and
  advertise requests and cleanups on a fresh API state, every advertisement in the peer list has
  accepted evidence that carries its instance identity and the binding of its addresses, none
  claims the node's own identity, and the list has at most fifty entries.\<close>

theorem peer_list_verified:
  assumes "api_init s0" and "(api_step x)\<^sup>*\<^sup>* s0 s" and "ad \<in> set (peers_handler order s)"
  shows "advertisement_proved x ad \<and> ad_node_id ad \<noteq> na_node_id s \<and>
     length (peers_handler order s) \<le> 50"
proof -
  have inv: "api_inv x s" using node_api.reachable_inv [OF assms(1,2)] .
  obtain n where "cache_get (na_gossip_cache s) n = Some ad"
    using assms(3) in_get_all_advertisements [of ad order "na_gossip_cache s"]
    by (auto simp: peers_handler_def dest: in_set_takeD)
  then have "ad_node_id ad \<noteq> na_node_id s" "verify_evidence x ad = Ok ()"
    using inv by (auto simp: api_inv_def verified_cache_def)
  then show ?thesis
    using inv verify_evidence_Ok by (auto simp: api_inv_def peers_handler_def gossip_config_default_def)
qed

theorem peer_list_verified_witness:
  "let s0 = node_api_new 1 (attestation_api_new ''http://r'') cache_new gossip_config_default;
       s = snd (advertise_handler gossip_node 1000 7 s0 (sample_ad 2 900))
   in peers_handler [2] s = [sample_ad 2 900] \<and> advertisement_proved gossip_node (sample_ad 2 900)"
proof -
  define s0 where "s0 = node_api_new 1 (attestation_api_new ''http://r'') cache_new gossip_config_default"
  define s where "s = snd (advertise_handler gossip_node 1000 7 s0 (sample_ad 2 900))"
  have init: "api_init s0" by (auto simp: s0_def api_init_def node_api_new_def)
  have step: "(api_step gossip_node)\<^sup>*\<^sup>* s0 s"
    unfolding s_def by (rule r_into_rtranclp) (rule api_step.Advertise)
  have "s = s0\<lparr> na_gossip_cache := [2 \<mapsto> (sample_ad 2 900, 7)] \<rparr>"
    using sample_ad_verified [of 2 900] sample_ad_format [of 900 1000 2]
    by (simp add: s_def advertise_handler_def s0_def node_api_new_def age_hours_def
        gossip_config_default_def add_verified_def cache_new_def) (simp add: sample_ad_def)
  then have list: "peers_handler [2] s = [sample_ad 2 900]"
    by (simp add: peers_handler_def get_all_advertisements_def List.map_filter_simps cache_get_def
        s0_def node_api_new_def gossip_config_default_def)
  then have "advertisement_proved gossip_node (sample_ad 2 900)"
    using peer_list_verified [OF init step, of "sample_ad 2 900" "[2]"] by simp
  with list show ?thesis unfolding s_def s0_def Let_def by simp
qed

text \<open>The advertise endpoint always answers, and it accepts exactly the well-formed advertisements
  that are fresh, whose evidence verifies and that do not claim the node's own identity. An
  accepted advertisement goes to the cache unless the cache has one at least as new; a refused one
  leaves the state as it is and comes with a reason.\<close>

theorem advertise_handler_spec:
  "\<exists>resp s'. advertise_handler x now r s ad = (Ok resp, s') \<and>
     (ar_accepted resp \<longleftrightarrow> validate_format x now ad = Ok () \<and>
        age_hours now ad \<le> gc_max_advertisement_age_hours (na_gossip_config s) \<and>
        verify_evidence x ad = Ok () \<and> ad_node_id ad \<noteq> na_node_id s) \<and>
     (ar_accepted resp \<longleftrightarrow> ar_reason resp = None) \<and>
     s' = (if ar_accepted resp then s\<lparr> na_gossip_cache := add_verified r (na_gossip_cache s) ad \<rparr> else s)"
  using advertise_handler_cases [of x now ad s r]
  by (elim disjE conjE exE) (rule exI, rule exI, rule conjI, assumption, auto)+

text \<open>C17: The quote endpoint signs any report data its caller chooses. With a TDX attester that puts
  the given report data into its evidence, a caller who asks for the hash of its own addresses
  followed by the node's instance identity gets evidence with which an advertisement of those
  addresses under that instance identity is accepted, for any claimed node identity.\<close>

theorem quote_endpoint_vouches:
  assumes "tdx_attester_faithful x" and "evidence_text_faithful x" and "hex_round_trip x"
    and "sha256_digest_size x" and "length i = 32"
    and "quote_handler x path_exists now (hex_encode x (compute_address_binding x raft api @ i)) = Ok qr"
  shows "verify_evidence x \<lparr> ad_node_id = n, ad_raft_address = raft, ad_api_address = api,
     ad_measurement_hash = h, ad_instance_id = hex_encode x i, ad_timestamp = stamp,
     ad_evidence = qr_evidence qr \<rparr> = Ok ()"
proof -
  let ?b = "compute_address_binding x raft api"
  have b: "length ?b = 32" using assms(4) by (simp add: compute_address_binding_def sha256_digest_size_def)
  from assms(3,5,6) b obtain e where e: "get_evidence x Tdx (?b @ i) = Inr e"
    and ev: "qr_evidence qr = base64_encode x (str_bytes (json_to_string x e))"
    by (auto simp: quote_handler_def hex_round_trip_def Let_def split: if_splits)
  show ?thesis
    using assms(2,3,5) b e
    by (intro honest_tdx_verified [OF assms(1), where b = ?b and i = i and e = e])
      (auto simp: ev evidence_text_faithful_def hex_round_trip_def)
qed

theorem quote_endpoint_vouches_witness:
  "let raft = SocketAddr (V4 (Ipv4Addr 6 6 6 6)) 1; i = replicate 32 6
   in \<exists>qr. quote_handler attesting_node (\<lambda>_. True) 900
        (hex_encode attesting_node (compute_address_binding attesting_node raft raft @ i)) = Ok qr \<and>
      verify_evidence attesting_node \<lparr> ad_node_id = 2, ad_raft_address = raft, ad_api_address = raft,
        ad_measurement_hash = [], ad_instance_id = hex_encode attesting_node i, ad_timestamp = 900,
        ad_evidence = qr_evidence qr \<rparr> = Ok ()"
proof -
  define raft where "raft = SocketAddr (V4 (Ipv4Addr 6 6 6 6)) 1"
  define i :: bytes where "i = replicate 32 6"
  have hex: "hex_round_trip attesting_node" and sha: "sha256_digest_size attesting_node"
    using sample_hex_round_trip sample_sha256_digest_size
    by (simp_all add: hex_round_trip_def sha256_digest_size_def attesting_node_def sample_crates_def)
  have len: "length i = 32" by (simp add: i_def)
  have "length (compute_address_binding attesting_node raft raft) = 32"
    using sha by (simp add: compute_address_binding_def sha256_digest_size_def)
  then have "\<exists>qr. quote_handler attesting_node (\<lambda>_. True) 900
        (hex_encode attesting_node (compute_address_binding attesting_node raft raft @ i)) = Ok qr"
    using hex len
    by (simp add: quote_handler_def is_tee_available_def hex_round_trip_def attesting_node_sel Let_def
        del: and_then_Ok)
  then show ?thesis
    using quote_endpoint_vouches [OF attesting_node_faithful attesting_node_text hex sha len]
    unfolding Let_def raft_def i_def by blast
qed

text \<open>The statuses the API sends are not the ones the verification errors declare. A measurement
  that is not trusted is 403 as declared, but a missing challenge is 500 instead of 404, a missing
  identity 500 instead of 409, a conflicting one 500 instead of 409 for a plain hexadecimal
  identity, a debug platform 500 instead of 403, and an expired challenge 400 instead of 401.\<close>

theorem api_status_divergence:
  "api_status_code (verification_error_to_api (MeasurementNotTrusted m)) = 403 \<and>
   status_code (MeasurementNotTrusted m) = 403 \<and>
   api_status_code (verification_error_to_api NoPendingChallenge) = 500 \<and>
   status_code NoPendingChallenge = 404 \<and>
   api_status_code (verification_error_to_api IdentityRequired) = 500 \<and>
   status_code IdentityRequired = 409 \<and>
   api_status_code (verification_error_to_api (IdentityConflict ''00ff'')) = 500 \<and>
   status_code (IdentityConflict ''00ff'') = 409 \<and>
   api_status_code (verification_error_to_api DebugNotAllowed) = 500 \<and>
   status_code DebugNotAllowed = 403 \<and>
   api_status_code (verification_error_to_api (NonceVerificationFailed ''Challenge expired'')) = 400 \<and>
   status_code (NonceVerificationFailed ''Challenge expired'') = 401"
proof -
  have "str_contains (show_verification_error (MeasurementNotTrusted m)) ''not trusted''"
    unfolding str_contains_iff by (rule exI [of _ "''Measurement ''"]) simp
  then have "api_status_code (verification_error_to_api (MeasurementNotTrusted m)) = 403"
    by (simp only: verification_error_to_api_def Let_def simp_thms if_True api_status_code.simps)
  moreover have "api_status_code (verification_error_to_api NoPendingChallenge) = 500"
    "api_status_code (verification_error_to_api IdentityRequired) = 500"
    "api_status_code (verification_error_to_api (IdentityConflict ''00ff'')) = 500"
    "api_status_code (verification_error_to_api DebugNotAllowed) = 500"
    "api_status_code (verification_error_to_api (NonceVerificationFailed ''Challenge expired'')) = 400"
    by code_simp+
  ultimately show ?thesis by simp
qed

end
