(* ===== verification/Protocol_Run.thy ===== *)
theory Protocol_Run
  imports Node_Api
begin

text \<open>
  Runs of the protocols across nodes, composed from the handlers of \<open>Node_Api\<close> and the gossip manager:
  a candidate that is attested in two phases, and an advertisement on its way from the node that
  makes it, over the node it is sent to, to a third node. The nodes share the crates; the clocks of each
  call are arguments.
\<close>

section \<open>Lemmas\<close>

text \<open>What the quote endpoint of a TDX node hands out decodes to evidence for the requested report data.\<close>

lemma quote_handler_evidence:
  assumes "tdx_attester_faithful x" and "evidence_text_faithful x" and "hex_round_trip x" and "length d = 64"
    and "quote_handler x path_exists now (hex_encode x d) = Ok qr"
  obtains e q v where "get_evidence x Tdx d = Inr e" "decode_evidence x (qr_evidence qr) = Ok (Tdx, e)"
    "tdx_from_json x e = Ok q" "tdx_verify_signature x q = Ok v" "vt_quote v = q" "tq_report_data q = d"
proof -
  from assms(3-5) obtain e where e: "get_evidence x Tdx d = Inr e"
    and ev: "qr_evidence qr = base64_encode x (str_bytes (json_to_string x e))"
    by (auto simp: quote_handler_def hex_round_trip_def Let_def split: if_splits)
  obtain q v where q: "detect_tee_type x e = Some Tdx" "tdx_from_json x e = Ok q" "tdx_verify_signature x q = Ok v"
    "vt_quote v = q" "tq_report_data q = d"
    by (rule honest_tdx_evidence [OF assms(1,4) e])
  have "decode_evidence x (qr_evidence qr) = Ok (Tdx, e)"
    using assms(2) e q(1) by (simp add: decode_evidence_def ev evidence_text_faithful_def)
  with e q show thesis using that by blast
qed

lemma report_data_halves:
  assumes "tq_report_data q = b @ i" and "length b = 32" and "length i = 32"
  shows "tdx_report_data_binding q = b" "tdx_instance_id q = InstanceId i"
  using assms by (simp_all add: tdx_report_data_binding_def tdx_instance_id_def subslice_def)

lemma register_new_session:
  assumes "\<not> is_verified reg i" and "get_pending_challenge now reg i = None"
  shows "\<exists>reg'. register now later rnd reg i ns h tee = (Ok (rnd, True), reg') \<and>
     get_pending_record reg' i = Some (new_pending later i ns rnd h tee (pr_challenge_expiry reg))"
  using assms
  by (auto simp: register_def is_verified_def get_pending_challenge_def get_pending_record_def send_event_def Let_def
      split: option.splits)

lemma register_handler_accepts:
  assumes "decode_evidence x ev = Ok (Tdx, e)" and "tdx_from_json x e = Ok q" and "tdx_verify_signature x q = Ok v"
    and "vt_quote v = q" and "tdx_instance_id q = i" and "\<not> is_zero i"
    and "verify_measurement send (as_measurement_client (na_attestation s)) ns (tdx_measurement_hash x q) = Ok True"
    and "\<not> is_verified (as_peer_registry (na_attestation s)) i"
    and "get_pending_challenge now (as_peer_registry (na_attestation s)) i = None"
  shows "\<exists>resp s'. register_handler x send now later utc rnd s ns ev = (Ok resp, s') \<and>
     rr_challenge resp = hex_encode x rnd \<and>
     get_pending_record (as_peer_registry (na_attestation s')) i =
       Some (new_pending later i ns rnd (tdx_measurement_hash x q) Tdx
              (pr_challenge_expiry (as_peer_registry (na_attestation s))))"
proof -
  have "phase1_checks x send (as_measurement_client (na_attestation s)) ns ev =
      Ok (Tdx, i, tdx_measurement_hash x q)"
    using assms by (simp add: phase1_checks_def phase1_attest_def check_whitelist_def del: and_then_Ok)
  with register_new_session [OF assms(8,9), of later rnd ns "tdx_measurement_hash x q" Tdx] show ?thesis
    by (auto simp: register_handler_def handle_register_def register_tee_def Let_def)
qed

lemma attesting_node_hex_round_trip: "hex_round_trip attesting_node"
  using sample_hex_round_trip by (simp add: hex_round_trip_def attesting_node_def sample_crates_def)

lemma attesting_quote:
  assumes "length d = 64"
  shows "\<exists>qr. quote_handler attesting_node (\<lambda>_. True) t (hex_encode attesting_node d) = Ok qr"
  using assms attesting_node_hex_round_trip
  by (simp add: quote_handler_def is_tee_available_def hex_round_trip_def attesting_node_sel Let_def del: and_then_Ok)

subsection \<open>Gossip\<close>

lemma measurement_hash_text:
  assumes "hex_two_chars x" and "hex_round_trip x" and "sha256_digest_size x"
    and "measurement_hash_from_evidence x ev = Ok h"
  shows "length h = 64 \<and> (\<exists>bs. hex_decode x h = Inr bs)"
  using assms
  by (auto simp: measurement_hash_from_evidence_def measurement_hash_from_json_def tdx_measurement_hash_def
      snp_measurement_hash_def hex_two_chars_def hex_round_trip_def sha256_digest_size_def split: tee.splits)
    (metis tee.exhaust)+

text \<open>The advertisement of an honest node is well formed for every node whose clock is not behind.\<close>

lemma honest_format:
  assumes "hex_two_chars x" and "hex_round_trip x" and "sha256_digest_size x"
    and "verify_evidence x ad = Ok ()" and "measurement_hash_from_evidence x (ad_evidence ad) = Ok (ad_measurement_hash ad)"
    and "length (ad_instance_id ad) = 64" and "unat (ad_timestamp ad) \<le> now + 300"
  shows "validate_format x now ad = Ok ()"
proof -
  have "\<exists>bs. hex_decode x (ad_instance_id ad) = Inr bs"
    using verify_evidence_Ok [OF assms(4)] by (auto simp: advertisement_proved_def)
  then show ?thesis
    using measurement_hash_text [OF assms(1-3,5)] assms(6,7) by (auto simp: validate_format_def)
qed

lemma validate_and_add_other:
  assumes "ad_node_id ad \<noteq> n"
  shows "cache_get (gm_gossip_cache (snd (validate_and_add_advertisement x now r m ad))) n = cache_get (gm_gossip_cache m) n"
  using assms
  by (auto simp: validate_and_add_advertisement_def add_verified_def cache_get_def split: outcome.splits option.splits)

lemma add_all_other:
  assumes "n \<notin> ad_node_id ` set ads"
  shows "cache_get (gm_gossip_cache (add_all x now r m ads)) n = cache_get (gm_gossip_cache m) n"
  using assms by (induction ads arbitrary: m) (auto simp: validate_and_add_other)

lemma validate_and_add_new:
  assumes "validate_format x now ad = Ok ()" and "age_hours now ad \<le> gc_max_advertisement_age_hours (gm_config m)"
    and "ad_node_id ad \<noteq> gm_node_id m" and "verify_evidence x ad = Ok ()"
    and "\<And>old. cache_get (gm_gossip_cache m) (ad_node_id ad) = Some old \<Longrightarrow> ad_timestamp old < ad_timestamp ad"
  shows "cache_get (gm_gossip_cache (snd (validate_and_add_advertisement x now r m ad))) (ad_node_id ad) = Some ad"
  using assms
  by (cases "gm_gossip_cache m (ad_node_id ad)")
    (auto simp: validate_and_add_advertisement_def add_verified_def cache_get_def)

text \<open>An acceptable advertisement in a list without rivals for its node ends up in the cache.\<close>

lemma add_all_takes:
  assumes "ad \<in> set ads" and "distinct (map ad_node_id ads)"
    and "\<And>i. validate_format x (now i) ad = Ok ()"
    and "\<And>i. age_hours (now i) ad \<le> gc_max_advertisement_age_hours (gm_config m)"
    and "ad_node_id ad \<noteq> gm_node_id m" and "verify_evidence x ad = Ok ()"
    and "\<And>old. cache_get (gm_gossip_cache m) (ad_node_id ad) = Some old \<Longrightarrow> ad_timestamp old < ad_timestamp ad"
  shows "cache_get (gm_gossip_cache (add_all x now r m ads)) (ad_node_id ad) = Some ad"
  using assms
proof (induction ads arbitrary: m)
  case (Cons a ads)
  show ?case
  proof (cases "a = ad")
    case True
    then have "ad_node_id ad \<notin> ad_node_id ` set ads" using Cons.prems(2) by auto
    with True validate_and_add_new [OF Cons.prems(3-7)] show ?thesis by (simp add: add_all_other)
  next
    case False
    with Cons.prems(1,2) have "ad \<in> set ads" "ad_node_id a \<noteq> ad_node_id ad" by auto
    then have "cache_get (gm_gossip_cache (snd (validate_and_add_advertisement x (now (length ads)) (r (length ads)) m a))) (ad_node_id ad) =
        cache_get (gm_gossip_cache m) (ad_node_id ad)"
      by (simp add: validate_and_add_other)
    moreover obtain c where "snd (validate_and_add_advertisement x (now (length ads)) (r (length ads)) m a) = m\<lparr> gm_gossip_cache := c \<rparr>"
      using add_all_cache_only [of x "\<lambda>_. now (length ads)" "\<lambda>_. r (length ads)" m "[a]"] by auto
    ultimately show ?thesis
      using Cons.IH [of "snd (validate_and_add_advertisement x (now (length ads)) (r (length ads)) m a)"] Cons.prems \<open>ad \<in> set ads\<close> by simp
  qed
qed simp

lemma peer_list_distinct:
  assumes "verified_cache x own peers" and "distinct order"
  shows "distinct (map ad_node_id (get_all_advertisements order peers))"
  using assms(2)
proof (induction order)
  case (Cons n order)
  have "ad_node_id ad \<noteq> n" if "ad \<in> set (get_all_advertisements order peers)" for ad
    using that Cons.prems assms(1) by (auto simp: in_get_all_advertisements verified_cache_def)
  then show ?case
    using Cons assms(1)
    by (auto simp: get_all_advertisements_def List.map_filter_simps verified_cache_def split: option.splits)
qed (simp add: get_all_advertisements_def List.map_filter_simps)

section \<open>Properties\<close>

text \<open>C5: The two-phase protocol completes for an honest candidate. A TDX candidate asks its own quote endpoint
  for a quote that carries its identity, and registers with it at a node whose registry trusts its
  measurement and does not know the identity yet. It gets a fresh challenge. When it then answers with a
  quote that carries the challenge and the identity, while its session is still pending and before the
  challenge expires, the node accepts and files it as verified, whatever happened to other sessions
  in between.\<close>

theorem attestation_completes:
  assumes "tdx_attester_faithful x" and "evidence_text_faithful x" and "hex_round_trip x"
    and "length b = 32" and "length i = 32" and "length rnd = 32" and "\<not> is_zero (InstanceId i)"
    and "quote_handler x path_exists t1 (hex_encode x (b @ i)) = Ok q1"
    and "quote_handler x path_exists t2 (hex_encode x (rnd @ i)) = Ok q2"
    and "\<And>e q. get_evidence x Tdx (b @ i) = Inr e \<Longrightarrow> tdx_from_json x e = Ok q \<Longrightarrow>
      verify_measurement send (as_measurement_client (na_attestation s)) ns (tdx_measurement_hash x q) = Ok True"
    and "\<not> is_verified (as_peer_registry (na_attestation s)) (InstanceId i)"
    and "get_pending_challenge now (as_peer_registry (na_attestation s)) (InstanceId i) = None"
    and "register_handler x send now later utc rnd s ns (qr_evidence q1) = (r1, s1)"
    and "get_pending_record (as_peer_registry (na_attestation s')) (InstanceId i) =
         get_pending_record (as_peer_registry (na_attestation s1)) (InstanceId i)"
    and "now' \<le> later + pr_challenge_expiry (as_peer_registry (na_attestation s))"
  shows "\<exists>resp resp' s''. r1 = Ok resp \<and> rr_challenge resp = hex_encode x rnd \<and>
     verify_handler x now' utc' s' ns (qr_evidence q2) = (Ok resp', s'') \<and> vr_verified resp' \<and>
     is_verified (as_peer_registry (na_attestation s'')) (InstanceId i)"
proof -
  obtain e q v where one: "get_evidence x Tdx (b @ i) = Inr e" "decode_evidence x (qr_evidence q1) = Ok (Tdx, e)"
    "tdx_from_json x e = Ok q" "tdx_verify_signature x q = Ok v" "vt_quote v = q" "tq_report_data q = b @ i"
    by (rule quote_handler_evidence [OF assms(1-3) _ assms(8)]) (use assms(4,5) in simp)
  obtain e2 q2' v2 where two: "decode_evidence x (qr_evidence q2) = Ok (Tdx, e2)"
    "tdx_from_json x e2 = Ok q2'" "tdx_verify_signature x q2' = Ok v2" "tq_report_data q2' = rnd @ i"
    by (rule quote_handler_evidence [OF assms(1-3) _ assms(9)]) (use assms(5,6) in simp)
  note halves = report_data_halves [OF one(6) assms(4,5)] report_data_halves [OF two(4) assms(6,5)]
  from register_handler_accepts [OF one(2-5) halves(2) assms(7) assms(10) [OF one(1,3)] assms(11,12),
      of later utc rnd] assms(13)
  obtain resp where r1: "r1 = Ok resp" "rr_challenge resp = hex_encode x rnd"
    and pend: "get_pending_record (as_peer_registry (na_attestation s')) (tdx_instance_id q2') =
      Some (new_pending later (InstanceId i) ns rnd (tdx_measurement_hash x q) Tdx
              (pr_challenge_expiry (as_peer_registry (na_attestation s))))"
    using assms(14) halves(4) by auto
  have "\<exists>reg' r. verify_tee x now' utc' (as_peer_registry (na_attestation s')) ns (qr_evidence q2) =
      (Ok \<lparr> vr_verified = True, vr_measurement_hash = Some (tdx_measurement_hash x q2'),
            vr_tcb_status = vt_tcb_status v2 \<rparr>, reg') \<and> get_verified reg' (tdx_instance_id q2') = Some r \<and>
      state_measurement_hash (tr_state r) = Some (tdx_measurement_hash x q2')"
    by (rule verify_tee_tdx_accepts [OF two(1-3) pend])
      (use assms(15) halves(3) in \<open>simp_all add: new_pending_valid\<close>, simp add: new_pending_def)
  with r1 halves(4) show ?thesis
    by (auto simp: verify_handler_def handle_verify_def is_verified_def get_verified_def)
qed

theorem attestation_completes_witness:
  "let s = node_api_new 1 (attestation_api_new ''http://r'') cache_new gossip_config_default; i = replicate 32 6;
       rnd = replicate 32 9
   in \<exists>q1 q2 resp s1 resp' s2.
      quote_handler attesting_node (\<lambda>_. True) 1 (hex_encode attesting_node (replicate 32 0 @ i)) = Ok q1 \<and>
      register_handler attesting_node trusting_registry 3 4 100 rnd s ''guardian'' (qr_evidence q1) = (Ok resp, s1) \<and>
      quote_handler attesting_node (\<lambda>_. True) 2 (hex_encode attesting_node (rnd @ i)) = Ok q2 \<and>
      verify_handler attesting_node 60 200 s1 ''guardian'' (qr_evidence q2) = (Ok resp', s2) \<and> vr_verified resp'"
proof -
  define s where "s = node_api_new 1 (attestation_api_new ''http://r'') cache_new gossip_config_default"
  define i :: bytes where "i = replicate 32 6"
  define rnd :: bytes where "rnd = replicate 32 9"
  define b :: bytes where "b = replicate 32 0"
  obtain q1 where q1: "quote_handler attesting_node (\<lambda>_. True) 1 (hex_encode attesting_node (b @ i)) = Ok q1"
    using attesting_quote [of "b @ i"] by (auto simp: b_def i_def)
  obtain q2 where q2: "quote_handler attesting_node (\<lambda>_. True) 2 (hex_encode attesting_node (rnd @ i)) = Ok q2"
    using attesting_quote [of "rnd @ i"] by (auto simp: rnd_def i_def)
  obtain r1 s1 where reg: "register_handler attesting_node trusting_registry 3 4 100 rnd s ''guardian'' (qr_evidence q1) =
    (r1, s1)" by fastforce
  have len: "length b = 32" "length i = 32" "length rnd = 32" "\<not> is_zero (InstanceId i)"
    by (simp_all add: b_def i_def rnd_def is_zero_def instance_as_bytes_def replicate_eq_replicate)
  have fresh: "\<not> is_verified (as_peer_registry (na_attestation s)) (InstanceId i)"
    "get_pending_challenge 3 (as_peer_registry (na_attestation s)) (InstanceId i) = None"
    "(60 :: nat) \<le> 4 + pr_challenge_expiry (as_peer_registry (na_attestation s))"
    "as_measurement_client (na_attestation s) = client_new ''http://r''"
    by (simp_all add: s_def node_api_new_def attestation_api_new_def registry_new_def registry_with_config_def
        is_verified_def get_pending_challenge_def DEFAULT_CHALLENGE_EXPIRY_def)
  have trust: "verify_measurement trusting_registry (as_measurement_client (na_attestation s)) ''guardian'' h = Ok True" for h
    unfolding fresh(4) by (rule trusting_registry_answer)
  from attestation_completes [OF attesting_node_faithful attesting_node_text attesting_node_hex_round_trip len q1 q2
      trust fresh(1,2) reg refl fresh(3), of 200]
  obtain resp resp' s2 where "r1 = Ok resp" "verify_handler attesting_node 60 200 s1 ''guardian'' (qr_evidence q2) = (Ok resp', s2)"
    "vr_verified resp'" by blast
  with q1 q2 reg show ?thesis unfolding s_def i_def rnd_def b_def Let_def by blast
qed

text \<open>C16: An advertisement reaches third nodes. A TDX node creates an advertisement of itself; a second node with
  another identity, in any state its API can reach in which it has no entry at least as new for the first node, and
  whose clock is at most five minutes behind the stamp and at most a day ahead of it, accepts it. A
  third node with the default configuration, under the same conditions on its cache and on every reading of its clock, that trusts the second,
  draws it at random and gets its peer list then has the advertisement in its cache, if the second has at
  most 50 entries, the length to which peer lists are cut.\<close>

theorem advertisement_propagates:
  assumes "tdx_attester_faithful x" and "hex_two_chars x" and "hex_round_trip x" and "sha256_digest_size x"
    and "detect_available_tee path_exists = Some Tdx" and "gm_cached_evidence a = None" and "length (gm_instance_id a) = 64"
    and "create_advertisement x path_exists stamp a = (Ok ad, a')"
    and "api_init s0" and "(api_step x)\<^sup>*\<^sup>* s0 s" and "na_node_id s \<noteq> gm_node_id a"
    and "unat stamp \<le> now + 300" and "now \<le> unat stamp + 24 * 3600"
    and "\<And>old. cache_get (na_gossip_cache s) (gm_node_id a) = Some old \<Longrightarrow> ad_timestamp old < stamp"
    and "gm_node_id c \<noteq> gm_node_id a" and "gm_config c = gossip_config_default"
    and "\<And>i. unat stamp \<le> now' i + 300" and "\<And>i. now' i \<le> unat stamp + 24 * 3600"
    and "\<And>old. cache_get (gm_gossip_cache c) (gm_node_id a) = Some old \<Longrightarrow> ad_timestamp old < stamp"
    and "advertise_handler x now received s ad = (r, s')"
    and "gm_node_id a \<in> set order" and "distinct order" and "length order \<le> 50"
    and "get_trusted_nodes t \<noteq> []" and "get_trusted_nodes t ! (pick (get_trusted_nodes t) mod length (get_trusted_nodes t)) = b"
    and "b \<noteq> gm_node_id c" and "get_api_addr t b = Some addr"
    and "fetch (''http://'' @ show_ipv4 (node_id_to_ip b) @ '':'' @ show_nat (unat (sa_port addr)) @ ''/guardian_node/peers'') =
      Some (peers_handler order s')"
  shows "r = Ok \<lparr> ar_accepted = True, ar_reason = None \<rparr> \<and>
     (\<exists>c'. pull_peer_list x (Some t) pick fetch now' received' c = Ok c' \<and>
        cache_get (gm_gossip_cache c') (gm_node_id a) = Some ad)"
proof -
  have ad: "ad_node_id ad = gm_node_id a" "ad_timestamp ad = stamp" "ad_instance_id ad = gm_instance_id a"
    using assms(8) by (auto simp: create_advertisement_def advertisement_new_def split: prod.splits)
  note honest = honest_advertisement_accepted [OF assms(1,5,6,8)]
  have format: "validate_format x u ad = Ok ()" "age_hours u ad \<le> 24"
    if "unat stamp \<le> u + 300" "u \<le> unat stamp + 24 * 3600" for u
    using honest_format [OF assms(2-4), of ad u] honest that ad assms(7) by (auto simp: age_hours_def)
  have inv: "api_inv x s" using node_api.reachable_inv [OF assms(9,10)] .
  then have config: "na_gossip_config s = gossip_config_default" by (simp add: api_inv_def)
  have accepted: "r = Ok \<lparr> ar_accepted = True, ar_reason = None \<rparr>"
    "s' = s\<lparr> na_gossip_cache := add_verified received (na_gossip_cache s) ad \<rparr>"
    using assms(20) advertise_handler_cases [of x now ad s received] format [OF assms(12,13)] honest config ad assms(11)
    by (auto simp: gossip_config_default_def)
  have listed: "cache_get (na_gossip_cache s') (gm_node_id a) = Some ad"
    using accepted(2) ad assms(14) by (cases "na_gossip_cache s (gm_node_id a)") (auto simp: add_verified_def cache_get_def)
  have "api_inv x s'"
    using api_inv_step [OF inv api_step.Advertise [of x s now received ad]] assms(20) by simp
  then have verified: "verified_cache x (na_node_id s') (na_gossip_cache s')"
    and config': "na_gossip_config s' = gossip_config_default" by (simp_all add: api_inv_def)
  have "length (get_all_advertisements order (na_gossip_cache s')) \<le> length order"
    by (simp add: get_all_advertisements_def List.map_filter_def)
  then have list: "peers_handler order s' = get_all_advertisements order (na_gossip_cache s')"
    using assms(23) by (simp add: peers_handler_def config' gossip_config_default_def)
  have "cache_get (gm_gossip_cache (add_all x now' received' c (peers_handler order s'))) (ad_node_id ad) = Some ad"
    unfolding list
    by (rule add_all_takes)
      (use listed assms(15,16,19,21,22) ad format [OF assms(17,18)] honest peer_list_distinct [OF verified]
        in \<open>auto simp: in_get_all_advertisements gossip_config_default_def\<close>)
  then show ?thesis
    using accepted(1) ad(1) assms(24-28) by (simp add: Let_def pull_peer_list_def trusted_get_def)
qed

theorem advertisement_propagates_witness:
  "let s = node_api_new 2 (attestation_api_new ''http://r'') cache_new gossip_config_default;
       t = [2 \<mapsto> \<lparr> pi_raft_addr = SocketAddr (V4 (Ipv4Addr 0 0 0 2)) 8444, pi_api_addr = SocketAddr (V4 (Ipv4Addr 0 0 0 2)) 8443 \<rparr>]
   in \<exists>ad a' s' c'. create_advertisement attesting_node (\<lambda>_. True) 900 sample_manager = (Ok ad, a') \<and>
      advertise_handler attesting_node 1000 7 s ad = (Ok \<lparr> ar_accepted = True, ar_reason = None \<rparr>, s') \<and>
      pull_peer_list attesting_node (Some t) (\<lambda>_. 0) (\<lambda>_. Some (peers_handler [1] s')) (\<lambda>_. 1000) (\<lambda>_. 7)
        (sample_manager\<lparr> gm_node_id := 3 \<rparr>) = Ok c' \<and> cache_get (gm_gossip_cache c') 1 = Some ad"
proof -
  define s where "s = node_api_new 2 (attestation_api_new ''http://r'') cache_new gossip_config_default"
  define c where "c = sample_manager\<lparr> gm_node_id := 3 \<rparr>"
  define addr where "addr = SocketAddr (V4 (Ipv4Addr 0 0 0 2)) 8443"
  define t :: trusted_nodes where "t = [2 \<mapsto> \<lparr> pi_raft_addr = SocketAddr (V4 (Ipv4Addr 0 0 0 2)) 8444, pi_api_addr = addr \<rparr>]"
  have tee: "detect_available_tee (\<lambda>_. True) = Some Tdx"
    by (simp add: detect_available_tee_def is_tee_available_def)
  obtain ad a' where ad: "create_advertisement attesting_node (\<lambda>_. True) 900 sample_manager = (Ok ad, a')"
    using attesting_node_evidence [of "gm_raft_address sample_manager" "gm_api_address sample_manager"]
    by (auto simp: create_advertisement_def get_or_generate_evidence_def sample_manager_def Let_def simp del: and_then_Ok)
  have crates: "hex_two_chars attesting_node" "sha256_digest_size attesting_node"
    using sample_hex_two_chars sample_sha256_digest_size
    by (simp_all add: hex_two_chars_def sha256_digest_size_def attesting_node_def sample_crates_def)
  have manager: "gm_cached_evidence sample_manager = None" "length (gm_instance_id sample_manager) = 64"
    "gm_node_id sample_manager = 1"
    using crates sample_hex_two_chars by (simp_all add: sample_manager_def hex_two_chars_def sample_crates_def)
  obtain r s' where sent: "advertise_handler attesting_node 1000 7 s ad = (r, s')" by fastforce
  have init: "api_init s" by (auto simp: s_def api_init_def node_api_new_def)
  have states: "na_node_id s \<noteq> gm_node_id sample_manager" "gm_node_id c \<noteq> gm_node_id sample_manager"
    "gm_config c = gossip_config_default" "cache_get (na_gossip_cache s) n = None" "cache_get (gm_gossip_cache c) n = None" for n
    by (simp_all add: s_def c_def sample_manager_def node_api_new_def cache_new_def cache_get_def)
  have nodes: "get_trusted_nodes t = [2]" "get_api_addr t 2 = Some addr" "2 \<noteq> gm_node_id c"
    by (simp_all add: t_def c_def get_trusted_nodes_def get_api_addr_def)
  have "r = Ok \<lparr> ar_accepted = True, ar_reason = None \<rparr> \<and>
     (\<exists>c'. pull_peer_list attesting_node (Some t) (\<lambda>_. 0) (\<lambda>_. Some (peers_handler [1] s')) (\<lambda>_. 1000) (\<lambda>_. 7) c = Ok c' \<and>
        cache_get (gm_gossip_cache c') (gm_node_id sample_manager) = Some ad)"
    by (rule advertisement_propagates [OF attesting_node_faithful crates(1) attesting_node_hex_round_trip crates(2) tee
          manager(1,2) ad init rtranclp.rtrancl_refl states(1) _ _ _ states(2,3) _ _ _ sent, where b = 2 and addr = addr])
      (use states nodes manager in simp_all)
  then show ?thesis using ad sent manager(3) unfolding s_def c_def t_def addr_def Let_def by auto
qed

end
