(* ===== verification/Raft_Node.thy ===== *)
theory Raft_Node
  imports Api_Error Trusted_Peers
begin

text \<open>
  The consensus node around the RAFT library: the node status and health report of
  \<open>common/src/api/types.rs\<close>, the trust-gated router of \<open>consensus/src/network.rs\<close>, the node of
  \<open>consensus/src/raft_node.rs\<close>, and the handlers of \<open>consensus/src/raft_api_server.rs\<close> and of the health
  endpoint in \<open>guardian/src/api_server.rs\<close>. The RAFT library is a parameter: its state is opaque, its
  metrics are what the program reads of it, and each call gives a result and a new state. The HTTP
  client is a parameter of the router: a post gives a reply and changes the world. The property on the router
  follows the trust operations, the connections the library opens and the requests it makes in any order.
\<close>

section \<open>Node status and health\<close>

datatype NodeStatus = StBootstrapping | StLearner | StFollower | StCandidate | StLeader

definition MIN_PEERS_FOR_BOOTSTRAP :: nat where
  "MIN_PEERS_FOR_BOOTSTRAP = 2"

fun status_is_leader :: "NodeStatus \<Rightarrow> bool" where
  "status_is_leader StLeader = True"
| "status_is_leader _ = False"

fun status_is_bootstrapping :: "NodeStatus \<Rightarrow> bool" where
  "status_is_bootstrapping StBootstrapping = True"
| "status_is_bootstrapping _ = False"

fun status_in_cluster :: "NodeStatus \<Rightarrow> bool" where
  "status_in_cluster StLearner = True"
| "status_in_cluster StFollower = True"
| "status_in_cluster StCandidate = True"
| "status_in_cluster StLeader = True"
| "status_in_cluster StBootstrapping = False"

fun show_node_status :: "NodeStatus \<Rightarrow> string" where
  "show_node_status StBootstrapping = ''BOOTSTRAPPING''"
| "show_node_status StLearner = ''LEARNER''"
| "show_node_status StFollower = ''FOLLOWER''"
| "show_node_status StCandidate = ''CANDIDATE''"
| "show_node_status StLeader = ''LEADER''"

record HealthResponse =
  hp_node_id :: NodeId
  hp_status :: NodeStatus
  hp_term :: "64 word"
  hp_cluster_size :: nat
  hp_trusted_peers :: "NodeId list"

definition health_is_leader :: "HealthResponse \<Rightarrow> bool" where
  "health_is_leader h = status_is_leader (hp_status h)"

definition health_is_bootstrapping :: "HealthResponse \<Rightarrow> bool" where
  "health_is_bootstrapping h = status_is_bootstrapping (hp_status h)"

definition health_in_cluster :: "HealthResponse \<Rightarrow> bool" where
  "health_in_cluster h \<longleftrightarrow> hp_cluster_size h > 0"

definition ready_for_bootstrap :: "HealthResponse \<Rightarrow> nat \<Rightarrow> bool" where
  "ready_for_bootstrap h min_peers \<longleftrightarrow>
     hp_cluster_size h = 0 \<and> length (hp_trusted_peers h) \<ge> min_peers \<and>
     status_is_bootstrapping (hp_status h)"

definition is_mutually_ready :: "HealthResponse \<Rightarrow> NodeId \<Rightarrow> nat \<Rightarrow> bool" where
  "is_mutually_ready h our_node_id min_peers \<longleftrightarrow>
     ready_for_bootstrap h min_peers \<and> our_node_id \<in> set (hp_trusted_peers h)"

section \<open>The router\<close>

text \<open>An RPC reply: the request could not be sent (connecting failed or not), or a response with its
  status and whether that is a success, its body text, and the value its JSON decodes to.\<close>

datatype 'resp rpc_reply =
    SendError (se_is_connect: bool) (se_text: string)
  | Reply (rr_is_success: bool) (rr_status_text: string) (rr_body: string) (rr_json: "string + 'resp")

datatype RPCError = Unreachable string | Network string

type_synonym Router = "(NodeId, socket_addr) hash_map"

definition router_new :: "trusted_cell \<Rightarrow> (Router, unit) outcome" where
  "router_new cell = and_then (trusted_get cell) (\<lambda>_. Ok Map.empty)"

definition router_add_node :: "Router \<Rightarrow> NodeId \<Rightarrow> socket_addr \<Rightarrow> Router" where
  "router_add_node nodes node_id address = nodes(node_id \<mapsto> address)"

definition router_remove_node :: "Router \<Rightarrow> NodeId \<Rightarrow> Router" where
  "router_remove_node nodes node_id = map_remove node_id nodes"

text \<open>A post sends a body to a URL; what it does outside is the change of the world.\<close>

type_synonym ('req, 'resp, 'w) http_post = "string \<Rightarrow> 'req \<Rightarrow> 'w \<Rightarrow> 'resp rpc_reply \<times> 'w"

definition send_rpc ::
  "trusted_cell \<Rightarrow> ('req, 'resp, 'w) http_post \<Rightarrow> NodeId \<Rightarrow> string \<Rightarrow> string \<Rightarrow> 'req \<Rightarrow> 'w \<Rightarrow>
   ('resp, RPCError) outcome \<times> 'w" where
  "send_rpc cell post target target_addr uri req w =
     (case cell of
        None \<Rightarrow> (Panic ''BUG: TrustedPeerRegistry::get() called before init()!'', w)
      | Some t \<Rightarrow>
          if \<not> is_trusted t target then (Err (Unreachable ''Peer not trusted''), w)
          else (let url = ''http://'' @ target_addr @ ''/'' @ uri;
                    (reply, w') = post url req w in
            (case reply of
               SendError is_connect text \<Rightarrow> (Err (if is_connect then Unreachable text else Network text), w')
             | Reply is_success status body json \<Rightarrow>
                 if \<not> is_success then (Err (Network (''HTTP '' @ status @ '': '' @ body)), w')
                 else (case json of Inl e \<Rightarrow> (Err (Network e), w') | Inr v \<Rightarrow> (Ok v, w')))))"

record Connection =
  cn_owner :: Router
  cn_target :: NodeId
  cn_target_addr :: string

definition new_client :: "Router \<Rightarrow> NodeId \<Rightarrow> string \<Rightarrow> Connection" where
  "new_client router target addr =
     \<lparr> cn_owner = router, cn_target = target, cn_target_addr = addr \<rparr>"

definition conn_append_entries ::
  "trusted_cell \<Rightarrow> ('req, 'resp, 'w) http_post \<Rightarrow> Connection \<Rightarrow> 'req \<Rightarrow> 'w \<Rightarrow>
   ('resp, RPCError) outcome \<times> 'w" where
  "conn_append_entries cell post c = send_rpc cell post (cn_target c) (cn_target_addr c) ''raft-append''"

definition conn_install_snapshot ::
  "trusted_cell \<Rightarrow> ('req, 'resp, 'w) http_post \<Rightarrow> Connection \<Rightarrow> 'req \<Rightarrow> 'w \<Rightarrow>
   ('resp, RPCError) outcome \<times> 'w" where
  "conn_install_snapshot cell post c = send_rpc cell post (cn_target c) (cn_target_addr c) ''raft-snapshot''"

definition conn_vote ::
  "trusted_cell \<Rightarrow> ('req, 'resp, 'w) http_post \<Rightarrow> Connection \<Rightarrow> 'req \<Rightarrow> 'w \<Rightarrow>
   ('resp, RPCError) outcome \<times> 'w" where
  "conn_vote cell post c = send_rpc cell post (cn_target c) (cn_target_addr c) ''raft-vote''"

section \<open>Traffic\<close>

text \<open>The router in use. The attestation of peers changes the trust, the coordinator changes the router's address
  map, and the RAFT library opens a connection to a member with the address its membership holds and makes
  requests over the connections it has opened.\<close>

datatype 'req router_use =
    Trust trust_op
  | AddNode NodeId socket_addr
  | RemoveNode NodeId
  | OpenConnection NodeId string
  | AppendEntries NodeId 'req
  | SendSnapshot NodeId 'req
  | RequestVote NodeId 'req

record 'w router_world =
  ro_trusted :: trusted_nodes
  ro_router :: Router
  ro_connections :: "(NodeId, Connection) hash_map"
  ro_world :: 'w

definition on_connection ::
  "(Connection \<Rightarrow> 'w \<Rightarrow> ('resp, RPCError) outcome \<times> 'w) \<Rightarrow> NodeId \<Rightarrow> 'w router_world \<Rightarrow> 'w router_world" where
  "on_connection rpc n s =
     (case ro_connections s n of
        None \<Rightarrow> s
      | Some conn \<Rightarrow> s\<lparr> ro_world := snd (rpc conn (ro_world s)) \<rparr>)"

fun use_router :: "('req, 'resp, 'w) http_post \<Rightarrow> 'req router_use \<Rightarrow> 'w router_world \<Rightarrow> 'w router_world" where
  "use_router post (Trust p) s = s\<lparr> ro_trusted := apply_op p (ro_trusted s) \<rparr>"
| "use_router post (AddNode n addr) s = s\<lparr> ro_router := router_add_node (ro_router s) n addr \<rparr>"
| "use_router post (RemoveNode n) s = s\<lparr> ro_router := router_remove_node (ro_router s) n \<rparr>"
| "use_router post (OpenConnection n addr) s =
     s\<lparr> ro_connections := (ro_connections s)(n \<mapsto> new_client (ro_router s) n addr) \<rparr>"
| "use_router post (AppendEntries n req) s =
     on_connection (\<lambda>conn. conn_append_entries (Some (ro_trusted s)) post conn req) n s"
| "use_router post (SendSnapshot n req) s =
     on_connection (\<lambda>conn. conn_install_snapshot (Some (ro_trusted s)) post conn req) n s"
| "use_router post (RequestVote n req) s =
     on_connection (\<lambda>conn. conn_vote (Some (ro_trusted s)) post conn req) n s"

definition router_start :: "'w \<Rightarrow> 'w router_world" where
  "router_start w = \<lparr> ro_trusted = Map.empty, ro_router = Map.empty, ro_connections = Map.empty, ro_world = w \<rparr>"

text \<open>What a history (newest first) says: the trust operations in it, the address of the latest connection to a
  node, and the requests that may have been sent, oldest first.\<close>

fun trust_ops :: "'req router_use list \<Rightarrow> trust_op list" where
  "trust_ops [] = []"
| "trust_ops (Trust p # older) = p # trust_ops older"
| "trust_ops (_ # older) = trust_ops older"

fun opened_with :: "NodeId \<Rightarrow> 'req router_use list \<Rightarrow> string option" where
  "opened_with n [] = None"
| "opened_with n (OpenConnection m addr # older) = (if m = n then Some addr else opened_with n older)"
| "opened_with n (_ # older) = opened_with n older"

definition permitted :: "NodeId \<Rightarrow> string \<Rightarrow> 'req \<Rightarrow> 'req router_use list \<Rightarrow> (string \<times> 'req) list" where
  "permitted n uri req older =
     (case (last_verdict n (trust_ops older), opened_with n older) of
        (Some _, Some addr) \<Rightarrow> [(''http://'' @ addr @ ''/'' @ uri, req)]
      | _ \<Rightarrow> [])"

fun traffic :: "'req router_use list \<Rightarrow> (string \<times> 'req) list" where
  "traffic [] = []"
| "traffic (AppendEntries n req # older) = traffic older @ permitted n ''raft-append'' req older"
| "traffic (SendSnapshot n req # older) = traffic older @ permitted n ''raft-snapshot'' req older"
| "traffic (RequestVote n req # older) = traffic older @ permitted n ''raft-vote'' req older"
| "traffic (_ # older) = traffic older"

definition post_all :: "('req, 'resp, 'w) http_post \<Rightarrow> (string \<times> 'req) list \<Rightarrow> 'w \<Rightarrow> 'w" where
  "post_all post = fold (\<lambda>(url, req) w. snd (post url req w))"

section \<open>The RAFT library\<close>

record RaftMetrics =
  rm_current_leader :: "NodeId option"
  rm_current_term :: "64 word"
  rm_voters :: "NodeId list"
  rm_learners :: "NodeId list"

record 'r openraft =
  raft_metrics :: "'r \<Rightarrow> RaftMetrics"
  raft_initialize :: "(NodeId, string) hash_map \<Rightarrow> 'r \<Rightarrow> (string + unit) \<times> 'r"
  raft_add_learner :: "NodeId \<Rightarrow> string \<Rightarrow> bool \<Rightarrow> 'r \<Rightarrow> (string + unit) \<times> 'r"
  raft_change_membership :: "NodeId list \<Rightarrow> bool \<Rightarrow> 'r \<Rightarrow> (string + unit) \<times> 'r"

section \<open>The consensus node\<close>

datatype ConsensusError =
    CeStorage string
  | CeNetwork string
  | CeInvalidJoinRequest string
  | CeNodeNotFound string
  | CeSerialization string
  | CeConfig string
  | CeOther string

fun show_consensus_error :: "ConsensusError \<Rightarrow> string" where
  "show_consensus_error (CeStorage m) = ''Storage error: '' @ m"
| "show_consensus_error (CeNetwork m) = ''Network error: '' @ m"
| "show_consensus_error (CeInvalidJoinRequest m) = ''Invalid join request: '' @ m"
| "show_consensus_error (CeNodeNotFound m) = ''Node not found: '' @ m"
| "show_consensus_error (CeSerialization m) = ''Serialization error: '' @ m"
| "show_consensus_error (CeConfig m) = ''Configuration error: '' @ m"
| "show_consensus_error (CeOther m) = m"

record ClusterConfig =
  cc_node_id :: NodeId
  cc_raft_address :: socket_addr
  cc_api_address :: socket_addr
  cc_measurement_registry_url :: string
  cc_measurement_namespace :: string

record NodeState =
  ns_status :: NodeStatus
  ns_term :: "64 word"

record 'r RaftNode =
  rn_node_id :: NodeId
  rn_config :: ClusterConfig
  rn_raft :: 'r
  rn_router :: Router

text \<open>Opening the storage, validating the RAFT configuration and creating the RAFT instance are given
  by their results; the debug text of the path is an argument. Creating the router has no error
  value: it returns or panics.\<close>

definition raft_node_new ::
  "trusted_cell \<Rightarrow> string \<Rightarrow> ('s, string) outcome \<Rightarrow> string + unit \<Rightarrow> (NodeId \<Rightarrow> 's \<Rightarrow> string + 'r) \<Rightarrow> ClusterConfig \<Rightarrow>
   ('r RaftNode, ConsensusError) outcome" where
  "raft_node_new cell path_text opened validated create config =
     and_then (map_err (\<lambda>e. CeStorage (''Failed to open storage at '' @ path_text @ '': '' @ e)) opened)
       (\<lambda>storage. and_then (map_err (\<lambda>_. CeOther []) (router_new cell)) (\<lambda>router.
              and_then (map_err (\<lambda>e. CeConfig (''Invalid RAFT config: '' @ e)) (of_sum validated)) (\<lambda>_.
                and_then (map_err (\<lambda>e. CeOther (''Failed to create RAFT instance: '' @ e))
                            (of_sum (create (cc_node_id config) storage)))
                  (\<lambda>raft. Ok \<lparr> rn_node_id = cc_node_id config, rn_config = config, rn_raft = raft,
                               rn_router = router \<rparr>))))"

definition raft_call ::
  "string \<Rightarrow> (string + unit) \<times> 'r \<Rightarrow> 'r RaftNode \<Rightarrow> (unit, ConsensusError) outcome \<times> 'r RaftNode" where
  "raft_call text result node =
     (map_err (\<lambda>e. CeOther (text @ e)) (of_sum (fst result)), node\<lparr> rn_raft := snd result \<rparr>)"

definition initialize_cluster ::
  "'r openraft \<Rightarrow> (NodeId, socket_addr) hash_map \<Rightarrow> 'r RaftNode \<Rightarrow>
   (unit, ConsensusError) outcome \<times> 'r RaftNode" where
  "initialize_cluster lib peers node =
     (let members = (\<lambda>n. map_option show_socket_addr (peers n))
                      (rn_node_id node \<mapsto> show_socket_addr (cc_raft_address (rn_config node)));
          node' = node\<lparr> rn_router := rn_router node ++ peers \<rparr>
      in raft_call ''Failed to initialize cluster: '' (raft_initialize lib members (rn_raft node')) node')"

definition add_peer ::
  "'r openraft \<Rightarrow> NodeId \<Rightarrow> socket_addr \<Rightarrow> 'r RaftNode \<Rightarrow>
   (unit, ConsensusError) outcome \<times> 'r RaftNode" where
  "add_peer lib peer_id peer_addr node =
     (let node1 = node\<lparr> rn_router := router_add_node (rn_router node) peer_id peer_addr \<rparr>;
          (r, node2) = raft_call ''Failed to add learner: ''
                         (raft_add_learner lib peer_id (show_socket_addr peer_addr) True (rn_raft node1)) node1
      in case r of
           Ok _ \<Rightarrow>
             (let voters = rm_voters (raft_metrics lib (rn_raft node2));
                  new_voters = (if peer_id \<in> set voters then voters else voters @ [peer_id])
              in raft_call ''Failed to promote to voter: ''
                   (raft_change_membership lib new_voters False (rn_raft node2)) node2)
         | _ \<Rightarrow> (r, node2))"

definition remove_peer ::
  "'r openraft \<Rightarrow> NodeId \<Rightarrow> 'r RaftNode \<Rightarrow> (unit, ConsensusError) outcome \<times> 'r RaftNode" where
  "remove_peer lib peer_id node =
     (let voters = rm_voters (raft_metrics lib (rn_raft node));
          new_voters = filter (\<lambda>i. i \<noteq> peer_id) voters;
          (r, node1) = (if length new_voters < length voters
                        then raft_call ''Failed to remove voter: ''
                               (raft_change_membership lib new_voters False (rn_raft node)) node
                        else (Ok (), node))
      in case r of
           Ok _ \<Rightarrow> (Ok (), node1\<lparr> rn_router := router_remove_node (rn_router node1) peer_id \<rparr>)
         | _ \<Rightarrow> (r, node1))"

definition node_is_leader :: "'r openraft \<Rightarrow> 'r RaftNode \<Rightarrow> bool" where
  "node_is_leader lib node \<longleftrightarrow>
     rm_current_leader (raft_metrics lib (rn_raft node)) = Some (rn_node_id node)"

definition current_leader :: "'r openraft \<Rightarrow> 'r RaftNode \<Rightarrow> NodeId option" where
  "current_leader lib node = rm_current_leader (raft_metrics lib (rn_raft node))"

definition get_node_state :: "'r openraft \<Rightarrow> 'r RaftNode \<Rightarrow> NodeState" where
  "get_node_state lib node =
     (let metrics = raft_metrics lib (rn_raft node);
          is_leader = (rm_current_leader metrics = Some (rn_node_id node));
          voters = rm_voters metrics;
          learners = rm_learners metrics;
          status =
            (if rn_node_id node \<in> set learners then StLearner
             else if voters = [] \<and> learners = [] then StBootstrapping
             else if is_leader then StLeader
             else if rm_current_leader metrics \<noteq> None then StFollower
             else StCandidate)
      in \<lparr> ns_status = status, ns_term = rm_current_term metrics \<rparr>)"

text \<open>Stopping the RAFT instance is given by a function.\<close>

definition node_shutdown ::
  "('r \<Rightarrow> (string + unit) \<times> 'r) \<Rightarrow> 'r RaftNode \<Rightarrow> (unit, ConsensusError) outcome \<times> 'r RaftNode" where
  "node_shutdown stop node =
     (let (r, raft') = stop (rn_raft node)
      in (map_err (\<lambda>e. CeOther (''Shutdown error: '' @ e)) (of_sum r), node\<lparr> rn_raft := raft' \<rparr>))"

section \<open>HTTP handlers\<close>

type_synonym 'r RaftApiState = "'r RaftNode option"

text \<open>The three RAFT RPC handlers differ in the library call and the error text.\<close>

definition raft_rpc_handler ::
  "string \<Rightarrow> ('req \<Rightarrow> 'r \<Rightarrow> (string + 'resp) \<times> 'r) \<Rightarrow> 'r RaftApiState \<Rightarrow> 'req \<Rightarrow>
   ('resp, ApiError) outcome \<times> 'r RaftApiState" where
  "raft_rpc_handler text call state req =
     (case state of
        None \<Rightarrow> (Err Bootstrapping_Error, state)
      | Some node \<Rightarrow>
          (let (r, raft') = call req (rn_raft node)
           in (map_err (\<lambda>e. Internal (text @ e)) (of_sum r), Some (node\<lparr> rn_raft := raft' \<rparr>))))"

definition append_entries_handler ::
  "('req \<Rightarrow> 'r \<Rightarrow> (string + 'resp) \<times> 'r) \<Rightarrow> 'r RaftApiState \<Rightarrow> 'req \<Rightarrow>
   ('resp, ApiError) outcome \<times> 'r RaftApiState" where
  "append_entries_handler = raft_rpc_handler ''AppendEntries failed: ''"

definition vote_handler ::
  "('req \<Rightarrow> 'r \<Rightarrow> (string + 'resp) \<times> 'r) \<Rightarrow> 'r RaftApiState \<Rightarrow> 'req \<Rightarrow>
   ('resp, ApiError) outcome \<times> 'r RaftApiState" where
  "vote_handler = raft_rpc_handler ''Vote failed: ''"

definition install_snapshot_handler ::
  "('req \<Rightarrow> 'r \<Rightarrow> (string + 'resp) \<times> 'r) \<Rightarrow> 'r RaftApiState \<Rightarrow> 'req \<Rightarrow>
   ('resp, ApiError) outcome \<times> 'r RaftApiState" where
  "install_snapshot_handler = raft_rpc_handler ''InstallSnapshot failed: ''"

record 'r ApiState =
  ap_node_id :: NodeId
  ap_raft_node :: "'r RaftNode option"

definition health_handler ::
  "'r openraft \<Rightarrow> trusted_cell \<Rightarrow> 'r ApiState \<Rightarrow> (HealthResponse, unit) outcome" where
  "health_handler lib cell state =
     and_then (trusted_get cell) (\<lambda>t.
       let trusted_peers = get_trusted_nodes t;
           (status, term, cluster_size) =
             (case ap_raft_node state of
                Some node \<Rightarrow>
                  (ns_status (get_node_state lib node), ns_term (get_node_state lib node),
                   length (rm_voters (raft_metrics lib (rn_raft node))))
              | None \<Rightarrow> (StBootstrapping, 0, 0))
       in Ok \<lparr> hp_node_id = ap_node_id state, hp_status = status, hp_term = term,
               hp_cluster_size = cluster_size, hp_trusted_peers = trusted_peers \<rparr>)"

section \<open>An instance of the RAFT library\<close>

text \<open>A one-node view with its membership as state, used by the witnesses.\<close>

definition sample_raft :: "RaftMetrics openraft" where
  "sample_raft =
     \<lparr> raft_metrics = (\<lambda>r. r),
       raft_initialize = (\<lambda>members r.
         if rm_voters r \<noteq> [] then (Inl ''not allowed'', r)
         else (Inr (), r\<lparr> rm_voters := sorted_list_of_set (dom members) \<rparr>)),
       raft_add_learner = (\<lambda>n addr blocking r. (Inr (), r\<lparr> rm_learners := rm_learners r @ [n] \<rparr>)),
       raft_change_membership = (\<lambda>voters retain r. (Inr (), r\<lparr> rm_voters := voters \<rparr>)) \<rparr>"

definition sample_raft_node :: "NodeId \<Rightarrow> RaftMetrics \<Rightarrow> RaftMetrics RaftNode" where
  "sample_raft_node n metrics =
     \<lparr> rn_node_id = n,
       rn_config = \<lparr> cc_node_id = n, cc_raft_address = SocketAddr (V4 (node_id_to_ip n)) 8444,
         cc_api_address = SocketAddr (V4 (node_id_to_ip n)) 8443,
         cc_measurement_registry_url = [], cc_measurement_namespace = ''guardian'' \<rparr>,
       rn_raft = metrics, rn_router = Map.empty \<rparr>"

definition no_metrics :: RaftMetrics where
  "no_metrics = \<lparr> rm_current_leader = None, rm_current_term = 0, rm_voters = [], rm_learners = [] \<rparr>"

section \<open>Lemmas\<close>

lemma raft_call_keeps [simp]:
  "rn_node_id (snd (raft_call text r node)) = rn_node_id node"
  "rn_config (snd (raft_call text r node)) = rn_config node"
  "rn_router (snd (raft_call text r node)) = rn_router node"
  by (simp_all add: raft_call_def)

lemma initialize_cluster_keeps [simp]:
  "rn_node_id (snd (initialize_cluster lib peers node)) = rn_node_id node"
  by (simp add: initialize_cluster_def Let_def)

lemma add_peer_keeps [simp]: "rn_node_id (snd (add_peer lib p a node)) = rn_node_id node"
  by (auto simp: add_peer_def Let_def split_beta split: outcome.splits)

lemma status_cases:
  "status_in_cluster st \<longleftrightarrow> \<not> status_is_bootstrapping st"
  by (cases st) auto

text \<open>A request leaves exactly when the target is trusted.\<close>

lemma send_rpc_world:
  "snd (send_rpc (Some t) post n addr uri req w) =
     (if is_trusted t n then snd (post (''http://'' @ addr @ ''/'' @ uri) req w) else w)"
  by (simp add: send_rpc_def Let_def split_beta split: rpc_reply.splits sum.splits)

text \<open>The state of the router after a history.\<close>

lemma router_history:
  "foldr (use_router post) older (router_start w) = s \<Longrightarrow>
     ro_trusted s = fold apply_op (rev (trust_ops older)) Map.empty \<and>
     (\<forall>n. map_option (\<lambda>conn. (cn_target conn, cn_target_addr conn)) (ro_connections s n) =
        map_option (Pair n) (opened_with n older))"
proof (induction older arbitrary: s)
  case (Cons u older)
  let ?s = "foldr (use_router post) older (router_start w)"
  have s: "s = use_router post u ?s" using Cons.prems by simp
  from Cons.IH [OF refl] show ?case
    unfolding s by (cases u) (auto simp: on_connection_def new_client_def split: option.splits)
qed (auto simp: router_start_def)

lemma permitted_request:
  assumes "foldr (use_router post) older (router_start w) = s"
  shows "ro_world (on_connection (\<lambda>conn. send_rpc (Some (ro_trusted s)) post (cn_target conn) (cn_target_addr conn) uri req) n s) =
     post_all post (permitted n uri req older) (ro_world s)"
proof -
  have "is_trusted (ro_trusted s) n \<longleftrightarrow> last_verdict n (trust_ops older) \<noteq> None"
    using router_history [OF assms] is_trusted_history [of "rev (trust_ops older)"] by simp
  moreover have "map_option (\<lambda>conn. (cn_target conn, cn_target_addr conn)) (ro_connections s n) =
      map_option (Pair n) (opened_with n older)"
    using router_history [OF assms] by blast
  ultimately show ?thesis
    by (cases "opened_with n older")
      (auto simp: on_connection_def permitted_def post_all_def send_rpc_world split: option.splits)
qed

section \<open>Properties\<close>

text \<open>C26: However changes of trust, of the router's address map and of the connections interleave with the
  requests of the RAFT library, what reaches the network is exactly the requests made while the latest trust
  decision on their target was a marking, in their order and each once, to the path of the RPC at the address the
  RAFT library opened its connection with; every other request is withheld. Neither the registered RAFT address of the
  target nor the router's own address map plays a part.\<close>

theorem router_traffic:
  "ro_world (fold (use_router post) uses (router_start w)) = post_all post (traffic (rev uses)) w"
proof -
  have "ro_world (foldr (use_router post) older (router_start w)) = post_all post (traffic older) w" for older
  proof (induction older)
    case Nil
    show ?case by (simp add: router_start_def post_all_def)
  next
    case (Cons u older)
    have append: "post_all post (xs @ ys) v = post_all post ys (post_all post xs v)" for xs ys v
      by (simp add: post_all_def)
    show ?case
      using Cons permitted_request [where post = post and older = older and w = w, OF refl]
      by (cases u) (simp_all add: append conn_append_entries_def conn_install_snapshot_def conn_vote_def)
  qed
  from this [of "rev uses"] show ?thesis by (simp add: foldr_conv_fold)
qed

text \<open>What the caller of an RPC gets: an unreachable peer when the target is not trusted.\<close>

theorem untrusted_unreachable:
  "\<not> is_trusted t n \<Longrightarrow> send_rpc (Some t) post n addr uri req w = (Err (Unreachable ''Peer not trusted''), w)"
  by (simp add: send_rpc_def)

text \<open>What the health endpoint says of a node follows from the membership its RAFT instance holds:
  it reports being in a cluster by size exactly when that membership has voters, and by status
  exactly when it has voters or learners. A node that the membership does not list reports being a
  follower or a candidate all the same.\<close>

theorem health_handler_spec:
  assumes "ap_raft_node s = Some node"
  shows "\<exists>h. health_handler lib (Some t) s = Ok h \<and>
     (let m = raft_metrics lib (rn_raft node) in
      hp_node_id h = ap_node_id s \<and> hp_trusted_peers h = get_trusted_nodes t \<and>
      (health_in_cluster h \<longleftrightarrow> rm_voters m \<noteq> []) \<and>
      (status_in_cluster (hp_status h) \<longleftrightarrow> rm_voters m \<noteq> [] \<or> rm_learners m \<noteq> []) \<and>
      (rn_node_id node \<notin> set (rm_voters m) \<union> set (rm_learners m) \<longrightarrow>
         rm_voters m \<noteq> [] \<longrightarrow> rm_current_leader m \<noteq> Some (rn_node_id node) \<longrightarrow>
         hp_status h = (if rm_current_leader m = None then StCandidate else StFollower)))"
  using assms
  by (auto simp: health_handler_def trusted_get_def get_node_state_def health_in_cluster_def Let_def)

theorem health_handler_spec_witness:
  "\<exists>h. health_handler sample_raft (Some Map.empty) \<lparr> ap_node_id = 9, ap_raft_node = Some (sample_raft_node 9
         (no_metrics\<lparr> rm_current_leader := Some 4, rm_voters := [4, 5, 6] \<rparr>)) \<rparr> = Ok h \<and>
     hp_status h = StFollower"
  using health_handler_spec [of "\<lparr> ap_node_id = 9, ap_raft_node = Some (sample_raft_node 9
         (no_metrics\<lparr> rm_current_leader := Some 4, rm_voters := [4, 5, 6] \<rparr>)) \<rparr>" _ sample_raft Map.empty]
  by (fastforce simp: sample_raft_def sample_raft_node_def no_metrics_def)

end
