(* ===== verification/Coordinator.thy ===== *)
theory Coordinator
  imports Raft_Node
begin

text \<open>
  The cluster formation coordinator, \<open>consensus/src/coordinator.rs\<close>: one function per state handler
  and one for an iteration of the loop. What an iteration reads from outside is a record: the
  trusted peers, the answers to its health queries and the clock. The calls that change the
  cluster are recorded as actions. A handler reads the trusted peers once, so a revocation that
  arrives between two queries of one handler is seen by the next iteration. Between iterations the
  RAFT instance may change in any way. The properties cover when a node bootstraps a cluster, how
  often, with whom, that mutually trusting nodes exclude each other while the queries succeed, that
  they do not when queries fail, and which peers a leader adds.
\<close>

section \<open>State\<close>

text \<open>Durations are in milliseconds.\<close>

definition BOOTSTRAP_QUORUM :: nat where "BOOTSTRAP_QUORUM = 3"
definition BOOTSTRAP_WAIT_TIMEOUT :: nat where "BOOTSTRAP_WAIT_TIMEOUT = 60000"
definition MEMBERSHIP_WAIT_TIMEOUT :: nat where "MEMBERSHIP_WAIT_TIMEOUT = 300000"

datatype CoordinatorState =
    WaitingForPeers
  | CheckingCluster
  | CoordinatingBootstrap
  | Bootstrapping
  | WaitingForBootstrap nat
  | Joining nat
  | ClusterActive

fun show_coordinator_state :: "CoordinatorState \<Rightarrow> string" where
  "show_coordinator_state WaitingForPeers = ''WAITING_FOR_PEERS''"
| "show_coordinator_state CheckingCluster = ''CHECKING_CLUSTER''"
| "show_coordinator_state CoordinatingBootstrap = ''COORDINATING_BOOTSTRAP''"
| "show_coordinator_state Bootstrapping = ''BOOTSTRAPPING''"
| "show_coordinator_state (WaitingForBootstrap d) = ''WAITING_FOR_BOOTSTRAP''"
| "show_coordinator_state (Joining d) = ''JOINING''"
| "show_coordinator_state ClusterActive = ''CLUSTER_ACTIVE''"

record 'r RaftCoordinator =
  co_node_id :: NodeId
  co_raft_node :: "'r RaftNode"
  co_state :: CoordinatorState
  co_added_peers :: "NodeId set"

definition coordinator_new :: "NodeId \<Rightarrow> 'r RaftNode \<Rightarrow> 'r RaftCoordinator" where
  "coordinator_new node_id raft_node =
     \<lparr> co_node_id = node_id, co_raft_node = raft_node, co_state = WaitingForPeers,
       co_added_peers = {} \<rparr>"

datatype cluster_action =
    Initialize "(NodeId, socket_addr) hash_map" bool
  | AddPeer NodeId socket_addr bool

section \<open>Health queries\<close>

text \<open>What a GET of a URL gives: an error, or whether the status is a success and what the body
  decodes to.\<close>

type_synonym health_get = "string \<Rightarrow> string + (bool \<times> (string + HealthResponse))"

definition query_peer_health :: "health_get \<Rightarrow> socket_addr \<Rightarrow> HealthResponse option" where
  "query_peer_health get addr =
     (case get (''http://'' @ show_socket_addr addr @ ''/health'') of
        Inl _ \<Rightarrow> None
      | Inr (success, body) \<Rightarrow>
          if \<not> success then None
          else (case body of Inl _ \<Rightarrow> None | Inr health \<Rightarrow> Some health))"

definition peer_health :: "health_get \<Rightarrow> trusted_nodes \<Rightarrow> NodeId \<Rightarrow> HealthResponse option" where
  "peer_health get t peer_id =
     (case get_api_addr t peer_id of None \<Rightarrow> None | Some addr \<Rightarrow> query_peer_health get addr)"

definition build_mutual_ready_set :: "health_get \<Rightarrow> trusted_nodes \<Rightarrow> NodeId \<Rightarrow> NodeId set" where
  "build_mutual_ready_set get t node_id =
     (let our_trusted = get_trusted_nodes t
      in (if length our_trusted \<ge> MIN_PEERS_FOR_BOOTSTRAP then {node_id} else {}) \<union>
         set (filter (\<lambda>peer_id.
            case peer_health get t peer_id of
              None \<Rightarrow> False
            | Some health \<Rightarrow> is_mutually_ready health node_id MIN_PEERS_FOR_BOOTSTRAP) our_trusted))"

text \<open>The first trusted peer, in the order of identities, that satisfies a test on its health and has
  a RAFT address.\<close>

fun find_peer ::
  "health_get \<Rightarrow> trusted_nodes \<Rightarrow> (HealthResponse \<Rightarrow> bool) \<Rightarrow> NodeId list \<Rightarrow> (NodeId \<times> socket_addr) option" where
  "find_peer get t test [] = None"
| "find_peer get t test (p # ps) =
     (case peer_health get t p of
        Some health \<Rightarrow>
          if test health
          then (case get_raft_addr t p of
                  Some raft_addr \<Rightarrow> Some (p, raft_addr)
                | None \<Rightarrow> find_peer get t test ps)
          else find_peer get t test ps
      | None \<Rightarrow> find_peer get t test ps)"

section \<open>State handlers\<close>

text \<open>What one iteration reads: the trusted peers, the answers to the queries of the cluster search and
  of the readiness check, and the clock at its start and at its end.\<close>

record readings =
  rd_trusted :: trusted_nodes
  rd_search :: health_get
  rd_ready :: health_get
  rd_now :: nat
  rd_later :: nat

definition handle_waiting_for_peers :: "readings \<Rightarrow> CoordinatorState" where
  "handle_waiting_for_peers e =
     (if trusted_count (rd_trusted e) \<ge> MIN_PEERS_FOR_BOOTSTRAP then CheckingCluster
      else WaitingForPeers)"

definition handle_checking_cluster ::
  "readings \<Rightarrow> 'r RaftCoordinator \<Rightarrow> CoordinatorState \<times> 'r RaftNode" where
  "handle_checking_cluster e c =
     (let node = co_raft_node c in
      case find_peer (rd_search e) (rd_trusted e) (\<lambda>h. health_in_cluster h \<and> health_is_leader h)
             (get_trusted_nodes (rd_trusted e)) of
        Some (leader_id, leader_addr) \<Rightarrow>
          (Joining (rd_later e + MEMBERSHIP_WAIT_TIMEOUT),
           node\<lparr> rn_router := router_add_node (rn_router node) leader_id leader_addr \<rparr>)
      | None \<Rightarrow> (CoordinatingBootstrap, node))"

definition handle_coordinating_bootstrap :: "readings \<Rightarrow> 'r RaftCoordinator \<Rightarrow> CoordinatorState" where
  "handle_coordinating_bootstrap e c =
     (let ready_set = build_mutual_ready_set (rd_ready e) (rd_trusted e) (co_node_id c) in
      if card ready_set < BOOTSTRAP_QUORUM then CoordinatingBootstrap
      else if Min ready_set = co_node_id c then Bootstrapping
      else WaitingForBootstrap (rd_later e + BOOTSTRAP_WAIT_TIMEOUT))"

definition handle_bootstrapping ::
  "'r openraft \<Rightarrow> readings \<Rightarrow> 'r RaftCoordinator \<Rightarrow>
   CoordinatorState \<times> 'r RaftNode \<times> cluster_action list" where
  "handle_bootstrapping lib e c =
     (let node = co_raft_node c;
          ready_set = build_mutual_ready_set (rd_ready e) (rd_trusted e) (co_node_id c) in
      if card ready_set < BOOTSTRAP_QUORUM then (CoordinatingBootstrap, node, [])
      else if Min ready_set \<noteq> co_node_id c
      then (WaitingForBootstrap (rd_later e + BOOTSTRAP_WAIT_TIMEOUT), node, [])
      else (let bootstrap_peers = get_raft_addresses (rd_trusted e) |` ready_set;
                (r, node') = initialize_cluster lib bootstrap_peers node
            in case r of
                 Ok _ \<Rightarrow> (ClusterActive, node', [Initialize bootstrap_peers True])
               | _ \<Rightarrow> (CoordinatingBootstrap, node', [Initialize bootstrap_peers False])))"

definition handle_waiting_for_bootstrap ::
  "readings \<Rightarrow> 'r RaftCoordinator \<Rightarrow> nat \<Rightarrow> CoordinatorState \<times> 'r RaftNode" where
  "handle_waiting_for_bootstrap e c deadline =
     (let node = co_raft_node c in
      if rd_now e \<ge> deadline then (CoordinatingBootstrap, node)
      else (case find_peer (rd_search e) (rd_trusted e) health_in_cluster
                   (get_trusted_nodes (rd_trusted e)) of
              Some (peer_id, raft_addr) \<Rightarrow>
                (Joining (rd_later e + MEMBERSHIP_WAIT_TIMEOUT),
                 node\<lparr> rn_router := router_add_node (rn_router node) peer_id raft_addr \<rparr>)
            | None \<Rightarrow>
                (let ready_set = build_mutual_ready_set (rd_ready e) (rd_trusted e) (co_node_id c) in
                 if card ready_set \<ge> BOOTSTRAP_QUORUM \<and> Min ready_set = co_node_id c
                 then (Bootstrapping, node)
                 else (WaitingForBootstrap deadline, node))))"

definition handle_joining ::
  "'r openraft \<Rightarrow> readings \<Rightarrow> 'r RaftCoordinator \<Rightarrow> nat \<Rightarrow> CoordinatorState" where
  "handle_joining lib e c deadline =
     (if rd_now e \<ge> deadline then WaitingForPeers
      else (let status = ns_status (get_node_state lib (co_raft_node c)) in
            if status_in_cluster status \<and> status \<noteq> StLearner then ClusterActive
            else Joining deadline))"

fun add_new_peers ::
  "'r openraft \<Rightarrow> NodeId set \<Rightarrow> (NodeId, socket_addr) hash_map \<Rightarrow> NodeId list \<Rightarrow> 'r RaftNode \<Rightarrow>
   NodeId set \<Rightarrow> 'r RaftNode \<times> NodeId set \<times> cluster_action list" where
  "add_new_peers lib members addresses [] node added = (node, added, [])"
| "add_new_peers lib members addresses (p # ps) node added =
     (if p \<in> members \<or> p \<in> added then add_new_peers lib members addresses ps node added
      else (case addresses p of
              None \<Rightarrow> add_new_peers lib members addresses ps node added
            | Some addr \<Rightarrow>
                (let (r, node1) = add_peer lib p addr node;
                     ok = is_ok r;
                     (node2, added2, acts) =
                       add_new_peers lib members addresses ps node1 (if ok then insert p added else added)
                 in (node2, added2, AddPeer p addr ok # acts))))"

definition handle_cluster_active ::
  "'r openraft \<Rightarrow> readings \<Rightarrow> 'r RaftCoordinator \<Rightarrow> 'r RaftNode \<times> NodeId set \<times> cluster_action list" where
  "handle_cluster_active lib e c =
     (let node = co_raft_node c in
      if \<not> node_is_leader lib node then (node, co_added_peers c, [])
      else (let metrics = raft_metrics lib (rn_raft node);
                current_members = set (rm_voters metrics) \<union> set (rm_learners metrics)
            in add_new_peers lib current_members (get_raft_addresses (rd_trusted e))
                 (get_trusted_nodes (rd_trusted e)) node (co_added_peers c)))"

text \<open>One iteration of the loop.\<close>

definition coordinate ::
  "'r openraft \<Rightarrow> readings \<Rightarrow> 'r RaftCoordinator \<Rightarrow> 'r RaftCoordinator \<times> cluster_action list" where
  "coordinate lib e c =
     (case co_state c of
        WaitingForPeers \<Rightarrow> (c\<lparr> co_state := handle_waiting_for_peers e \<rparr>, [])
      | CheckingCluster \<Rightarrow>
          (let (s, node) = handle_checking_cluster e c
           in (c\<lparr> co_raft_node := node, co_state := s \<rparr>, []))
      | CoordinatingBootstrap \<Rightarrow> (c\<lparr> co_state := handle_coordinating_bootstrap e c \<rparr>, [])
      | Bootstrapping \<Rightarrow>
          (let (s, node, acts) = handle_bootstrapping lib e c
           in (c\<lparr> co_raft_node := node, co_state := s \<rparr>, acts))
      | WaitingForBootstrap deadline \<Rightarrow>
          (let (s, node) = handle_waiting_for_bootstrap e c deadline
           in (c\<lparr> co_raft_node := node, co_state := s \<rparr>, []))
      | Joining deadline \<Rightarrow> (c\<lparr> co_state := handle_joining lib e c deadline \<rparr>, [])
      | ClusterActive \<Rightarrow>
          (let (node, added, acts) = handle_cluster_active lib e c
           in (c\<lparr> co_raft_node := node, co_added_peers := added, co_state := ClusterActive \<rparr>, acts)))"

fun coordinate_all ::
  "'r openraft \<Rightarrow> readings list \<Rightarrow> 'r RaftCoordinator \<Rightarrow> 'r RaftCoordinator \<times> cluster_action list" where
  "coordinate_all lib [] c = (c, [])"
| "coordinate_all lib (e # es) c =
     (let (c1, acts1) = coordinate lib e c; (c2, acts2) = coordinate_all lib es c1
      in (c2, acts1 @ acts2))"

section \<open>Runs\<close>

text \<open>A run keeps the actions done so far. The RAFT library works in the background.\<close>

inductive coordinator_step ::
  "'r openraft \<Rightarrow> 'r RaftCoordinator \<times> cluster_action list \<Rightarrow>
   'r RaftCoordinator \<times> cluster_action list \<Rightarrow> bool" for lib where
  Iterate: "coordinate lib e c = (c', acts) \<Longrightarrow> coordinator_step lib (c, done) (c', done @ acts)"
| Background: "coordinator_step lib (c, done)
     (c\<lparr> co_raft_node := (co_raft_node c)\<lparr> rn_raft := r \<rparr> \<rparr>, done)"

fun bootstrapped :: "cluster_action \<Rightarrow> bool" where
  "bootstrapped (Initialize members ok) = ok"
| "bootstrapped (AddPeer p a ok) = False"

fun peer_added :: "cluster_action \<Rightarrow> NodeId option" where
  "peer_added (Initialize members ok) = None"
| "peer_added (AddPeer p a ok) = (if ok then Some p else None)"

definition peers_added :: "cluster_action list \<Rightarrow> NodeId list" where
  "peers_added acts = List.map_filter peer_added acts"

definition coordinator_inv :: "'r RaftCoordinator \<times> cluster_action list \<Rightarrow> bool" where
  "coordinator_inv = (\<lambda>(c, done).
     length (filter bootstrapped done) \<le> 1 \<and>
     (list_ex bootstrapped done \<or> peers_added done \<noteq> [] \<longrightarrow> co_state c = ClusterActive) \<and>
     distinct (peers_added done) \<and> set (peers_added done) \<subseteq> co_added_peers c)"

text \<open>The condition under which a node starts a cluster.\<close>

definition may_bootstrap :: "health_get \<Rightarrow> trusted_nodes \<Rightarrow> NodeId \<Rightarrow> bool" where
  "may_bootstrap get t node_id \<longleftrightarrow>
     card (build_mutual_ready_set get t node_id) \<ge> BOOTSTRAP_QUORUM \<and>
     Min (build_mutual_ready_set get t node_id) = node_id"

text \<open>A node whose RAFT instance has no membership yet.\<close>

definition unclustered :: "'r openraft \<Rightarrow> 'r ApiState \<Rightarrow> bool" where
  "unclustered lib s \<longleftrightarrow>
     (case ap_raft_node s of
        None \<Rightarrow> True
      | Some node \<Rightarrow> rm_voters (raft_metrics lib (rn_raft node)) = [] \<and>
                     rm_learners (raft_metrics lib (rn_raft node)) = [])"

text \<open>Nodes that trust each other and the health reports they give, for the witnesses. Whoever is not
  listed in \<open>answering\<close> does not answer.\<close>

definition sample_trust :: "NodeId list \<Rightarrow> trusted_nodes" where
  "sample_trust ns = map_of (map (\<lambda>n. (n, \<lparr> pi_raft_addr = SocketAddr (V4 (node_id_to_ip n)) 8444,
     pi_api_addr = SocketAddr (V4 (node_id_to_ip n)) 8443 \<rparr>)) ns)"

definition ready_health :: "NodeId \<Rightarrow> NodeId list \<Rightarrow> HealthResponse" where
  "ready_health n ns = \<lparr> hp_node_id = n, hp_status = StBootstrapping, hp_term = 0, hp_cluster_size = 0,
     hp_trusted_peers = ns \<rparr>"

fun answering :: "(NodeId \<times> HealthResponse) list \<Rightarrow> health_get" where
  "answering [] url = Inl ''unreachable''"
| "answering ((n, h) # hs) url =
     (if url = ''http://'' @ show_socket_addr (SocketAddr (V4 (node_id_to_ip n)) 8443) @ ''/health''
      then Inr (True, Inr h) else answering hs url)"

definition sample_health :: "(NodeId \<times> HealthResponse) list" where
  "sample_health = [(1, ready_health 1 [2, 3, 4]), (2, ready_health 2 [1, 3, 4]),
     (3, ready_health 3 [1, 2, 4]), (4, ready_health 4 [1, 2, 3])]"

definition sample_readings :: "NodeId list \<Rightarrow> (NodeId \<times> HealthResponse) list \<Rightarrow> readings" where
  "sample_readings ns hs = \<lparr> rd_trusted = sample_trust ns, rd_search = answering hs,
     rd_ready = answering hs, rd_now = 0, rd_later = 0 \<rparr>"

section \<open>Lemmas\<close>

lemma in_trusted_nodes [simp]: "p \<in> set (get_trusted_nodes t) \<longleftrightarrow> is_trusted t p"
  using set_get_trusted_nodes [of t] by simp

lemma in_ready_set:
  "p \<in> build_mutual_ready_set get t n \<longleftrightarrow>
     p = n \<and> length (get_trusted_nodes t) \<ge> MIN_PEERS_FOR_BOOTSTRAP \<or>
     is_trusted t p \<and>
       (\<exists>h. peer_health get t p = Some h \<and> is_mutually_ready h n MIN_PEERS_FOR_BOOTSTRAP)"
  by (auto simp: build_mutual_ready_set_def Let_def split: option.splits)

lemma finite_ready_set [simp]: "finite (build_mutual_ready_set get t n)"
  by (simp add: build_mutual_ready_set_def)

lemma find_peer_SomeD:
  "find_peer get t test ps = Some (p, a) \<Longrightarrow>
     p \<in> set ps \<and> get_raft_addr t p = Some a \<and> (\<exists>h. peer_health get t p = Some h \<and> test h)"
  by (induction ps) (auto split: option.splits if_splits)

lemma find_peer_NoneI:
  "(\<And>p h. p \<in> set ps \<Longrightarrow> peer_health get t p = Some h \<Longrightarrow> \<not> test h) \<Longrightarrow> find_peer get t test ps = None"
  by (induction ps) (auto split: option.splits)

lemma bootstrapping_ready:
  assumes "may_bootstrap get t n"
  shows "n \<in> build_mutual_ready_set get t n"
proof -
  have "build_mutual_ready_set get t n \<noteq> {}"
    using assms by (auto simp: may_bootstrap_def BOOTSTRAP_QUORUM_def)
  then show ?thesis using assms Min_in [of "build_mutual_ready_set get t n"] by (simp add: may_bootstrap_def)
qed

lemma peers_added_simps [simp]:
  "peers_added [] = []"
  "peers_added (AddPeer p addr ok # acts) = (if ok then p # peers_added acts else peers_added acts)"
  "peers_added (Initialize m ok # acts) = peers_added acts"
  "peers_added (acts @ acts') = peers_added acts @ peers_added acts'"
  by (simp_all add: peers_added_def List.map_filter_simps) (simp add: List.map_filter_def)

lemma add_new_peers_adds:
  assumes "add_new_peers lib ms addrs ps node added = (node', added', acts)"
  shows "added' = added \<union> set (peers_added acts) \<and> distinct (peers_added acts) \<and>
     set (peers_added acts) \<inter> added = {} \<and>
     (\<forall>act \<in> set acts. \<exists>p a ok. act = AddPeer p a ok \<and> p \<in> set ps \<and> addrs p = Some a \<and> p \<notin> ms \<and> p \<notin> added)"
  using assms
proof (induction ps arbitrary: node added acts)
  case (Cons p ps)
  show ?case
  proof (cases "p \<in> ms \<or> p \<in> added \<or> addrs p = None")
    case True
    then have "add_new_peers lib ms addrs ps node added = (node', added', acts)"
      using Cons.prems by (auto split: if_splits)
    from Cons.IH [OF this] show ?thesis by fastforce
  next
    case False
    then obtain a where a: "addrs p = Some a" "p \<notin> ms" "p \<notin> added" by auto
    obtain r node1 where r: "add_peer lib p a node = (r, node1)" by fastforce
    obtain acts2 where rec: "add_new_peers lib ms addrs ps node1 (if is_ok r then insert p added else added) =
        (node', added', acts2)" and acts: "acts = AddPeer p a (is_ok r) # acts2"
      using Cons.prems a r by (auto simp: Let_def split: prod.splits)
    from Cons.IH [OF rec] show ?thesis using a acts by (cases "is_ok r") fastforce+
  qed
qed simp

lemma handle_cluster_active_adds:
  assumes "handle_cluster_active lib e c = (node', added', acts)"
  shows "added' = co_added_peers c \<union> set (peers_added acts) \<and> distinct (peers_added acts) \<and>
     set (peers_added acts) \<inter> co_added_peers c = {} \<and>
     (\<forall>act \<in> set acts. \<exists>p a ok. act = AddPeer p a ok \<and> node_is_leader lib (co_raft_node c) \<and>
        is_trusted (rd_trusted e) p \<and> get_raft_addr (rd_trusted e) p = Some a \<and>
        p \<notin> set (rm_voters (raft_metrics lib (rn_raft (co_raft_node c)))) \<and>
        p \<notin> set (rm_learners (raft_metrics lib (rn_raft (co_raft_node c)))) \<and> p \<notin> co_added_peers c)"
proof (cases "node_is_leader lib (co_raft_node c)")
  case True
  with assms have "add_new_peers lib
      (set (rm_voters (raft_metrics lib (rn_raft (co_raft_node c)))) \<union>
       set (rm_learners (raft_metrics lib (rn_raft (co_raft_node c)))))
      (get_raft_addresses (rd_trusted e)) (get_trusted_nodes (rd_trusted e)) (co_raft_node c)
      (co_added_peers c) = (node', added', acts)"
    by (simp add: handle_cluster_active_def Let_def)
  from add_new_peers_adds [OF this] show ?thesis
    using True by (fastforce simp: get_raft_addresses_def get_raft_addr_def)
qed (use assms in \<open>simp add: handle_cluster_active_def\<close>)

text \<open>The only iterations with actions are those of a bootstrapping and of an active node.\<close>

lemma coordinate_actions:
  assumes "coordinate lib e c = (c', acts)" and "acts \<noteq> []"
  obtains (bootstrap) s node where "co_state c = Bootstrapping" "handle_bootstrapping lib e c = (s, node, acts)"
      "c' = c\<lparr> co_raft_node := node, co_state := s \<rparr>"
  | (active) node added where "co_state c = ClusterActive" "handle_cluster_active lib e c = (node, added, acts)"
      "c' = c\<lparr> co_raft_node := node, co_added_peers := added, co_state := ClusterActive \<rparr>"
  using assms by (cases "co_state c") (auto simp: coordinate_def Let_def split: prod.splits)

lemma handle_bootstrapping_acts:
  assumes "handle_bootstrapping lib e c = (s, node, acts)" and "acts \<noteq> []"
  obtains ok where
    "acts = [Initialize (get_raft_addresses (rd_trusted e) |`
       build_mutual_ready_set (rd_ready e) (rd_trusted e) (co_node_id c)) ok]"
    "may_bootstrap (rd_ready e) (rd_trusted e) (co_node_id c)" "ok \<longleftrightarrow> s = ClusterActive"
  using assms
  by (auto simp: handle_bootstrapping_def may_bootstrap_def Let_def split: if_splits prod.splits outcome.splits)

lemma coordinate_Initialize:
  assumes "coordinate lib e c = (c', acts)" and "Initialize peers ok \<in> set acts"
  shows "co_state c = Bootstrapping \<and> may_bootstrap (rd_ready e) (rd_trusted e) (co_node_id c) \<and>
    peers = get_raft_addresses (rd_trusted e) |`
      build_mutual_ready_set (rd_ready e) (rd_trusted e) (co_node_id c)"
proof -
  have ne: "acts \<noteq> []" using assms(2) by (cases acts) simp_all
  from assms(1) ne show ?thesis
  proof (cases rule: coordinate_actions)
    case (bootstrap s node)
    obtain ok' where "acts = [Initialize (get_raft_addresses (rd_trusted e) |`
       build_mutual_ready_set (rd_ready e) (rd_trusted e) (co_node_id c)) ok']"
      "may_bootstrap (rd_ready e) (rd_trusted e) (co_node_id c)"
      using handle_bootstrapping_acts [OF bootstrap(2) ne] by metis
    then show ?thesis using assms(2) bootstrap(1) by simp
  next
    case (active node added)
    then show ?thesis using handle_cluster_active_adds [OF active(2)] assms(2)
      by (metis cluster_action.distinct(1))
  qed
qed

lemma coordinate_initialized:
  assumes "coordinate lib e c = (c', acts)" and "Initialize peers True \<in> set acts"
  shows "co_state c' = ClusterActive"
proof -
  have "co_state c = Bootstrapping" using coordinate_Initialize [OF assms] by blast
  then show ?thesis
    using assms by (auto simp: coordinate_def handle_bootstrapping_def Let_def split: if_splits prod.splits outcome.splits)
qed

lemma coordinate_quiet:
  assumes "coordinate lib e c = (c', [])"
  shows "co_added_peers c' = co_added_peers c" and "co_state c = ClusterActive \<Longrightarrow> co_state c' = ClusterActive"
  using assms handle_cluster_active_adds [of lib e c]
  by (cases "co_state c"; force simp: coordinate_def Let_def split: prod.splits)+

lemma coordinator_inv_step:
  assumes "coordinator_inv s" and "coordinator_step lib s t"
  shows "coordinator_inv t"
  using assms(2)
proof cases
  case (Iterate e c c' acts before)
  note inv = assms(1) [unfolded Iterate coordinator_inv_def]
  show ?thesis
  proof (cases "acts = []")
    case True
    then show ?thesis using inv coordinate_quiet [of lib e c c'] Iterate by (auto simp: coordinator_inv_def)
  next
    case False
    with Iterate(3) show ?thesis
    proof (cases rule: coordinate_actions)
      case (bootstrap s node)
      from handle_bootstrapping_acts [OF bootstrap(2) False] obtain m ok where "acts = [Initialize m ok]"
        "ok \<longleftrightarrow> s = ClusterActive" by metis
      then show ?thesis using inv bootstrap Iterate by (auto simp: coordinator_inv_def list_ex_iff filter_empty_conv)
    next
      case (active node added)
      have "\<forall>act \<in> set acts. \<not> bootstrapped act" using handle_cluster_active_adds [OF active(2)] by fastforce
      then have "filter bootstrapped acts = []" by (simp add: filter_empty_conv)
      then show ?thesis
        using inv handle_cluster_active_adds [OF active(2)] active Iterate by (auto simp: coordinator_inv_def)
    qed
  qed
next
  case (Background c before r)
  then show ?thesis using assms(1) by (simp add: coordinator_inv_def)
qed

interpretation coordinator: stepping_system "\<lambda>s. \<exists>n node. s = (coordinator_new n node, [])"
  "coordinator_step lib" coordinator_inv for lib :: "'r openraft"
proof
  show "coordinator_inv s" if "\<exists>n node. s = (coordinator_new n node, [])" for s :: "'r RaftCoordinator \<times> cluster_action list"
    using that by (auto simp: coordinator_inv_def)
qed (rule coordinator_inv_step)

lemma may_bootstrap_trusts:
  assumes "may_bootstrap get t n"
  shows "MIN_PEERS_FOR_BOOTSTRAP \<le> length (get_trusted_nodes t)"
proof -
  have "build_mutual_ready_set get t n \<subseteq> insert n (set (get_trusted_nodes t))"
    by (auto simp: in_ready_set)
  then have "card (build_mutual_ready_set get t n) \<le> card (insert n (set (get_trusted_nodes t)))"
    by (intro card_mono) simp_all
  also have "\<dots> \<le> Suc (card (set (get_trusted_nodes t)))" by (simp add: card_insert_if)
  also have "\<dots> \<le> Suc (length (get_trusted_nodes t))" by (simp add: card_length)
  finally show ?thesis
    using assms by (simp add: may_bootstrap_def BOOTSTRAP_QUORUM_def MIN_PEERS_FOR_BOOTSTRAP_def)
qed

lemma trusted_count_length: "trusted_count t = length (get_trusted_nodes t)"
  by (simp add: trusted_count_def map_len_def get_trusted_nodes_def)

lemma peer_health_trusted: "peer_health get t p = Some h \<Longrightarrow> is_trusted t p"
  by (auto simp: peer_health_def get_api_addr_def is_trusted_def split: option.splits)

lemma unclustered_health:
  assumes "health_handler lib (Some t) s = Ok h" and "unclustered lib s"
  shows "hp_cluster_size h = 0" "hp_status h = StBootstrapping" "hp_trusted_peers h = get_trusted_nodes t"
  using assms
  by (auto simp: health_handler_def trusted_get_def unclustered_def get_node_state_def Let_def
      split: option.splits)

lemma is_trusted_sample [simp]: "is_trusted (sample_trust ns) p \<longleftrightarrow> p \<in> set ns"
  by (auto simp: is_trusted_def sample_trust_def map_of_eq_None_iff image_iff)

lemma get_trusted_nodes_sample [simp]: "get_trusted_nodes (sample_trust ns) = sorted_list_of_set (set ns)"
  by (simp add: get_trusted_nodes_def sample_trust_def dom_map_of_conv_image_fst image_image)

lemma sample_addresses:
  "p \<in> set ns \<Longrightarrow> get_api_addr (sample_trust ns) p = Some (SocketAddr (V4 (node_id_to_ip p)) 8443)"
  "p \<in> set ns \<Longrightarrow> get_raft_addr (sample_trust ns) p = Some (SocketAddr (V4 (node_id_to_ip p)) 8444)"
  by (induction ns) (auto simp: sample_trust_def get_api_addr_def get_raft_addr_def)

lemma initialize_cluster_Ok:
  assumes "\<And>members. rn_node_id node \<in> dom members \<Longrightarrow> fst (raft_initialize lib members (rn_raft node)) = Inr ()"
  shows "fst (initialize_cluster lib peers node) = Ok ()"
  using assms by (simp add: initialize_cluster_def raft_call_def Let_def)

lemma handle_bootstrapping_Ok:
  assumes "may_bootstrap (rd_ready e) (rd_trusted e) (co_node_id c)"
    and "\<And>members. rn_node_id (co_raft_node c) \<in> dom members \<Longrightarrow>
      fst (raft_initialize lib members (rn_raft (co_raft_node c))) = Inr ()"
  shows "\<exists>node. handle_bootstrapping lib e c = (ClusterActive, node,
     [Initialize (get_raft_addresses (rd_trusted e) |`
        build_mutual_ready_set (rd_ready e) (rd_trusted e) (co_node_id c)) True])"
  using assms initialize_cluster_Ok [of "co_raft_node c" lib]
  by (simp add: handle_bootstrapping_def may_bootstrap_def Let_def split_beta)

lemma coordinate_bootstraps:
  assumes "co_state c = Bootstrapping" and "may_bootstrap (rd_ready e) (rd_trusted e) (co_node_id c)"
    and "\<And>members. rn_node_id (co_raft_node c) \<in> dom members \<Longrightarrow>
      fst (raft_initialize lib members (rn_raft (co_raft_node c))) = Inr ()"
  shows "\<exists>c'. coordinate lib e c = (c', [Initialize (get_raft_addresses (rd_trusted e) |`
      build_mutual_ready_set (rd_ready e) (rd_trusted e) (co_node_id c)) True]) \<and> co_state c' = ClusterActive"
proof -
  obtain node where "handle_bootstrapping lib e c = (ClusterActive, node,
     [Initialize (get_raft_addresses (rd_trusted e) |`
        build_mutual_ready_set (rd_ready e) (rd_trusted e) (co_node_id c)) True])"
    using handle_bootstrapping_Ok [OF assms(2,3)] by blast
  then show ?thesis using assms(1) by (simp add: coordinate_def)
qed

text \<open>The four iterations of a coordinator that starts a cluster.\<close>

lemma formation_run:
  assumes "MIN_PEERS_FOR_BOOTSTRAP \<le> trusted_count (rd_trusted e1)"
    and "\<And>p h. peer_health (rd_search e2) (rd_trusted e2) p = Some h \<Longrightarrow> \<not> (health_in_cluster h \<and> health_is_leader h)"
    and "may_bootstrap (rd_ready e3) (rd_trusted e3) n" and "may_bootstrap (rd_ready e4) (rd_trusted e4) n"
    and "\<And>members. rn_node_id node \<in> dom members \<Longrightarrow> fst (raft_initialize lib members (rn_raft node)) = Inr ()"
  shows "\<exists>c. coordinate_all lib [e1, e2, e3, e4] (coordinator_new n node) =
     (c, [Initialize (get_raft_addresses (rd_trusted e4) |` build_mutual_ready_set (rd_ready e4) (rd_trusted e4) n) True]) \<and>
     co_state c = ClusterActive"
proof -
  let ?c = "coordinator_new n node"
  have 1: "coordinate lib e1 ?c = (?c\<lparr> co_state := CheckingCluster \<rparr>, [])"
    using assms(1) by (simp add: coordinate_def coordinator_new_def handle_waiting_for_peers_def)
  have "find_peer (rd_search e2) (rd_trusted e2) (\<lambda>h. health_in_cluster h \<and> health_is_leader h)
      (get_trusted_nodes (rd_trusted e2)) = None"
    by (rule find_peer_NoneI) (use assms(2) in blast)
  then have 2: "coordinate lib e2 (?c\<lparr> co_state := CheckingCluster \<rparr>) = (?c\<lparr> co_state := CoordinatingBootstrap \<rparr>, [])"
    by (simp add: coordinate_def coordinator_new_def handle_checking_cluster_def)
  have 3: "coordinate lib e3 (?c\<lparr> co_state := CoordinatingBootstrap \<rparr>) = (?c\<lparr> co_state := Bootstrapping \<rparr>, [])"
    using assms(3)
    by (simp add: coordinate_def coordinator_new_def handle_coordinating_bootstrap_def may_bootstrap_def Let_def)
  obtain c where 4: "coordinate lib e4 (?c\<lparr> co_state := Bootstrapping \<rparr>) =
      (c, [Initialize (get_raft_addresses (rd_trusted e4) |` build_mutual_ready_set (rd_ready e4) (rd_trusted e4) n) True])"
      "co_state c = ClusterActive"
    using coordinate_bootstraps [of "?c\<lparr> co_state := Bootstrapping \<rparr>" e4 lib] assms(4,5)
    by (auto simp: coordinator_new_def)
  show ?thesis using 4(2) by (simp add: 1 2 3 4(1))
qed

lemma coordinate_all_run:
  "coordinate_all lib es c = (c', acts) \<Longrightarrow> (coordinator_step lib)\<^sup>*\<^sup>* (c, before) (c', before @ acts)"
proof (induction es arbitrary: c acts before)
  case (Cons e es)
  obtain c1 acts1 where one: "coordinate lib e c = (c1, acts1)" by fastforce
  then obtain acts2 where two: "coordinate_all lib es c1 = (c', acts2)" "acts = acts1 @ acts2"
    using Cons.prems by (auto split: prod.splits)
  have "coordinator_step lib (c, before) (c1, before @ acts1)" using one by (rule coordinator_step.Iterate)
  then show ?case
    using Cons.IH [OF two(1), of "before @ acts1"] two(2) by (auto intro: converse_rtranclp_into_rtranclp)
qed simp

text \<open>A node that waits takes over when no answer it gets names a cluster and it is the lowest it sees.\<close>

lemma coordinate_takes_over:
  assumes "co_state c = WaitingForBootstrap d" and "rd_now e < d"
    and "\<And>p h. peer_health (rd_search e) (rd_trusted e) p = Some h \<Longrightarrow> \<not> health_in_cluster h"
    and "may_bootstrap (rd_ready e) (rd_trusted e) (co_node_id c)"
  shows "coordinate lib e c = (c\<lparr> co_state := Bootstrapping \<rparr>, [])"
proof -
  have "find_peer (rd_search e) (rd_trusted e) health_in_cluster (get_trusted_nodes (rd_trusted e)) = None"
    by (rule find_peer_NoneI) (use assms(3) in blast)
  then show ?thesis
    using assms(1,2,4) by (simp add: coordinate_def handle_waiting_for_bootstrap_def may_bootstrap_def Let_def)
qed

text \<open>Without the answer of a lower node, the ready set is that of the others.\<close>

lemma silent_may_bootstrap:
  assumes "peer_health get t a = None" and "a \<noteq> b"
    and "\<And>p h. peer_health get t p = Some h \<Longrightarrow> is_mutually_ready h b MIN_PEERS_FOR_BOOTSTRAP \<Longrightarrow> b \<le> p"
    and "2 \<le> card {p. p \<noteq> b \<and> (\<exists>h. peer_health get t p = Some h \<and> is_mutually_ready h b MIN_PEERS_FOR_BOOTSTRAP)}"
      (is "2 \<le> card ?others")
  shows "may_bootstrap get t b \<and> a \<notin> build_mutual_ready_set get t b"
proof -
  let ?ready = "build_mutual_ready_set get t b"
  have others: "?others \<subseteq> set (get_trusted_nodes t)" using peer_health_trusted [of get t] by auto
  have "card ?others \<le> length (get_trusted_nodes t)"
    using card_mono [OF _ others] card_length [of "get_trusted_nodes t"] by simp
  then have trusts: "MIN_PEERS_FOR_BOOTSTRAP \<le> length (get_trusted_nodes t)"
    using assms(4) by (simp add: MIN_PEERS_FOR_BOOTSTRAP_def)
  have ready: "?ready = insert b ?others"
    using trusts peer_health_trusted [of get t] by (auto simp: in_ready_set)
  have fin: "finite ?others" using finite_subset [OF others] by simp
  have "BOOTSTRAP_QUORUM \<le> card ?ready" using assms(4) fin by (simp add: ready BOOTSTRAP_QUORUM_def)
  moreover have "Min ?ready = b" unfolding ready by (rule Min_eqI) (use fin assms(3) in auto)
  moreover have "a \<notin> ?ready" using assms(1,2) by (simp add: ready)
  ultimately show ?thesis by (simp add: may_bootstrap_def)
qed

text \<open>The health of the nodes one to four, and the ready sets they see.\<close>

lemma health_urls:
  "distinct (map (\<lambda>n. ''http://'' @ show_socket_addr (SocketAddr (V4 (node_id_to_ip n)) 8443) @ ''/health'')
     [1, 2, 3, 4])"
  by (simp add: node_id_to_ip_def show_nat_inj)

lemma peer_health_sample:
  assumes "set ns \<subseteq> {1, 2, 3, 4}" and "fst ` set hs \<subseteq> {1, 2, 3, 4}"
  shows "peer_health (answering hs) (sample_trust ns) p = (if p \<in> set ns then map_of hs p else None)"
proof (cases "p \<in> set ns")
  case True
  have "query_peer_health (answering hs) (SocketAddr (V4 (node_id_to_ip p)) 8443) = map_of hs p"
    using assms(2)
  proof (induction hs)
    case (Cons nh hs)
    obtain n h where nh: "nh = (n, h)" by fastforce
    have "n \<in> {1, 2, 3, 4}" "p \<in> {1, 2, 3, 4}" using Cons.prems True assms(1) nh by auto
    then have "show_socket_addr (SocketAddr (V4 (node_id_to_ip p)) 8443) =
        show_socket_addr (SocketAddr (V4 (node_id_to_ip n)) 8443) \<longleftrightarrow> n = p"
      using health_urls by auto
    then show ?case using Cons nh by (auto simp: query_peer_health_def)
  qed (simp add: query_peer_health_def)
  with True show ?thesis by (simp add: peer_health_def sample_addresses)
next
  case False
  then show ?thesis using peer_health_trusted [of "answering hs" "sample_trust ns" p] by fastforce
qed

lemma in_ready_set_sample:
  assumes "set ns \<subseteq> {1, 2, 3, 4}" and "fst ` set hs \<subseteq> {1, 2, 3, 4}"
  shows "p \<in> build_mutual_ready_set (answering hs) (sample_trust ns) n \<longleftrightarrow>
     p = n \<and> 2 \<le> card (set ns) \<or>
     p \<in> set ns \<and> (\<exists>h. map_of hs p = Some h \<and> is_mutually_ready h n 2)"
  by (simp add: in_ready_set peer_health_sample [OF assms] MIN_PEERS_FOR_BOOTSTRAP_def)

lemma sample_ready_sets:
  "build_mutual_ready_set (answering sample_health) (sample_trust [2, 3, 4]) 1 = {1, 2, 3, 4}"
  "build_mutual_ready_set (answering (tl sample_health)) (sample_trust [1, 3, 4]) 2 = {2, 3, 4}"
  by (rule set_eqI, subst in_ready_set_sample;
      auto simp: sample_health_def ready_health_def is_mutually_ready_def ready_for_bootstrap_def)+

lemma sample_may_bootstrap:
  "may_bootstrap (answering sample_health) (sample_trust [2, 3, 4]) 1"
  "may_bootstrap (answering (tl sample_health)) (sample_trust [1, 3, 4]) 2"
  by (simp_all add: may_bootstrap_def sample_ready_sets BOOTSTRAP_QUORUM_def)

lemma sample_bootstraps:
  assumes "may_bootstrap (rd_ready e) (rd_trusted e) n"
  shows "\<exists>c. coordinate sample_raft e ((coordinator_new n (sample_raft_node n no_metrics))\<lparr> co_state := Bootstrapping \<rparr>) =
     (c, [Initialize (get_raft_addresses (rd_trusted e) |` build_mutual_ready_set (rd_ready e) (rd_trusted e) n) True]) \<and>
     co_state c = ClusterActive"
  using handle_bootstrapping_Ok [of e "(coordinator_new n (sample_raft_node n no_metrics))\<lparr> co_state := Bootstrapping \<rparr>" sample_raft]
    assms
  by (auto simp: coordinate_def coordinator_new_def sample_raft_def sample_raft_node_def no_metrics_def)

lemma sample_formation:
  defines "e \<equiv> sample_readings [2, 3, 4] sample_health"
  shows "MIN_PEERS_FOR_BOOTSTRAP \<le> trusted_count (rd_trusted e)"
    and "peer_health (rd_search e) (rd_trusted e) p = Some h \<Longrightarrow> \<not> (health_in_cluster h \<and> health_is_leader h)"
    and "may_bootstrap (rd_ready e) (rd_trusted e) 1" and "may_bootstrap (rd_ready e) (rd_trusted e) 1"
    and "fst (raft_initialize sample_raft members (rn_raft (sample_raft_node 1 no_metrics))) = Inr ()"
  using sample_may_bootstrap(1)
  by (auto simp: e_def sample_readings_def trusted_count_length MIN_PEERS_FOR_BOOTSTRAP_def peer_health_sample sample_health_def
      ready_health_def health_in_cluster_def sample_raft_def sample_raft_node_def no_metrics_def split: if_splits)

lemma sample_run:
  defines "e \<equiv> sample_readings [2, 3, 4] sample_health"
  shows "\<exists>c members. coordinate_all sample_raft [e, e, e, e] (coordinator_new 1 (sample_raft_node 1 no_metrics)) =
    (c, [Initialize members True])"
  unfolding e_def by (rule exE [OF formation_run]; (rule sample_formation | blast))

section \<open>Properties\<close>

text \<open>C6: A node starts a cluster only in the bootstrapping state, when at least three nodes with itself
  are mutually ready and it is the lowest of them. Every member it names besides itself is trusted,
  is named with its registered RAFT address, and has reported in this very iteration that it is not
  in a cluster, trusts enough peers and trusts this node; with itself there are at least three
  members.\<close>

theorem bootstrap_guarded:
  assumes "coordinate lib e c = (c', acts)" and "Initialize peers ok \<in> set acts"
  shows "co_state c = Bootstrapping \<and>
     (\<forall>p a. peers p = Some a \<longrightarrow> co_node_id c \<le> p \<and> get_raft_addr (rd_trusted e) p = Some a \<and>
        (p = co_node_id c \<or> (\<exists>h. peer_health (rd_ready e) (rd_trusted e) p = Some h \<and>
           hp_cluster_size h = 0 \<and> status_is_bootstrapping (hp_status h) \<and>
           co_node_id c \<in> set (hp_trusted_peers h) \<and> length (hp_trusted_peers h) \<ge> 2))) \<and>
     card (insert (co_node_id c) (dom peers)) \<ge> 3"
proof -
  let ?ready = "build_mutual_ready_set (rd_ready e) (rd_trusted e) (co_node_id c)"
  from coordinate_Initialize [OF assms] have st: "co_state c = Bootstrapping"
    and peers: "peers = get_raft_addresses (rd_trusted e) |` ?ready"
    and may: "may_bootstrap (rd_ready e) (rd_trusted e) (co_node_id c)" by simp_all
  have ready: "?ready = insert (co_node_id c) (dom peers)"
    using bootstrapping_ready [OF may] peers
    by (auto simp: in_ready_set is_trusted_def get_raft_addresses_def)
  have card: "card (insert (co_node_id c) (dom peers)) \<ge> 3"
    using may unfolding ready [symmetric] by (simp add: may_bootstrap_def BOOTSTRAP_QUORUM_def)
  have "co_node_id c \<le> p \<and> get_raft_addr (rd_trusted e) p = Some a \<and>
      (p = co_node_id c \<or> (\<exists>h. peer_health (rd_ready e) (rd_trusted e) p = Some h \<and>
         hp_cluster_size h = 0 \<and> status_is_bootstrapping (hp_status h) \<and>
         co_node_id c \<in> set (hp_trusted_peers h) \<and> length (hp_trusted_peers h) \<ge> 2))"
    if "peers p = Some a" for p a
  proof (intro conjI)
    from that peers have p: "p \<in> ?ready" by (metis restrict_out option.distinct(1))
    show "co_node_id c \<le> p" using may Min_le [OF finite_ready_set p] by (simp add: may_bootstrap_def)
    show "get_raft_addr (rd_trusted e) p = Some a"
      using that p peers by (simp add: get_raft_addresses_def get_raft_addr_def)
    from p [unfolded in_ready_set] show "p = co_node_id c \<or> (\<exists>h. peer_health (rd_ready e) (rd_trusted e) p = Some h \<and>
         hp_cluster_size h = 0 \<and> status_is_bootstrapping (hp_status h) \<and>
         co_node_id c \<in> set (hp_trusted_peers h) \<and> length (hp_trusted_peers h) \<ge> 2)"
      unfolding is_mutually_ready_def ready_for_bootstrap_def MIN_PEERS_FOR_BOOTSTRAP_def by blast
  qed
  with st card show ?thesis by blast
qed

theorem bootstrap_guarded_witness:
  "\<exists>c' peers. coordinate sample_raft (sample_readings [2, 3, 4] sample_health)
       ((coordinator_new 1 (sample_raft_node 1 no_metrics))\<lparr> co_state := Bootstrapping \<rparr>) =
     (c', [Initialize peers True]) \<and> card (insert 1 (dom peers)) \<ge> 3"
proof -
  have "may_bootstrap (rd_ready (sample_readings [2, 3, 4] sample_health))
      (rd_trusted (sample_readings [2, 3, 4] sample_health)) 1"
    using sample_may_bootstrap(1) by (simp add: sample_readings_def)
  from sample_bootstraps [OF this] obtain c' peers where step:
    "coordinate sample_raft (sample_readings [2, 3, 4] sample_health)
       ((coordinator_new 1 (sample_raft_node 1 no_metrics))\<lparr> co_state := Bootstrapping \<rparr>) =
     (c', [Initialize peers True])" by blast
  with bootstrap_guarded [OF this, of peers True] show ?thesis by (auto simp: coordinator_new_def)
qed

text \<open>C20: In every run a coordinator bootstraps at most one cluster and adds every peer at most once,
  and after either it stays active: it never goes back to searching or bootstrapping. A peer that
  was added stays recorded as added whatever happens to it afterwards.\<close>

theorem coordinator_invariant:
  assumes "(coordinator_step lib)\<^sup>*\<^sup>* (coordinator_new n node, []) (c, acts)"
  shows "length (filter bootstrapped acts) \<le> 1 \<and> distinct (peers_added acts) \<and>
     (filter bootstrapped acts = [] \<and> peers_added acts = [] \<or> co_state c = ClusterActive) \<and>
     set (peers_added acts) \<subseteq> co_added_peers c"
  using coordinator.reachable_inv [of "(coordinator_new n node, [])" lib "(c, acts)"] assms
  by (auto simp: coordinator_inv_def list_ex_iff filter_empty_conv)

theorem coordinator_invariant_witness:
  "\<exists>c acts. (coordinator_step sample_raft)\<^sup>*\<^sup>* (coordinator_new 1 (sample_raft_node 1 no_metrics), []) (c, acts) \<and>
     co_state c = ClusterActive \<and> length (filter bootstrapped acts) = 1"
proof -
  let ?e = "sample_readings [2, 3, 4] sample_health"
  obtain c members where run: "coordinate_all sample_raft [?e, ?e, ?e, ?e]
      (coordinator_new 1 (sample_raft_node 1 no_metrics)) = (c, [Initialize members True])"
    using sample_run by blast
  have "(coordinator_step sample_raft)\<^sup>*\<^sup>* (coordinator_new 1 (sample_raft_node 1 no_metrics), []) (c, [] @ [Initialize members True])"
    by (rule coordinate_all_run [OF run])
  with coordinator_invariant [OF this] show ?thesis by (intro exI conjI) (assumption | simp)+
qed

text \<open>C7: While queries are answered and trust does not change, mutually trusting nodes exclude each other. Let each of
  two nodes get, in the readiness queries of its iteration, the report that the other gave outside any cluster
  with the peers it trusts in its own iteration, and let each report list the other. Then the nodes do not both start a
  cluster in these iterations; and if the lower one trusts enough peers to be ready, the higher one does not.\<close>

theorem bootstrap_exclusive:
  assumes "health_handler liba (Some (rd_trusted ea)) sa = Ok ha" and "unclustered liba sa"
    and "health_handler libb (Some (rd_trusted eb)) sb = Ok hb" and "unclustered libb sb"
    and "peer_health (rd_ready eb) (rd_trusted eb) (co_node_id ca) = Some ha"
    and "peer_health (rd_ready ea) (rd_trusted ea) (co_node_id cb) = Some hb"
    and "coordinate liba ea ca = (ca', actsa)" and "coordinate libb eb cb = (cb', actsb)"
    and "co_node_id ca < co_node_id cb"
  shows "\<not> ((\<exists>p ok. Initialize p ok \<in> set actsa) \<and> (\<exists>p ok. Initialize p ok \<in> set actsb)) \<and>
     (MIN_PEERS_FOR_BOOTSTRAP \<le> trusted_count (rd_trusted ea) \<longrightarrow> (\<forall>p ok. Initialize p ok \<notin> set actsb))"
proof -
  let ?ready = "build_mutual_ready_set (rd_ready eb) (rd_trusted eb) (co_node_id cb)"
  have outranked: "Initialize p ok \<notin> set actsb"
    if enough: "MIN_PEERS_FOR_BOOTSTRAP \<le> length (get_trusted_nodes (rd_trusted ea))" for p ok
  proof
    assume "Initialize p ok \<in> set actsb"
    with coordinate_Initialize [OF assms(8)] have may: "may_bootstrap (rd_ready eb) (rd_trusted eb) (co_node_id cb)"
      by blast
    have "is_mutually_ready ha (co_node_id cb) MIN_PEERS_FOR_BOOTSTRAP"
      using unclustered_health [OF assms(1,2)] peer_health_trusted [OF assms(6)] enough
      by (simp add: is_mutually_ready_def ready_for_bootstrap_def)
    then have "co_node_id ca \<in> ?ready"
      using assms(5) peer_health_trusted [OF assms(5)] by (auto simp: in_ready_set)
    then have "Min ?ready \<le> co_node_id ca" by simp
    then show False using may assms(9) by (simp add: may_bootstrap_def)
  qed
  moreover have "MIN_PEERS_FOR_BOOTSTRAP \<le> length (get_trusted_nodes (rd_trusted ea))"
    if "Initialize p ok \<in> set actsa" for p ok
    using coordinate_Initialize [OF assms(7) that] may_bootstrap_trusts by blast
  ultimately show ?thesis by (auto simp: trusted_count_length)
qed

theorem bootstrap_exclusive_witness:
  "\<exists>c' acts. coordinate sample_raft (sample_readings [1, 3, 4] sample_health)
       ((coordinator_new 2 (sample_raft_node 2 no_metrics))\<lparr> co_state := Bootstrapping \<rparr>) = (c', acts) \<and>
     (\<forall>peers ok. Initialize peers ok \<notin> set acts)"
proof -
  define ea where "ea = sample_readings [2, 3, 4] sample_health"
  define eb where "eb = sample_readings [1, 3, 4] sample_health"
  define ca where "ca = (coordinator_new 1 (sample_raft_node 1 no_metrics))\<lparr> co_state := Bootstrapping \<rparr>"
  define cb where "cb = (coordinator_new 2 (sample_raft_node 2 no_metrics))\<lparr> co_state := Bootstrapping \<rparr>"
  define state where "state n = \<lparr> ap_node_id = n, ap_raft_node = Some (sample_raft_node n no_metrics) \<rparr>" for n
  obtain ca' actsa where a: "coordinate sample_raft ea ca = (ca', actsa)" by fastforce
  obtain cb' actsb where b: "coordinate sample_raft eb cb = (cb', actsb)" by fastforce
  have health: "health_handler sample_raft (Some (rd_trusted ea)) (state 1) = Ok (ready_health 1 [2, 3, 4])"
    "health_handler sample_raft (Some (rd_trusted eb)) (state 2) = Ok (ready_health 2 [1, 3, 4])"
    by (simp_all add: ea_def eb_def sample_readings_def state_def health_handler_def trusted_get_def get_node_state_def
        sample_raft_def sample_raft_node_def no_metrics_def ready_health_def)
  have un: "unclustered sample_raft (state n)" for n
    by (simp add: state_def unclustered_def sample_raft_def sample_raft_node_def no_metrics_def)
  have answers: "peer_health (answering sample_health) (sample_trust [1, 3, 4]) 1 = Some (ready_health 1 [2, 3, 4])"
    "peer_health (answering sample_health) (sample_trust [2, 3, 4]) 2 = Some (ready_health 2 [1, 3, 4])"
    by (subst peer_health_sample; auto simp: sample_health_def)+
  then have answers': "peer_health (rd_ready eb) (rd_trusted eb) (co_node_id ca) = Some (ready_health 1 [2, 3, 4])"
    "peer_health (rd_ready ea) (rd_trusted ea) (co_node_id cb) = Some (ready_health 2 [1, 3, 4])"
    by (simp_all add: ea_def eb_def ca_def cb_def sample_readings_def coordinator_new_def)
  have ids: "co_node_id ca < co_node_id cb" "MIN_PEERS_FOR_BOOTSTRAP \<le> trusted_count (rd_trusted ea)"
    by (simp_all add: ea_def ca_def cb_def sample_readings_def coordinator_new_def trusted_count_length
        MIN_PEERS_FOR_BOOTSTRAP_def)
  from bootstrap_exclusive [OF health(1) un health(2) un answers' a b ids(1)] ids(2) b show ?thesis
    by (auto simp: eb_def cb_def)
qed

text \<open>C21: Failing health queries undo that exclusion. A node starts a cluster. A second node that trusts it,
  waits for it before its deadline and gets no answer from it in the queries of two
  iterations, while no other peer it reaches is in a cluster, at least two others report themselves ready
  and none of these is lower, takes over and asks its RAFT instance for a cluster without the first node; if the
  instance accepts member sets that contain its node, as a fresh one does, both nodes are active, each in
  a cluster of its own making.\<close>

theorem failed_query_second_cluster:
  assumes "coordinate liba ea ca = (ca', actsa)" and "Initialize pa True \<in> set actsa"
    and "co_state cb = WaitingForBootstrap d" and "rd_now e1 < d" and "co_node_id ca \<noteq> co_node_id cb"
    and silent: "peer_health (rd_ready e1) (rd_trusted e1) (co_node_id ca) = None"
      "peer_health (rd_ready e2) (rd_trusted e2) (co_node_id ca) = None"
      "peer_health (rd_search e1) (rd_trusted e1) (co_node_id ca) = None"
    and search: "\<And>p h. p \<noteq> co_node_id ca \<Longrightarrow> peer_health (rd_search e1) (rd_trusted e1) p = Some h \<Longrightarrow> \<not> health_in_cluster h"
    and lowest: "\<And>e p h. e \<in> {e1, e2} \<Longrightarrow> p \<noteq> co_node_id ca \<Longrightarrow> peer_health (rd_ready e) (rd_trusted e) p = Some h \<Longrightarrow>
        is_mutually_ready h (co_node_id cb) MIN_PEERS_FOR_BOOTSTRAP \<Longrightarrow> co_node_id cb \<le> p"
    and two: "\<And>e. e \<in> {e1, e2} \<Longrightarrow> 2 \<le> card {p. p \<noteq> co_node_id cb \<and>
        (\<exists>h. peer_health (rd_ready e) (rd_trusted e) p = Some h \<and>
             is_mutually_ready h (co_node_id cb) MIN_PEERS_FOR_BOOTSTRAP)}"
    and accepts: "\<And>members. rn_node_id (co_raft_node cb) \<in> dom members \<Longrightarrow>
        fst (raft_initialize libb members (rn_raft (co_raft_node cb))) = Inr ()"
  shows "\<exists>cb' pb. coordinate_all libb [e1, e2] cb = (cb', [Initialize pb True]) \<and>
     co_state ca' = ClusterActive \<and> co_state cb' = ClusterActive \<and> co_node_id ca \<notin> dom pb"
proof -
  let ?b = "co_node_id cb"
  have may: "may_bootstrap (rd_ready e) (rd_trusted e) ?b \<and>
      co_node_id ca \<notin> build_mutual_ready_set (rd_ready e) (rd_trusted e) ?b" if e: "e \<in> {e1, e2}" for e
  proof (rule silent_may_bootstrap)
    show none: "peer_health (rd_ready e) (rd_trusted e) (co_node_id ca) = None" using e silent(1,2) by auto
    show "?b \<le> p" if "peer_health (rd_ready e) (rd_trusted e) p = Some h"
      "is_mutually_ready h ?b MIN_PEERS_FOR_BOOTSTRAP" for p h
      using lowest [OF e _ that] that(1) none by (cases "p = co_node_id ca") auto
  qed (rule assms(5), rule two [OF e])
  note may1 = may [of e1, simplified, THEN conjunct1] and may2 = may [of e2, simplified]
  have "\<not> health_in_cluster h" if "peer_health (rd_search e1) (rd_trusted e1) p = Some h" for p h
    using that search silent(3) by (cases "p = co_node_id ca") auto
  then have takeover: "coordinate libb e1 cb = (cb\<lparr> co_state := Bootstrapping \<rparr>, [])"
    by (rule coordinate_takes_over [OF assms(3,4) _ may1])
  obtain cb' where start: "coordinate libb e2 (cb\<lparr> co_state := Bootstrapping \<rparr>) = (cb',
      [Initialize (get_raft_addresses (rd_trusted e2) |` build_mutual_ready_set (rd_ready e2) (rd_trusted e2) ?b) True])"
      "co_state cb' = ClusterActive"
    using coordinate_bootstraps [of "cb\<lparr> co_state := Bootstrapping \<rparr>" e2 libb] may2 accepts by auto
  have "co_state ca' = ClusterActive" using coordinate_initialized [OF assms(1,2)] .
  then show ?thesis using may2 start(2) by (simp add: takeover start(1))
qed

theorem failed_query_second_cluster_witness:
  "let c1 = (coordinator_new 1 (sample_raft_node 1 no_metrics))\<lparr> co_state := Bootstrapping \<rparr>;
       c2 = (coordinator_new 2 (sample_raft_node 2 no_metrics))\<lparr> co_state := WaitingForBootstrap 60000 \<rparr>;
       (c1', acts1) = coordinate sample_raft (sample_readings [2, 3, 4] sample_health) c1;
       e2 = sample_readings [1, 3, 4] (tl sample_health);
       (c2', acts2) = coordinate_all sample_raft [e2, e2] c2
   in co_state c1' = ClusterActive \<and> co_state c2' = ClusterActive \<and> (\<exists>p. acts2 = [Initialize p True] \<and> 1 \<notin> dom p)"
proof -
  define e1 where "e1 = sample_readings [2, 3, 4] sample_health"
  define e2 where "e2 = sample_readings [1, 3, 4] (tl sample_health)"
  define c1 where "c1 = (coordinator_new 1 (sample_raft_node 1 no_metrics))\<lparr> co_state := Bootstrapping \<rparr>"
  define c2 where "c2 = (coordinator_new 2 (sample_raft_node 2 no_metrics))\<lparr> co_state := WaitingForBootstrap 60000 \<rparr>"
  have ids [simp]: "co_node_id c1 = 1" "co_node_id c2 = 2" "co_state c2 = WaitingForBootstrap 60000"
    by (simp_all add: c1_def c2_def coordinator_new_def)
  have answers: "peer_health (rd_ready e2) (rd_trusted e2) p = (if p \<in> {1, 3, 4} then map_of (tl sample_health) p else None)"
    "peer_health (rd_search e2) (rd_trusted e2) p = (if p \<in> {1, 3, 4} then map_of (tl sample_health) p else None)" for p
    by (simp_all add: e2_def sample_readings_def) (subst peer_health_sample; auto simp: sample_health_def)+
  have now: "rd_now e2 = 0" by (simp add: e2_def sample_readings_def)
  have "may_bootstrap (rd_ready e1) (rd_trusted e1) 1"
    using sample_may_bootstrap(1) by (simp add: e1_def sample_readings_def)
  from sample_bootstraps [OF this] obtain c1' p1 where
    a: "coordinate sample_raft e1 c1 = (c1', [Initialize p1 True])" unfolding c1_def by blast
  have "\<exists>cb' pb. coordinate_all sample_raft [e2, e2] c2 = (cb', [Initialize pb True]) \<and>
     co_state c1' = ClusterActive \<and> co_state cb' = ClusterActive \<and> co_node_id c1 \<notin> dom pb"
  proof (rule failed_query_second_cluster [OF a])
    show "2 \<le> card {p. p \<noteq> co_node_id c2 \<and> (\<exists>h. peer_health (rd_ready e) (rd_trusted e) p = Some h \<and>
        is_mutually_ready h (co_node_id c2) MIN_PEERS_FOR_BOOTSTRAP)}" if "e \<in> {e2, e2}" for e
    proof -
      have "{p. p \<noteq> co_node_id c2 \<and> (\<exists>h. peer_health (rd_ready e2) (rd_trusted e2) p = Some h \<and>
          is_mutually_ready h (co_node_id c2) MIN_PEERS_FOR_BOOTSTRAP)} = {3, 4}"
        by (auto simp: answers sample_health_def ready_health_def is_mutually_ready_def ready_for_bootstrap_def
            MIN_PEERS_FOR_BOOTSTRAP_def split: if_splits)
      then show ?thesis using that by simp
    qed
  qed (auto simp: answers now sample_health_def ready_health_def health_in_cluster_def
      c2_def coordinator_new_def sample_raft_def sample_raft_node_def no_metrics_def split: if_splits)
  then show ?thesis
    using a unfolding Let_def e1_def [symmetric] e2_def [symmetric] c1_def [symmetric] c2_def [symmetric]
    by auto
qed

text \<open>C22: Cluster formation succeeds when it can. Let a fresh coordinator see enough trusted peers in its first
  iteration and no leader in its second, let it be the lowest of at least three mutually ready nodes in
  its third and in its fourth, and let its RAFT instance accept member sets that contain its node, as one without a log does,
  and stay so until the fourth. Then the four iterations, whose readings may differ, end with an active
  cluster and exactly one initialisation, of the nodes ready in the fourth.\<close>

theorem bootstrap_progress:
  assumes "MIN_PEERS_FOR_BOOTSTRAP \<le> trusted_count (rd_trusted e1)"
    and "\<And>p h. peer_health (rd_search e2) (rd_trusted e2) p = Some h \<Longrightarrow> \<not> (health_in_cluster h \<and> health_is_leader h)"
    and "may_bootstrap (rd_ready e3) (rd_trusted e3) n" and "may_bootstrap (rd_ready e4) (rd_trusted e4) n"
    and "\<And>members. rn_node_id node \<in> dom members \<Longrightarrow> fst (raft_initialize lib members (rn_raft node)) = Inr ()"
  shows "\<exists>c. coordinate_all lib [e1, e2, e3, e4] (coordinator_new n node) =
     (c, [Initialize (get_raft_addresses (rd_trusted e4) |` build_mutual_ready_set (rd_ready e4) (rd_trusted e4) n) True]) \<and>
     co_state c = ClusterActive"
  using formation_run [OF assms] .

theorem bootstrap_progress_witness:
  "let e = sample_readings [2, 3, 4] sample_health in
     \<exists>c members. coordinate_all sample_raft [e, e, e, e] (coordinator_new 1 (sample_raft_node 1 no_metrics)) =
       (c, [Initialize members True]) \<and> co_state c = ClusterActive"
  unfolding Let_def by (rule exE [OF bootstrap_progress]; (rule sample_formation | blast))

text \<open>Only a leader adds peers, and it adds trusted peers with their registered RAFT address that are
  neither members nor were added by this coordinator before. A peer that was added once, and whose
  trust or membership was lost since, is not added again.\<close>

theorem leader_adds_trusted:
  assumes "coordinate lib e c = (c', acts)" and "AddPeer p a ok \<in> set acts"
  shows "co_state c = ClusterActive \<and> node_is_leader lib (co_raft_node c) \<and>
     get_raft_addr (rd_trusted e) p = Some a \<and> is_trusted (rd_trusted e) p \<and>
     p \<notin> set (rm_voters (raft_metrics lib (rn_raft (co_raft_node c)))) \<and>
     p \<notin> set (rm_learners (raft_metrics lib (rn_raft (co_raft_node c)))) \<and> p \<notin> co_added_peers c"
proof -
  have ne: "acts \<noteq> []" using assms(2) by (cases acts) simp_all
  from assms(1) ne show ?thesis
  proof (cases rule: coordinate_actions)
    case (bootstrap s node)
    then show ?thesis
      using handle_bootstrapping_acts [OF bootstrap(2) ne] assms(2) by (metis cluster_action.distinct(1)
          empty_iff empty_set set_ConsD)
  next
    case (active node added)
    from handle_cluster_active_adds [OF active(2)] assms(2) obtain p' a' ok' where
      "AddPeer p a ok = AddPeer p' a' ok'" "node_is_leader lib (co_raft_node c)"
      "is_trusted (rd_trusted e) p'" "get_raft_addr (rd_trusted e) p' = Some a'"
      "p' \<notin> set (rm_voters (raft_metrics lib (rn_raft (co_raft_node c))))"
      "p' \<notin> set (rm_learners (raft_metrics lib (rn_raft (co_raft_node c))))" "p' \<notin> co_added_peers c"
      by blast
    with active(1) show ?thesis by simp
  qed
qed

theorem leader_adds_trusted_witness:
  "let c = (coordinator_new 1 (sample_raft_node 1 (no_metrics\<lparr> rm_current_leader := Some 1, rm_voters := [1, 3, 4] \<rparr>)))
           \<lparr> co_state := ClusterActive \<rparr>;
       addr = SocketAddr (V4 (node_id_to_ip 2)) 8444
   in \<exists>c'. coordinate sample_raft (sample_readings [2] []) c = (c', [AddPeer 2 addr True]) \<and>
        is_trusted (sample_trust [2]) 2"
proof -
  define c where "c = (coordinator_new 1 (sample_raft_node 1 (no_metrics\<lparr> rm_current_leader := Some 1,
      rm_voters := [1, 3, 4] \<rparr>)))\<lparr> co_state := ClusterActive \<rparr>"
  define addr where "addr = SocketAddr (V4 (node_id_to_ip 2)) 8444"
  have addr: "get_raft_addresses (sample_trust [2]) 2 = Some addr"
    by (simp add: get_raft_addresses_def sample_trust_def addr_def)
  have "fst (add_peer sample_raft 2 addr node) = Ok ()" for node
    by (simp add: add_peer_def raft_call_def sample_raft_def Let_def)
  then obtain node' where add: "add_peer sample_raft 2 addr (co_raft_node c) = (Ok (), node')"
    by (metis prod.collapse)
  have "node_is_leader sample_raft (co_raft_node c)" "(2::NodeId) \<notin> set (rm_voters (rn_raft (co_raft_node c)))"
    "rm_learners (rn_raft (co_raft_node c)) = []" "co_added_peers c = {}" "co_state c = ClusterActive"
    by (simp_all add: c_def coordinator_new_def node_is_leader_def sample_raft_def sample_raft_node_def no_metrics_def)
  moreover have "raft_metrics sample_raft r = r" for r by (simp add: sample_raft_def)
  ultimately have "\<exists>c'. coordinate sample_raft (sample_readings [2] []) c = (c', [AddPeer 2 addr True])"
    using addr add by (simp add: coordinate_def handle_cluster_active_def sample_readings_def)
  then obtain c' where step: "coordinate sample_raft (sample_readings [2] []) c = (c', [AddPeer 2 addr True])" ..
  from leader_adds_trusted [OF step, of 2 addr True] have "is_trusted (sample_trust [2]) 2"
    by (simp add: sample_readings_def)
  with step show ?thesis unfolding Let_def c_def addr_def by blast
qed

end
