(* ===== verification/File_System.thy ===== *)
theory File_System
  imports Externals
begin

text \<open>
  The part of the file system that the persistent RAFT storage uses, and its helpers \<open>atomic_write\<close>,
  \<open>read_file\<close>, \<open>log_entry_filename\<close> and \<open>parse_log_index\<close> of \<open>consensus/src/persistent_storage.rs\<close>. A
  path is the text of the path below the storage root; a directory is the part of a path up to and
  including its last slash. Besides the current contents, a file system keeps whether they were
  flushed, and for every path what may be found there after a power failure. Contents that were
  written and not flushed may be found cut off at any length. A name may still denote what it
  denoted before until its directory is flushed; flushing a directory settles which file a name
  denotes but not the contents of that file.
\<close>

section \<open>Files\<close>

type_synonym path = string

record file_system =
  fs_now :: "(path, bytes) hash_map"
  fs_flushed :: "path \<Rightarrow> bool"
  fs_crash :: "path \<Rightarrow> bytes option set"

datatype operation =
  CreateDirAll | CreateFile | WriteAll | SyncFile | RenameFile | RemoveFile | OpenDir | SyncDir | ReadDir | ReadFile

text \<open>The calls that fail: the text of the error and, for a write, how many bytes were written before it.\<close>

type_synonym faults = "operation \<Rightarrow> path \<Rightarrow> (string \<times> nat) option"

definition no_faults :: faults where
  "no_faults = (\<lambda>_ _. None)"

definition empty_file_system :: file_system where
  "empty_file_system = \<lparr> fs_now = Map.empty, fs_flushed = (\<lambda>_. False), fs_crash = (\<lambda>_. {None}) \<rparr>"

definition parent :: "path \<Rightarrow> path" where
  "parent p = rev (dropWhile (\<lambda>c. c \<noteq> CHR ''/'') (rev p))"

text \<open>The extension starts at the last dot of the file name, unless that is its first character.\<close>

definition with_extension :: "path \<Rightarrow> string \<Rightarrow> path" where
  "with_extension p ext =
     (let name = drop (length (parent p)) p;
          before_dot = dropWhile (\<lambda>c. c \<noteq> CHR ''.'') (rev name)
      in parent p @ (if length before_dot \<le> 1 then name else rev (tl before_dot)) @ ''.'' @ ext)"

text \<open>What may remain of data that was written and not flushed, and of the file a path denotes.\<close>

definition torn :: "bytes \<Rightarrow> bytes option set" where
  "torn data = Some ` set (prefixes data)"

definition remains :: "file_system \<Rightarrow> path \<Rightarrow> bytes option set" where
  "remains fs p =
     (case fs_now fs p of
        None \<Rightarrow> {None}
      | Some data \<Rightarrow> if fs_flushed fs p then {Some data} else torn data)"

definition write_file :: "path \<Rightarrow> bytes \<Rightarrow> file_system \<Rightarrow> file_system" where
  "write_file p data fs =
     fs\<lparr> fs_now := (fs_now fs)(p \<mapsto> data), fs_flushed := (fs_flushed fs)(p := False),
         fs_crash := (fs_crash fs)(p := fs_crash fs p \<union> torn data) \<rparr>"

definition sync_file :: "path \<Rightarrow> file_system \<Rightarrow> file_system" where
  "sync_file p fs = fs\<lparr> fs_flushed := (fs_flushed fs)(p := True) \<rparr>"

definition rename_file :: "path \<Rightarrow> path \<Rightarrow> file_system \<Rightarrow> file_system" where
  "rename_file p q fs =
     fs\<lparr> fs_now := (fs_now fs)(q := fs_now fs p, p := None),
         fs_flushed := (fs_flushed fs)(q := fs_flushed fs p, p := False),
         fs_crash := (fs_crash fs)(q := fs_crash fs q \<union> remains fs p, p := insert None (fs_crash fs p)) \<rparr>"

definition remove_file :: "path \<Rightarrow> file_system \<Rightarrow> file_system" where
  "remove_file p fs =
     fs\<lparr> fs_now := map_remove p (fs_now fs), fs_flushed := (fs_flushed fs)(p := False),
         fs_crash := (fs_crash fs)(p := insert None (fs_crash fs p)) \<rparr>"

definition sync_directory :: "path \<Rightarrow> file_system \<Rightarrow> file_system" where
  "sync_directory dir fs =
     fs\<lparr> fs_crash := (\<lambda>p. if parent p = dir then fs_crash fs p \<inter> remains fs p else fs_crash fs p) \<rparr>"

text \<open>A file system found after a power failure.\<close>

definition crash_image :: "file_system \<Rightarrow> file_system \<Rightarrow> bool" where
  "crash_image fs fs' \<longleftrightarrow> (\<forall>p. fs_now fs' p \<in> fs_crash fs p)"

text \<open>A power failure may also lose nothing.\<close>

definition crash_sound :: "file_system \<Rightarrow> bool" where
  "crash_sound fs \<longleftrightarrow> crash_image fs fs"

section \<open>Helpers of the storage\<close>

text \<open>The data goes to a temporary file, which then takes the name of the target. Failing to open or
  flush the directory afterwards is not reported.\<close>

definition atomic_write ::
  "faults \<Rightarrow> path \<Rightarrow> bytes \<Rightarrow> bool \<Rightarrow> file_system \<Rightarrow> (unit, string) outcome \<times> file_system" where
  "atomic_write faults p data fsync fs =
     (let tmp = with_extension p ''tmp'' in
      if p = [] then (Err ''Path has no parent directory'', fs)
      else case faults CreateDirAll (parent p) of
        Some (e, _) \<Rightarrow> (Err e, fs)
      | None \<Rightarrow> case faults CreateFile tmp of
        Some (e, _) \<Rightarrow> (Err e, fs)
      | None \<Rightarrow> let fs1 = write_file tmp [] fs in case faults WriteAll tmp of
        Some (e, n) \<Rightarrow> (Err e, write_file tmp (take n data) fs1)
      | None \<Rightarrow> let fs2 = write_file tmp data fs1 in case (if fsync then faults SyncFile tmp else None) of
        Some (e, _) \<Rightarrow> (Err e, fs2)
      | None \<Rightarrow> let fs3 = (if fsync then sync_file tmp fs2 else fs2) in case faults RenameFile tmp of
        Some (e, _) \<Rightarrow> (Err e, fs3)
      | None \<Rightarrow> let fs4 = rename_file tmp p fs3 in
        (Ok (), if fsync \<and> faults OpenDir (parent p) = None \<and> faults SyncDir (parent p) = None
                then sync_directory (parent p) fs4 else fs4))"

definition read_file :: "faults \<Rightarrow> path \<Rightarrow> file_system \<Rightarrow> (bytes, string) outcome" where
  "read_file faults p fs =
     (case faults ReadFile p of
        Some (e, _) \<Rightarrow> Err e
      | None \<Rightarrow> (case fs_now fs p of
                   None \<Rightarrow> Err ''No such file or directory (os error 2)''
                 | Some data \<Rightarrow> Ok data))"

definition log_entry_filename :: "64 word \<Rightarrow> string" where
  "log_entry_filename index = pad_left 8 (CHR ''0'') (show_hex (unat index)) @ ''.bin''"

definition strip_suffix_str :: "string \<Rightarrow> string \<Rightarrow> string option" where
  "strip_suffix_str suff s =
     (if suffix suff s then Some (take (length s - length suff) s) else None)"

definition parse_log_index :: "string \<Rightarrow> 64 word option" where
  "parse_log_index filename =
     (case strip_suffix_str ''.bin'' filename of
        None \<Rightarrow> None
      | Some stem \<Rightarrow> map_option word_of_nat (parse_unsigned 16 (2 ^ 64) stem))"

section \<open>Files as a store\<close>

text \<open>A successful write: the temporary file is written, flushed or not, and takes the name of the target,
  whose directory is then flushed or not.\<close>

definition replace_file :: "path \<Rightarrow> bytes \<Rightarrow> bool \<times> bool \<Rightarrow> file_system \<Rightarrow> file_system" where
  "replace_file p data sync fs =
     (let tmp = with_extension p ''tmp'';
          fs2 = write_file tmp data (write_file tmp [] fs);
          fs3 = (if fst sync then sync_file tmp fs2 else fs2);
          fs4 = rename_file tmp p fs3
      in if snd sync then sync_directory (parent p) fs4 else fs4)"

definition is_temp :: "path \<Rightarrow> bool" where
  "is_temp p \<longleftrightarrow> take 4 (rev p) = rev ''.tmp''"

text \<open>What the storage relies on: reading after writing or removing, for files other than the temporary
  ones, and that no temporary file stays behind.\<close>

locale file_store =
  fixes contents :: "'fs \<Rightarrow> path \<Rightarrow> bytes option"
    and put :: "path \<Rightarrow> bytes \<Rightarrow> bool \<times> bool \<Rightarrow> 'fs \<Rightarrow> 'fs"
    and del :: "path \<Rightarrow> 'fs \<Rightarrow> 'fs"
    and temporary :: "path \<Rightarrow> bool"
  assumes contents_put: "\<not> temporary p \<Longrightarrow> \<not> temporary q \<Longrightarrow>
      contents (put p d sync fs) q = (if q = p then Some d else contents fs q)"
    and contents_put_temp: "\<not> temporary p \<Longrightarrow> temporary q \<Longrightarrow>
      contents (put p d sync fs) q \<noteq> None \<Longrightarrow> contents fs q \<noteq> None"
    and contents_del: "contents (del p fs) q = (if q = p then None else contents fs q)"
begin

text \<open>A path holds the encoding of a value.\<close>

definition holds :: "('a \<Rightarrow> string + bytes) \<Rightarrow> 'fs \<Rightarrow> path \<Rightarrow> 'a option \<Rightarrow> bool" where
  "holds ser fs p v \<longleftrightarrow>
     (case v of
        None \<Rightarrow> contents fs p = None
      | Some x \<Rightarrow> \<exists>d. contents fs p = Some d \<and> ser x = Inr d)"

lemma holds_put: "\<not> temporary p \<Longrightarrow> ser x = Inr d \<Longrightarrow> holds ser (put p d sync fs) p (Some x)"
  by (simp add: holds_def contents_put)

lemma holds_put_other:
  "\<not> temporary p \<Longrightarrow> \<not> temporary q \<Longrightarrow> q \<noteq> p \<Longrightarrow> holds ser (put p d sync fs) q v = holds ser fs q v"
  by (simp add: holds_def contents_put split: option.splits)

lemma contents_put_new:
  "\<not> temporary p \<Longrightarrow> contents (put p d sync fs) q \<noteq> None \<Longrightarrow> q = p \<or> contents fs q \<noteq> None"
  using contents_put contents_put_temp by (metis (full_types))

lemma holds_del: "holds ser (del p fs) p None"
  by (simp add: holds_def contents_del)

lemma holds_del_other: "q \<noteq> p \<Longrightarrow> holds ser (del p fs) q v = holds ser fs q v"
  by (simp add: holds_def contents_del split: option.splits)

end

lemmas file_defs = write_file_def sync_file_def rename_file_def sync_directory_def remains_def

lemma is_temp_with_extension [simp]: "is_temp (with_extension p ''tmp'')"
  by (simp add: is_temp_def with_extension_def Let_def)

lemma temp_differs [simp]: "\<not> is_temp p \<Longrightarrow> with_extension p ''tmp'' \<noteq> p" "\<not> is_temp p \<Longrightarrow> p \<noteq> with_extension p ''tmp''"
  using is_temp_with_extension by (metis, metis)

interpretation files: file_store fs_now replace_file remove_file is_temp
proof
  fix p q d sync fs
  show "\<not> is_temp p \<Longrightarrow> \<not> is_temp q \<Longrightarrow>
      fs_now (replace_file p d sync fs) q = (if q = p then Some d else fs_now fs q)"
    using is_temp_with_extension [of p] by (auto simp: replace_file_def file_defs Let_def)
  show "\<not> is_temp p \<Longrightarrow> is_temp q \<Longrightarrow> fs_now (replace_file p d sync fs) q \<noteq> None \<Longrightarrow> fs_now fs q \<noteq> None"
    by (auto simp: replace_file_def file_defs Let_def split: if_splits)
  show "fs_now (remove_file p fs) q = (if q = p then None else fs_now fs q)"
    by (simp add: remove_file_def)
qed

section \<open>Lemmas\<close>

lemma atomic_write_Ok:
  assumes "atomic_write faults p d fsync fs = (Ok (), fs')"
  shows "fs' = replace_file p d
     (fsync, fsync \<and> faults OpenDir (parent p) = None \<and> faults SyncDir (parent p) = None) fs"
  using assms by (auto simp: atomic_write_def replace_file_def Let_def split: if_splits option.splits prod.splits)

lemma atomic_write_no_faults:
  "p \<noteq> [] \<Longrightarrow> atomic_write no_faults p d fsync fs = (Ok (), replace_file p d (fsync, fsync) fs)"
  by (simp add: atomic_write_def replace_file_def no_faults_def Let_def)

lemma torn_ends [simp]: "Some d \<in> torn d" "Some [] \<in> torn d"
  by (simp_all add: torn_def)

lemma now_remains [simp]: "fs_now fs p \<in> remains fs p"
  by (simp add: remains_def split: option.splits)

lemma crash_sound_now: "crash_sound fs \<Longrightarrow> fs_now fs p \<in> fs_crash fs p"
  by (simp add: crash_sound_def crash_image_def)

lemma crash_sound_write [simp]: "crash_sound fs \<Longrightarrow> crash_sound (write_file p d fs)"
  by (simp add: crash_sound_def crash_image_def write_file_def)

lemma crash_sound_sync_file [simp]: "crash_sound (sync_file p fs) = crash_sound fs"
  by (simp add: crash_sound_def crash_image_def sync_file_def)

lemma crash_sound_rename [simp]: "crash_sound fs \<Longrightarrow> crash_sound (rename_file p q fs)"
  using now_remains [of fs p] by (auto simp: crash_sound_def crash_image_def rename_file_def)

lemma crash_sound_sync [simp]: "crash_sound (sync_directory dir fs) = crash_sound fs"
  by (simp add: crash_sound_def crash_image_def sync_directory_def)

lemma crash_sound_put [simp]: "crash_sound fs \<Longrightarrow> crash_sound (replace_file p d sync fs)"
  by (simp add: replace_file_def Let_def)

lemma crash_sound_del [simp]: "crash_sound fs \<Longrightarrow> crash_sound (remove_file p fs)"
  by (auto simp: crash_sound_def crash_image_def remove_file_def)

lemma sync_directory_now [simp]: "fs_now (sync_directory dir fs) = fs_now fs"
  by (simp add: sync_directory_def)

lemma replace_file_crash:
  assumes "\<not> is_temp p"
  shows "fs_crash (replace_file p d (fsync, False) fs) p = fs_crash fs p \<union> (if fsync then {Some d} else torn d)"
    and "fs_crash (replace_file p d (True, True) fs) p = {Some d}"
    and "remains (replace_file p d (fsync, dsync) fs) p = (if fsync then {Some d} else torn d)"
  using assms by (auto simp: replace_file_def file_defs Let_def)

lemma show_hex_nonempty [simp]: "show_hex n \<noteq> []"
  by (subst show_hex.simps) simp

lemma parse_show_hex: "parse_digits 16 0 (show_hex n) = Some n"
proof (induction n rule: show_hex.induct)
  case (1 n)
  show ?case
  proof (cases "n < 16")
    case False
    with 1 show ?thesis by (subst show_hex.simps) (simp add: parse_digits_append digit_val_16)
  qed (subst show_hex.simps, simp add: digit_val_16)
qed

lemma parse_hex_zeros: "parse_digits 16 0 (replicate k (CHR ''0'') @ s) = parse_digits 16 0 s"
  by (induction k) (simp_all add: digit_val.simps)

lemma parse_unsigned_padded:
  assumes "n < bound"
  shows "parse_unsigned 16 bound (pad_left k (CHR ''0'') (show_hex n)) = Some n"
proof -
  let ?s = "pad_left k (CHR ''0'') (show_hex n)"
  have ne: "?s \<noteq> []" by (simp add: pad_left_def)
  have "hex_digit (hd (show_hex n))"
    using hex_digits_show_hex [of n] by (simp add: list_all_iff)
  then have "hd (show_hex n) \<noteq> CHR ''+''" by (auto simp: hex_digit_def)
  then have "hd ?s \<noteq> CHR ''+''"
    by (cases "k - length (show_hex n)") (simp_all add: pad_left_def)
  moreover have "parse_digits 16 0 ?s = Some n"
    by (simp only: pad_left_def parse_hex_zeros parse_show_hex)
  ultimately show ?thesis
    using assms ne unfolding parse_unsigned_def Let_def by simp
qed

lemma parse_log_entry_filename: "parse_log_index (log_entry_filename index) = Some index"
proof -
  let ?stem = "pad_left 8 (CHR ''0'') (show_hex (unat index))"
  have "strip_suffix_str ''.bin'' (?stem @ ''.bin'') = Some ?stem"
    unfolding strip_suffix_str_def by (simp add: suffix_def)
  moreover have "parse_unsigned 16 (2 ^ 64) ?stem = Some (unat index)"
    using unat_bound [of index] by (intro parse_unsigned_padded) simp
  ultimately show ?thesis
    by (simp only: parse_log_index_def log_entry_filename_def option.case option.map)
      simp
qed

lemma log_entry_filename_inj [simp]: "log_entry_filename i = log_entry_filename j \<longleftrightarrow> i = j"
  by (metis parse_log_entry_filename option.inject)

section \<open>Properties\<close>

text \<open>C23: Writing a file is all or nothing, whichever calls fail. On an error the file is what it was, and
  so is what a power failure may leave of it. On success the file has the new data, and when the
  write was to be flushed a power failure leaves the new data or what it could have left before,
  never a part of the new data.\<close>

theorem atomic_write_atomic:
  assumes "\<not> is_temp p" and "atomic_write faults p d fsync fs = (r, fs')"
  shows "(if is_ok r then fs_now fs' p = Some d \<and> (fsync \<longrightarrow> fs_crash fs' p \<subseteq> insert (Some d) (fs_crash fs p))
          else fs_now fs' p = fs_now fs p \<and> fs_crash fs' p = fs_crash fs p) \<and>
     (\<forall>q. q \<noteq> p \<longrightarrow> \<not> is_temp q \<longrightarrow> fs_now fs' q = fs_now fs q)"
proof (cases r)
  case (Ok u)
  with assms(2) have fs': "fs' = replace_file p d
      (fsync, fsync \<and> faults OpenDir (parent p) = None \<and> faults SyncDir (parent p) = None) fs"
    by (auto dest: atomic_write_Ok)
  show ?thesis
    using Ok assms(1) replace_file_crash(1,2) [OF assms(1), of d]
    by (cases "faults OpenDir (parent p) = None \<and> faults SyncDir (parent p) = None")
      (auto simp: fs' files.contents_put)
next
  case (Err e)
  then show ?thesis
    using assms temp_differs [OF assms(1)] is_temp_with_extension [of p]
    by (auto simp: atomic_write_def write_file_def sync_file_def Let_def split: if_splits option.splits)
next
  case (Panic m)
  then show ?thesis using assms(2) by (auto simp: atomic_write_def Let_def split: if_splits option.splits)
qed

theorem atomic_write_atomic_witness:
  "\<exists>fs'. atomic_write (\<lambda>call _. if call = RenameFile then Some (''cross-device link'', 0) else None) ''vote.bin'' [1] True
     empty_file_system = (Err ''cross-device link'', fs') \<and> fs_now fs' ''vote.bin'' = None"
proof -
  let ?faults = "\<lambda>call _. if call = RenameFile then Some (''cross-device link'', 0) else None"
  obtain fs' where run: "atomic_write ?faults ''vote.bin'' [1] True empty_file_system = (Err ''cross-device link'', fs')"
    by (simp add: atomic_write_def Let_def)
  have "\<not> is_temp ''vote.bin''" by (simp add: is_temp_def)
  from atomic_write_atomic [OF this run] run show ?thesis by (auto simp: empty_file_system_def)
qed

end
