(* ===== verification/Persistent_Store.thy ===== *)
theory Persistent_Store
  imports File_System
begin

text \<open>
  The persistent RAFT storage, \<open>consensus/src/persistent_storage.rs\<close>, with the data types of
  \<open>consensus/src/state_machine.rs\<close>. The types of the RAFT library (votes, log identities, entries,
  memberships) are type variables; what the storage uses of them, and the serialisers, is a record
  of functions. An operation takes the in-memory store and the file system and returns both. The
  properties relate the two: what a restart recovers, what it forgets, what a power failure may
  destroy, and what applying log entries does to the replicated state.
\<close>

section \<open>Library types and serialisers\<close>

record ('l, 'm) StateMachineData =
  sd_last_applied_log :: "'l option"
  sd_last_membership :: 'm
  sd_data :: "(string, string) hash_map"

record ('l, 'm) SnapshotMeta =
  sm_last_log_id :: "'l option"
  sm_last_membership :: 'm
  sm_snapshot_id :: string

text \<open>\<open>payload_membership\<close> is the membership of a membership entry, and \<open>None\<close> for blank and normal
  entries. \<open>log_id_le\<close> is the order of optional log identities, \<open>leader_text\<close> the display of the
  leader part of a log identity.\<close>

record ('v, 'l, 'e, 'p, 'm) raft_types =
  entry_log_id :: "'e \<Rightarrow> 'l"
  log_index :: "'l \<Rightarrow> 64 word"
  log_id_le :: "'l option \<Rightarrow> 'l option \<Rightarrow> bool"
  leader_text :: "'l \<Rightarrow> string"
  payload_membership :: "'e \<Rightarrow> 'p option"
  stored_membership :: "'l option \<Rightarrow> 'p \<Rightarrow> 'm"
  default_membership :: 'm
  ser_vote :: "'v \<Rightarrow> string + bytes"
  de_vote :: "bytes \<Rightarrow> string + 'v"
  ser_committed :: "'l option \<Rightarrow> string + bytes"
  de_committed :: "bytes \<Rightarrow> string + 'l option"
  ser_entry :: "64 word \<times> 'e \<Rightarrow> string + bytes"
  de_entry :: "bytes \<Rightarrow> string + (64 word \<times> 'e)"
  ser_sm :: "('l, 'm) StateMachineData \<Rightarrow> string + bytes"
  de_sm :: "bytes \<Rightarrow> string + ('l, 'm) StateMachineData"
  ser_meta :: "('l, 'm) SnapshotMeta \<Rightarrow> string + bytes"
  de_meta :: "bytes \<Rightarrow> string + ('l, 'm) SnapshotMeta"
  ser_data :: "(string, string) hash_map \<Rightarrow> string + bytes"
  de_data :: "bytes \<Rightarrow> string + (string, string) hash_map"

section \<open>The store\<close>

definition LOGS_DIR :: path where "LOGS_DIR = ''logs/''"
definition SNAPSHOT_DIR :: path where "SNAPSHOT_DIR = ''snapshot/''"
definition VOTE_FILE :: path where "VOTE_FILE = ''vote.bin''"
definition COMMITTED_FILE :: path where "COMMITTED_FILE = ''committed.bin''"
definition STATE_MACHINE_FILE :: path where "STATE_MACHINE_FILE = ''state_machine.bin''"
definition SNAPSHOT_META_FILE :: path where "SNAPSHOT_META_FILE = SNAPSHOT_DIR @ ''meta.bin''"
definition SNAPSHOT_DATA_FILE :: path where "SNAPSHOT_DATA_FILE = SNAPSHOT_DIR @ ''data.bin''"

record ('v, 'l, 'e, 'm) Store =
  ps_last_purged_log_id :: "'l option"
  ps_log :: "(64 word, 'e) hash_map"
  ps_committed :: "'l option"
  ps_vote :: "'v option"
  ps_state_machine :: "('l, 'm) StateMachineData"
  ps_snapshot_idx :: "64 word"
  ps_current_snapshot :: "(('l, 'm) SnapshotMeta \<times> bytes) option"

datatype storage_error = WriteError string | ReadStateMachineError string | ReadSnapshotError string

definition store_default :: "('v, 'l, 'e, 'p, 'm) raft_types \<Rightarrow> ('v, 'l, 'e, 'm) Store" where
  "store_default T =
     \<lparr> ps_last_purged_log_id = None, ps_log = Map.empty, ps_committed = None, ps_vote = None,
       ps_state_machine = \<lparr> sd_last_applied_log = None, sd_last_membership = default_membership T,
         sd_data = Map.empty \<rparr>,
       ps_snapshot_idx = 0, ps_current_snapshot = None \<rparr>"

definition log_entry_path :: "64 word \<Rightarrow> path" where
  "log_entry_path index = LOGS_DIR @ log_entry_filename index"

section \<open>Loading\<close>

text \<open>A file that need not exist, decoded.\<close>

definition load_file ::
  "faults \<Rightarrow> file_system \<Rightarrow> path \<Rightarrow> string \<Rightarrow> (bytes \<Rightarrow> string + 'a) \<Rightarrow> ('a option, string) outcome" where
  "load_file faults fs p what de =
     (if fs_now fs p = None then Ok None
      else and_then (read_file faults p fs) (\<lambda>data.
             and_then (map_err (\<lambda>e. ''Failed to deserialize '' @ what @ '': '' @ e) (of_sum (de data)))
               (\<lambda>v. Ok (Some v))))"

text \<open>The entries of the log directory, in the order in which the directory lists the names.\<close>

fun load_entries ::
  "('v, 'l, 'e, 'p, 'm) raft_types \<Rightarrow> faults \<Rightarrow> file_system \<Rightarrow> string list \<Rightarrow>
   ((64 word \<times> 'e) list, string) outcome" where
  "load_entries T faults fs [] = Ok []"
| "load_entries T faults fs (name # names) =
     (case parse_log_index name of
        None \<Rightarrow> load_entries T faults fs names
      | Some index \<Rightarrow>
          and_then (read_file faults (LOGS_DIR @ name) fs) (\<lambda>data.
            and_then (map_err (\<lambda>e. ''Failed to deserialize log entry '' @ show_nat (unat index) @ '': '' @ e)
                        (of_sum (de_entry T data))) (\<lambda>(persisted_index, entry).
              if persisted_index \<noteq> index
              then Err (''Log entry index mismatch: filename says '' @ show_nat (unat index) @
                     '', content says '' @ show_nat (unat persisted_index))
              else and_then (load_entries T faults fs names) (\<lambda>rest. Ok ((index, entry) # rest)))))"

text \<open>The entries are sorted by index (the sort is stable) and inserted one after the other.\<close>

fun put_entry :: "64 word \<times> 'e \<Rightarrow> (64 word, 'e) hash_map \<Rightarrow> (64 word, 'e) hash_map" where
  "put_entry (i, e) log = log(i \<mapsto> e)"

definition insert_entries :: "(64 word \<times> 'e) list \<Rightarrow> (64 word, 'e) hash_map" where
  "insert_entries entries = fold put_entry (sort_key fst entries) Map.empty"

definition load_state ::
  "('v, 'l, 'e, 'p, 'm) raft_types \<Rightarrow> faults \<Rightarrow> string list \<Rightarrow> file_system \<Rightarrow>
   (('v, 'l, 'e, 'm) Store, string) outcome" where
  "load_state T faults names fs =
     and_then (load_file faults fs VOTE_FILE ''vote'' (de_vote T)) (\<lambda>vote.
       and_then (load_file faults fs COMMITTED_FILE ''committed'' (de_committed T)) (\<lambda>committed.
         and_then (case faults ReadDir LOGS_DIR of Some (e, _) \<Rightarrow> Err e | None \<Rightarrow> load_entries T faults fs names) (\<lambda>entries.
           and_then (load_file faults fs STATE_MACHINE_FILE ''state machine'' (de_sm T)) (\<lambda>sm.
             and_then
               (if fs_now fs SNAPSHOT_META_FILE \<noteq> None \<and> fs_now fs SNAPSHOT_DATA_FILE \<noteq> None
                then and_then (load_file faults fs SNAPSHOT_META_FILE ''snapshot meta'' (de_meta T)) (\<lambda>meta.
                       and_then (read_file faults SNAPSHOT_DATA_FILE fs) (\<lambda>data.
                         Ok (map_option (\<lambda>m. (m, data)) meta)))
                else Ok None)
               (\<lambda>snapshot.
                 Ok ((store_default T)\<lparr>
                   ps_vote := vote,
                   ps_committed := (case committed of None \<Rightarrow> None | Some c \<Rightarrow> c),
                   ps_log := insert_entries entries,
                   ps_state_machine := (case sm of None \<Rightarrow> ps_state_machine (store_default T) | Some d \<Rightarrow> d),
                   ps_current_snapshot := snapshot \<rparr>))))))"

text \<open>Opening the storage creates its directories, which have no contents of their own here.\<close>

definition store_new ::
  "('v, 'l, 'e, 'p, 'm) raft_types \<Rightarrow> faults \<Rightarrow> string list \<Rightarrow> file_system \<Rightarrow>
   (('v, 'l, 'e, 'm) Store, string) outcome" where
  "store_new T faults names fs =
     (case faults CreateDirAll [] of
        Some (e, _) \<Rightarrow> Err e
      | None \<Rightarrow> case faults CreateDirAll LOGS_DIR of
        Some (e, _) \<Rightarrow> Err e
      | None \<Rightarrow> case faults CreateDirAll SNAPSHOT_DIR of
        Some (e, _) \<Rightarrow> Err e
      | None \<Rightarrow> load_state T faults names fs)"

section \<open>Log storage\<close>

definition write_encoded ::
  "faults \<Rightarrow> path \<Rightarrow> string + bytes \<Rightarrow> bool \<Rightarrow> file_system \<Rightarrow>
   (unit, storage_error) outcome \<times> file_system" where
  "write_encoded faults p encoded fsync fs =
     (case encoded of
        Inl e \<Rightarrow> (Err (WriteError e), fs)
      | Inr data \<Rightarrow> (let (r, fs') = atomic_write faults p data fsync fs in (map_err WriteError r, fs')))"

definition persist_vote ::
  "('v, 'l, 'e, 'p, 'm) raft_types \<Rightarrow> faults \<Rightarrow> 'v \<Rightarrow> file_system \<Rightarrow>
   (unit, storage_error) outcome \<times> file_system" where
  "persist_vote T faults vote fs = write_encoded faults VOTE_FILE (ser_vote T vote) True fs"

definition persist_committed ::
  "('v, 'l, 'e, 'p, 'm) raft_types \<Rightarrow> faults \<Rightarrow> 'l option \<Rightarrow> file_system \<Rightarrow>
   (unit, storage_error) outcome \<times> file_system" where
  "persist_committed T faults committed fs =
     write_encoded faults COMMITTED_FILE (ser_committed T committed) True fs"

definition persist_log_entry ::
  "('v, 'l, 'e, 'p, 'm) raft_types \<Rightarrow> faults \<Rightarrow> 'e \<Rightarrow> file_system \<Rightarrow>
   (unit, storage_error) outcome \<times> file_system" where
  "persist_log_entry T faults entry fs =
     (let index = log_index T (entry_log_id T entry)
      in write_encoded faults (log_entry_path index) (ser_entry T (index, entry)) False fs)"

definition delete_log_entry ::
  "faults \<Rightarrow> 64 word \<Rightarrow> file_system \<Rightarrow> (unit, storage_error) outcome \<times> file_system" where
  "delete_log_entry faults index fs =
     (let p = log_entry_path index in
      if fs_now fs p = None then (Ok (), fs)
      else (case faults RemoveFile p of
              Some (e, _) \<Rightarrow> (Err (WriteError e), fs)
            | None \<Rightarrow> (Ok (), remove_file p fs)))"

text \<open>A directory that cannot be opened is passed over.\<close>

definition fsync_log_entries :: "faults \<Rightarrow> file_system \<Rightarrow> (unit, storage_error) outcome \<times> file_system" where
  "fsync_log_entries faults fs =
     (if faults OpenDir LOGS_DIR \<noteq> None then (Ok (), fs)
      else (case faults SyncDir LOGS_DIR of
              Some (e, _) \<Rightarrow> (Err (WriteError e), fs)
            | None \<Rightarrow> (Ok (), sync_directory LOGS_DIR fs)))"

text \<open>The bounds of a range of indices. An ordered map refuses a range whose start lies behind its end, or
  that excludes both and is empty.\<close>

datatype range_bound = Included "64 word" | Excluded "64 word" | Unbounded

fun above :: "range_bound \<Rightarrow> 64 word \<Rightarrow> bool" where
  "above (Included a) i = (a \<le> i)"
| "above (Excluded a) i = (a < i)"
| "above Unbounded i = True"

fun below :: "range_bound \<Rightarrow> 64 word \<Rightarrow> bool" where
  "below (Included b) i = (i \<le> b)"
| "below (Excluded b) i = (i < b)"
| "below Unbounded i = True"

fun range_invalid :: "range_bound \<Rightarrow> range_bound \<Rightarrow> bool" where
  "range_invalid (Excluded a) (Excluded b) = (b \<le> a)"
| "range_invalid (Included a) (Included b) = (b < a)"
| "range_invalid (Included a) (Excluded b) = (b < a)"
| "range_invalid (Excluded a) (Included b) = (b < a)"
| "range_invalid _ _ = False"

definition try_get_log_entries ::
  "('v, 'l, 'e, 'm) Store \<Rightarrow> range_bound \<Rightarrow> range_bound \<Rightarrow> ('e list, storage_error) outcome" where
  "try_get_log_entries s lo hi =
     (if range_invalid lo hi then Panic ''range start is greater than range end in BTreeMap''
      else Ok (map (\<lambda>i. the (ps_log s i)) (sorted_list_of_set {i \<in> dom (ps_log s). above lo i \<and> below hi i})))"

definition get_log_state ::
  "('v, 'l, 'e, 'p, 'm) raft_types \<Rightarrow> ('v, 'l, 'e, 'm) Store \<Rightarrow> 'l option \<times> 'l option" where
  "get_log_state T s =
     (let last = (if dom (ps_log s) = {} then None
                  else map_option (entry_log_id T) (ps_log s (Max (dom (ps_log s)))));
          last_purged = ps_last_purged_log_id s
      in (last_purged, (case last of None \<Rightarrow> last_purged | Some l \<Rightarrow> Some l)))"

definition save_committed ::
  "('v, 'l, 'e, 'p, 'm) raft_types \<Rightarrow> faults \<Rightarrow> 'l option \<Rightarrow> ('v, 'l, 'e, 'm) Store \<Rightarrow> file_system \<Rightarrow>
   (unit, storage_error) outcome \<times> ('v, 'l, 'e, 'm) Store \<times> file_system" where
  "save_committed T faults committed s fs =
     (let (r, fs') = persist_committed T faults committed fs
      in (r, (if is_ok r then s\<lparr> ps_committed := committed \<rparr> else s), fs'))"

definition read_committed :: "('v, 'l, 'e, 'm) Store \<Rightarrow> 'l option" where
  "read_committed s = ps_committed s"

definition save_vote ::
  "('v, 'l, 'e, 'p, 'm) raft_types \<Rightarrow> faults \<Rightarrow> 'v \<Rightarrow> ('v, 'l, 'e, 'm) Store \<Rightarrow> file_system \<Rightarrow>
   (unit, storage_error) outcome \<times> ('v, 'l, 'e, 'm) Store \<times> file_system" where
  "save_vote T faults vote s fs =
     (let (r, fs') = persist_vote T faults vote fs
      in (r, (if is_ok r then s\<lparr> ps_vote := Some vote \<rparr> else s), fs'))"

definition read_vote :: "('v, 'l, 'e, 'm) Store \<Rightarrow> 'v option" where
  "read_vote s = ps_vote s"

fun append_entries ::
  "('v, 'l, 'e, 'p, 'm) raft_types \<Rightarrow> faults \<Rightarrow> 'e list \<Rightarrow> ('v, 'l, 'e, 'm) Store \<Rightarrow> file_system \<Rightarrow>
   (unit, storage_error) outcome \<times> ('v, 'l, 'e, 'm) Store \<times> file_system" where
  "append_entries T faults [] s fs = (Ok (), s, fs)"
| "append_entries T faults (entry # entries) s fs =
     (case persist_log_entry T faults entry fs of
        (Ok _, fs') \<Rightarrow>
          append_entries T faults entries
            (s\<lparr> ps_log := (ps_log s)(log_index T (entry_log_id T entry) \<mapsto> entry) \<rparr>) fs'
      | (r, fs') \<Rightarrow> (r, s, fs'))"

definition store_append ::
  "('v, 'l, 'e, 'p, 'm) raft_types \<Rightarrow> faults \<Rightarrow> 'e list \<Rightarrow> ('v, 'l, 'e, 'm) Store \<Rightarrow> file_system \<Rightarrow>
   (unit, storage_error) outcome \<times> ('v, 'l, 'e, 'm) Store \<times> file_system" where
  "store_append T faults entries s fs =
     (case append_entries T faults entries s fs of
        (Ok _, s', fs') \<Rightarrow> (let (r, fs'') = fsync_log_entries faults fs' in (r, s', fs''))
      | other \<Rightarrow> other)"

fun remove_keys ::
  "faults \<Rightarrow> 64 word list \<Rightarrow> ('v, 'l, 'e, 'm) Store \<Rightarrow> file_system \<Rightarrow>
   (unit, storage_error) outcome \<times> ('v, 'l, 'e, 'm) Store \<times> file_system" where
  "remove_keys faults [] s fs = (Ok (), s, fs)"
| "remove_keys faults (k # ks) s fs =
     (let s' = s\<lparr> ps_log := map_remove k (ps_log s) \<rparr>
      in case delete_log_entry faults k fs of
           (Ok _, fs') \<Rightarrow> remove_keys faults ks s' fs'
         | (r, fs') \<Rightarrow> (r, s', fs'))"

definition store_truncate ::
  "('v, 'l, 'e, 'p, 'm) raft_types \<Rightarrow> faults \<Rightarrow> 'l \<Rightarrow> ('v, 'l, 'e, 'm) Store \<Rightarrow> file_system \<Rightarrow>
   (unit, storage_error) outcome \<times> ('v, 'l, 'e, 'm) Store \<times> file_system" where
  "store_truncate T faults log_id s fs =
     remove_keys faults (sorted_list_of_set {k \<in> dom (ps_log s). log_index T log_id \<le> k}) s fs"

definition store_purge ::
  "('v, 'l, 'e, 'p, 'm) raft_types \<Rightarrow> faults \<Rightarrow> 'l \<Rightarrow> ('v, 'l, 'e, 'm) Store \<Rightarrow> file_system \<Rightarrow>
   (unit, storage_error) outcome \<times> ('v, 'l, 'e, 'm) Store \<times> file_system" where
  "store_purge T faults log_id s fs =
     (if \<not> log_id_le T (ps_last_purged_log_id s) (Some log_id)
      then (Panic ''assertion failed: log_inner.last_purged_log_id.as_ref() <= Some(&log_id)'', s, fs)
      else remove_keys faults (sorted_list_of_set {k \<in> dom (ps_log s). k \<le> log_index T log_id})
             (s\<lparr> ps_last_purged_log_id := Some log_id \<rparr>) fs)"

section \<open>State machine and snapshots\<close>

definition applied_state :: "('v, 'l, 'e, 'm) Store \<Rightarrow> 'l option \<times> 'm" where
  "applied_state s = (sd_last_applied_log (ps_state_machine s), sd_last_membership (ps_state_machine s))"

fun apply_entry ::
  "('v, 'l, 'e, 'p, 'm) raft_types \<Rightarrow> 'e \<Rightarrow> ('l, 'm) StateMachineData \<Rightarrow> ('l, 'm) StateMachineData" where
  "apply_entry T entry sm =
     (let sm1 = sm\<lparr> sd_last_applied_log := Some (entry_log_id T entry) \<rparr>
      in case payload_membership T entry of
           None \<Rightarrow> sm1
         | Some mem \<Rightarrow> sm1\<lparr> sd_last_membership := stored_membership T (Some (entry_log_id T entry)) mem \<rparr>)"

text \<open>The responses are the default response, \<open>None\<close>, one per entry.\<close>

definition store_apply ::
  "('v, 'l, 'e, 'p, 'm) raft_types \<Rightarrow> faults \<Rightarrow> 'e list \<Rightarrow> ('v, 'l, 'e, 'm) Store \<Rightarrow> file_system \<Rightarrow>
   (string option list, storage_error) outcome \<times> ('v, 'l, 'e, 'm) Store \<times> file_system" where
  "store_apply T faults entries s fs =
     (let sm = fold (apply_entry T) entries (ps_state_machine s);
          (r, fs') = write_encoded faults STATE_MACHINE_FILE (ser_sm T sm) True fs
      in (and_then r (\<lambda>_. Ok (map (\<lambda>_. None) entries)), s\<lparr> ps_state_machine := sm \<rparr>, fs'))"

definition snapshot_id_text :: "('v, 'l, 'e, 'p, 'm) raft_types \<Rightarrow> 'l option \<Rightarrow> 64 word \<Rightarrow> string" where
  "snapshot_id_text T last_applied_log snapshot_idx =
     (case last_applied_log of
        Some l \<Rightarrow> leader_text T l @ ''-'' @ show_nat (unat (log_index T l)) @ ''-'' @
                     show_nat (unat snapshot_idx)
      | None \<Rightarrow> ''--'' @ show_nat (unat snapshot_idx))"

text \<open>The two files of a snapshot: the metadata first, then the data.\<close>

definition write_snapshot ::
  "('v, 'l, 'e, 'p, 'm) raft_types \<Rightarrow> faults \<Rightarrow> ('l, 'm) SnapshotMeta \<Rightarrow> bytes \<Rightarrow> file_system \<Rightarrow>
   (unit, storage_error) outcome \<times> file_system" where
  "write_snapshot T faults meta data fs =
     (case write_encoded faults SNAPSHOT_META_FILE (ser_meta T meta) True fs of
        (Ok _, fs1) \<Rightarrow> write_encoded faults SNAPSHOT_DATA_FILE (Inr data) True fs1
      | (r, fs1) \<Rightarrow> (r, fs1))"

definition build_snapshot ::
  "('v, 'l, 'e, 'p, 'm) raft_types \<Rightarrow> faults \<Rightarrow> ('v, 'l, 'e, 'm) Store \<Rightarrow> file_system \<Rightarrow>
   (('l, 'm) SnapshotMeta \<times> bytes, storage_error) outcome \<times> ('v, 'l, 'e, 'm) Store \<times> file_system" where
  "build_snapshot T faults s fs =
     (let sm = ps_state_machine s in
      case ser_data T (sd_data sm) of
        Inl e \<Rightarrow> (Err (ReadStateMachineError e), s, fs)
      | Inr data \<Rightarrow>
          (let idx = ps_snapshot_idx s + 1;
               s1 = s\<lparr> ps_snapshot_idx := idx \<rparr>;
               meta = \<lparr> sm_last_log_id = sd_last_applied_log sm, sm_last_membership = sd_last_membership sm,
                        sm_snapshot_id = snapshot_id_text T (sd_last_applied_log sm) idx \<rparr>;
               (r, fs') = write_snapshot T faults meta data fs
           in (and_then r (\<lambda>_. Ok (meta, data)),
               (if is_ok r then s1\<lparr> ps_current_snapshot := Some (meta, data) \<rparr> else s1), fs')))"

definition install_snapshot ::
  "('v, 'l, 'e, 'p, 'm) raft_types \<Rightarrow> faults \<Rightarrow> ('l, 'm) SnapshotMeta \<Rightarrow> bytes \<Rightarrow>
   ('v, 'l, 'e, 'm) Store \<Rightarrow> file_system \<Rightarrow>
   (unit, storage_error) outcome \<times> ('v, 'l, 'e, 'm) Store \<times> file_system" where
  "install_snapshot T faults meta data s fs =
     (case de_data T data of
        Inl e \<Rightarrow> (Err (ReadSnapshotError e), s, fs)
      | Inr updated_data \<Rightarrow>
          (let sm = \<lparr> sd_last_applied_log = sm_last_log_id meta,
                      sd_last_membership = sm_last_membership meta, sd_data = updated_data \<rparr>;
               s1 = s\<lparr> ps_state_machine := sm \<rparr>
           in case write_snapshot T faults meta data fs of
                (Ok _, fs1) \<Rightarrow>
                  (let (r, fs2) = write_encoded faults STATE_MACHINE_FILE (ser_sm T sm) True fs1
                   in (r, (if is_ok r then s1\<lparr> ps_current_snapshot := Some (meta, data) \<rparr> else s1), fs2))
              | (r, fs1) \<Rightarrow> (r, s1, fs1)))"

definition begin_receiving_snapshot :: "(bytes, storage_error) outcome" where
  "begin_receiving_snapshot = Ok []"

definition get_current_snapshot :: "('v, 'l, 'e, 'm) Store \<Rightarrow> (('l, 'm) SnapshotMeta \<times> bytes) option" where
  "get_current_snapshot s = ps_current_snapshot s"

section \<open>Steps and invariant\<close>

text \<open>Documented behaviour of the serialisers: what they write can be read back.\<close>

definition codecs_faithful :: "('v, 'l, 'e, 'p, 'm) raft_types \<Rightarrow> bool" where
  "codecs_faithful T \<longleftrightarrow>
     (\<forall>v d. ser_vote T v = Inr d \<longrightarrow> de_vote T d = Inr v) \<and>
     (\<forall>v d. ser_committed T v = Inr d \<longrightarrow> de_committed T d = Inr v) \<and>
     (\<forall>v d. ser_entry T v = Inr d \<longrightarrow> de_entry T d = Inr v) \<and>
     (\<forall>v d. ser_sm T v = Inr d \<longrightarrow> de_sm T d = Inr v) \<and>
     (\<forall>v d. ser_meta T v = Inr d \<longrightarrow> de_meta T d = Inr v)"

text \<open>The names a directory listing gives.\<close>

definition lists_logs :: "file_system \<Rightarrow> string list \<Rightarrow> bool" where
  "lists_logs fs names \<longleftrightarrow> set names = {name. fs_now fs (LOGS_DIR @ name) \<noteq> None}"

text \<open>The operations that succeed, with any faults that did not hit them, and restarts.\<close>

inductive store_step ::
  "('v, 'l, 'e, 'p, 'm) raft_types \<Rightarrow> ('v, 'l, 'e, 'm) Store \<times> file_system \<Rightarrow>
   ('v, 'l, 'e, 'm) Store \<times> file_system \<Rightarrow> bool" for T where
  SaveVote: "save_vote T faults v s fs = (Ok (), s', fs') \<Longrightarrow> store_step T (s, fs) (s', fs')"
| SaveCommitted: "save_committed T faults c s fs = (Ok (), s', fs') \<Longrightarrow> store_step T (s, fs) (s', fs')"
| Append: "store_append T faults es s fs = (Ok (), s', fs') \<Longrightarrow> store_step T (s, fs) (s', fs')"
| Truncate: "store_truncate T faults l s fs = (Ok (), s', fs') \<Longrightarrow> store_step T (s, fs) (s', fs')"
| Purge: "store_purge T faults l s fs = (Ok (), s', fs') \<Longrightarrow> store_step T (s, fs) (s', fs')"
| Apply: "store_apply T faults es s fs = (Ok rs, s', fs') \<Longrightarrow> store_step T (s, fs) (s', fs')"
| BuildSnapshot: "build_snapshot T faults s fs = (Ok sn, s', fs') \<Longrightarrow> store_step T (s, fs) (s', fs')"
| InstallSnapshot: "install_snapshot T faults meta data s fs = (Ok (), s', fs') \<Longrightarrow>
     store_step T (s, fs) (s', fs')"
| Restart: "lists_logs fs names \<Longrightarrow> store_new T no_faults names fs = Ok s' \<Longrightarrow> store_step T (s, fs) (s', fs)"

definition log_persisted ::
  "('v, 'l, 'e, 'p, 'm) raft_types \<Rightarrow> (64 word, 'e) hash_map \<Rightarrow> file_system \<Rightarrow> bool" where
  "log_persisted T log fs \<longleftrightarrow>
     (\<forall>i. files.holds (ser_entry T) fs (log_entry_path i) (map_option (Pair i) (log i))) \<and>
     (\<forall>name. fs_now fs (LOGS_DIR @ name) \<noteq> None \<longrightarrow> (\<exists>i. name = log_entry_filename i))"

text \<open>A file that exists once its value was saved, and the value is the given default before.\<close>

definition saved_or :: "'a \<Rightarrow> ('a \<Rightarrow> string + bytes) \<Rightarrow> file_system \<Rightarrow> path \<Rightarrow> 'a \<Rightarrow> bool" where
  "saved_or dflt ser fs p v \<longleftrightarrow>
     (if fs_now fs p = None then v = dflt else files.holds ser fs p (Some v))"

definition persisted ::
  "('v, 'l, 'e, 'p, 'm) raft_types \<Rightarrow> ('v, 'l, 'e, 'm) Store \<times> file_system \<Rightarrow> bool" where
  "persisted T = (\<lambda>(s, fs).
     files.holds (ser_vote T) fs VOTE_FILE (ps_vote s) \<and>
     saved_or None (ser_committed T) fs COMMITTED_FILE (ps_committed s) \<and>
     log_persisted T (ps_log s) fs \<and>
     saved_or (ps_state_machine (store_default T)) (ser_sm T) fs STATE_MACHINE_FILE (ps_state_machine s) \<and>
     files.holds (ser_meta T) fs SNAPSHOT_META_FILE (map_option fst (ps_current_snapshot s)) \<and>
     fs_now fs SNAPSHOT_DATA_FILE = map_option snd (ps_current_snapshot s) \<and>
     crash_sound fs)"

section \<open>An instance of the library types\<close>

text \<open>Votes, log identities and entries are numbers of 64 bits, an entry is its own log identity, and
  there is one membership. The serialisers give an error where they have no encoding.\<close>

definition bytes8 :: "64 word \<Rightarrow> bytes" where
  "bytes8 w = to_le_bytes 8 w"

definition decode8 :: "bytes \<Rightarrow> string + 64 word" where
  "decode8 d = (if length d = 8 then Inr (from_le_bytes d) else Inl ''unexpected end of file'')"

fun encode_option :: "64 word option \<Rightarrow> bytes" where
  "encode_option None = []"
| "encode_option (Some w) = bytes8 w"

definition decode_option :: "bytes \<Rightarrow> string + 64 word option" where
  "decode_option d = (if d = [] then Inr None else case decode8 d of Inl e \<Rightarrow> Inl e | Inr w \<Rightarrow> Inr (Some w))"

definition sample_types :: "(64 word, 64 word, 64 word, unit, unit) raft_types" where
  "sample_types =
     \<lparr> entry_log_id = (\<lambda>e. e), log_index = (\<lambda>l. l),
       log_id_le = (\<lambda>a b. case (a, b) of (None, _) \<Rightarrow> True | (Some _, None) \<Rightarrow> False | (Some x, Some y) \<Rightarrow> x \<le> y),
       leader_text = (\<lambda>_. ''1''), payload_membership = (\<lambda>_. None), stored_membership = (\<lambda>_ _. ()),
       default_membership = (),
       ser_vote = (\<lambda>v. Inr (bytes8 v)), de_vote = decode8,
       ser_committed = (\<lambda>c. Inr (encode_option c)), de_committed = decode_option,
       ser_entry = (\<lambda>(i, e). Inr (bytes8 i @ bytes8 e)),
       de_entry = (\<lambda>d. case (decode8 (take 8 d), decode8 (drop 8 d)) of
                       (Inr i, Inr e) \<Rightarrow> Inr (i, e) | _ \<Rightarrow> Inl ''unexpected end of file''),
       ser_sm = (\<lambda>m. if sd_data m = Map.empty then Inr (encode_option (sd_last_applied_log m)) else Inl ''unsupported''),
       de_sm = (\<lambda>d. case decode_option d of Inl e \<Rightarrow> Inl e
                   | Inr l \<Rightarrow> Inr \<lparr> sd_last_applied_log = l, sd_last_membership = (), sd_data = Map.empty \<rparr>),
       ser_meta = (\<lambda>m. if sm_last_log_id m = None then Inr (str_bytes (sm_snapshot_id m)) else Inl ''unsupported''),
       de_meta = (\<lambda>d. Inr \<lparr> sm_last_log_id = None, sm_last_membership = (),
                         sm_snapshot_id = map (\<lambda>b. char_of (unat b)) d \<rparr>),
       ser_data = (\<lambda>_. Inr []), de_data = (\<lambda>_. Inr Map.empty) \<rparr>"

text \<open>The store and the files after appending entry one to a fresh store.\<close>

definition sample_store :: "(64 word, 64 word, 64 word, unit) Store" where
  "sample_store = (store_default sample_types)\<lparr> ps_log := [1 \<mapsto> 1] \<rparr>"

definition sample_files :: file_system where
  "sample_files = sync_directory LOGS_DIR
     (replace_file (log_entry_path 1) (bytes8 1 @ bytes8 1) (False, False) empty_file_system)"

definition sample_meta :: "64 word \<Rightarrow> (64 word, unit) SnapshotMeta" where
  "sample_meta idx =
     \<lparr> sm_last_log_id = None, sm_last_membership = (), sm_snapshot_id = snapshot_id_text sample_types None idx \<rparr>"

text \<open>The fault that the data file of a snapshot cannot be created.\<close>

definition data_fault :: "string \<Rightarrow> faults" where
  "data_fault e call p =
     (if call = CreateFile \<and> p = with_extension SNAPSHOT_DATA_FILE ''tmp'' then Some (e, 0) else None)"

section \<open>Lemmas\<close>

lemmas path_defs = LOGS_DIR_def SNAPSHOT_DIR_def VOTE_FILE_def COMMITTED_FILE_def STATE_MACHINE_FILE_def
  SNAPSHOT_META_FILE_def SNAPSHOT_DATA_FILE_def

lemma fixed_paths_distinct [simp]:
  "VOTE_FILE \<noteq> COMMITTED_FILE" "VOTE_FILE \<noteq> STATE_MACHINE_FILE" "VOTE_FILE \<noteq> SNAPSHOT_META_FILE"
  "VOTE_FILE \<noteq> SNAPSHOT_DATA_FILE" "COMMITTED_FILE \<noteq> VOTE_FILE" "COMMITTED_FILE \<noteq> STATE_MACHINE_FILE"
  "COMMITTED_FILE \<noteq> SNAPSHOT_META_FILE" "COMMITTED_FILE \<noteq> SNAPSHOT_DATA_FILE"
  "STATE_MACHINE_FILE \<noteq> VOTE_FILE" "STATE_MACHINE_FILE \<noteq> COMMITTED_FILE"
  "STATE_MACHINE_FILE \<noteq> SNAPSHOT_META_FILE" "STATE_MACHINE_FILE \<noteq> SNAPSHOT_DATA_FILE"
  "SNAPSHOT_META_FILE \<noteq> VOTE_FILE" "SNAPSHOT_META_FILE \<noteq> COMMITTED_FILE"
  "SNAPSHOT_META_FILE \<noteq> STATE_MACHINE_FILE" "SNAPSHOT_META_FILE \<noteq> SNAPSHOT_DATA_FILE"
  "SNAPSHOT_DATA_FILE \<noteq> VOTE_FILE" "SNAPSHOT_DATA_FILE \<noteq> COMMITTED_FILE"
  "SNAPSHOT_DATA_FILE \<noteq> STATE_MACHINE_FILE" "SNAPSHOT_DATA_FILE \<noteq> SNAPSHOT_META_FILE"
  by (simp_all add: path_defs)

lemma log_paths_distinct [simp]:
  "LOGS_DIR @ n \<noteq> VOTE_FILE" "LOGS_DIR @ n \<noteq> COMMITTED_FILE" "LOGS_DIR @ n \<noteq> STATE_MACHINE_FILE"
  "LOGS_DIR @ n \<noteq> SNAPSHOT_META_FILE" "LOGS_DIR @ n \<noteq> SNAPSHOT_DATA_FILE"
  "VOTE_FILE \<noteq> LOGS_DIR @ n" "COMMITTED_FILE \<noteq> LOGS_DIR @ n" "STATE_MACHINE_FILE \<noteq> LOGS_DIR @ n"
  "SNAPSHOT_META_FILE \<noteq> LOGS_DIR @ n" "SNAPSHOT_DATA_FILE \<noteq> LOGS_DIR @ n"
  by (simp_all add: path_defs)

lemma log_entry_path_distinct [simp]:
  "log_entry_path i \<noteq> VOTE_FILE" "log_entry_path i \<noteq> COMMITTED_FILE"
  "log_entry_path i \<noteq> STATE_MACHINE_FILE" "log_entry_path i \<noteq> SNAPSHOT_META_FILE"
  "log_entry_path i \<noteq> SNAPSHOT_DATA_FILE" "VOTE_FILE \<noteq> log_entry_path i"
  "COMMITTED_FILE \<noteq> log_entry_path i" "STATE_MACHINE_FILE \<noteq> log_entry_path i"
  "SNAPSHOT_META_FILE \<noteq> log_entry_path i" "SNAPSHOT_DATA_FILE \<noteq> log_entry_path i"
  "log_entry_path i = log_entry_path j \<longleftrightarrow> i = j"
  by (simp_all add: log_entry_path_def)

lemma not_temporary [simp]:
  "\<not> is_temp VOTE_FILE" "\<not> is_temp COMMITTED_FILE" "\<not> is_temp STATE_MACHINE_FILE"
  "\<not> is_temp SNAPSHOT_META_FILE" "\<not> is_temp SNAPSHOT_DATA_FILE" "\<not> is_temp (log_entry_path i)"
  by (simp_all add: is_temp_def path_defs log_entry_path_def log_entry_filename_def)

lemma paths_nonempty [simp]:
  "VOTE_FILE \<noteq> []" "COMMITTED_FILE \<noteq> []" "STATE_MACHINE_FILE \<noteq> []" "SNAPSHOT_META_FILE \<noteq> []"
  "SNAPSHOT_DATA_FILE \<noteq> []" "log_entry_path i \<noteq> []"
  by (simp_all add: path_defs log_entry_path_def)

declare files.contents_put [simp] files.contents_del [simp]
  files.holds_put_other [simp] files.holds_del_other [simp]

lemma write_encoded_Ok:
  assumes "write_encoded faults p encoded fsync fs = (Ok (), fs')"
  obtains d where "encoded = Inr d" and "fs' = replace_file p d
    (fsync, fsync \<and> faults OpenDir (parent p) = None \<and> faults SyncDir (parent p) = None) fs"
  using assms by (auto simp: write_encoded_def split: sum.splits prod.splits dest: atomic_write_Ok)

lemma write_encoded_no_faults:
  "p \<noteq> [] \<Longrightarrow> write_encoded no_faults p (Inr d) fsync fs = (Ok (), replace_file p d (fsync, fsync) fs)"
  by (simp add: write_encoded_def atomic_write_no_faults)

lemma saved_or_put_other [simp]:
  "\<not> is_temp p \<Longrightarrow> \<not> is_temp q \<Longrightarrow> q \<noteq> p \<Longrightarrow> saved_or z ser (replace_file p d sync fs) q v = saved_or z ser fs q v"
  by (simp add: saved_or_def)

lemma saved_or_del_other [simp]: "q \<noteq> p \<Longrightarrow> saved_or z ser (remove_file p fs) q v = saved_or z ser fs q v"
  by (simp add: saved_or_def)

lemma saved_or_put: "\<not> is_temp p \<Longrightarrow> ser v = Inr d \<Longrightarrow> saved_or z ser (replace_file p d sync fs) p v"
  by (simp add: saved_or_def files.holds_put)

lemma log_persisted_put_other [simp]:
  assumes "\<not> is_temp p" and "\<And>n. p \<noteq> LOGS_DIR @ n" and "log_persisted T log fs"
  shows "log_persisted T log (replace_file p d sync fs)"
proof -
  have "log_entry_path i \<noteq> p" "LOGS_DIR @ n \<noteq> p" for i n using assms(2) by (auto simp: log_entry_path_def)
  then show ?thesis
    using assms(1,3) files.contents_put_new [OF assms(1)] unfolding log_persisted_def by (metis files.holds_put_other not_temporary(6))
qed

lemma log_persisted_append:
  assumes "log_persisted T log fs" and "ser_entry T (i, e) = Inr d"
  shows "log_persisted T (log(i \<mapsto> e)) (replace_file (log_entry_path i) d sync fs)"
  unfolding log_persisted_def
proof (intro conjI allI impI)
  fix j
  show "files.holds (ser_entry T) (replace_file (log_entry_path i) d sync fs) (log_entry_path j)
     (map_option (Pair j) ((log(i \<mapsto> e)) j))"
    using assms files.holds_put [of "log_entry_path i" "ser_entry T" "(i, e)" d]
    by (cases "j = i") (simp_all add: log_persisted_def)
next
  fix name
  assume "fs_now (replace_file (log_entry_path i) d sync fs) (LOGS_DIR @ name) \<noteq> None"
  then have "LOGS_DIR @ name = log_entry_path i \<or> fs_now fs (LOGS_DIR @ name) \<noteq> None"
    by (rule files.contents_put_new [rotated]) simp
  then show "\<exists>j. name = log_entry_filename j"
    using assms(1) by (auto simp: log_persisted_def log_entry_path_def)
qed

lemma log_persisted_del:
  assumes "log_persisted T log fs"
  shows "log_persisted T (map_remove i log) (remove_file (log_entry_path i) fs)"
  unfolding log_persisted_def
proof (intro conjI allI impI)
  fix j
  show "files.holds (ser_entry T) (remove_file (log_entry_path i) fs) (log_entry_path j)
     (map_option (Pair j) (map_remove i log j))"
    using assms files.holds_del [of "ser_entry T" "log_entry_path i" fs]
    by (cases "j = i") (simp_all add: log_persisted_def)
next
  fix name
  assume "fs_now (remove_file (log_entry_path i) fs) (LOGS_DIR @ name) \<noteq> None"
  then show "\<exists>j. name = log_entry_filename j"
    using assms by (auto simp: log_persisted_def split: if_splits)
qed

lemma log_persisted_absent:
  assumes "log_persisted T log fs" and "fs_now fs (log_entry_path i) = None"
  shows "log i = None" and "map_remove i log = log"
proof -
  show "log i = None"
    using assms by (auto simp: log_persisted_def files.holds_def dest: spec [of _ i] split: option.splits)
  then show "map_remove i log = log" by (auto simp: map_remove_def)
qed

lemma holds_sync [simp]: "files.holds ser (sync_directory dir fs) p v = files.holds ser fs p v"
  by (simp add: files.holds_def split: option.splits)

lemma persisted_sync [simp]: "persisted T (s, sync_directory dir fs) = persisted T (s, fs)"
  by (simp add: persisted_def saved_or_def log_persisted_def)

lemma persist_log_entry_Ok:
  assumes "persist_log_entry T faults entry fs = (Ok (), fs')"
  obtains d where "ser_entry T (log_index T (entry_log_id T entry), entry) = Inr d"
    "fs' = replace_file (log_entry_path (log_index T (entry_log_id T entry))) d (False, False) fs"
  using assms unfolding persist_log_entry_def Let_def by (elim write_encoded_Ok) simp

lemma append_entries_persisted:
  "append_entries T faults es s fs = (Ok (), s', fs') \<Longrightarrow> persisted T (s, fs) \<Longrightarrow> persisted T (s', fs')"
proof (induction T faults es s fs rule: append_entries.induct)
  case (2 T faults entry entries s fs)
  obtain fs1 where w: "persist_log_entry T faults entry fs = (Ok (), fs1)"
    using 2(2) by (auto split: prod.splits outcome.splits)
  then obtain d where d: "ser_entry T (log_index T (entry_log_id T entry), entry) = Inr d"
    "fs1 = replace_file (log_entry_path (log_index T (entry_log_id T entry))) d (False, False) fs"
    by (rule persist_log_entry_Ok)
  have "persisted T (s\<lparr> ps_log := (ps_log s)(log_index T (entry_log_id T entry) \<mapsto> entry) \<rparr>, fs1)"
    using 2(3) d log_persisted_append [of T "ps_log s" fs "log_index T (entry_log_id T entry)" entry d "(False, False)"]
    by (simp add: persisted_def)
  with 2(1) [OF w [symmetric] refl] 2(2) w show ?case by simp
qed simp

lemma fsync_log_entries_Ok:
  "fsync_log_entries faults fs = (Ok (), fs') \<Longrightarrow> fs' = fs \<or> fs' = sync_directory LOGS_DIR fs"
  by (auto simp: fsync_log_entries_def split: if_splits option.splits)

lemma store_append_Ok:
  assumes "store_append T faults es s fs = (Ok (), s', fs')"
  obtains fs1 where "append_entries T faults es s fs = (Ok (), s', fs1)" "fs' = fs1 \<or> fs' = sync_directory LOGS_DIR fs1"
proof -
  obtain r s1 fs1 where run: "append_entries T faults es s fs = (r, s1, fs1)" by (metis surj_pair)
  obtain r2 fs2 where sync: "fsync_log_entries faults fs1 = (r2, fs2)" by fastforce
  show thesis
    using assms run sync fsync_log_entries_Ok [of faults fs1 fs2] that
    by (cases r) (simp_all add: store_append_def)
qed

lemma remove_keys_persisted:
  "remove_keys faults ks s fs = (Ok (), s', fs') \<Longrightarrow> persisted T (s, fs) \<Longrightarrow> persisted T (s', fs')"
proof (induction faults ks s fs rule: remove_keys.induct)
  case (2 faults k ks s fs)
  let ?s = "s\<lparr> ps_log := map_remove k (ps_log s) \<rparr>"
  obtain fs1 where del: "delete_log_entry faults k fs = (Ok (), fs1)"
    using 2(2) by (auto simp: Let_def split: prod.splits outcome.splits)
  have "persisted T (?s, fs1)"
  proof (cases "fs_now fs (log_entry_path k) = None")
    case True
    then have "fs1 = fs" using del by (simp add: delete_log_entry_def)
    moreover have "map_remove k (ps_log s) = ps_log s"
      using 2(3) log_persisted_absent(2) [of T "ps_log s" fs k] True by (simp add: persisted_def)
    ultimately show ?thesis using 2(3) by (simp add: persisted_def)
  next
    case False
    then have "fs1 = remove_file (log_entry_path k) fs"
      using del by (auto simp: delete_log_entry_def Let_def split: option.splits)
    then show ?thesis using 2(3) log_persisted_del [of T "ps_log s" fs k] by (simp add: persisted_def)
  qed
  with 2(1) [OF refl del [symmetric] refl] 2(2) del show ?case by simp
qed simp

lemma write_snapshot_Ok:
  assumes "write_snapshot T faults meta data fs = (Ok (), fs')"
  obtains d sync where "ser_meta T meta = Inr d"
    and "fs' = replace_file SNAPSHOT_DATA_FILE data sync (replace_file SNAPSHOT_META_FILE d sync fs)"
proof -
  obtain r fs1 where first: "write_encoded faults SNAPSHOT_META_FILE (ser_meta T meta) True fs = (r, fs1)" by fastforce
  with assms have r: "r = Ok ()" and second: "write_encoded faults SNAPSHOT_DATA_FILE (Inr data) True fs1 = (Ok (), fs')"
    by (cases r; simp add: write_snapshot_def)+
  have "parent SNAPSHOT_META_FILE = parent SNAPSHOT_DATA_FILE" by (simp add: parent_def path_defs)
  then show thesis
    using write_encoded_Ok [OF first [unfolded r]] write_encoded_Ok [OF second] that by (metis Inr_inject)
qed

lemma is_ok_cases: "is_ok r \<longleftrightarrow> (\<exists>x. r = Ok x)"
  by (cases r) auto

lemma save_vote_Ok:
  assumes "save_vote T faults v s fs = (Ok (), s', fs')"
  obtains d where "ser_vote T v = Inr d" "s' = s\<lparr> ps_vote := Some v \<rparr>" "fs' = replace_file VOTE_FILE d
    (True, faults OpenDir (parent VOTE_FILE) = None \<and> faults SyncDir (parent VOTE_FILE) = None) fs"
proof -
  from assms have "write_encoded faults VOTE_FILE (ser_vote T v) True fs = (Ok (), fs')" "s' = s\<lparr> ps_vote := Some v \<rparr>"
    by (auto simp: save_vote_def persist_vote_def split: prod.splits)
  then show thesis by (elim write_encoded_Ok) (auto intro: that)
qed

lemma save_committed_Ok:
  assumes "save_committed T faults c s fs = (Ok (), s', fs')"
  obtains d sync where "ser_committed T c = Inr d" "s' = s\<lparr> ps_committed := c \<rparr>" "fs' = replace_file COMMITTED_FILE d sync fs"
proof -
  from assms have "write_encoded faults COMMITTED_FILE (ser_committed T c) True fs = (Ok (), fs')"
    "s' = s\<lparr> ps_committed := c \<rparr>"
    by (auto simp: save_committed_def persist_committed_def split: prod.splits)
  then show thesis by (elim write_encoded_Ok) (auto intro: that)
qed

lemma store_apply_Ok:
  assumes "store_apply T faults es s fs = (Ok rs, s', fs')"
  obtains d sync where "ser_sm T (fold (apply_entry T) es (ps_state_machine s)) = Inr d"
    "fs' = replace_file STATE_MACHINE_FILE d sync fs"
    "s' = s\<lparr> ps_state_machine := fold (apply_entry T) es (ps_state_machine s) \<rparr>" "rs = map (\<lambda>_. None) es"
proof -
  from assms have "write_encoded faults STATE_MACHINE_FILE
      (ser_sm T (fold (apply_entry T) es (ps_state_machine s))) True fs = (Ok (), fs')"
    "s' = s\<lparr> ps_state_machine := fold (apply_entry T) es (ps_state_machine s) \<rparr>" "rs = map (\<lambda>_. None) es"
    by (auto simp: store_apply_def Let_def split: prod.splits)
  then show thesis by (elim write_encoded_Ok) (auto intro: that)
qed

lemma build_snapshot_Ok:
  assumes "build_snapshot T faults s fs = (Ok sn, s', fs')"
  obtains meta data idx where "write_snapshot T faults meta data fs = (Ok (), fs')"
    "s' = s\<lparr> ps_snapshot_idx := idx, ps_current_snapshot := Some (meta, data) \<rparr>"
  using assms by (auto simp: build_snapshot_def Let_def split: prod.splits sum.splits)

lemma install_snapshot_Ok:
  assumes "install_snapshot T faults meta data s fs = (Ok (), s', fs')"
  obtains sm fs1 where "write_snapshot T faults meta data fs = (Ok (), fs1)"
    "write_encoded faults STATE_MACHINE_FILE (ser_sm T sm) True fs1 = (Ok (), fs')"
    "s' = s\<lparr> ps_current_snapshot := Some (meta, data), ps_state_machine := sm \<rparr>"
  using assms by (auto simp: install_snapshot_def Let_def split: prod.splits sum.splits outcome.splits)

lemma persisted_snapshot:
  assumes "persisted T (s, fs)" and "write_snapshot T faults meta data fs = (Ok (), fs')"
  shows "persisted T (s\<lparr> ps_current_snapshot := Some (meta, data) \<rparr>, fs')"
  using assms(2)
proof (rule write_snapshot_Ok)
  fix d sync
  assume "ser_meta T meta = Inr d"
    "fs' = replace_file SNAPSHOT_DATA_FILE data sync (replace_file SNAPSHOT_META_FILE d sync fs)"
  then show ?thesis using assms(1) by (simp add: persisted_def files.holds_put)
qed

lemma persisted_state_machine:
  assumes "persisted T (s, fs)" and "ser_sm T sm = Inr d"
  shows "persisted T (s\<lparr> ps_state_machine := sm \<rparr>, replace_file STATE_MACHINE_FILE d sync fs)"
  using assms by (simp add: persisted_def saved_or_put)

lemma persisted_unsaved [simp]:
  "persisted T (s\<lparr> ps_last_purged_log_id := l \<rparr>, fs) = persisted T (s, fs)"
  "persisted T (s\<lparr> ps_last_purged_log_id := l, ps_snapshot_idx := n \<rparr>, fs) = persisted T (s, fs)"
  "persisted T (s\<lparr> ps_snapshot_idx := n, ps_current_snapshot := c \<rparr>, fs) = persisted T (s\<lparr> ps_current_snapshot := c \<rparr>, fs)"
  by (simp_all add: persisted_def)

lemma fold_updates:
  assumes "\<And>i e. (i, e) \<in> set es \<Longrightarrow> m i = Some e"
  shows "fold put_entry es acc = acc ++ (m |` (fst ` set es))"
  using assms
proof (induction es arbitrary: acc)
  case (Cons a es)
  obtain i e where a: "a = (i, e)" by fastforce
  have "m i = Some e" using Cons.prems a by simp
  moreover have "fold put_entry es (acc(i \<mapsto> e)) = acc(i \<mapsto> e) ++ (m |` (fst ` set es))"
    by (rule Cons.IH) (use Cons.prems in simp)
  moreover have "acc(i \<mapsto> e) ++ (m |` A) = acc ++ (m |` insert i A)" if "m i = Some e" for A
    using that by (auto simp: fun_eq_iff map_add_def restrict_map_def split: option.splits)
  ultimately show ?case unfolding a by simp
qed simp

lemma insert_entries_restrict:
  assumes "\<And>i e. (i, e) \<in> set es \<Longrightarrow> m i = Some e"
  shows "insert_entries es = m |` (fst ` set es)"
  using fold_updates [of "sort_key fst es" m Map.empty] assms by (simp add: insert_entries_def)

lemma load_entries_all:
  assumes "\<And>name. name \<in> set names \<Longrightarrow> \<exists>i e d. name = log_entry_filename i \<and> log i = Some e \<and>
      fs_now fs (LOGS_DIR @ name) = Some d \<and> de_entry T d = Inr (i, e)"
  shows "\<exists>es. load_entries T no_faults fs names = Ok es \<and> (\<forall>i e. (i, e) \<in> set es \<longrightarrow> log i = Some e) \<and>
     log_entry_filename ` fst ` set es = set names"
  using assms
proof (induction names)
  case (Cons name names)
  from Cons.prems [of name] obtain i e d where n: "name = log_entry_filename i" "log i = Some e"
    "fs_now fs (LOGS_DIR @ name) = Some d" "de_entry T d = Inr (i, e)" by auto
  from Cons.IH Cons.prems obtain es where "load_entries T no_faults fs names = Ok es"
    "\<forall>i e. (i, e) \<in> set es \<longrightarrow> log i = Some e" "log_entry_filename ` fst ` set es = set names" by auto
  with n show ?case
    by (intro exI [of _ "(i, e) # es"])
      (simp add: parse_log_entry_filename read_file_def no_faults_def del: and_then_Ok)
qed simp

lemma load_log:
  assumes "log_persisted T log fs" and "codecs_faithful T" and "lists_logs fs names"
  shows "\<exists>es. load_entries T no_faults fs names = Ok es \<and> insert_entries es = log"
proof -
  have "\<exists>i e d. name = log_entry_filename i \<and> log i = Some e \<and> fs_now fs (LOGS_DIR @ name) = Some d \<and>
      de_entry T d = Inr (i, e)" if "name \<in> set names" for name
  proof -
    from that assms(1,3) obtain i d where i: "name = log_entry_filename i" "fs_now fs (log_entry_path i) = Some d"
      by (auto simp: lists_logs_def log_persisted_def log_entry_path_def)
    with assms(1) have "files.holds (ser_entry T) fs (log_entry_path i) (map_option (Pair i) (log i))"
      by (simp add: log_persisted_def)
    with i obtain e where "log i = Some e" "ser_entry T (i, e) = Inr d"
      by (auto simp: files.holds_def split: option.splits)
    with i assms(2) show ?thesis by (auto simp: codecs_faithful_def log_entry_path_def)
  qed
  from load_entries_all [OF this] obtain es where es: "load_entries T no_faults fs names = Ok es"
    "\<And>i e. (i, e) \<in> set es \<Longrightarrow> log i = Some e" "log_entry_filename ` fst ` set es = set names" by blast
  have "dom log \<subseteq> fst ` set es"
  proof
    fix i assume "i \<in> dom log"
    then have "fs_now fs (log_entry_path i) \<noteq> None"
      using log_persisted_absent(1) [OF assms(1), of i] by (cases "fs_now fs (log_entry_path i) = None") auto
    then have "log_entry_filename i \<in> set names"
      using assms(3) by (simp add: lists_logs_def log_entry_path_def)
    then show "i \<in> fst ` set es" using es(3) by (metis (no_types, lifting) imageE log_entry_filename_inj)
  qed
  then have "log |` (fst ` set es) = log" by (intro ext) (metis domIff restrict_map_def subsetD)
  with insert_entries_restrict [of es log] es show ?thesis by auto
qed

lemma load_file_holds:
  assumes "files.holds ser fs p v" and "\<And>x d. ser x = Inr d \<Longrightarrow> de d = Inr x"
  shows "load_file no_faults fs p what de = Ok v"
  using assms
  by (auto simp: load_file_def files.holds_def read_file_def no_faults_def simp del: and_then_Ok
      split: option.splits)

lemma load_file_saved_or:
  assumes "saved_or z ser fs p v" and "\<And>x d. ser x = Inr d \<Longrightarrow> de d = Inr x"
  shows "\<exists>r. load_file no_faults fs p what de = Ok r \<and> (case r of None \<Rightarrow> z | Some x \<Rightarrow> x) = v"
proof (cases "fs_now fs p = None")
  case True
  then show ?thesis using assms(1) by (simp add: load_file_def saved_or_def)
next
  case False
  then show ?thesis using load_file_holds [of ser fs p "Some v" de] assms by (auto simp: saved_or_def)
qed

lemma load_state_persisted:
  assumes "persisted T (s, fs)" and "codecs_faithful T" and "lists_logs fs names"
  shows "load_state T no_faults names fs =
     Ok (s\<lparr> ps_last_purged_log_id := None, ps_snapshot_idx := 0 \<rparr>)"
proof -
  note inv = assms(1)
  then have parts: "files.holds (ser_vote T) fs VOTE_FILE (ps_vote s)"
    "saved_or None (ser_committed T) fs COMMITTED_FILE (ps_committed s)" "log_persisted T (ps_log s) fs"
    "saved_or (ps_state_machine (store_default T)) (ser_sm T) fs STATE_MACHINE_FILE (ps_state_machine s)"
    "files.holds (ser_meta T) fs SNAPSHOT_META_FILE (map_option fst (ps_current_snapshot s))"
    by (simp_all add: persisted_def)
  note codec = assms(2) [unfolded codecs_faithful_def, rule_format]
  obtain es where log: "load_entries T no_faults fs names = Ok es" "insert_entries es = ps_log s"
    using load_log [OF parts(3) assms(2,3)] by blast
  have vote: "load_file no_faults fs VOTE_FILE ''vote'' (de_vote T) = Ok (ps_vote s)"
    by (rule load_file_holds [OF parts(1)]) (use codec in blast)
  obtain c where committed: "load_file no_faults fs COMMITTED_FILE ''committed'' (de_committed T) = Ok c"
    "(case c of None \<Rightarrow> None | Some x \<Rightarrow> x) = ps_committed s"
    using load_file_saved_or [OF parts(2), of "de_committed T" "''committed''"] codec by blast
  obtain m where sm: "load_file no_faults fs STATE_MACHINE_FILE ''state machine'' (de_sm T) = Ok m"
    "(case m of None \<Rightarrow> ps_state_machine (store_default T) | Some x \<Rightarrow> x) = ps_state_machine s"
    using load_file_saved_or [OF parts(4), of "de_sm T" "''state machine''"] codec by blast
  have meta: "load_file no_faults fs SNAPSHOT_META_FILE ''snapshot meta'' (de_meta T) =
      Ok (map_option fst (ps_current_snapshot s))"
    by (rule load_file_holds [OF parts(5)]) (use codec in blast)
  have snapshot: "(if fs_now fs SNAPSHOT_META_FILE \<noteq> None \<and> fs_now fs SNAPSHOT_DATA_FILE \<noteq> None
      then and_then (load_file no_faults fs SNAPSHOT_META_FILE ''snapshot meta'' (de_meta T)) (\<lambda>meta.
             and_then (read_file no_faults SNAPSHOT_DATA_FILE fs) (\<lambda>data. Ok (map_option (\<lambda>m. (m, data)) meta)))
      else Ok None) = Ok (ps_current_snapshot s)"
    using inv meta
    by (cases "ps_current_snapshot s")
      (auto simp: persisted_def files.holds_def read_file_def no_faults_def simp del: and_then_Ok)
  have listed: "(case no_faults ReadDir LOGS_DIR of Some (e, _) \<Rightarrow> Err e
      | None \<Rightarrow> load_entries T no_faults fs names) = Ok es"
    by (simp add: no_faults_def log(1) [unfolded no_faults_def])
  show ?thesis
    unfolding load_state_def listed vote committed(1) sm(1) snapshot and_then.simps committed(2) log(2) sm(2)
    by (simp add: store_default_def)
qed

lemma store_new_persisted:
  assumes "persisted T (s, fs)" and "codecs_faithful T" and "lists_logs fs names"
  shows "store_new T no_faults names fs = Ok (s\<lparr> ps_last_purged_log_id := None, ps_snapshot_idx := 0 \<rparr>)"
  using load_state_persisted [OF assms] by (simp add: store_new_def no_faults_def)

lemma persisted_step:
  assumes "persisted T x" and "store_step T x y" and "codecs_faithful T"
  shows "persisted T y"
  using assms(2)
proof cases
  case (SaveVote faults v s fs s' fs')
  from SaveVote(3) show ?thesis
    by (rule save_vote_Ok) (use assms(1) SaveVote(1,2) in \<open>simp add: persisted_def files.holds_put\<close>)
next
  case (SaveCommitted faults c s fs s' fs')
  from SaveCommitted(3) show ?thesis
    by (rule save_committed_Ok) (use assms(1) SaveCommitted(1,2) in \<open>simp add: persisted_def saved_or_put\<close>)
next
  case (Append faults es s fs s' fs')
  from Append(3) show ?thesis
    by (rule store_append_Ok) (use assms(1) Append(1,2) append_entries_persisted in auto)
next
  case (Truncate faults l s fs s' fs')
  then show ?thesis using assms(1) remove_keys_persisted by (auto simp: store_truncate_def)
next
  case (Purge faults l s fs s' fs')
  then have "remove_keys faults (sorted_list_of_set {k \<in> dom (ps_log s). k \<le> log_index T l})
      (s\<lparr> ps_last_purged_log_id := Some l \<rparr>) fs = (Ok (), s', fs')"
    by (simp add: store_purge_def split: if_splits)
  from remove_keys_persisted [OF this] show ?thesis using assms(1) Purge(1,2) by simp
next
  case (Apply faults es s fs rs s' fs')
  from Apply(3) show ?thesis
    by (rule store_apply_Ok) (use assms(1) Apply(1,2) in \<open>simp add: persisted_state_machine\<close>)
next
  case (BuildSnapshot faults s fs sn s' fs')
  from BuildSnapshot(3) show ?thesis
    by (rule build_snapshot_Ok) (use assms(1) BuildSnapshot(1,2) in \<open>simp add: persisted_snapshot\<close>)
next
  case (InstallSnapshot faults meta data s fs s' fs')
  from InstallSnapshot(3) obtain sm fs1 where run: "write_snapshot T faults meta data fs = (Ok (), fs1)"
    "write_encoded faults STATE_MACHINE_FILE (ser_sm T sm) True fs1 = (Ok (), fs')"
    "s' = s\<lparr> ps_current_snapshot := Some (meta, data), ps_state_machine := sm \<rparr>" by (rule install_snapshot_Ok)
  from run(2) obtain d sync where "ser_sm T sm = Inr d" "fs' = replace_file STATE_MACHINE_FILE d sync fs1"
    by (rule write_encoded_Ok)
  then show ?thesis
    using persisted_state_machine [OF persisted_snapshot [OF _ run(1)]] assms(1) InstallSnapshot(1,2) run(3) by simp
next
  case (Restart fs names s' s)
  then have "s' = s\<lparr> ps_last_purged_log_id := None, ps_snapshot_idx := 0 \<rparr>"
    using store_new_persisted [of T s fs names] assms(1,3) by simp
  then show ?thesis using assms(1) Restart(1,2) by simp
qed

interpretation store: stepping_system "\<lambda>x. x = (store_default T, empty_file_system)" "store_step T"
  "\<lambda>x. codecs_faithful T \<longrightarrow> persisted T x"
  for T :: "('v, 'l, 'e, 'p, 'm) raft_types"
proof
  show "codecs_faithful T \<longrightarrow> persisted T x" if "x = (store_default T, empty_file_system)" for x
    using that by (simp add: persisted_def files.holds_def saved_or_def log_persisted_def store_default_def
        empty_file_system_def crash_sound_def crash_image_def)
qed (blast intro: persisted_step)

lemmas reachable_persisted = store.reachable_inv [OF refl, THEN mp]

lemma decode8_bytes8 [simp]: "decode8 (bytes8 w) = Inr w" "length (bytes8 w) = 8"
  using from_le_bytes_to_le_bytes [of 8 w] by (simp_all add: decode8_def bytes8_def to_le_bytes_def)

lemma decode_option_encode [simp]: "decode_option (encode_option c) = Inr c"
proof (cases c)
  case (Some w)
  have "bytes8 w \<noteq> []" using decode8_bytes8(2) [of w] by force
  then show ?thesis using Some by (simp add: decode_option_def)
qed (simp add: decode_option_def)

lemma str_bytes_decode [simp]: "map (\<lambda>b. char_of (unat b)) (str_bytes s) = s"
  by (simp add: str_bytes_def comp_def unsigned_of_nat take_bit_eq_mod char_of_mod_256 map_idI)

lemma sample_codecs: "codecs_faithful sample_types"
  by (auto simp: codecs_faithful_def sample_types_def split: if_splits)

lemma sample_truncated: "de_entry sample_types [] = Inl ''unexpected end of file''"
  by (simp add: sample_types_def decode8_def)

lemma sample_append:
  "store_append sample_types no_faults [1] (store_default sample_types) empty_file_system =
     (Ok (), sample_store, sample_files)"
  by (simp add: store_append_def persist_log_entry_def fsync_log_entries_def write_encoded_no_faults
      sample_types_def sample_store_def sample_files_def store_default_def)
    (simp add: no_faults_def)

lemma sample_reachable:
  "(store_step sample_types)\<^sup>*\<^sup>* (store_default sample_types, empty_file_system) (sample_store, sample_files)"
  by (rule r_into_rtranclp) (rule store_step.Append [OF sample_append])

lemma sample_listing: "lists_logs sample_files [log_entry_filename 1]"
proof -
  have "name = log_entry_filename 1" if "fs_now sample_files (LOGS_DIR @ name) \<noteq> None" for name
    using files.contents_put_new [of "log_entry_path 1" "bytes8 1 @ bytes8 1" "(False, False)" empty_file_system "LOGS_DIR @ name"] that
    by (simp add: sample_files_def empty_file_system_def) (simp add: log_entry_path_def)
  moreover have "fs_now sample_files (log_entry_path 1) \<noteq> None" by (simp add: sample_files_def)
  then have "fs_now sample_files (LOGS_DIR @ log_entry_filename 1) \<noteq> None" by (simp only: log_entry_path_def not_False_eq_True)
  ultimately have "fs_now sample_files (LOGS_DIR @ name) \<noteq> None \<longleftrightarrow> name = log_entry_filename 1" for name by blast
  then show ?thesis by (auto simp: lists_logs_def)
qed

lemma load_entries_truncated:
  assumes "log_entry_filename i \<in> set names" and "fs_now fs (log_entry_path i) = Some []"
    and "de_entry T [] = Inl e"
  shows "load_entries T no_faults fs names \<noteq> Ok es"
  using assms
proof (induction names arbitrary: es)
  case (Cons name names)
  show ?case
  proof (cases "name = log_entry_filename i")
    case True
    then show ?thesis
      using assms(2,3) by (auto simp: parse_log_entry_filename read_file_def no_faults_def log_entry_path_def)
  next
    case False
    with Cons have "load_entries T no_faults fs names \<noteq> Ok es'" for es' by simp
    then show ?thesis by (auto split: option.splits)
  qed
qed simp

lemma remove_keys_effect:
  "remove_keys faults ks s fs = (Ok (), s', fs') \<Longrightarrow> s' = s\<lparr> ps_log := ps_log s |` (- set ks) \<rparr>"
proof (induction faults ks s fs rule: remove_keys.induct)
  case (2 faults k ks s fs)
  obtain fs1 where del: "delete_log_entry faults k fs = (Ok (), fs1)"
    using 2(2) by (auto simp: Let_def split: prod.splits outcome.splits)
  have "(\<lambda>a. if a = k then None else ps_log s a) |` (- set ks) = ps_log s |` (- insert k (set ks))"
    by (auto simp: restrict_map_def fun_eq_iff)
  with 2(1) [OF refl del [symmetric] refl] 2(2) del show ?case by simp
qed (cases s, auto simp: restrict_map_def)

lemma apply_entries_data: "sd_data (fold (apply_entry T) es sm) = sd_data sm"
  by (induction es arbitrary: sm) (simp_all add: Let_def split: option.splits)

lemma apply_entries_applied:
  "es \<noteq> [] \<Longrightarrow> sd_last_applied_log (fold (apply_entry T) es sm) = Some (entry_log_id T (last es))"
  by (induction es rule: rev_induct) (simp_all add: Let_def split: option.splits)

lemma sample_save_vote:
  "save_vote sample_types no_faults 7 sample_store sample_files =
     (Ok (), sample_store\<lparr> ps_vote := Some 7 \<rparr>, replace_file VOTE_FILE (bytes8 7) (True, True) sample_files)"
  by (simp add: save_vote_def persist_vote_def write_encoded_no_faults sample_types_def)

lemma parent_vote [simp]: "parent VOTE_FILE = []"
  by (simp add: parent_def path_defs)

lemma build_snapshot_fails:
  assumes "build_snapshot T faults0 s fs = (Ok (meta, data), t, fs1)"
  shows "\<exists>w. write_snapshot T faults0 meta data fs = (Ok (), w)"
    and "write_snapshot T faults meta data fs = (Err r, fs') \<Longrightarrow> \<exists>s'. build_snapshot T faults s fs = (Err r, s', fs')"
proof -
  let ?sm = "ps_state_machine s"
  let ?meta = "\<lparr> sm_last_log_id = sd_last_applied_log ?sm, sm_last_membership = sd_last_membership ?sm,
      sm_snapshot_id = snapshot_id_text T (sd_last_applied_log ?sm) (ps_snapshot_idx s + 1) \<rparr>"
  obtain d where d: "ser_data T (sd_data ?sm) = Inr d" using assms by (auto simp: build_snapshot_def Let_def split: sum.splits)
  obtain r0 w where w: "write_snapshot T faults0 ?meta d fs = (r0, w)" by fastforce
  have run: "r0 = Ok () \<and> meta = ?meta \<and> data = d" using assms by (simp add: build_snapshot_def Let_def d w)
  then show "\<exists>w. write_snapshot T faults0 meta data fs = (Ok (), w)" using w by simp
  show "\<exists>s'. build_snapshot T faults s fs = (Err r, s', fs')" if "write_snapshot T faults meta data fs = (Err r, fs')"
    using that run by (simp add: build_snapshot_def Let_def d)
qed

lemma sample_build:
  assumes "sd_last_applied_log (ps_state_machine s) = None"
  shows "\<exists>t fs1. build_snapshot sample_types no_faults s fs = (Ok (sample_meta (ps_snapshot_idx s + 1), []), t, fs1) \<and>
     ps_current_snapshot t = Some (sample_meta (ps_snapshot_idx s + 1), []) \<and>
     ps_snapshot_idx t = ps_snapshot_idx s + 1 \<and> ps_state_machine t = ps_state_machine s"
  using assms
  by (simp add: build_snapshot_def write_snapshot_def write_encoded_no_faults sample_types_def Let_def
      sample_meta_def snapshot_id_text_def)

text \<open>The data file of a snapshot cannot be written.\<close>

lemma write_snapshot_data_fault:
  assumes "ser_meta T meta = Inr d"
  shows "write_snapshot T (data_fault e) meta data fs =
     (Err (WriteError e), replace_file SNAPSHOT_META_FILE d (True, True) fs)"
proof -
  have "with_extension SNAPSHOT_META_FILE ''tmp'' \<noteq> with_extension SNAPSHOT_DATA_FILE ''tmp''"
    by (simp add: with_extension_def parent_def path_defs)
  then have "write_encoded (data_fault e) SNAPSHOT_META_FILE (Inr d) True fs =
      (Ok (), replace_file SNAPSHOT_META_FILE d (True, True) fs)"
    by (simp add: write_encoded_def atomic_write_def replace_file_def data_fault_def Let_def)
  moreover have "write_encoded (data_fault e) SNAPSHOT_DATA_FILE (Inr data) True fs1 = (Err (WriteError e), fs1)" for fs1
    by (simp add: write_encoded_def atomic_write_def data_fault_def Let_def)
  ultimately show ?thesis by (simp add: write_snapshot_def assms)
qed

text \<open>After an append, the file of the entry may be found empty.\<close>

lemma appended_unflushed:
  assumes "store_append T faults [e] s fs = (Ok (), s', fs')"
  shows "Some [] \<in> fs_crash fs' (log_entry_path (log_index T (entry_log_id T e)))"
proof -
  let ?p = "log_entry_path (log_index T (entry_log_id T e))"
  obtain fs1 where run: "append_entries T faults [e] s fs = (Ok (), s', fs1)"
    "fs' = fs1 \<or> fs' = sync_directory LOGS_DIR fs1" by (rule store_append_Ok [OF assms])
  obtain r fs2 where "persist_log_entry T faults e fs = (r, fs2)" by fastforce
  with run(1) have "persist_log_entry T faults e fs = (Ok (), fs1)" by (cases r) simp_all
  then obtain d where d: "fs1 = replace_file ?p d (False, False) fs" by (rule persist_log_entry_Ok)
  have "Some [] \<in> fs_crash fs1 ?p" "Some [] \<in> remains fs1 ?p"
    by (simp_all add: d replace_file_crash)
  with run(2) show ?thesis by (auto simp: sync_directory_def)
qed

section \<open>Properties\<close>

text \<open>C9: A restart recovers the storage. After any sequence of successful operations on a fresh store,
  restarts included, and whatever order the log directory is listed in, opening the storage gives back the vote,
  the committed position, the whole log, the state machine and the current snapshot exactly as they
  were in memory. The purge position and the snapshot counter are not among them: they start again
  from nothing.\<close>

theorem restart_recovers:
  assumes "(store_step T)\<^sup>*\<^sup>* (store_default T, empty_file_system) (s, fs)" and "codecs_faithful T"
    and "lists_logs fs names"
  shows "store_new T no_faults names fs = Ok (s\<lparr> ps_last_purged_log_id := None, ps_snapshot_idx := 0 \<rparr>)"
  using store_new_persisted [OF reachable_persisted [OF assms(1,2)] assms(2,3)] .

theorem restart_recovers_witness:
  "store_new sample_types no_faults [log_entry_filename 1] sample_files = Ok sample_store"
  using restart_recovers [OF sample_reachable sample_codecs sample_listing]
  by (simp add: sample_store_def store_default_def)

text \<open>C12: A vote that was saved survives a power failure: once saving it has returned, and the flush of
  the storage directory did not fail, loading the vote from any file system the failure may leave
  gives that vote.\<close>

theorem saved_vote_survives:
  assumes "codecs_faithful T" and "save_vote T faults v s fs = (Ok (), s', fs')"
    and "faults OpenDir [] = None" and "faults SyncDir [] = None" and "crash_image fs' found"
  shows "load_file no_faults found VOTE_FILE ''vote'' (de_vote T) = Ok (Some v)"
proof -
  obtain d where d: "ser_vote T v = Inr d" "fs' = replace_file VOTE_FILE d (True, True) fs"
    using save_vote_Ok [OF assms(2)] assms(3,4) by (metis parent_vote)
  then have "fs_now found VOTE_FILE = Some d"
    using assms(5) replace_file_crash(2) [of VOTE_FILE d fs] by (auto simp: crash_image_def)
  with d(1) have "files.holds (ser_vote T) found VOTE_FILE (Some v)" by (simp add: files.holds_def)
  then show ?thesis
    by (rule load_file_holds) (use assms(1) in \<open>auto simp: codecs_faithful_def\<close>)
qed

theorem saved_vote_survives_witness:
  "\<exists>s' fs'. save_vote sample_types no_faults 7 sample_store sample_files = (Ok (), s', fs') \<and>
     crash_image fs' fs' \<and> load_file no_faults fs' VOTE_FILE ''vote'' (de_vote sample_types) = Ok (Some 7)"
proof -
  have "crash_image (replace_file VOTE_FILE (bytes8 7) (True, True) sample_files)
      (replace_file VOTE_FILE (bytes8 7) (True, True) sample_files)"
    using reachable_persisted [OF sample_reachable sample_codecs] by (simp add: persisted_def crash_sound_def [symmetric])
  with sample_save_vote saved_vote_survives [OF sample_codecs sample_save_vote] show ?thesis
    by (fastforce simp: no_faults_def)
qed

text \<open>Saving a vote reports success even when the flush of the storage directory fails, and then a
  power failure may bring back the vote from before: the node can vote twice in one term.\<close>

theorem vote_flush_unreported:
  assumes "(store_step T)\<^sup>*\<^sup>* (store_default T, empty_file_system) (s, fs)" and "codecs_faithful T"
    and "save_vote T faults v s fs = (Ok (), s', fs')" and "faults SyncDir [] = Some e"
  shows "\<exists>found. crash_image fs' found \<and>
     load_file no_faults found VOTE_FILE ''vote'' (de_vote T) = Ok (ps_vote s)"
proof -
  note inv = reachable_persisted [OF assms(1,2)]
  obtain d where d: "fs' = replace_file VOTE_FILE d (True, False) fs"
    using save_vote_Ok [OF assms(3)] assms(4) by (metis option.distinct(1) parent_vote)
  let ?found = "fs'\<lparr> fs_now := (fs_now fs')(VOTE_FILE := fs_now fs VOTE_FILE) \<rparr>"
  have "crash_sound fs" "files.holds (ser_vote T) fs VOTE_FILE (ps_vote s)" using inv by (simp_all add: persisted_def)
  then have "fs_now fs VOTE_FILE \<in> fs_crash fs' VOTE_FILE" "crash_sound fs'"
    using crash_sound_now [of fs VOTE_FILE] replace_file_crash(1) [of VOTE_FILE d True fs] by (simp_all add: d)
  then have "crash_image fs' ?found" by (auto simp: crash_sound_def crash_image_def)
  moreover have "files.holds (ser_vote T) ?found VOTE_FILE (ps_vote s)"
    using inv by (simp add: persisted_def files.holds_def split: option.splits)
  then have "load_file no_faults ?found VOTE_FILE ''vote'' (de_vote T) = Ok (ps_vote s)"
    by (rule load_file_holds) (use assms(2) in \<open>auto simp: codecs_faithful_def\<close>)
  ultimately show ?thesis by blast
qed

theorem vote_flush_unreported_witness:
  "\<exists>s' fs' found. save_vote sample_types (\<lambda>call _. if call = SyncDir then Some (''I/O error'', 0) else None)
       7 sample_store sample_files = (Ok (), s', fs') \<and> crash_image fs' found \<and>
     load_file no_faults found VOTE_FILE ''vote'' (de_vote sample_types) = Ok None"
proof -
  let ?faults = "\<lambda>call _. if call = SyncDir then Some (''I/O error'', 0) else None"
  obtain s' fs' where run: "save_vote sample_types ?faults 7 sample_store sample_files = (Ok (), s', fs')"
    by (simp add: save_vote_def persist_vote_def write_encoded_def atomic_write_def sample_types_def Let_def)
  from vote_flush_unreported [OF sample_reachable sample_codecs run] run show ?thesis
    by (auto simp: sample_store_def store_default_def)
qed

text \<open>C11: A log entry whose append was reported complete may be lost in a power failure, and with it the
  whole storage. Appending flushes the directory and not the entry's file, so the failure may leave
  that file empty; with a serialiser that refuses the empty input, opening the storage then fails
  however the directory is listed, and the node cannot start from it.\<close>

theorem appended_entry_may_be_lost:
  assumes "(store_step T)\<^sup>*\<^sup>* (store_default T, empty_file_system) (s, fs)" and "codecs_faithful T"
    and "store_append T faults [e] s fs = (Ok (), s', fs')" and "de_entry T [] = Inl err"
  shows "\<exists>found. crash_image fs' found \<and>
     (\<forall>names r. lists_logs found names \<longrightarrow> store_new T no_faults names found \<noteq> Ok r)"
proof -
  define i where "i = log_index T (entry_log_id T e)"
  have "persisted T (s', fs')"
    using persisted_step [OF reachable_persisted [OF assms(1,2)] store_step.Append [OF assms(3)] assms(2)] .
  then have sound: "crash_sound fs'" by (simp add: persisted_def)
  let ?found = "fs'\<lparr> fs_now := (fs_now fs')(log_entry_path i \<mapsto> []) \<rparr>"
  have "crash_image fs' ?found"
    using sound appended_unflushed [OF assms(3)] by (auto simp: i_def crash_sound_def crash_image_def)
  moreover have "store_new T no_faults names ?found \<noteq> Ok r" if "lists_logs ?found names" for names r
  proof -
    have "log_entry_filename i \<in> set names" using that by (simp add: lists_logs_def log_entry_path_def)
    from load_entries_truncated [OF this _ assms(4)] show ?thesis
      by (auto simp: store_new_def load_state_def split: option.splits)
  qed
  ultimately show ?thesis by blast
qed

theorem appended_entry_may_be_lost_witness:
  "\<exists>found. crash_image sample_files found \<and>
     (\<forall>names r. lists_logs found names \<longrightarrow> store_new sample_types no_faults names found \<noteq> Ok r)"
  using appended_entry_may_be_lost [OF rtranclp.rtrancl_refl sample_codecs sample_append sample_truncated] .

text \<open>A restart forgets that the log was purged. When a purge has removed every entry, the store
  reports the purge position as the last log position, and the store that a restart loads reports
  no position at all.\<close>

theorem purge_position_forgotten:
  assumes "(store_step T)\<^sup>*\<^sup>* (store_default T, empty_file_system) (s, fs)" and "codecs_faithful T"
    and "store_purge T faults l s fs = (Ok (), s', fs')"
    and "\<And>i. i \<in> dom (ps_log s) \<Longrightarrow> i \<le> log_index T l" and "lists_logs fs' names"
  shows "get_log_state T s' = (Some l, Some l) \<and>
     (\<exists>r. store_new T no_faults names fs' = Ok r \<and> get_log_state T r = (None, None))"
proof -
  let ?keys = "sorted_list_of_set {k \<in> dom (ps_log s). k \<le> log_index T l}"
  have rm: "remove_keys faults ?keys (s\<lparr> ps_last_purged_log_id := Some l \<rparr>) fs = (Ok (), s', fs')"
    using assms(3) by (auto simp: store_purge_def split: if_splits)
  have "set ?keys = dom (ps_log s)" using assms(4) by auto
  then have empty: "ps_log s' = Map.empty" and purged: "ps_last_purged_log_id s' = Some l"
    using remove_keys_effect [OF rm] by (auto simp: restrict_map_def fun_eq_iff domIff)
  have "persisted T (s', fs')"
    using persisted_step [OF reachable_persisted [OF assms(1,2)] store_step.Purge [OF assms(3)] assms(2)] .
  from store_new_persisted [OF this assms(2,5)] show ?thesis
    using empty purged by (simp add: get_log_state_def Let_def)
qed

theorem purge_position_forgotten_witness:
  "\<exists>s' fs' r. store_purge sample_types no_faults 1 sample_store sample_files = (Ok (), s', fs') \<and>
     get_log_state sample_types s' = (Some 1, Some 1) \<and>
     store_new sample_types no_faults [] fs' = Ok r \<and> get_log_state sample_types r = (None, None)"
proof -
  have dom: "dom (ps_log sample_store) = {1}" by (simp add: sample_store_def)
  have idx: "log_index sample_types 1 = 1" by (simp add: sample_types_def)
  have keys: "{k \<in> dom (ps_log sample_store). k \<le> log_index sample_types 1} = {1}" using dom idx by auto
  have present: "fs_now sample_files (log_entry_path 1) = Some (bytes8 1 @ bytes8 1)"
    by (simp add: sample_files_def)
  have purge: "store_purge sample_types no_faults 1 sample_store sample_files =
      (Ok (), sample_store\<lparr> ps_last_purged_log_id := Some 1, ps_log := map_remove 1 (ps_log sample_store) \<rparr>,
       remove_file (log_entry_path 1) sample_files)"
    unfolding store_purge_def keys
    by (simp add: delete_log_entry_def present no_faults_def sample_types_def sample_store_def store_default_def Let_def)
  have "lists_logs (remove_file (log_entry_path 1) sample_files) []"
    using sample_listing by (auto simp: lists_logs_def log_entry_path_def)
  with purge_position_forgotten [OF sample_reachable sample_codecs purge] dom idx purge show ?thesis by auto
qed

text \<open>Applying log entries moves the applied position to the last entry and answers every entry with
  the empty response, but no entry changes the replicated key-value data: client requests have no
  effect on the state they are replicated for.\<close>

theorem apply_ignores_requests:
  assumes "store_apply T faults es s fs = (Ok rs, s', fs')"
  shows "rs = replicate (length es) None \<and>
     sd_data (ps_state_machine s') = sd_data (ps_state_machine s) \<and>
     (es \<noteq> [] \<longrightarrow> sd_last_applied_log (ps_state_machine s') = Some (entry_log_id T (last es))) \<and>
     ps_log s' = ps_log s \<and> ps_vote s' = ps_vote s \<and> ps_committed s' = ps_committed s"
  using assms by (rule store_apply_Ok) (simp add: apply_entries_data apply_entries_applied map_replicate_const)

theorem apply_ignores_requests_witness:
  "\<exists>s' fs'. store_apply sample_types no_faults [1] sample_store sample_files = (Ok [None], s', fs') \<and>
     sd_data (ps_state_machine s') = Map.empty"
proof -
  obtain rs s' fs' where run: "store_apply sample_types no_faults [1] sample_store sample_files = (Ok rs, s', fs')"
    by (simp add: store_apply_def write_encoded_no_faults sample_types_def sample_store_def store_default_def Let_def)
  with apply_ignores_requests [OF run] show ?thesis
    by (auto simp: sample_store_def store_default_def)
qed

text \<open>A snapshot that fails halfway leaves a mixture behind. The metadata is replaced before the data,
  so when the data cannot be written the operation reports the error, and the storage opened from
  the files has the metadata of the new snapshot with the data of the old one.\<close>

theorem torn_snapshot:
  assumes "(store_step T)\<^sup>*\<^sup>* (store_default T, empty_file_system) (s, fs)" and "codecs_faithful T"
    and "ps_current_snapshot s = Some (old_meta, old_data)"
    and "build_snapshot T no_faults s fs = (Ok (meta, data), t, fs1)"
  shows "\<exists>s' fs'. build_snapshot T (data_fault e) s fs = (Err (WriteError e), s', fs') \<and>
     (\<forall>names. lists_logs fs' names \<longrightarrow>
        (\<exists>r. store_new T no_faults names fs' = Ok r \<and> ps_current_snapshot r = Some (meta, old_data)))"
proof -
  obtain w where w: "write_snapshot T no_faults meta data fs = (Ok (), w)"
    and again: "\<And>faults r fs'. write_snapshot T faults meta data fs = (Err r, fs') \<Longrightarrow>
      \<exists>s'. build_snapshot T faults s fs = (Err r, s', fs')"
    using build_snapshot_fails [OF assms(4)] by blast
  obtain d where d: "ser_meta T meta = Inr d" using w by (rule write_snapshot_Ok)
  let ?fs' = "replace_file SNAPSHOT_META_FILE d (True, True) fs"
  obtain s' where "build_snapshot T (data_fault e) s fs = (Err (WriteError e), s', ?fs')"
    using again [OF write_snapshot_data_fault [OF d]] by blast
  moreover have "persisted T (s\<lparr> ps_current_snapshot := Some (meta, old_data) \<rparr>, ?fs')"
    using reachable_persisted [OF assms(1,2)] assms(3) d by (simp add: persisted_def files.holds_put)
  from store_new_persisted [OF this assms(2)]
  have "lists_logs ?fs' names \<Longrightarrow>
      \<exists>r. store_new T no_faults names ?fs' = Ok r \<and> ps_current_snapshot r = Some (meta, old_data)" for names by simp
  ultimately show ?thesis by blast
qed

theorem torn_snapshot_witness:
  "\<exists>s fs s' fs'.
     build_snapshot sample_types no_faults (store_default sample_types) empty_file_system =
       (Ok (sample_meta 1, []), s, fs) \<and>
     build_snapshot sample_types (data_fault ''disk full'') s fs = (Err (WriteError ''disk full''), s', fs') \<and>
     (\<forall>names. lists_logs fs' names \<longrightarrow>
        (\<exists>r. store_new sample_types no_faults names fs' = Ok r \<and> ps_current_snapshot r = Some (sample_meta 2, [])))"
proof -
  obtain s fs where first: "build_snapshot sample_types no_faults (store_default sample_types) empty_file_system =
      (Ok (sample_meta 1, []), s, fs)" "ps_current_snapshot s = Some (sample_meta 1, [])" "ps_snapshot_idx s = 1"
      "ps_state_machine s = ps_state_machine (store_default sample_types)"
    using sample_build [of "store_default sample_types" empty_file_system] by (auto simp: store_default_def)
  obtain t fs1 where second: "build_snapshot sample_types no_faults s fs = (Ok (sample_meta 2, []), t, fs1)"
    using sample_build [of s fs] first(3,4) by (auto simp: store_default_def)
  have "(store_step sample_types)\<^sup>*\<^sup>* (store_default sample_types, empty_file_system) (s, fs)"
    by (rule r_into_rtranclp) (rule store_step.BuildSnapshot [OF first(1)])
  from torn_snapshot [OF this sample_codecs first(2) second,
      of "''disk full''"]
  show ?thesis using first(1) by blast
qed

end
