(* ===== verification/Guardian_Node.thy ===== *)
theory Guardian_Node
  imports Node_Api Coordinator Persistent_Store
begin

text \<open>
  A whole node: its address from the network configuration (\<open>common/src/network.rs\<close>), the start of the
  service (\<open>guardian/src/main.rs\<close>), and the tasks that run afterwards. What the start reads from its
  surroundings is a record; the storage it opens and the RAFT instance it creates are arguments.
  The running node is the state that its tasks share: the trusted peers, the API with the session
  registry, the event handler, gossip and the coordinator. The property is about all of them
  together.
\<close>

section \<open>The node's address\<close>

datatype NetworkError = DhcpReadError string | InvalidHexLength nat | HexParseError string

fun show_network_error :: "NetworkError \<Rightarrow> string" where
  "show_network_error (DhcpReadError e) = ''Failed to read DHCP option 224: '' @ e"
| "show_network_error (InvalidHexLength n) = ''Invalid hex IP format: expected 8 characters, got '' @ show_nat n"
| "show_network_error (HexParseError e) = ''Failed to parse hex IP: '' @ e"

text \<open>Two characters: the only error of \<open>u8::from_str_radix\<close> on them is an invalid digit.\<close>

definition parse_octet :: "string \<Rightarrow> nat \<Rightarrow> (8 word, NetworkError) outcome" where
  "parse_octet hex_ip i =
     and_then (str_slice hex_ip (i * 2) (i * 2 + 2)) (\<lambda>digits.
       case parse_unsigned 16 256 digits of
         None \<Rightarrow> Err (HexParseError ''invalid digit found in string'')
       | Some n \<Rightarrow> Ok (word_of_nat n))"

definition parse_hex_ip :: "string \<Rightarrow> (ipv4, NetworkError) outcome" where
  "parse_hex_ip hex_ip =
     (if length hex_ip \<noteq> 8 then Err (InvalidHexLength (length hex_ip))
      else and_then (parse_octet hex_ip 0) (\<lambda>a. and_then (parse_octet hex_ip 1) (\<lambda>b.
           and_then (parse_octet hex_ip 2) (\<lambda>c. and_then (parse_octet hex_ip 3) (\<lambda>d.
             Ok (Ipv4Addr a b c d))))))"

definition get_node_ip_from_dhcp :: "string + string \<Rightarrow> (ipv4, NetworkError) outcome" where
  "get_node_ip_from_dhcp contents =
     and_then (map_err DhcpReadError (of_sum contents)) (\<lambda>text. parse_hex_ip (str_trim text))"

section \<open>Start\<close>

definition MEASUREMENT_REGISTRY_URL :: string where
  "MEASUREMENT_REGISTRY_URL = ''http://measurement-registry:9000''"

definition cluster_config_default :: ClusterConfig where
  "cluster_config_default =
     \<lparr> cc_node_id = 1, cc_raft_address = SocketAddr (V4 (Ipv4Addr 0 0 0 0)) 8444,
       cc_api_address = SocketAddr (V4 (Ipv4Addr 0 0 0 0)) 8443,
       cc_measurement_registry_url = MEASUREMENT_REGISTRY_URL,
       cc_measurement_namespace = ''guardian-cluster'' \<rparr>"
definition GUARDIAN_CERTIFICATE_NAMESPACE :: string where "GUARDIAN_CERTIFICATE_NAMESPACE = ''guardian''"
definition INSTANCE_ID_PATH :: string where "INSTANCE_ID_PATH = ''/run/guardian/instance_id''"
definition GUARDIAN_API_PORT :: "16 word" where "GUARDIAN_API_PORT = 8443"
definition RAFT_STORAGE_PATH :: string where "RAFT_STORAGE_PATH = ''/var/lib/guardian/raft''"

text \<open>The file of the network configuration, which paths exist, what reading a file gives, what an HTTP
  request gives, and the clock.\<close>

record 'j surroundings =
  su_dhcp :: "string + string"
  su_path_exists :: "string \<Rightarrow> bool"
  su_read :: "string \<Rightarrow> string + string"
  su_send :: "'j http_send"
  su_now :: "64 word"

text \<open>The event handler task: how many events it has received, or that a panic ended it.\<close>

datatype handler_task = Listening nat | Crashed

record 'r Guardian =
  gu_trusted :: trusted_cell
  gu_node_api :: GuardianNodeApiState
  gu_handler :: handler_task
  gu_gossip :: PeerGossipManager
  gu_coordinator :: "'r RaftCoordinator"
  gu_actions :: "cluster_action list"

definition guardian_main ::
  "'j crates \<Rightarrow> ('s, string) outcome \<Rightarrow> string + unit \<Rightarrow> (NodeId \<Rightarrow> 's \<Rightarrow> string + 'r) \<Rightarrow> 'j surroundings \<Rightarrow>
   ('r Guardian, string) outcome" where
  "guardian_main x opened validated create env =
     and_then (map_err show_network_error (get_node_ip_from_dhcp (su_dhcp env))) (\<lambda>public_ip.
     and_then (ok_or (detect_available_tee (su_path_exists env)) ''No TEE available'') (\<lambda>tee.
     let node_id = ip_to_node_id public_ip in
     and_then (map_err show_verification_error (load_for_tee x (su_read env) tee INSTANCE_ID_PATH)) (\<lambda>instance_id.
     and_then (map_err show_verification_error (get_measurement_hash x tee)) (\<lambda>measurement_hash.
     and_then (str_slice measurement_hash 0 16) (\<lambda>_.
     and_then (map_err (\<lambda>_. []) (trusted_init None)) (\<lambda>cell.
     let node_api = node_api_new node_id (attestation_api_new MEASUREMENT_REGISTRY_URL) cache_new gossip_config_default in
     and_then (map_err show_registry_error (get_nodes (su_send env) (client_new MEASUREMENT_REGISTRY_URL)
                 GUARDIAN_CERTIFICATE_NAMESPACE)) (\<lambda>_.
     let api_address = SocketAddr (V4 public_ip) GUARDIAN_API_PORT;
         raft_address = SocketAddr (V4 public_ip) CONSENSUS_API_PORT in
     and_then (map_err (\<lambda>_. []) (gossip_manager_new cell node_id raft_address api_address (instance_to_hex x instance_id)
                 MEASUREMENT_REGISTRY_URL GUARDIAN_CERTIFICATE_NAMESPACE)) (\<lambda>gossip_manager.
     let (advertised, gossip_manager') =
           initial_advertise x (su_send env) (su_path_exists env) (su_now env) gossip_manager in
     and_then (map_err (\<lambda>_. []) advertised) (\<lambda>_.
     let cluster_config = \<lparr> cc_node_id = node_id, cc_raft_address = raft_address, cc_api_address = api_address,
           cc_measurement_registry_url = MEASUREMENT_REGISTRY_URL,
           cc_measurement_namespace = GUARDIAN_CERTIFICATE_NAMESPACE \<rparr> in
     and_then (map_err show_consensus_error
                 (raft_node_new cell ([CHR 0x22] @ RAFT_STORAGE_PATH @ [CHR 0x22]) opened validated create cluster_config))
       (\<lambda>raft_node.
     Ok \<lparr> gu_trusted = cell, gu_node_api = node_api, gu_handler = Listening 0, gu_gossip = gossip_manager',
          gu_coordinator = coordinator_new node_id raft_node, gu_actions = [] \<rparr>))))))))))"

section \<open>The running node\<close>

definition guardian_registry :: "'r Guardian \<Rightarrow> PeerRegistry" where
  "guardian_registry g = as_peer_registry (na_attestation (gu_node_api g))"

text \<open>The handler receives the next event.\<close>

definition handle_next :: "'r Guardian \<Rightarrow> 'r Guardian" where
  "handle_next g =
     (case gu_handler g of
        Crashed \<Rightarrow> g
      | Listening n \<Rightarrow>
          if n \<ge> length (pr_events (guardian_registry g)) then g
          else (case run_handler GUARDIAN_CERTIFICATE_NAMESPACE (gu_trusted g)
                       [Received (pr_events (guardian_registry g) ! n)] of
                  Ok cell \<Rightarrow> g\<lparr> gu_trusted := cell, gu_handler := Listening (Suc n) \<rparr>
                | _ \<Rightarrow> g\<lparr> gu_handler := Crashed \<rparr>))"

text \<open>The health endpoint shares the RAFT node with the coordinator.\<close>

definition guardian_health :: "'r openraft \<Rightarrow> 'r Guardian \<Rightarrow> (HealthResponse, unit) outcome" where
  "guardian_health lib g =
     health_handler lib (gu_trusted g) \<lparr> ap_node_id = na_node_id (gu_node_api g),
       ap_raft_node = Some (co_raft_node (gu_coordinator g)) \<rparr>"

text \<open>The tasks of a node interleave. A lagging handler misses events; the RAFT library works in the
  background and on requests of other nodes.\<close>

inductive guardian_step :: "'j crates \<Rightarrow> 'r openraft \<Rightarrow> 'r Guardian \<Rightarrow> 'r Guardian \<Rightarrow> bool" for x lib where
  Request: "api_step x (gu_node_api g) a \<Longrightarrow> guardian_step x lib g (g\<lparr> gu_node_api := a \<rparr>)"
| Handle: "guardian_step x lib g (handle_next g)"
| Lag: "gu_handler g = Listening n \<Longrightarrow> n \<le> m \<Longrightarrow> guardian_step x lib g (g\<lparr> gu_handler := Listening m \<rparr>)"
| Gossip: "gossip_step x (gu_gossip g) m \<Longrightarrow> guardian_step x lib g (g\<lparr> gu_gossip := m \<rparr>)"
| Coordinate: "gu_trusted g = Some (rd_trusted e) \<Longrightarrow> coordinate lib e (gu_coordinator g) = (c, acts) \<Longrightarrow>
     guardian_step x lib g (g\<lparr> gu_coordinator := c, gu_actions := gu_actions g @ acts \<rparr>)"
| Background: "guardian_step x lib g (g\<lparr> gu_coordinator := (gu_coordinator g)\<lparr>
     co_raft_node := (co_raft_node (gu_coordinator g))\<lparr> rn_raft := r \<rparr> \<rparr> \<rparr>)"

text \<open>Nobody is trusted, no event carries an address, and the coordinator waits.\<close>

definition alone :: "'r Guardian \<Rightarrow> bool" where
  "alone g \<longleftrightarrow> gu_trusted g = Some Map.empty \<and> log_unaddressed (guardian_registry g) \<and>
     co_state (gu_coordinator g) = WaitingForPeers \<and> gu_actions g = []"

text \<open>Surroundings for a start that succeeds: a TDX host with address 10.0.0.1 and one registered node.\<close>

definition sample_response :: "sample_json http_response" where
  "sample_response = \<lparr> hr_is_success = True, hr_is_not_found = False, hr_is_server_error = False, hr_status = 200,
     hr_body = Inr [], hr_values = Inr [],
     hr_nodes = Inr [\<lparr> bn_ip_address = Ipv4Addr 10 0 0 2, bn_raft_port = 8444, bn_api_port = 8443 \<rparr>] \<rparr>"

definition sample_surroundings :: "sample_json surroundings" where
  "sample_surroundings = \<lparr> su_dhcp = Inr ''0a000001'', su_path_exists = (\<lambda>_. True),
     su_read = (\<lambda>_. Inr (sample_hex_encode (replicate 32 6))), su_send = (\<lambda>_ _. Inr sample_response), su_now = 900 \<rparr>"

section \<open>Lemmas\<close>

lemma api_step_registry:
  assumes "api_step x s t"
  shows "registry_step\<^sup>*\<^sup>* (as_peer_registry (na_attestation s)) (as_peer_registry (na_attestation t))"
  using assms
proof cases
  case (Register send now later utc rnd ns ev)
  then show ?thesis
    using register_is_step [of "as_peer_registry (na_attestation s)" x send "as_measurement_client (na_attestation s)"
        now later utc rnd ns ev]
    by (simp add: register_handler_def handle_register_def split_beta)
next
  case (Verify now utc ns ev)
  then show ?thesis
    using verify_is_step [of "as_peer_registry (na_attestation s)" x now utc ns ev]
    by (simp add: verify_handler_def handle_verify_def split_beta)
next
  case (Advertise now received ad)
  then show ?thesis using advertise_handler_cases [of x now ad s received] by auto
next
  case (Cleanup now)
  then show ?thesis using registry_step.Cleanup by (auto intro: r_into_rtranclp)
qed

lemma handle_next_alone:
  assumes "alone g"
  shows "alone (handle_next g)"
proof (cases "gu_handler g")
  case (Listening n)
  let ?e = "pr_events (guardian_registry g) ! n"
  have registry: "guardian_registry (g\<lparr> gu_trusted := c, gu_handler := h \<rparr>) = guardian_registry g"
    "guardian_registry (g\<lparr> gu_handler := h \<rparr>) = guardian_registry g" for c h
    by (simp_all add: guardian_registry_def)
  show ?thesis
  proof (cases "n \<ge> length (pr_events (guardian_registry g))")
    case False
    then have "?e \<in> set (pr_events (guardian_registry g))" by simp
    then have "\<And>r. event_record ?e = Some r \<Longrightarrow> tr_ip_address r = None"
      using assms by (auto simp: alone_def log_unaddressed_def)
    from handle_event_unaddressed [of ?e "gu_trusted g", OF this]
    have "run_handler GUARDIAN_CERTIFICATE_NAMESPACE (gu_trusted g) [Received ?e] = Ok (gu_trusted g) \<or>
        (\<exists>m. run_handler GUARDIAN_CERTIFICATE_NAMESPACE (gu_trusted g) [Received ?e] = Panic m)"
      by (auto split: if_splits)
    then show ?thesis using assms False Listening registry by (auto simp: handle_next_def alone_def)
  qed (use assms Listening in \<open>simp add: handle_next_def\<close>)
qed (use assms in \<open>simp add: handle_next_def\<close>)

interpretation whole_node: stepping_system alone "guardian_step x lib" alone
  for x :: "'j crates" and lib :: "'r openraft"
proof
  fix g h
  assume inv: "alone g" and "guardian_step x lib g h"
  from this(2) show "alone h"
  proof cases
    case (Request a)
    have "log_unaddressed (as_peer_registry (na_attestation a))"
      using addresses.steps_inv [OF api_step_registry [OF Request(2)]] inv by (simp add: alone_def guardian_registry_def)
    then show ?thesis using inv Request(1) by (simp add: alone_def guardian_registry_def)
  next
    case Handle
    then show ?thesis using handle_next_alone [OF inv] by simp
  next
    case (Coordinate e c acts)
    then have "co_state c = WaitingForPeers \<and> acts = []"
      using inv by (auto simp: alone_def coordinate_def handle_waiting_for_peers_def trusted_count_def map_len_def
          MIN_PEERS_FOR_BOOTSTRAP_def)
    then show ?thesis using inv Coordinate(1) by (simp add: alone_def guardian_registry_def)
  qed (use inv in \<open>simp_all add: alone_def guardian_registry_def\<close>)
qed simp

lemma guardian_main_alone:
  assumes "guardian_main x opened validated create env = Ok g"
  shows "alone g"
proof -
  have "log_unaddressed registry_new"
    using addresses.init_inv [of registry_new] by (auto simp: registry_new_def)
  with assms show ?thesis
    by (auto simp: guardian_main_def alone_def guardian_registry_def node_api_new_def attestation_api_new_def
        coordinator_new_def trusted_init_def Let_def split_beta)
qed

lemma hex_ip_parsed:
  "parse_hex_ip (concat (map (\<lambda>o8. pad_left 2 (CHR ''0'') (show_hex (unat o8))) [a, b, c, d])) = Ok (Ipv4Addr a b c d)"
  (is "parse_hex_ip ?s = _")
proof -
  have two: "length (pad_left 2 (CHR ''0'') (show_hex (unat w))) = 2" for w :: "8 word"
    using unat_bound [of w] by (subst show_hex.simps) (auto simp: pad_left_def show_hex.simps)
  have ascii: "(of_char ch :: nat) < 128" if "ch \<in> set (pad_left 2 (CHR ''0'') (show_hex (unat w)))" for ch and w :: "8 word"
    using that hex_digits_show_hex [of "unat w"] by (auto simp: pad_left_def list_all_iff hex_digit_def Let_def)
  have boundary: "is_char_boundary ?s i" if "i \<le> 8" for i
  proof -
    have "length ?s = 8" using two by simp
    moreover have "(of_char (?s ! i) :: nat) < 128" if "i < 8"
      using ascii that two nth_mem [of i ?s] by fastforce
    ultimately show ?thesis using \<open>i \<le> 8\<close> by (force simp: is_char_boundary_def)
  qed
  have octet: "parse_octet ?s i = Ok ([a, b, c, d] ! i)" if "i < 4" for i
  proof -
    have "subslice ?s (i * 2) (i * 2 + 2) = pad_left 2 (CHR ''0'') (show_hex (unat ([a, b, c, d] ! i)))"
      using that two by (auto simp: subslice_def less_Suc_eq numeral_eq_Suc take_Cons' drop_Cons')
    moreover have "parse_unsigned 16 256 (pad_left 2 (CHR ''0'') (show_hex (unat w))) = Some (unat w)" for w :: "8 word"
      using unat_bound [of w] by (intro parse_unsigned_padded) simp
    ultimately show ?thesis using that two boundary by (simp add: parse_octet_def str_slice_def)
  qed
  show ?thesis using two octet [of 0] octet [of 1] octet [of 2] octet [of 3] by (simp add: parse_hex_ip_def)
qed

lemma attesting_node_hex:
  "hex_encode attesting_node = sample_hex_encode" "hex_lower_digits attesting_node" "hex_round_trip attesting_node"
  "hex_two_chars attesting_node" "length (sha256 attesting_node bs) = 32"
  using sample_hex_lower_digits sample_hex_round_trip sample_hex_two_chars
  by (simp_all add: attesting_node_def hex_lower_digits_def hex_round_trip_def hex_two_chars_def sample_crates_def)

lemma attesting_node_hash:
  "\<exists>h p. get_measurement_hash attesting_node Tdx = Ok h \<and> str_slice h 0 16 = (Ok p :: (string, string) outcome)"
proof -
  let ?d = "replicate 64 (0 :: byte)"
  obtain e where e: "get_evidence attesting_node Tdx ?d = Inr e" by (simp add: attesting_node_sel)
  then have "json_get attesting_node e ''quote'' \<noteq> None" and q: "\<exists>q. tdx_from_json attesting_node e = Ok q"
    using attesting_node_faithful unfolding tdx_attester_faithful_def by (metis length_replicate)+
  moreover from q obtain q where "tdx_from_json attesting_node e = Ok q" by blast
  ultimately have hash: "get_measurement_hash attesting_node Tdx = Ok (tdx_measurement_hash attesting_node q)"
    using e by (auto simp: get_measurement_hash_def generate_evidence_def measurement_hash_from_json_def detect_tee_type_def)
  let ?h = "tdx_measurement_hash attesting_node q"
  have "length ?h = 64" "\<And>c. c \<in> set ?h \<Longrightarrow> (of_char c :: nat) < 128"
    using attesting_node_hex(4) attesting_node_hex(5) [of "concat (tq_rtmrs q)"]
    by (auto simp: tdx_measurement_hash_def hex_two_chars_def)
  then have "is_char_boundary ?h 16" using nth_mem [of 16 ?h] by (fastforce simp: is_char_boundary_def)
  then have "str_slice ?h 0 16 = (Ok (subslice ?h 0 16) :: (string, string) outcome)"
    using \<open>length ?h = 64\<close> by (simp add: str_slice_def is_char_boundary_def)
  with hash show ?thesis by blast
qed

lemma sample_nodes:
  "get_nodes (\<lambda>_ _. Inr sample_response) (client_new url) ns = Ok [\<lparr> bn_ip_address = Ipv4Addr 10 0 0 2, bn_raft_port = 8444, bn_api_port = 8443 \<rparr>]"
  by (simp add: get_nodes_def request_with_retry_def client_new_def DEFAULT_RETRIES_def sample_response_def upt_rec
      retry_loop.simps del: and_then_Ok)

lemma sample_advertise:
  assumes "gm_cached_evidence m = None" and "gm_instance_id m = sample_hex_encode (replicate 32 6)"
    and "gm_registry_client m = client_new url"
  shows "\<exists>r m'. initial_advertise attesting_node (\<lambda>_ _. Inr sample_response) (\<lambda>_. True) stamp m = (Ok r, m')"
  using attesting_node_evidence [of "gm_raft_address m" "gm_api_address m"] assms
  by (auto simp: initial_advertise_def sample_nodes create_advertisement_def get_or_generate_evidence_def Let_def
      simp del: and_then_Ok)

lemma sample_storage: "store_new sample_types no_faults [] empty_file_system = Ok (store_default sample_types)"
proof -
  have "lists_logs empty_file_system []" by (simp add: lists_logs_def empty_file_system_def)
  from store_new_persisted [OF reachable_persisted [OF rtranclp.rtrancl_refl sample_codecs] sample_codecs this]
  show ?thesis by (simp add: store_default_def)
qed

lemma sample_main:
  "\<exists>g. guardian_main attesting_node (store_new sample_types no_faults [] empty_file_system) (Inr ())
     (\<lambda>_ _. Inr no_metrics) sample_surroundings = Ok g"
proof -
  have "str_trim ''0a000001'' = ''0a000001''" by (rule str_trim_hex) (auto simp: hex_digit_def)
  then have ip: "get_node_ip_from_dhcp (Inr ''0a000001'') = Ok (Ipv4Addr 10 0 0 1)"
    by (simp add: get_node_ip_from_dhcp_def parse_hex_ip_def parse_octet_def str_slice_def is_char_boundary_def
        subslice_def parse_unsigned_def digit_val.simps Let_def del: and_then_Ok)
  have identity: "load_for_tee attesting_node (\<lambda>_. Inr (sample_hex_encode (replicate 32 6))) Tdx p = Ok (InstanceId (replicate 32 6))" for p
    by (rule load_identity_file [OF attesting_node_hex(2,3)]) (simp_all add: attesting_node_hex(1))
  obtain h p where hash: "get_measurement_hash attesting_node Tdx = Ok h" "str_slice h 0 16 = (Ok p :: (string, string) outcome)"
    using attesting_node_hash by blast
  have id: "instance_to_hex attesting_node (InstanceId (replicate 32 6)) = sample_hex_encode (replicate 32 6)"
    by (simp add: instance_to_hex_def to_hex_def instance_as_bytes_def attesting_node_hex(1))
  have tee: "detect_available_tee (\<lambda>_. True) = Some Tdx"
    by (simp add: detect_available_tee_def is_tee_available_def)
  let ?m = "\<lparr> gm_node_id = ip_to_node_id (Ipv4Addr 10 0 0 1),
      gm_raft_address = SocketAddr (V4 (Ipv4Addr 10 0 0 1)) CONSENSUS_API_PORT,
      gm_api_address = SocketAddr (V4 (Ipv4Addr 10 0 0 1)) GUARDIAN_API_PORT,
      gm_instance_id = sample_hex_encode (replicate 32 6), gm_gossip_cache = cache_new,
      gm_config = gossip_config_default, gm_registry_client = client_new MEASUREMENT_REGISTRY_URL,
      gm_namespace = GUARDIAN_CERTIFICATE_NAMESPACE, gm_cached_evidence = None \<rparr>"
  obtain r m' where "initial_advertise attesting_node (\<lambda>_ _. Inr sample_response) (\<lambda>_. True) 900 ?m = (Ok r, m')"
    using sample_advertise [of ?m MEASUREMENT_REGISTRY_URL 900] by auto
  then show ?thesis
    by (auto simp: guardian_main_def sample_surroundings_def ip tee identity hash id sample_nodes sample_storage trusted_init_def
        gossip_manager_new_def trusted_get_def raft_node_new_def router_new_def Let_def split_beta simp del: and_then_Ok)
qed

section \<open>Properties\<close>

text \<open>An address written as eight lower-case hexadecimal digits is read back as that address.\<close>

theorem hex_ip_round_trip:
  "parse_hex_ip (concat (map (\<lambda>o8. pad_left 2 (CHR ''0'') (show_hex (unat o8))) [a, b, c, d])) = Ok (Ipv4Addr a b c d)"
  by (rule hex_ip_parsed)

text \<open>C3: No node ever joins or forms a cluster. From any successful start, whatever requests, events,
  gossip and health reports follow and in whatever order, no peer becomes trusted, the coordinator
  waits for peers and does nothing to the cluster, and the health endpoint reports no trusted peer.\<close>

theorem no_cluster_forms:
  assumes "guardian_main x opened validated create env = Ok g" and "(guardian_step x lib)\<^sup>*\<^sup>* g g'"
  shows "gu_trusted g' = Some Map.empty \<and> co_state (gu_coordinator g') = WaitingForPeers \<and> gu_actions g' = [] \<and>
     (\<exists>h. guardian_health lib g' = Ok h \<and> hp_trusted_peers h = [])"
proof -
  have "alone g'" using whole_node.steps_inv [OF assms(2) guardian_main_alone [OF assms(1)]] .
  moreover have "get_trusted_nodes Map.empty = []" by (simp add: get_trusted_nodes_def)
  ultimately show ?thesis
    by (simp add: alone_def guardian_health_def health_handler_def trusted_get_def split_beta Let_def)
qed

theorem no_cluster_forms_witness:
  "\<exists>g g'. guardian_main attesting_node (store_new sample_types no_faults [] empty_file_system) (Inr ())
       (\<lambda>_ _. Inr no_metrics) sample_surroundings = Ok g \<and>
     guardian_step attesting_node sample_raft g g' \<and> gu_actions g' = []"
proof -
  obtain g where g: "guardian_main attesting_node (store_new sample_types no_faults [] empty_file_system) (Inr ())
      (\<lambda>_ _. Inr no_metrics) sample_surroundings = Ok g"
    using sample_main by blast
  have step: "guardian_step attesting_node sample_raft g (handle_next g)" by (rule guardian_step.Handle)
  from no_cluster_forms [OF g r_into_rtranclp [of "guardian_step attesting_node sample_raft", OF step]] g step
  show ?thesis by blast
qed

end
