(* ===== verification/Logging.thy ===== *)
theory Logging
  imports Trusted_Peers
begin

text \<open>
  Structured logging, \<open>common/src/logging.rs\<close>, with the clock of \<open>common/src/time.rs\<close> and the endpoint of
  \<open>guardian/src/api_server.rs\<close> that sets the log context. A log file is its contents, the options its
  handle was opened with and the text still in the write buffer; the iteration order of the context
  map is an argument. The answer of the rate limiter and the debug texts of event fields are
  arguments. The properties bound the context, say what a log line is, what retries and rotation do
  to the log file, and which entries the push layer sends.
\<close>

section \<open>Time\<close>

text \<open>The argument is the time since the Unix epoch in nanoseconds, nothing for a clock before it.\<close>

definition unix_timestamp_secs :: "nat option \<Rightarrow> 64 word" where
  "unix_timestamp_secs since = (case since of None \<Rightarrow> 0 | Some d \<Rightarrow> word_of_nat (d div 1000000000))"

definition unix_timestamp_micros :: "nat option \<Rightarrow> 64 word" where
  "unix_timestamp_micros since = (case since of None \<Rightarrow> 0 | Some d \<Rightarrow> word_of_nat (d div 1000))"

section \<open>Log context\<close>

definition MAX_CONTEXT_KEYS :: nat where
  "MAX_CONTEXT_KEYS = 10"

datatype LogContextError = RateLimitExceeded | MaxKeysExceeded

fun show_log_context_error :: "LogContextError \<Rightarrow> string" where
  "show_log_context_error RateLimitExceeded = ''rate limit exceeded (max 10 calls/second)''"
| "show_log_context_error MaxKeysExceeded =
     ''maximum context keys exceeded (max '' @ show_nat MAX_CONTEXT_KEYS @ '')''"

type_synonym log_context = "(string, string) hash_map"

definition set_log_context ::
  "bool \<Rightarrow> string \<Rightarrow> string option \<Rightarrow> log_context \<Rightarrow> (unit, LogContextError) outcome \<times> log_context" where
  "set_log_context allowed key value ctx =
     (if (case value of None \<Rightarrow> True | Some v \<Rightarrow> v = []) then (Ok (), map_remove key ctx)
      else if \<not> allowed then (Err RateLimitExceeded, ctx)
      else if ctx key = None \<and> map_len ctx \<ge> MAX_CONTEXT_KEYS then (Err MaxKeysExceeded, ctx)
      else (Ok (), (case value of
                      Some v \<Rightarrow> if v \<noteq> [] then ctx(key \<mapsto> v) else ctx
                    | None \<Rightarrow> ctx)))"

definition get_log_context :: "log_context \<Rightarrow> log_context" where
  "get_log_context ctx = ctx"

record SetLogContextRequest =
  sr_key :: string
  sr_value :: "string option"

record SetLogContextResponse =
  sr_status :: string
  sr_context :: log_context

text \<open>The error of the handler is the HTTP status.\<close>

definition set_log_context_handler ::
  "bool \<Rightarrow> SetLogContextRequest \<Rightarrow> log_context \<Rightarrow> (SetLogContextResponse, nat) outcome \<times> log_context" where
  "set_log_context_handler allowed req ctx =
     (let (r, ctx') = set_log_context allowed (sr_key req) (sr_value req) ctx
      in (and_then (map_err (\<lambda>_. 400) r) (\<lambda>_. Ok \<lparr> sr_status = ''ok'', sr_context = get_log_context ctx' \<rparr>), ctx'))"

section \<open>Log lines\<close>

definition quote_char :: char where "quote_char = CHR 0x22"
definition backslash :: char where "backslash = CHR 0x5C"
definition newline :: char where "newline = CHR 0x0A"

primrec escape_quotes :: "string \<Rightarrow> string" where
  "escape_quotes [] = []"
| "escape_quotes (c # cs) = (if c = quote_char then [backslash, quote_char] else [c]) @ escape_quotes cs"

definition quote_logfmt_value :: "string \<Rightarrow> string" where
  "quote_logfmt_value val =
     (if list_ex (\<lambda>c. c = CHR '' '' \<or> c = CHR ''='' \<or> c = quote_char) val
      then [quote_char] @ escape_quotes val @ [quote_char]
      else val)"

record FieldCollector =
  fc_message :: string
  fc_fields :: "(string \<times> string) list"

definition collector_new :: FieldCollector where
  "collector_new = \<lparr> fc_message = [], fc_fields = [] \<rparr>"

definition trim_matches :: "char \<Rightarrow> string \<Rightarrow> string" where
  "trim_matches c s = rev (dropWhile (\<lambda>d. d = c) (rev (dropWhile (\<lambda>d. d = c) s)))"

text \<open>A field is its name and the debug text of its value.\<close>

definition record_debug :: "string \<times> string \<Rightarrow> FieldCollector \<Rightarrow> FieldCollector" where
  "record_debug field v =
     (let name = fst field; val = trim_matches quote_char (snd field) in
      if prefix ''log.'' name then v
      else if name = ''message'' then v\<lparr> fc_message := val \<rparr>
      else v\<lparr> fc_fields := fc_fields v @ [(name, val)] \<rparr>)"

definition collect_fields :: "(string \<times> string) list \<Rightarrow> FieldCollector" where
  "collect_fields event = fold record_debug event collector_new"

definition pair_text :: "string \<times> string \<Rightarrow> string" where
  "pair_text kv = '' '' @ fst kv @ ''='' @ quote_logfmt_value (snd kv)"

definition log_line :: "string \<Rightarrow> string \<Rightarrow> (string \<times> string) list \<Rightarrow> (string \<times> string) list \<Rightarrow> string" where
  "log_line datetime level event context =
     (let visitor = collect_fields event in
      ''time='' @ datetime @ '' level='' @ level @
      (if fc_message visitor \<noteq> [] then '' message='' @ quote_logfmt_value (fc_message visitor) else []) @
      concat (map pair_text context) @ concat (map pair_text (fc_fields visitor)))"

text \<open>The entries of the context map in some order.\<close>

definition context_listing :: "log_context \<Rightarrow> (string \<times> string) list \<Rightarrow> bool" where
  "context_listing ctx xs \<longleftrightarrow> distinct (map fst xs) \<and> set xs = {(k, v). ctx k = Some v}"

section \<open>The log file\<close>

record open_options =
  oo_read :: bool
  oo_append :: bool
  oo_create :: bool

definition append_options :: open_options where
  "append_options = \<lparr> oo_read = False, oo_append = True, oo_create = True \<rparr>"

record FileLogLayer =
  fl_options :: open_options
  fl_pending :: string
  fl_contents :: string
  fl_file_path :: string
  fl_max_size_bytes :: "64 word"

text \<open>The calls that fail: the error text and, for a write, how many bytes were written before it.\<close>

datatype log_call =
  CreateParent | OpenLog | Metadata | TryClone | SeekLog | ReadRest | OpenTruncate | WriteRest | OpenAppend | WriteLog

type_synonym log_faults = "log_call \<Rightarrow> (string \<times> nat) option"

definition file_layer_new :: "log_faults \<Rightarrow> string \<Rightarrow> 64 word \<Rightarrow> string \<Rightarrow> (FileLogLayer, string) outcome" where
  "file_layer_new faults file_path max_size_mb contents =
     (case faults CreateParent of
        Some (e, _) \<Rightarrow> Err e
      | None \<Rightarrow> case faults OpenLog of
        Some (e, _) \<Rightarrow> Err e
      | None \<Rightarrow> Ok \<lparr> fl_options = append_options, fl_pending = [], fl_contents = contents, fl_file_path = file_path,
                    fl_max_size_bytes = max_size_mb * 1024 * 1024 \<rparr>)"

text \<open>Reading needs a handle that was opened for reading. Replacing the writer drops the old one,
  which writes out its buffer.\<close>

definition check_and_rotate :: "log_faults \<Rightarrow> FileLogLayer \<Rightarrow> (unit, string) outcome \<times> FileLogLayer" where
  "check_and_rotate faults l =
     (case faults Metadata of
        Some (e, _) \<Rightarrow> (Err e, l)
      | None \<Rightarrow>
     if length (fl_contents l) \<le> unat (fl_max_size_bytes l) then (Ok (), l)
     else let keep_size = unat (fl_max_size_bytes l) div 2; skip_size = length (fl_contents l) - keep_size
     in case faults TryClone of
        Some (e, _) \<Rightarrow> (Err e, l)
      | None \<Rightarrow> case faults SeekLog of
        Some (e, _) \<Rightarrow> (Err e, l)
      | None \<Rightarrow>
     if \<not> oo_read (fl_options l) then (Err ''Bad file descriptor (os error 9)'', l)
     else case faults ReadRest of
        Some (e, _) \<Rightarrow> (Err e, l)
      | None \<Rightarrow>
     let rest = drop skip_size (fl_contents l);
         kept = (if newline \<in> set rest then tl (dropWhile (\<lambda>c. c \<noteq> newline) rest) else rest)
     in case faults OpenTruncate of
        Some (e, _) \<Rightarrow> (Err e, l)
      | None \<Rightarrow> case faults WriteRest of
        Some (e, n) \<Rightarrow> (Err e, l\<lparr> fl_contents := take n kept \<rparr>)
      | None \<Rightarrow> case faults OpenAppend of
        Some (e, _) \<Rightarrow> (Err e, l\<lparr> fl_contents := kept \<rparr>)
      | None \<Rightarrow> (Ok (), l\<lparr> fl_contents := kept @ fl_pending l, fl_pending := [], fl_options := append_options \<rparr>))"

text \<open>The buffered writer: its capacity, writing out the buffer, and adding text to it.\<close>

definition BUF_CAPACITY :: nat where
  "BUF_CAPACITY = 8192"

definition flush_writer :: "(string \<times> nat) option \<Rightarrow> FileLogLayer \<Rightarrow> (unit, string) outcome \<times> FileLogLayer" where
  "flush_writer fault l =
     (if fl_pending l = [] then (Ok (), l)
      else case fault of
        Some (e, n) \<Rightarrow> (Err e, l\<lparr> fl_contents := fl_contents l @ take n (fl_pending l), fl_pending := drop n (fl_pending l) \<rparr>)
      | None \<Rightarrow> (Ok (), l\<lparr> fl_contents := fl_contents l @ fl_pending l, fl_pending := [] \<rparr>))"

definition write_buffered ::
  "(string \<times> nat) option \<Rightarrow> string \<Rightarrow> FileLogLayer \<Rightarrow> (unit, string) outcome \<times> FileLogLayer" where
  "write_buffered fault s l =
     (let (r, l1) = (if length (fl_pending l) + length s > BUF_CAPACITY then flush_writer fault l else (Ok (), l))
      in case r of
           Ok _ \<Rightarrow>
             (if length s \<ge> BUF_CAPACITY
              then (case fault of
                      Some (e, n) \<Rightarrow> (Err e, l1\<lparr> fl_contents := fl_contents l1 @ take n s \<rparr>)
                    | None \<Rightarrow> (Ok (), l1\<lparr> fl_contents := fl_contents l1 @ s \<rparr>))
              else (Ok (), l1\<lparr> fl_pending := fl_pending l1 @ s \<rparr>))
         | _ \<Rightarrow> (r, l1))"

definition write_line :: "(string \<times> nat) option \<Rightarrow> string \<Rightarrow> FileLogLayer \<Rightarrow> (unit, string) outcome \<times> FileLogLayer" where
  "write_line fault output l =
     (case write_buffered fault output l of
        (Ok _, l1) \<Rightarrow>
          (case write_buffered fault [newline] l1 of
             (Ok _, l2) \<Rightarrow> flush_writer fault l2
           | (r, l2) \<Rightarrow> (r, l2))
      | (r, l1) \<Rightarrow> (r, l1))"

definition MAX_RETRIES :: nat where
  "MAX_RETRIES = 3"

fun write_attempts :: "(nat \<Rightarrow> log_faults) \<Rightarrow> string \<Rightarrow> nat list \<Rightarrow> FileLogLayer \<Rightarrow> FileLogLayer" where
  "write_attempts faults output [] l = l"
| "write_attempts faults output (retry # rest) l =
     (let l1 = snd (check_and_rotate (faults retry) l);
          (r, l2) = write_line (faults retry WriteLog) output l1
      in if is_ok r then l2 else write_attempts faults output rest l2)"

definition write_log :: "(nat \<Rightarrow> log_faults) \<Rightarrow> string \<Rightarrow> FileLogLayer \<Rightarrow> FileLogLayer" where
  "write_log faults output l = write_attempts faults output [0..<MAX_RETRIES] l"

definition on_event_file ::
  "(nat \<Rightarrow> log_faults) \<Rightarrow> string \<Rightarrow> string \<Rightarrow> (string \<times> string) list \<Rightarrow> (string \<times> string) list \<Rightarrow> FileLogLayer \<Rightarrow>
   FileLogLayer" where
  "on_event_file faults datetime level event context l = write_log faults (log_line datetime level event context) l"

section \<open>The push layer\<close>

record LogEntry =
  le_timestamp :: "64 word"
  le_level :: string
  le_host_id :: string
  le_message :: string
  le_fields :: log_context

record OpenObserveLayer =
  ol_host_id :: ipv4
  ol_buffer :: "LogEntry list"
  ol_sent :: "LogEntry list list"

definition LOG_PUSH_BATCH_SIZE :: nat where
  "LOG_PUSH_BATCH_SIZE = 50"

text \<open>The address and the authorization header of the worker, and the layer; building the HTTP client
  may fail.\<close>

definition openobserve_new ::
  "'j crates \<Rightarrow> bool \<Rightarrow> string \<Rightarrow> string \<Rightarrow> string \<Rightarrow> string \<Rightarrow> string \<Rightarrow> ipv4 \<Rightarrow>
   (string \<times> string \<times> OpenObserveLayer, unit) outcome" where
  "openobserve_new x built endpoint org stream user password host_id =
     (let url = endpoint @ ''/api/'' @ org @ ''/'' @ stream @ ''/_json'';
          auth = base64_encode x (str_bytes (user @ '':'' @ password))
      in if \<not> built then Panic ''Failed to create HTTP client for OpenObserve logging''
         else Ok (url, ''Basic '' @ auth, \<lparr> ol_host_id = host_id, ol_buffer = [], ol_sent = [] \<rparr>))"

text \<open>The worker receives the batches while it runs.\<close>

definition flush_buffer :: "bool \<Rightarrow> OpenObserveLayer \<Rightarrow> OpenObserveLayer" where
  "flush_buffer running l =
     (if ol_buffer l = [] then l
      else l\<lparr> ol_buffer := [], ol_sent := (if running then ol_sent l @ [ol_buffer l] else ol_sent l) \<rparr>)"

definition event_entry ::
  "ipv4 \<Rightarrow> nat option \<Rightarrow> string \<Rightarrow> (string \<times> string) list \<Rightarrow> log_context \<Rightarrow> LogEntry" where
  "event_entry host_id since level event ctx =
     (let visitor = collect_fields event;
          fields = map_of (rev (fc_fields visitor)) ++ get_log_context ctx
      in \<lparr> le_timestamp = unix_timestamp_micros since, le_level = level, le_host_id = show_ipv4 host_id,
           le_message = fc_message visitor, le_fields = fields \<rparr>)"

definition push_entry :: "bool \<Rightarrow> LogEntry \<Rightarrow> OpenObserveLayer \<Rightarrow> OpenObserveLayer" where
  "push_entry running entry l =
     (let l1 = l\<lparr> ol_buffer := ol_buffer l @ [entry] \<rparr>
      in if length (ol_buffer l1) \<ge> LOG_PUSH_BATCH_SIZE then flush_buffer running l1 else l1)"

definition on_event_push ::
  "bool \<Rightarrow> nat option \<Rightarrow> string \<Rightarrow> (string \<times> string) list \<Rightarrow> log_context \<Rightarrow> OpenObserveLayer \<Rightarrow> OpenObserveLayer" where
  "on_event_push running since level event ctx l =
     push_entry running (event_entry (ol_host_id l) since level event ctx) l"

section \<open>Initialisation\<close>

datatype level = TRACE | DEBUG | INFO | WARN | ERROR

definition parse_log_level :: "string \<Rightarrow> level" where
  "parse_log_level s =
     (if s = ''trace'' then TRACE else if s = ''debug'' then DEBUG else if s = ''info'' then INFO
      else if s = ''warn'' then WARN else if s = ''error'' then ERROR else INFO)"

definition LOG_LEVEL :: string where "LOG_LEVEL = ''info''"
definition LOG_FILE_PATH :: string where "LOG_FILE_PATH = ''/var/log/guardian.log''"
definition MAX_LOG_FILE_SIZE_MB :: "64 word" where "MAX_LOG_FILE_SIZE_MB = 12"
definition OPENOBSERVE_ENDPOINT :: "string option" where "OPENOBSERVE_ENDPOINT = Some ''http://openobserve:5080''"
definition OPENOBSERVE_ORG :: string where "OPENOBSERVE_ORG = ''default''"
definition OPENOBSERVE_STREAM :: string where "OPENOBSERVE_STREAM = ''guardian_logs''"
definition OPENOBSERVE_USER :: string where "OPENOBSERVE_USER = ''root@example.com''"
definition OPENOBSERVE_PASSWORD :: string where "OPENOBSERVE_PASSWORD = ''Complexpass#123''"

record OpenObserveConfig =
  oc_endpoint :: string
  oc_org :: string
  oc_stream :: string
  oc_user :: string
  oc_password :: string

record LogConfig =
  lc_host_id :: ipv4
  lc_log_file_path :: string
  lc_max_log_file_size_mb :: "64 word"
  lc_openobserve :: "OpenObserveConfig option"

text \<open>What the start of the logging finds: failing calls of the log file and its contents, whether the HTTP
  client can be built, and what installing the global subscriber gives.\<close>

record log_surroundings =
  ls_faults :: log_faults
  ls_contents :: string
  ls_built :: bool
  ls_try_init :: "(unit, string) outcome"

text \<open>The level, the layers, and whether a guard of a local subscriber is returned.\<close>

record logging =
  lo_level :: level
  lo_file :: "FileLogLayer option"
  lo_push :: "(string \<times> string \<times> OpenObserveLayer) option"
  lo_guard :: bool

definition init_logging_internal ::
  "'j crates \<Rightarrow> log_surroundings \<Rightarrow> LogConfig \<Rightarrow> bool \<Rightarrow> (logging, string) outcome" where
  "init_logging_internal x env config use_global_subscriber =
     (let level = parse_log_level LOG_LEVEL;
          file = (case file_layer_new (ls_faults env) (lc_log_file_path config) (lc_max_log_file_size_mb config) (ls_contents env) of
                    Ok l \<Rightarrow> Some l | _ \<Rightarrow> None)
      in and_then (case lc_openobserve config of
                     None \<Rightarrow> Ok None
                   | Some oo \<Rightarrow> and_then (map_err (\<lambda>_. []) (openobserve_new x (ls_built env) (oc_endpoint oo) (oc_org oo)
                        (oc_stream oo) (oc_user oo) (oc_password oo) (lc_host_id config))) (\<lambda>l. Ok (Some l)))
           (\<lambda>push.
              let layers = \<lparr> lo_level = level, lo_file = file, lo_push = push, lo_guard = \<not> use_global_subscriber \<rparr> in
              if file = None \<and> push = None then Err ''No logging layers available''
              else if use_global_subscriber then and_then (ls_try_init env) (\<lambda>_. Ok layers)
              else Ok layers))"

definition init_logging :: "'j crates \<Rightarrow> log_surroundings \<Rightarrow> ipv4 \<Rightarrow> (logging, string) outcome" where
  "init_logging x env host_id =
     init_logging_internal x env
       \<lparr> lc_host_id = host_id, lc_log_file_path = LOG_FILE_PATH, lc_max_log_file_size_mb = MAX_LOG_FILE_SIZE_MB,
         lc_openobserve = map_option (\<lambda>endpoint. \<lparr> oc_endpoint = endpoint, oc_org = OPENOBSERVE_ORG,
           oc_stream = OPENOBSERVE_STREAM, oc_user = OPENOBSERVE_USER, oc_password = OPENOBSERVE_PASSWORD \<rparr>)
           OPENOBSERVE_ENDPOINT \<rparr> True"

section \<open>Reading values back\<close>

fun unescape :: "string \<Rightarrow> string" where
  "unescape (b # c # cs) = (if c = quote_char then quote_char # unescape cs else b # unescape (c # cs))"
| "unescape cs = cs"

definition unquote :: "string \<Rightarrow> string" where
  "unquote s = (if s \<noteq> [] \<and> hd s = quote_char then unescape (butlast (tl s)) else s)"

section \<open>Runs\<close>

inductive context_step :: "log_context \<Rightarrow> log_context \<Rightarrow> bool" where
  "set_log_context allowed key value ctx = (r, ctx') \<Longrightarrow> context_step ctx ctx'"

inductive log_step :: "FileLogLayer \<Rightarrow> FileLogLayer \<Rightarrow> bool" where
  "l' = write_log faults output l \<Longrightarrow> log_step l l'"

text \<open>The file may only have grown, through a handle that cannot read.\<close>

definition only_grown :: "FileLogLayer \<Rightarrow> FileLogLayer \<Rightarrow> bool" where
  "only_grown l0 l \<longleftrightarrow> \<not> oo_read (fl_options l) \<and> prefix (fl_contents l0) (fl_contents l) \<and>
     fl_max_size_bytes l = fl_max_size_bytes l0"

section \<open>Lemmas\<close>

interpretation context_size: stepping_system "\<lambda>ctx. ctx = Map.empty" context_step
  "\<lambda>ctx. finite (dom ctx) \<and> map_len ctx \<le> MAX_CONTEXT_KEYS"
proof
  fix s t assume inv: "finite (dom s) \<and> map_len s \<le> MAX_CONTEXT_KEYS" and "context_step s t"
  from this(2) show "finite (dom t) \<and> map_len t \<le> MAX_CONTEXT_KEYS"
  proof cases
    case (1 allowed key "value" r)
    then consider "t = s" | "t = map_remove key s"
      | v where "t = s(key \<mapsto> v)" "key \<in> dom s \<or> map_len s < MAX_CONTEXT_KEYS"
      by (auto simp: set_log_context_def split: if_splits option.splits)
    then show ?thesis
    proof cases
      case 3
      then show ?thesis using inv by (auto simp: map_len_insert)
    qed (use inv in \<open>auto simp: map_len_remove\<close>)
  qed
qed (simp add: map_len_def)

lemma escape_head: "escape_quotes v \<noteq> quote_char # r"
  by (cases v) (auto simp: backslash_def quote_char_def)

lemma unescape_escape: "unescape (escape_quotes v) = v"
proof (induction v)
  case (Cons a v)
  show ?case
  proof (cases "a = quote_char")
    case False
    then show ?thesis using Cons.IH escape_head [of v] by (cases "escape_quotes v") auto
  qed (simp add: Cons.IH)
qed simp

lemma unquote_quoted: "unquote ([quote_char] @ escape_quotes v @ [quote_char]) = v"
  by (simp add: unquote_def unescape_escape)

lemma plain_unquoted:
  assumes "\<not> list_ex (\<lambda>c. c = CHR '' '' \<or> c = CHR ''='' \<or> c = quote_char) v"
  shows "unquote v = v"
  using assms by (cases v) (auto simp: unquote_def)

lemma flush_grows: "flush_writer fault l = (r, l') \<Longrightarrow> only_grown l0 l \<Longrightarrow> only_grown l0 l'"
  by (auto simp: flush_writer_def only_grown_def prefix_def split: if_splits option.splits)

lemma buffered_grows:
  assumes "write_buffered fault s l = (r, l')" and "only_grown l0 l"
  shows "only_grown l0 l'"
proof -
  obtain r1 l1 where first:
    "(if length (fl_pending l) + length s > BUF_CAPACITY then flush_writer fault l else (Ok (), l)) = (r1, l1)" by fastforce
  then have "only_grown l0 l1" using assms(2) flush_grows [of fault l r1 l1 l0] by (auto split: if_splits)
  then show ?thesis
    using assms(1) unfolding write_buffered_def first
    by (cases r1) (auto simp: only_grown_def prefix_def split: if_splits option.splits)
qed

lemma line_grows:
  assumes "only_grown l0 l"
  shows "only_grown l0 (snd (write_line fault output l))"
proof -
  obtain r1 l1 where 1: "write_buffered fault output l = (r1, l1)" by fastforce
  obtain r2 l2 where 2: "write_buffered fault [newline] l1 = (r2, l2)" by fastforce
  have "only_grown l0 l1" "only_grown l0 l2" using buffered_grows 1 2 assms by blast+
  then show ?thesis
    using flush_grows [of fault l2] unfolding write_line_def 1
    by (cases r1; cases r2) (auto simp: 2 intro: prod.exhaust_sel)
qed

lemma rotate_unreadable:
  assumes "\<not> oo_read (fl_options l)"
  shows "snd (check_and_rotate faults l) = l"
    and "length (fl_contents l) > unat (fl_max_size_bytes l) \<Longrightarrow> \<exists>e. fst (check_and_rotate faults l) = Err e"
  using assms by (auto simp: check_and_rotate_def Let_def split: option.splits)

lemma attempts_grow: "only_grown l0 l \<Longrightarrow> only_grown l0 (write_attempts faults output retries l)"
proof (induction retries arbitrary: l)
  case (Cons retry rest)
  have same: "snd (check_and_rotate (faults retry) l) = l"
    using Cons.prems by (intro rotate_unreadable(1)) (simp add: only_grown_def)
  obtain r l2 where w: "write_line (faults retry WriteLog) output l = (r, l2)" by fastforce
  then have "only_grown l0 l2" using line_grows [OF Cons.prems] by (metis snd_conv)
  then show ?case using Cons.IH by (simp add: same w)
qed simp

interpretation log_file: stepping_system "\<lambda>l. l = l0 \<and> \<not> oo_read (fl_options l0)" log_step "only_grown l0"
  for l0 :: FileLogLayer
proof
  show "only_grown l0 t" if "only_grown l0 s" "log_step s t" for s t
    using that(2) by cases (simp add: write_log_def attempts_grow that(1))
qed (simp add: only_grown_def)

lemma write_line_small:
  assumes "fl_pending l = []" and "length output < BUF_CAPACITY - 1"
  shows "write_line None output l = (Ok (), l\<lparr> fl_contents := fl_contents l @ output @ [newline] \<rparr>)"
  using assms by (cases l) (simp add: write_line_def write_buffered_def flush_writer_def BUF_CAPACITY_def)

lemma push_batches:
  assumes "length (ol_buffer l) < LOG_PUSH_BATCH_SIZE" and "\<forall>b \<in> set (ol_sent l). length b = LOG_PUSH_BATCH_SIZE"
  shows "length (ol_buffer (push_entry True e l)) < LOG_PUSH_BATCH_SIZE"
    and "\<forall>b \<in> set (ol_sent (push_entry True e l)). length b = LOG_PUSH_BATCH_SIZE"
    and "concat (ol_sent (push_entry True e l)) @ ol_buffer (push_entry True e l) =
      concat (ol_sent l) @ ol_buffer l @ [e]"
  using assms by (auto simp: push_entry_def flush_buffer_def LOG_PUSH_BATCH_SIZE_def Let_def)

section \<open>Properties\<close>

text \<open>The log file is never rotated. Its handle is opened for appending only, so the read that
  rotation starts with fails; whatever is logged and whichever calls fail, the file only grows, and
  once it exceeds the configured size every rotation gives an error.\<close>

theorem log_file_never_shrinks:
  assumes "file_layer_new faults path mb contents = Ok l" and "log_step\<^sup>*\<^sup>* l l'"
  shows "prefix contents (fl_contents l') \<and>
     (length (fl_contents l') > unat (mb * 1024 * 1024) \<longrightarrow> (\<exists>e. fst (check_and_rotate faults' l') = Err e))"
proof -
  have l: "fl_contents l = contents" "\<not> oo_read (fl_options l)" "fl_max_size_bytes l = mb * 1024 * 1024"
    using assms(1) by (auto simp: file_layer_new_def append_options_def split: option.splits)
  have "only_grown l l'" using log_file.reachable_inv [of l l l'] assms(2) l(2) by simp
  then show ?thesis using rotate_unreadable(2) [of l' faults'] l by (simp add: only_grown_def)
qed

theorem log_file_never_shrinks_witness:
  "\<exists>l e. file_layer_new (\<lambda>_. None) ''guardian.log'' 0 ''x'' = Ok l \<and>
     fl_contents (write_log (\<lambda>_ _. None) ''y'' l) = ''xy'' @ [newline] \<and>
     fst (check_and_rotate (\<lambda>_. None) (write_log (\<lambda>_ _. None) ''y'' l)) = Err e"
proof -
  obtain l where l: "file_layer_new (\<lambda>_. None) ''guardian.log'' 0 ''x'' = Ok l" by (simp add: file_layer_new_def)
  let ?l' = "write_log (\<lambda>_ _. None) ''y'' l"
  have contents: "fl_contents ?l' = ''xy'' @ [newline]"
    using l by (auto simp: file_layer_new_def write_log_def MAX_RETRIES_def check_and_rotate_def append_options_def
        write_line_small BUF_CAPACITY_def upt_rec)
  have "log_step\<^sup>*\<^sup>* l ?l'" by (rule r_into_rtranclp) (rule log_step.intros, rule refl)
  from log_file_never_shrinks [OF l this, of "\<lambda>_. None"] contents l show ?thesis by auto
qed

text \<open>A quoted log value can be read back: dropping the quotes and the backslash before each quote
  gives the value, so different values have different texts.\<close>

theorem logfmt_value_recoverable: "unquote (quote_logfmt_value v) = v"
  using unquote_quoted [of v] plain_unquoted [of v] by (simp add: quote_logfmt_value_def)

text \<open>C39: The endpoint for the log context lets any client forge log lines. Keys are written as they are, so
  after one request with a key around a line of the client's choice, every event writes that line
  to the log file as a line of its own, whatever order the context is written in.\<close>

theorem log_line_forgery:
  assumes "map_len ctx < MAX_CONTEXT_KEYS"
    and "set_log_context_handler True
      \<lparr> sr_key = ''x'' @ [newline] @ forged @ [newline] @ ''y'', sr_value = Some ''1'' \<rparr> ctx = (r, ctx')"
    and "context_listing ctx' context"
  shows "is_ok r \<and> (\<exists>before after. log_line datetime level event context =
     before @ [newline] @ forged @ [newline] @ after)"
proof -
  let ?key = "''x'' @ [newline] @ forged @ [newline] @ ''y''"
  have set: "r = Ok \<lparr> sr_status = ''ok'', sr_context = ctx' \<rparr>" "ctx' = ctx(?key \<mapsto> ''1'')"
    using assms(1,2) by (auto simp: set_log_context_handler_def set_log_context_def get_log_context_def)
  then have "(?key, ''1'') \<in> set context" using assms(3) by (simp add: context_listing_def)
  then obtain xs ys where "context = xs @ (?key, ''1'') # ys" by (meson split_list)
  then have "\<exists>before after. concat (map pair_text context) = before @ [newline] @ forged @ [newline] @ after"
    by (intro exI [of _ "concat (map pair_text xs) @ '' x''"]
          exI [of _ "''y='' @ quote_logfmt_value ''1'' @ concat (map pair_text ys)"])
       (simp add: pair_text_def)
  then obtain before after where "concat (map pair_text context) = before @ [newline] @ forged @ [newline] @ after" by blast
  then have "\<exists>before after. log_line datetime level event context = before @ [newline] @ forged @ [newline] @ after"
    unfolding log_line_def Let_def by (metis append.assoc)
  then show ?thesis using set(1) by simp
qed

theorem log_line_forgery_witness:
  "\<exists>r ctx'. set_log_context_handler True
      \<lparr> sr_key = ''x'' @ [newline] @ ''level=ERROR'' @ [newline] @ ''y'', sr_value = Some ''1'' \<rparr> Map.empty = (r, ctx') \<and>
     (\<exists>before after. log_line ''now'' ''INFO'' [] [(''x'' @ [newline] @ ''level=ERROR'' @ [newline] @ ''y'', ''1'')] =
        before @ [newline] @ ''level=ERROR'' @ [newline] @ after)"
proof -
  let ?key = "''x'' @ [newline] @ ''level=ERROR'' @ [newline] @ ''y''"
  obtain r where run: "set_log_context_handler True \<lparr> sr_key = ?key, sr_value = Some ''1'' \<rparr> Map.empty =
      (r, [?key \<mapsto> ''1''])"
    by (simp add: set_log_context_handler_def set_log_context_def map_len_def MAX_CONTEXT_KEYS_def)
  have "map_len Map.empty < MAX_CONTEXT_KEYS" by (simp add: map_len_def MAX_CONTEXT_KEYS_def)
  moreover have "context_listing [?key \<mapsto> ''1''] [(?key, ''1'')]" by (auto simp: context_listing_def split: if_splits)
  ultimately show ?thesis using log_line_forgery [OF _ run] run by blast
qed

text \<open>C40: The log context is bounded: after any sequence of changes it has at most ten keys.\<close>

theorem log_context_bounded:
  assumes "context_step\<^sup>*\<^sup>* Map.empty ctx"
  shows "finite (dom ctx) \<and> map_len ctx \<le> 10"
  using context_size.reachable_inv [OF refl assms] by (simp add: MAX_CONTEXT_KEYS_def)

theorem log_context_bounded_witness:
  "snd (set_log_context True ''a'' (Some ''1'') Map.empty) = [''a'' \<mapsto> ''1''] \<and> map_len [''a'' \<mapsto> ''1''] \<le> 10"
proof -
  have run: "set_log_context True ''a'' (Some ''1'') Map.empty = (Ok (), [''a'' \<mapsto> ''1''])"
    by (simp add: set_log_context_def map_len_def MAX_CONTEXT_KEYS_def)
  have "context_step\<^sup>*\<^sup>* Map.empty [''a'' \<mapsto> ''1'']" by (rule r_into_rtranclp) (rule context_step.intros [OF run])
  from log_context_bounded [OF this] run show ?thesis by simp
qed

text \<open>The push layer sends the entries in order and in batches of exactly fifty while its worker runs;
  the entries after the last full batch, up to forty-nine, stay in the buffer.\<close>

theorem push_layer_batches:
  assumes "layer = fold (push_entry True) entries \<lparr> ol_host_id = host, ol_buffer = [], ol_sent = [] \<rparr>"
  shows "concat (ol_sent layer) @ ol_buffer layer = entries \<and> length (ol_buffer layer) < 50 \<and>
     (\<forall>batch \<in> set (ol_sent layer). length batch = 50)"
proof -
  have "length (ol_buffer l) < LOG_PUSH_BATCH_SIZE \<Longrightarrow> \<forall>b \<in> set (ol_sent l). length b = LOG_PUSH_BATCH_SIZE \<Longrightarrow>
      concat (ol_sent (fold (push_entry True) es l)) @ ol_buffer (fold (push_entry True) es l) =
        concat (ol_sent l) @ ol_buffer l @ es \<and>
      length (ol_buffer (fold (push_entry True) es l)) < LOG_PUSH_BATCH_SIZE \<and>
      (\<forall>b \<in> set (ol_sent (fold (push_entry True) es l)). length b = LOG_PUSH_BATCH_SIZE)" for es l
  proof (induction es arbitrary: l)
    case (Cons e es)
    from Cons.IH [OF push_batches(1,2) [OF Cons.prems]] push_batches(3) [OF Cons.prems] show ?case by simp
  qed simp
  from this [of "\<lparr> ol_host_id = host, ol_buffer = [], ol_sent = [] \<rparr>" entries] assms show ?thesis
    by (simp add: LOG_PUSH_BATCH_SIZE_def)
qed

theorem push_layer_batches_witness:
  "ol_buffer (fold (push_entry True) [event_entry (Ipv4Addr 10 0 0 1) None ''INFO'' [] Map.empty]
     \<lparr> ol_host_id = Ipv4Addr 10 0 0 1, ol_buffer = [], ol_sent = [] \<rparr>) =
     [event_entry (Ipv4Addr 10 0 0 1) None ''INFO'' [] Map.empty]"
proof -
  let ?e = "event_entry (Ipv4Addr 10 0 0 1) None ''INFO'' [] Map.empty"
  let ?l = "fold (push_entry True) [?e] \<lparr> ol_host_id = Ipv4Addr 10 0 0 1, ol_buffer = [], ol_sent = [] \<rparr>"
  have "ol_sent ?l = []" by (simp add: push_entry_def LOG_PUSH_BATCH_SIZE_def)
  with push_layer_batches [OF refl, of "[?e]" "Ipv4Addr 10 0 0 1"] show ?thesis by simp
qed

text \<open>A line whose flush fails is buffered and then written twice: the retry adds it again.\<close>

theorem retried_line_duplicated:
  assumes "fl_pending l = []" and "\<not> oo_read (fl_options l)" and "length output < 4000"
  shows "fl_contents (write_log (\<lambda>retry call. if retry = 0 \<and> call = WriteLog then Some (''I/O error'', 0) else None) output l) =
     fl_contents l @ output @ [newline] @ output @ [newline]"
  using assms rotate_unreadable(1) [OF assms(2)]
  by (simp add: write_log_def MAX_RETRIES_def upt_rec write_line_def write_buffered_def flush_writer_def BUF_CAPACITY_def
      rotate_unreadable(1) Let_def)

text \<open>Starting the logging with the configuration of the repository: it panics exactly when the HTTP client of
  the push layer cannot be built; otherwise it fails only with the subscriber, and the push layer is there even when
  the log file is not.\<close>

theorem init_logging_outcome:
  "init_logging x env host_id =
     (if \<not> ls_built env then Panic ''Failed to create HTTP client for OpenObserve logging''
      else and_then (ls_try_init env) (\<lambda>_. Ok
        \<lparr> lo_level = INFO,
          lo_file = (if ls_faults env CreateParent = None \<and> ls_faults env OpenLog = None
                     then Some \<lparr> fl_options = append_options, fl_pending = [], fl_contents = ls_contents env,
                            fl_file_path = LOG_FILE_PATH, fl_max_size_bytes = 12 * 1024 * 1024 \<rparr> else None),
          lo_push = Some (''http://openobserve:5080/api/default/guardian_logs/_json'',
            ''Basic '' @ base64_encode x (str_bytes ''root@example.com:Complexpass#123''),
            \<lparr> ol_host_id = host_id, ol_buffer = [], ol_sent = [] \<rparr>),
          lo_guard = False \<rparr>))"
  by (auto simp: init_logging_def init_logging_internal_def openobserve_new_def file_layer_new_def parse_log_level_def
      LOG_LEVEL_def LOG_FILE_PATH_def MAX_LOG_FILE_SIZE_MB_def OPENOBSERVE_ENDPOINT_def OPENOBSERVE_ORG_def
      OPENOBSERVE_STREAM_def OPENOBSERVE_USER_def OPENOBSERVE_PASSWORD_def Let_def simp del: and_then_Ok split: option.split)

end
