(* ===== verification/Metrics.thy ===== *)
theory Metrics
  imports Externals
begin

text \<open>
  The metrics of the service: \<open>common/src/metrics.rs\<close>, \<open>bootstrap/src/metrics.rs\<close> and
  \<open>consensus/src/metrics.rs\<close>. A metric is the descriptor its constructor gets; the registry of the
  Prometheus library is a parameter. Each group is registered once, behind a \<open>std::sync::Once\<close> that
  a panicking initialiser poisons. The properties say which metrics are registered after any sequence of
  initialisations, and what one refused registration does to all later ones.
\<close>

section \<open>Descriptors\<close>

text \<open>The bounds of histogram buckets are in tenths of a millisecond.\<close>

datatype metric_kind =
    IntCounter | IntGauge | IntCounterVec "string list" | IntGaugeVec "string list"
  | HistogramVec "nat list" "string list"

record metric =
  mt_name :: string
  mt_help :: string
  mt_kind :: metric_kind

definition metric_new :: "string \<Rightarrow> string \<Rightarrow> metric_kind \<Rightarrow> metric" where
  "metric_new name help kind = \<lparr> mt_name = name, mt_help = help, mt_kind = kind \<rparr>"

subsection \<open>System health\<close>

definition NODE_UPTIME_SECONDS :: metric where
  "NODE_UPTIME_SECONDS = metric_new ''node_uptime_seconds'' ''Number of seconds since node started'' IntGauge"

definition LAST_HEALTH_CHECK :: metric where
  "LAST_HEALTH_CHECK = metric_new ''last_health_check_timestamp''
     ''Unix timestamp of last successful health check'' IntGauge"

subsection \<open>Gossip\<close>

definition GOSSIP_PEERS_CACHED :: metric where
  "GOSSIP_PEERS_CACHED = metric_new ''gossip_peers_cached''
     ''Number of peers discovered via gossip protocol'' IntGauge"

definition GOSSIP_ADVERTISEMENTS_RECEIVED :: metric where
  "GOSSIP_ADVERTISEMENTS_RECEIVED = metric_new ''gossip_advertisements_received_total''
     ''Total peer advertisements received via gossip'' IntCounter"

definition GOSSIP_ADVERTISEMENTS_REJECTED :: metric where
  "GOSSIP_ADVERTISEMENTS_REJECTED = metric_new ''gossip_advertisements_rejected_total''
     ''Total peer advertisements rejected'' (IntCounterVec [''reason''])"

definition GOSSIP_ADVERTISEMENTS_SENT :: metric where
  "GOSSIP_ADVERTISEMENTS_SENT = metric_new ''gossip_advertisements_sent_total''
     ''Total peer advertisements sent to other nodes'' IntCounter"

definition GOSSIP_PEER_LIST_REQUESTS :: metric where
  "GOSSIP_PEER_LIST_REQUESTS = metric_new ''gossip_peer_list_requests_total''
     ''Total peer list requests received'' IntCounter"

subsection \<open>RAFT\<close>

definition RAFT_LEADER_ELECTIONS :: metric where
  "RAFT_LEADER_ELECTIONS = metric_new ''raft_leader_elections_total'' ''Total number of leader elections'' IntCounter"

definition RAFT_TERM :: metric where
  "RAFT_TERM = metric_new ''raft_term'' ''Current RAFT term number'' IntGauge"

definition RAFT_CLUSTER_SIZE :: metric where
  "RAFT_CLUSTER_SIZE = metric_new ''raft_cluster_size'' ''Number of voting nodes in the cluster'' IntGauge"

definition RAFT_IS_LEADER :: metric where
  "RAFT_IS_LEADER = metric_new ''raft_is_leader''
     ''Whether this node is currently the leader (1) or not (0)'' IntGauge"

definition RAFT_LOG_REPLICATION_LAG :: metric where
  "RAFT_LOG_REPLICATION_LAG = metric_new ''raft_log_replication_lag_entries''
     ''Number of log entries this node is behind the leader'' (IntGaugeVec [''node_id''])"

definition RAFT_HEARTBEAT_LATENCY :: metric where
  "RAFT_HEARTBEAT_LATENCY = metric_new ''raft_heartbeat_latency_ms''
     ''Heartbeat round-trip latency to other nodes in milliseconds''
     (HistogramVec [10, 50, 100, 250, 500, 1000, 2500, 5000, 10000] [''target_node''])"

definition JOIN_REQUESTS_TOTAL :: metric where
  "JOIN_REQUESTS_TOTAL = metric_new ''consensus_join_requests_total''
     ''Total number of cluster join requests received'' (IntCounterVec [''result''])"

definition MEASUREMENT_REGISTRY_QUERIES :: metric where
  "MEASUREMENT_REGISTRY_QUERIES = metric_new ''measurement_registry_queries_total''
     ''Total queries to measurement registry'' (IntCounterVec [''result''])"

definition PENDING_JOIN_REQUESTS :: metric where
  "PENDING_JOIN_REQUESTS = metric_new ''pending_join_requests''
     ''Number of join requests currently pending nonce verification'' IntGauge"

definition STORAGE_OPERATION_DURATION :: metric where
  "STORAGE_OPERATION_DURATION = metric_new ''storage_operation_duration_ms''
     ''Duration of storage operations in milliseconds''
     (HistogramVec [1, 5, 10, 50, 100, 500, 1000] [''operation''])"

definition STORAGE_OPERATIONS_TOTAL :: metric where
  "STORAGE_OPERATIONS_TOTAL = metric_new ''storage_operations_total''
     ''Total number of storage operations'' (IntCounterVec [''operation'', ''result''])"

definition NETWORK_OPERATIONS_TOTAL :: metric where
  "NETWORK_OPERATIONS_TOTAL = metric_new ''network_operations_total''
     ''Total number of network operations'' (IntCounterVec [''operation'', ''result''])"

definition NETWORK_ACTIVE_CONNECTIONS :: metric where
  "NETWORK_ACTIVE_CONNECTIONS = metric_new ''network_active_connections''
     ''Number of active network connections'' (IntGaugeVec [''type''])"

section \<open>Registration\<close>

text \<open>The metrics library: the constructors refuse a descriptor with an error, and so does the registry.
  A registry is gathered and encoded to bytes in one step.\<close>

record 'g prometheus =
  pm_construct :: "metric \<Rightarrow> string + unit"
  pm_register :: "metric \<Rightarrow> 'g \<Rightarrow> (string + unit) \<times> 'g"
  pm_encode :: "'g \<Rightarrow> string + bytes"

datatype once = Incomplete | Complete | Poisoned

record 'g metrics_state =
  ms_registry :: 'g
  ms_base_init :: once
  ms_gossip_init :: once
  ms_raft_init :: once

definition metrics_fresh :: "'g \<Rightarrow> 'g metrics_state" where
  "metrics_fresh g = \<lparr> ms_registry = g, ms_base_init = Incomplete, ms_gossip_init = Incomplete, ms_raft_init = Incomplete \<rparr>"

text \<open>The first use of a metric constructs it and unwraps the result; registering it unwraps too.\<close>

fun register_all :: "'g prometheus \<Rightarrow> metric list \<Rightarrow> 'g \<Rightarrow> (unit, unit) outcome \<times> 'g" where
  "register_all lib [] g = (Ok (), g)"
| "register_all lib (m # ms) g =
     (case pm_construct lib m of
        Inl e \<Rightarrow> (Panic (''called `Result::unwrap()` on an `Err` value: '' @ e), g)
      | Inr _ \<Rightarrow>
          (case pm_register lib m g of
             (Inl e, g') \<Rightarrow> (Panic (''Failed to register '' @ mt_name m @ '' metric: '' @ e), g')
           | (Inr _, g') \<Rightarrow> register_all lib ms g'))"

definition call_once ::
  "('g \<Rightarrow> (unit, unit) outcome \<times> 'g) \<Rightarrow> once \<Rightarrow> 'g \<Rightarrow> (unit, unit) outcome \<times> once \<times> 'g" where
  "call_once f cell g =
     (case cell of
        Complete \<Rightarrow> (Ok (), Complete, g)
      | Poisoned \<Rightarrow> (Panic ''Once instance has previously been poisoned'', Poisoned, g)
      | Incomplete \<Rightarrow>
          (case f g of
             (Ok _, g') \<Rightarrow> (Ok (), Complete, g')
           | (r, g') \<Rightarrow> (r, Poisoned, g')))"

definition base_metrics :: "metric list" where
  "base_metrics = [NODE_UPTIME_SECONDS, LAST_HEALTH_CHECK]"

definition gossip_metrics :: "metric list" where
  "gossip_metrics = [GOSSIP_PEERS_CACHED, GOSSIP_ADVERTISEMENTS_RECEIVED, GOSSIP_ADVERTISEMENTS_REJECTED,
     GOSSIP_ADVERTISEMENTS_SENT, GOSSIP_PEER_LIST_REQUESTS]"

definition raft_metrics_list :: "metric list" where
  "raft_metrics_list = [RAFT_LEADER_ELECTIONS, RAFT_TERM, RAFT_CLUSTER_SIZE, RAFT_IS_LEADER, RAFT_LOG_REPLICATION_LAG,
     RAFT_HEARTBEAT_LATENCY, JOIN_REQUESTS_TOTAL, MEASUREMENT_REGISTRY_QUERIES, PENDING_JOIN_REQUESTS,
     STORAGE_OPERATION_DURATION, STORAGE_OPERATIONS_TOTAL, NETWORK_OPERATIONS_TOTAL, NETWORK_ACTIVE_CONNECTIONS]"

definition init_metrics :: "'g prometheus \<Rightarrow> 'g metrics_state \<Rightarrow> (unit, unit) outcome \<times> 'g metrics_state" where
  "init_metrics lib s =
     (let (r, cell, g) = call_once (register_all lib base_metrics) (ms_base_init s) (ms_registry s)
      in (r, s\<lparr> ms_base_init := cell, ms_registry := g \<rparr>))"

definition init_gossip_metrics :: "'g prometheus \<Rightarrow> 'g metrics_state \<Rightarrow> (unit, unit) outcome \<times> 'g metrics_state" where
  "init_gossip_metrics lib s =
     (let (r, cell, g) = call_once (register_all lib gossip_metrics) (ms_gossip_init s) (ms_registry s)
      in (r, s\<lparr> ms_gossip_init := cell, ms_registry := g \<rparr>))"

definition init_raft_metrics :: "'g prometheus \<Rightarrow> 'g metrics_state \<Rightarrow> (unit, unit) outcome \<times> 'g metrics_state" where
  "init_raft_metrics lib s =
     (let (r, cell, g) = call_once (register_all lib raft_metrics_list) (ms_raft_init s) (ms_registry s)
      in (r, s\<lparr> ms_raft_init := cell, ms_registry := g \<rparr>))"

text \<open>Encoding and decoding are unwrapped; the decoder of the standard library is an argument.\<close>

definition gather_metrics :: "'g prometheus \<Rightarrow> (bytes \<Rightarrow> string option) \<Rightarrow> 'g metrics_state \<Rightarrow> (string, unit) outcome" where
  "gather_metrics lib utf8 s =
     (case pm_encode lib (ms_registry s) of
        Inl e \<Rightarrow> Panic e
      | Inr buffer \<Rightarrow> (case utf8 buffer of None \<Rightarrow> Panic ''invalid utf-8 sequence'' | Some text \<Rightarrow> Ok text))"

text \<open>The beginning of \<open>start_guardian_api_server\<close>: errors are ignored, a panic is not.\<close>

definition start_metrics :: "'g prometheus \<Rightarrow> 'g metrics_state \<Rightarrow> (unit, unit) outcome \<times> 'g metrics_state" where
  "start_metrics lib s =
     (case init_metrics lib s of
        (Panic m, s') \<Rightarrow> (Panic m, s')
      | (_, s') \<Rightarrow> init_raft_metrics lib s')"

section \<open>Documented behaviour of the library\<close>

text \<open>Names of metrics and labels are identifiers, label names are distinct and bucket bounds increase. The
  constructors accept exactly such descriptors.\<close>

definition ident_start :: "char \<Rightarrow> bool" where
  "ident_start c = (let n = (of_char c :: nat) in 65 \<le> n \<and> n \<le> 90 \<or> 97 \<le> n \<and> n \<le> 122 \<or> n = 95)"

definition ident_name :: "string \<Rightarrow> bool" where
  "ident_name s \<longleftrightarrow> s \<noteq> [] \<and> ident_start (hd s) \<and>
     list_all (\<lambda>c. ident_start c \<or> 48 \<le> (of_char c :: nat) \<and> (of_char c :: nat) \<le> 57) s"

fun kind_wf :: "metric_kind \<Rightarrow> bool" where
  "kind_wf IntCounter = True"
| "kind_wf IntGauge = True"
| "kind_wf (IntCounterVec labels) = (list_all ident_name labels \<and> distinct labels)"
| "kind_wf (IntGaugeVec labels) = (list_all ident_name labels \<and> distinct labels)"
| "kind_wf (HistogramVec buckets labels) =
     (list_all ident_name labels \<and> distinct labels \<and> ''le'' \<notin> set labels \<and> buckets \<noteq> [] \<and> sorted_wrt (<) buckets)"

definition metric_wf :: "metric \<Rightarrow> bool" where
  "metric_wf m \<longleftrightarrow> ident_name (mt_name m) \<and> mt_help m \<noteq> [] \<and> kind_wf (mt_kind m)"

text \<open>A registry accepts a metric with a new name, and refuses a name it already has without changing.\<close>

definition prometheus_faithful :: "'g prometheus \<Rightarrow> ('g \<Rightarrow> string list) \<Rightarrow> bool" where
  "prometheus_faithful lib names \<longleftrightarrow>
     (\<forall>m. metric_wf m \<longrightarrow> pm_construct lib m = Inr ()) \<and>
     (\<forall>m g. if mt_name m \<in> set (names g)
            then (\<exists>e. pm_register lib m g = (Inl e, g))
            else (\<exists>g'. pm_register lib m g = (Inr (), g') \<and> names g' = names g @ [mt_name m]))"

section \<open>Initialisation sequences\<close>

datatype init_call = InitBase | InitGossip | InitRaft

fun run_init :: "'g prometheus \<Rightarrow> init_call \<Rightarrow> 'g metrics_state \<Rightarrow> (unit, unit) outcome \<times> 'g metrics_state" where
  "run_init lib InitBase s = init_metrics lib s"
| "run_init lib InitGossip s = init_gossip_metrics lib s"
| "run_init lib InitRaft s = init_raft_metrics lib s"

fun run_inits :: "'g prometheus \<Rightarrow> init_call list \<Rightarrow> 'g metrics_state \<Rightarrow> (unit, unit) outcome list \<times> 'g metrics_state" where
  "run_inits lib [] s = ([], s)"
| "run_inits lib (c # cs) s =
     (let (r, s1) = run_init lib c s; (rs, s2) = run_inits lib cs s1 in (r # rs, s2))"

fun group_of :: "init_call \<Rightarrow> metric list" where
  "group_of InitBase = base_metrics"
| "group_of InitGossip = gossip_metrics"
| "group_of InitRaft = raft_metrics_list"

fun cell_of :: "init_call \<Rightarrow> 'g metrics_state \<Rightarrow> once" where
  "cell_of InitBase s = ms_base_init s"
| "cell_of InitGossip s = ms_gossip_init s"
| "cell_of InitRaft s = ms_raft_init s"

text \<open>What holds between initialisations: nothing is poisoned, and the registered names are the ones of the
  completed groups, each once.\<close>

definition metrics_inv :: "('g \<Rightarrow> string list) \<Rightarrow> 'g metrics_state \<Rightarrow> bool" where
  "metrics_inv names s \<longleftrightarrow> (\<forall>c. cell_of c s \<noteq> Poisoned) \<and> distinct (names (ms_registry s)) \<and>
     set (names (ms_registry s)) = (\<Union>c \<in> {c. cell_of c s = Complete}. mt_name ` set (group_of c))"

text \<open>A registry that is the list of its names.\<close>

definition name_registry :: "string list prometheus" where
  "name_registry = \<lparr> pm_construct = (\<lambda>m. if metric_wf m then Inr () else Inl ''invalid descriptor''),
     pm_register = (\<lambda>m g. if mt_name m \<in> set g then (Inl ''Duplicate metrics collector registration attempted'', g)
                          else (Inr (), g @ [mt_name m])),
     pm_encode = (\<lambda>g. Inr (str_bytes (concat g))) \<rparr>"

section \<open>Lemmas\<close>

lemmas metric_defs = NODE_UPTIME_SECONDS_def LAST_HEALTH_CHECK_def GOSSIP_PEERS_CACHED_def
  GOSSIP_ADVERTISEMENTS_RECEIVED_def GOSSIP_ADVERTISEMENTS_REJECTED_def GOSSIP_ADVERTISEMENTS_SENT_def
  GOSSIP_PEER_LIST_REQUESTS_def RAFT_LEADER_ELECTIONS_def RAFT_TERM_def RAFT_CLUSTER_SIZE_def RAFT_IS_LEADER_def
  RAFT_LOG_REPLICATION_LAG_def RAFT_HEARTBEAT_LATENCY_def JOIN_REQUESTS_TOTAL_def MEASUREMENT_REGISTRY_QUERIES_def
  PENDING_JOIN_REQUESTS_def STORAGE_OPERATION_DURATION_def STORAGE_OPERATIONS_TOTAL_def NETWORK_OPERATIONS_TOTAL_def
  NETWORK_ACTIVE_CONNECTIONS_def metric_new_def

lemma name_registry_faithful: "prometheus_faithful name_registry (\<lambda>g. g)"
  by (simp add: prometheus_faithful_def name_registry_def)

lemma groups_wf: "list_all metric_wf (base_metrics @ gossip_metrics @ raft_metrics_list)"
  by (simp add: base_metrics_def gossip_metrics_def raft_metrics_list_def metric_defs metric_wf_def ident_name_def
      ident_start_def Let_def)

lemma groups_distinct: "distinct (map mt_name (base_metrics @ gossip_metrics @ raft_metrics_list))"
  by (simp add: base_metrics_def gossip_metrics_def raft_metrics_list_def metric_defs)

lemma group_wf: "m \<in> set (group_of c) \<Longrightarrow> metric_wf m"
  using groups_wf by (cases c) (auto simp: list_all_iff)

lemma group_distinct: "distinct (map mt_name (group_of c))"
  using groups_distinct by (cases c) (auto simp only: group_of.simps map_append distinct_append)

lemma groups_disjoint: "c \<noteq> d \<Longrightarrow> mt_name ` set (group_of c) \<inter> mt_name ` set (group_of d) = {}"
  using groups_distinct by (cases c; cases d) (auto simp only: group_of.simps map_append distinct_append set_map set_append)

lemma register_all_fresh:
  assumes "prometheus_faithful lib names" and "\<And>m. m \<in> set ms \<Longrightarrow> metric_wf m"
    and "distinct (map mt_name ms)" and "set (names g) \<inter> mt_name ` set ms = {}"
  shows "\<exists>g'. register_all lib ms g = (Ok (), g') \<and> names g' = names g @ map mt_name ms"
  using assms(2-4)
proof (induction ms arbitrary: g)
  case (Cons m ms)
  then have "pm_construct lib m = Inr ()" "mt_name m \<notin> set (names g)"
    using assms(1) by (auto simp: prometheus_faithful_def)
  moreover from this obtain g1 where g1: "pm_register lib m g = (Inr (), g1)" "names g1 = names g @ [mt_name m]"
    using assms(1) unfolding prometheus_faithful_def by metis
  moreover have "\<exists>g'. register_all lib ms g1 = (Ok (), g') \<and> names g' = names g1 @ map mt_name ms"
    by (rule Cons.IH) (use Cons.prems g1(2) in auto)
  ultimately show ?case by auto
qed simp

lemma run_init_unfold:
  "run_init lib c s =
     (let (r, cell, g) = call_once (register_all lib (group_of c)) (cell_of c s) (ms_registry s)
      in (r, case c of InitBase \<Rightarrow> s\<lparr> ms_base_init := cell, ms_registry := g \<rparr>
             | InitGossip \<Rightarrow> s\<lparr> ms_gossip_init := cell, ms_registry := g \<rparr>
             | InitRaft \<Rightarrow> s\<lparr> ms_raft_init := cell, ms_registry := g \<rparr>))"
  by (cases c) (simp_all add: init_metrics_def init_gossip_metrics_def init_raft_metrics_def)

lemma run_init_inv:
  assumes "prometheus_faithful lib names" and "metrics_inv names s"
  shows "\<exists>s'. run_init lib c s = (Ok (), s') \<and> metrics_inv names s' \<and> cell_of c s' = Complete \<and>
     (\<forall>d. d \<noteq> c \<longrightarrow> cell_of d s' = cell_of d s)"
proof (cases "cell_of c s")
  case Complete
  then have "run_init lib c s = (Ok (), s)"
    by (cases c) (simp_all add: run_init_unfold call_once_def del: run_init.simps)
  with Complete assms(2) show ?thesis by blast
next
  case Poisoned
  with assms(2) show ?thesis by (auto simp: metrics_inv_def)
next
  case Incomplete
  have fresh: "set (names (ms_registry s)) \<inter> mt_name ` set (group_of c) = {}"
  proof -
    have "mt_name ` set (group_of d) \<inter> mt_name ` set (group_of c) = {}" if "cell_of d s = Complete" for d
      using that Incomplete by (intro groups_disjoint) auto
    then show ?thesis using assms(2) unfolding metrics_inv_def by auto
  qed
  obtain g where g: "register_all lib (group_of c) (ms_registry s) = (Ok (), g)"
    "names g = names (ms_registry s) @ map mt_name (group_of c)"
    using register_all_fresh [OF assms(1) _ group_distinct fresh] group_wf by blast
  obtain s' where s': "run_init lib c s = (Ok (), s')" "ms_registry s' = g" "cell_of c s' = Complete"
    "\<And>d. d \<noteq> c \<Longrightarrow> cell_of d s' = cell_of d s"
  proof
    show "run_init lib c s = (Ok (), snd (run_init lib c s))"
      using g(1) Incomplete by (simp add: run_init_unfold call_once_def del: run_init.simps)
    show "ms_registry (snd (run_init lib c s)) = g" "cell_of c (snd (run_init lib c s)) = Complete"
      using g(1) Incomplete by (cases c; simp add: run_init_unfold call_once_def del: run_init.simps)+
    show "cell_of d (snd (run_init lib c s)) = cell_of d s" if "d \<noteq> c" for d
      using g(1) Incomplete that by (cases c; cases d; simp add: run_init_unfold call_once_def del: run_init.simps)
  qed
  have "cell_of d s' = Complete \<longleftrightarrow> d = c \<or> cell_of d s = Complete" for d
    using s'(3,4) by (cases "d = c") simp_all
  then have "{d. cell_of d s' = Complete} = insert c {d. cell_of d s = Complete}" by blast
  moreover have "cell_of d s' \<noteq> Poisoned" for d
    using s'(3,4) assms(2) by (cases "d = c") (auto simp: metrics_inv_def)
  ultimately have "metrics_inv names s'"
    using assms(2) g(2) s'(2) fresh group_distinct [of c] unfolding metrics_inv_def
    by (simp only: set_append set_map UN_insert distinct_append list.set_map) (simp add: Un_commute)
  with s' show ?thesis by blast
qed

lemma metrics_inv_fresh: "names g = [] \<Longrightarrow> metrics_inv names (metrics_fresh g)"
proof -
  have "cell_of c (metrics_fresh g) = Incomplete" for c by (cases c) (simp_all add: metrics_fresh_def)
  then show "names g = [] \<Longrightarrow> metrics_inv names (metrics_fresh g)"
    by (simp add: metrics_inv_def) (simp add: metrics_fresh_def)
qed

lemma run_inits_inv:
  assumes "prometheus_faithful lib names" and "metrics_inv names s"
  shows "\<exists>s'. run_inits lib cs s = (replicate (length cs) (Ok ()), s') \<and> metrics_inv names s' \<and>
     (\<forall>c. cell_of c s' = Complete \<longleftrightarrow> c \<in> set cs \<or> cell_of c s = Complete)"
  using assms(2)
proof (induction cs arbitrary: s)
  case (Cons c cs)
  obtain s1 where s1: "run_init lib c s = (Ok (), s1)" "metrics_inv names s1" "cell_of c s1 = Complete"
    "\<forall>d. d \<noteq> c \<longrightarrow> cell_of d s1 = cell_of d s"
    using run_init_inv [OF assms(1) Cons.prems] by blast
  from Cons.IH [OF s1(2)] obtain s2 where s2: "run_inits lib cs s1 = (replicate (length cs) (Ok ()), s2)"
    "metrics_inv names s2" "\<forall>d. cell_of d s2 = Complete \<longleftrightarrow> d \<in> set cs \<or> cell_of d s1 = Complete" by blast
  have "\<forall>d. cell_of d s2 = Complete \<longleftrightarrow> d \<in> set (c # cs) \<or> cell_of d s = Complete"
    using s2(3) s1(3,4) by (metis list.set_intros set_ConsD)
  with s1 s2 show ?case by auto
qed simp

lemma register_all_taken:
  assumes "prometheus_faithful lib names" and "\<And>m. m \<in> set ms \<Longrightarrow> metric_wf m"
    and "m \<in> set ms" and "mt_name m \<in> set (names g)"
  shows "\<exists>msg g'. register_all lib ms g = (Panic msg, g')"
  using assms(2-4)
proof (induction ms arbitrary: g)
  case (Cons k ks)
  have constructed: "pm_construct lib k = Inr ()"
    using assms(1) Cons.prems(1) by (simp add: prometheus_faithful_def)
  show ?case
  proof (cases "mt_name k \<in> set (names g)")
    case True
    then obtain e where "pm_register lib k g = (Inl e, g)"
      using assms(1) unfolding prometheus_faithful_def by metis
    with constructed show ?thesis by simp
  next
    case False
    then obtain g1 where g1: "pm_register lib k g = (Inr (), g1)" "names g1 = names g @ [mt_name k]"
      using assms(1) unfolding prometheus_faithful_def by metis
    have "\<exists>msg g'. register_all lib ks g1 = (Panic msg, g')"
      by (rule Cons.IH) (use Cons.prems False g1(2) in auto)
    with constructed g1(1) show ?thesis by auto
  qed
qed simp

lemma run_init_keeps_poison:
  assumes "cell_of c s = Poisoned"
  shows "cell_of c (snd (run_init lib d s)) = Poisoned"
  using assms
  by (cases c; cases d) (simp_all add: run_init_unfold call_once_def split_beta split: once.split del: run_init.simps)

lemma run_init_poisoned:
  assumes "cell_of c s = Poisoned"
  shows "\<exists>msg. fst (run_init lib c s) = Panic msg"
  using assms by (simp add: run_init_unfold call_once_def del: run_init.simps)

lemma run_inits_poisoned:
  assumes "cell_of c s = Poisoned" and "i < length cs" and "cs ! i = c"
  shows "\<exists>msg. fst (run_inits lib cs s) ! i = Panic msg"
  using assms
proof (induction cs arbitrary: s i)
  case (Cons d ds)
  show ?case
  proof (cases i)
    case 0
    with Cons.prems run_init_poisoned [of c s lib] show ?thesis by (simp add: split_beta Let_def)
  next
    case (Suc j)
    with Cons.IH [OF run_init_keeps_poison [OF Cons.prems(1), of lib d], of j] Cons.prems show ?thesis
      by (simp add: split_beta Let_def)
  qed
qed simp

section \<open>Properties\<close>

text \<open>Initialisation of the metrics is idempotent and never panics. After any sequence of calls of the
  three initialisers on an empty registry, all calls have succeeded, and the registry has exactly the
  metrics of the groups that were initialised, each once.\<close>

theorem metrics_registered:
  assumes "prometheus_faithful lib names" and "names g = []" and "run_inits lib cs (metrics_fresh g) = (rs, s)"
  shows "rs = replicate (length cs) (Ok ()) \<and> distinct (names (ms_registry s)) \<and>
     set (names (ms_registry s)) = (\<Union>c \<in> set cs. mt_name ` set (group_of c))"
proof -
  have fresh: "cell_of c (metrics_fresh g) \<noteq> Complete" for c by (cases c) (simp_all add: metrics_fresh_def)
  obtain s' where s': "run_inits lib cs (metrics_fresh g) = (replicate (length cs) (Ok ()), s')" "metrics_inv names s'"
    "\<forall>c. cell_of c s' = Complete \<longleftrightarrow> c \<in> set cs"
    using run_inits_inv [OF assms(1) metrics_inv_fresh [of names g, OF assms(2)], of cs] fresh by auto
  with assms(3) show ?thesis by (auto simp: metrics_inv_def)
qed

theorem metrics_registered_witness:
  "\<exists>rs s. run_inits name_registry [InitRaft, InitBase, InitRaft] (metrics_fresh []) = (rs, s) \<and>
     rs = [Ok (), Ok (), Ok ()] \<and> distinct (ms_registry s)"
proof -
  obtain rs s where run: "run_inits name_registry [InitRaft, InitBase, InitRaft] (metrics_fresh []) = (rs, s)" by fastforce
  from metrics_registered [OF name_registry_faithful _ this] run show ?thesis by (auto simp: numeral_3_eq_3)
qed

text \<open>One refused registration disables a group for good. When a metric of the group has a name that is
  already taken, its initialiser panics, and so does every later call of it, whatever else is
  initialised in between.\<close>

theorem metrics_poisoned:
  assumes "prometheus_faithful lib names" and "cell_of c s = Incomplete" and "m \<in> set (group_of c)"
    and "mt_name m \<in> set (names (ms_registry s))" and "run_init lib c s = (r, s')"
  shows "(\<exists>msg. r = Panic msg) \<and>
     (\<forall>i < length cs. cs ! i = c \<longrightarrow> (\<exists>msg. fst (run_inits lib cs s') ! i = Panic msg))"
proof -
  obtain msg g where "register_all lib (group_of c) (ms_registry s) = (Panic msg, g)"
    using register_all_taken [OF assms(1) _ assms(3,4)] group_wf by blast
  then have "r = Panic msg" "cell_of c s' = Poisoned"
    using assms(2,5) by (cases c; auto simp: run_init_unfold call_once_def simp del: run_init.simps)+
  with run_inits_poisoned [of c s'] show ?thesis by blast
qed

theorem metrics_poisoned_witness:
  "\<exists>r s' msg. run_init name_registry InitBase (metrics_fresh [''node_uptime_seconds'']) = (r, s') \<and> r = Panic msg \<and>
     (\<exists>again. fst (run_inits name_registry [InitRaft, InitBase] s') ! 1 = Panic again)"
proof -
  obtain r s' where run: "run_init name_registry InitBase (metrics_fresh [''node_uptime_seconds'']) = (r, s')" by fastforce
  have "NODE_UPTIME_SECONDS \<in> set (group_of InitBase)" by (simp add: base_metrics_def)
  moreover have "cell_of InitBase (metrics_fresh [''node_uptime_seconds'']) = Incomplete" by (simp add: metrics_fresh_def)
  moreover have "mt_name NODE_UPTIME_SECONDS \<in> set (ms_registry (metrics_fresh [''node_uptime_seconds'']))"
    by (simp add: metrics_fresh_def metric_defs)
  ultimately have "(\<exists>msg. r = Panic msg) \<and>
      (\<forall>i < length [InitRaft, InitBase]. [InitRaft, InitBase] ! i = InitBase \<longrightarrow>
         (\<exists>msg. fst (run_inits name_registry [InitRaft, InitBase] s') ! i = Panic msg))"
    using metrics_poisoned [OF name_registry_faithful _ _ _ run, of NODE_UPTIME_SECONDS "[InitRaft, InitBase]"] by blast
  then have "(\<exists>msg. r = Panic msg) \<and> (\<exists>again. fst (run_inits name_registry [InitRaft, InitBase] s') ! 1 = Panic again)"
    by (metis One_nat_def length_Cons lessI list.size(3) nth_Cons_0 nth_Cons_Suc)
  with run show ?thesis by blast
qed

text \<open>The node registers the base and the RAFT metrics and never the gossip metrics.\<close>

theorem gossip_metrics_missing:
  assumes "prometheus_faithful lib names" and "names g = []" and "start_metrics lib (metrics_fresh g) = (r, s)"
  shows "r = Ok () \<and> (\<forall>m \<in> set gossip_metrics. mt_name m \<notin> set (names (ms_registry s)))"
proof -
  have "cell_of c (metrics_fresh g) \<noteq> Complete" for c by (cases c) (simp_all add: metrics_fresh_def)
  with run_inits_inv [OF assms(1) metrics_inv_fresh [of names g, OF assms(2)], of "[InitBase, InitRaft]"] obtain s' where
    s': "run_inits lib [InitBase, InitRaft] (metrics_fresh g) = ([Ok (), Ok ()], s')" "metrics_inv names s'"
    "\<forall>c. cell_of c s' = Complete \<longleftrightarrow> c \<in> {InitBase, InitRaft}"
    by (auto simp: numeral_2_eq_2)
  have "r = Ok () \<and> s = s'"
    using assms(3) s'(1) by (auto simp: start_metrics_def Let_def split: prod.splits)
  moreover have "mt_name m \<notin> set (names (ms_registry s'))" if "m \<in> set gossip_metrics" for m
    using that s'(2,3) groups_disjoint [of InitGossip InitBase] groups_disjoint [of InitGossip InitRaft]
    by (auto simp: metrics_inv_def)
  ultimately show ?thesis by blast
qed

end
