(* ===== verification/Api_Server.thy ===== *)
theory Api_Server
  imports Guardian_Node Logging Metrics
begin

text \<open>
  The HTTP servers of a node: the combined Guardian API (\<open>guardian/src/api_server.rs\<close> with the routes of
  \<open>bootstrap/src/guardian_node_api.rs\<close>), the RAFT API (\<open>consensus/src/raft_api_server.rs\<close>) and the
  observability API (\<open>guardian/src/observability_api.rs\<close>). A router is its table of routes; how the web
  framework chooses a route, decodes a path parameter and decodes a body is a parameter. A path is the list of
  its segments as they stand in the request: the route is chosen on these, and a parameter is percent-decoded
  afterwards, for the handler. The properties say what a request does to the whole node and which
  paths are served.
\<close>

section \<open>Routes\<close>

datatype http_method = GET | HEAD | POST | OtherMethod string

datatype path_segment = Static string | Param string

type_synonym route_pattern = "path_segment list"

type_synonym 'h route_table = "(route_pattern \<times> http_method \<times> 'h) list"

datatype endpoint =
    MetricsEndpoint | HealthEndpoint | SetContextEndpoint | RegisterEndpoint | VerifyEndpoint | QuoteEndpoint
  | PeersEndpoint | AdvertiseEndpoint

definition create_guardian_node_router :: "endpoint route_table" where
  "create_guardian_node_router =
     [([Static ''attestation'', Param ''namespace'', Static ''register''], POST, RegisterEndpoint),
      ([Static ''attestation'', Param ''namespace'', Static ''verify''], POST, VerifyEndpoint),
      ([Static ''attestation'', Static ''quote'', Param ''nonce''], GET, QuoteEndpoint),
      ([Static ''guardian_node'', Static ''peers''], GET, PeersEndpoint),
      ([Static ''guardian_node'', Static ''advertise''], POST, AdvertiseEndpoint)]"

definition create_router :: "endpoint route_table" where
  "create_router =
     [([Static ''metrics''], GET, MetricsEndpoint),
      ([Static ''health''], GET, HealthEndpoint),
      ([Static ''logging'', Static ''set-context''], POST, SetContextEndpoint)] @ create_guardian_node_router"

datatype raft_endpoint = AppendEndpoint | VoteEndpoint | SnapshotEndpoint

definition create_raft_router :: "raft_endpoint route_table" where
  "create_raft_router =
     [([Static ''raft-append''], POST, AppendEndpoint),
      ([Static ''raft-vote''], POST, VoteEndpoint),
      ([Static ''raft-snapshot''], POST, SnapshotEndpoint)]"

datatype probe = Liveness | Readiness

definition observability_router :: "probe route_table" where
  "observability_router = [([Static ''health''], GET, Liveness), ([Static ''ready''], GET, Readiness)]"

text \<open>The framework picks the pattern for a path, with the values of its parameters.\<close>

type_synonym find_route = "route_pattern list \<Rightarrow> string list \<Rightarrow> (route_pattern \<times> (string \<times> string) list) option"

text \<open>A handler for GET also answers HEAD.\<close>

definition method_allows :: "http_method \<Rightarrow> http_method \<Rightarrow> bool" where
  "method_allows route requested \<longleftrightarrow> route = requested \<or> route = GET \<and> requested = HEAD"

datatype 'h dispatch = NoRoute | WrongMethod | Call 'h "(string \<times> string) list"

definition dispatch :: "find_route \<Rightarrow> 'h route_table \<Rightarrow> http_method \<Rightarrow> string list \<Rightarrow> 'h dispatch" where
  "dispatch find_in table verb path =
     (case find_in (map fst table) path of
        None \<Rightarrow> NoRoute
      | Some (p, binds) \<Rightarrow>
          (case find (\<lambda>(p', m, h). p' = p \<and> method_allows m verb) table of
             None \<Rightarrow> WrongMethod
           | Some (_, _, h) \<Rightarrow> Call h binds))"

section \<open>The combined Guardian API\<close>

text \<open>The decoders of a path parameter (\<open>None\<close> if the result is no text) and of the request bodies: a rejection is
  its HTTP status.\<close>

record 'b extractors =
  ex_path :: "string \<Rightarrow> string option"
  ex_register :: "'b \<Rightarrow> 16 word + string"
  ex_verify :: "'b \<Rightarrow> 16 word + string"
  ex_advertise :: "'b \<Rightarrow> 16 word + PeerAdvertisement"
  ex_context :: "'b \<Rightarrow> 16 word + SetLogContextRequest"

text \<open>What a handler reads besides the state: clocks, randomness, the file system, the measurement registry,
  the iteration order of the gossip cache and the rate limiter.\<close>

record 'j call_env =
  ce_now :: instant
  ce_later :: instant
  ce_utc :: utc
  ce_unix :: nat
  ce_since_epoch :: "nat option"
  ce_random :: bytes
  ce_path_exists :: "string \<Rightarrow> bool"
  ce_send :: "'j http_send"
  ce_order :: "NodeId list"
  ce_allowed :: bool

datatype payload =
    MetricsText string | HealthBody HealthResponse | ContextBody SetLogContextResponse
  | RegistrationBody RegistrationResponse | VerificationBody VerificationResponse | QuoteBody QuoteResponse
  | PeersBody "PeerAdvertisement list" | AdvertiseBody AdvertiseResponse | ErrorBody ErrorResponse | NoBody

type_synonym reply = "(16 word \<times> payload, unit) outcome"

record ('r, 'g) server =
  sv_guardian :: "'r Guardian"
  sv_context :: log_context
  sv_metrics :: "'g metrics_state"

text \<open>A result with an API error becomes its response.\<close>

fun respond :: "nat option \<Rightarrow> ('a \<Rightarrow> payload) \<Rightarrow> ('a, ApiError) outcome \<Rightarrow> reply" where
  "respond t body (Ok v) = Ok (200, body v)"
| "respond t body (Err e) = (let (status, text) = into_response t e in Ok (status, ErrorBody text))"
| "respond t body (Panic m) = Panic m"

definition metrics_handler :: "'g prometheus \<Rightarrow> (bytes \<Rightarrow> string option) \<Rightarrow> 'g metrics_state \<Rightarrow> reply" where
  "metrics_handler prom utf8 ms = and_then (gather_metrics prom utf8 ms) (\<lambda>text. Ok (200, MetricsText text))"

definition path_param :: "'b extractors \<Rightarrow> string \<Rightarrow> (string \<times> string) list \<Rightarrow> 16 word + string" where
  "path_param ex name binds =
     (case map_of binds name of
        None \<Rightarrow> Inl 500
      | Some raw \<Rightarrow> (case ex_path ex raw of None \<Rightarrow> Inl 400 | Some v \<Rightarrow> Inr v))"

definition call_endpoint ::
  "'j crates \<Rightarrow> 'r openraft \<Rightarrow> 'g prometheus \<Rightarrow> (bytes \<Rightarrow> string option) \<Rightarrow> 'b extractors \<Rightarrow> 'j call_env \<Rightarrow>
   endpoint \<Rightarrow> (string \<times> string) list \<Rightarrow> 'b \<Rightarrow> ('r, 'g) server \<Rightarrow> reply \<times> ('r, 'g) server" where
  "call_endpoint x lib prom utf8 ex env h binds body srv =
     (let g = sv_guardian srv; api = gu_node_api g; t = ce_since_epoch env;
          namespace = path_param ex ''namespace'' binds in
      case h of
        MetricsEndpoint \<Rightarrow> (metrics_handler prom utf8 (sv_metrics srv), srv)
      | HealthEndpoint \<Rightarrow>
          ((case guardian_health lib g of
              Ok r \<Rightarrow> Ok (200, HealthBody r) | Err _ \<Rightarrow> Ok (500, NoBody) | Panic m \<Rightarrow> Panic m), srv)
      | SetContextEndpoint \<Rightarrow>
          (case ex_context ex body of
             Inl status \<Rightarrow> (Ok (status, NoBody), srv)
           | Inr req \<Rightarrow>
               (let (r, ctx) = set_log_context_handler (ce_allowed env) req (sv_context srv)
                in ((case r of Ok v \<Rightarrow> Ok (200, ContextBody v) | Err status \<Rightarrow> Ok (word_of_nat status, NoBody) | Panic m \<Rightarrow> Panic m),
                    srv\<lparr> sv_context := ctx \<rparr>)))
      | RegisterEndpoint \<Rightarrow>
          (case namespace of Inl status \<Rightarrow> (Ok (status, NoBody), srv) | Inr ns \<Rightarrow>
           (case ex_register ex body of
              Inl status \<Rightarrow> (Ok (status, NoBody), srv)
            | Inr evidence \<Rightarrow>
                (let (r, a) = register_handler x (ce_send env) (ce_now env) (ce_later env) (ce_utc env) (ce_random env)
                                api ns evidence
                 in (respond t RegistrationBody r, srv\<lparr> sv_guardian := g\<lparr> gu_node_api := a \<rparr> \<rparr>))))
      | VerifyEndpoint \<Rightarrow>
          (case namespace of Inl status \<Rightarrow> (Ok (status, NoBody), srv) | Inr ns \<Rightarrow>
           (case ex_verify ex body of
              Inl status \<Rightarrow> (Ok (status, NoBody), srv)
            | Inr evidence \<Rightarrow>
                (let (r, a) = verify_handler x (ce_now env) (ce_utc env) api ns evidence
                 in (respond t VerificationBody r, srv\<lparr> sv_guardian := g\<lparr> gu_node_api := a \<rparr> \<rparr>))))
      | QuoteEndpoint \<Rightarrow>
          ((case path_param ex ''nonce'' binds of
              Inl status \<Rightarrow> Ok (status, NoBody)
            | Inr nonce \<Rightarrow> respond t QuoteBody (quote_handler x (ce_path_exists env) (ce_unix env) nonce)), srv)
      | PeersEndpoint \<Rightarrow> (Ok (200, PeersBody (peers_handler (ce_order env) api)), srv)
      | AdvertiseEndpoint \<Rightarrow>
          (case ex_advertise ex body of
             Inl status \<Rightarrow> (Ok (status, NoBody), srv)
           | Inr ad \<Rightarrow>
               (let (r, a) = advertise_handler x (ce_unix env) (ce_now env) api ad
                in (respond t AdvertiseBody r, srv\<lparr> sv_guardian := g\<lparr> gu_node_api := a \<rparr> \<rparr>))))"

definition serve_guardian ::
  "find_route \<Rightarrow> 'j crates \<Rightarrow> 'r openraft \<Rightarrow> 'g prometheus \<Rightarrow> (bytes \<Rightarrow> string option) \<Rightarrow> 'b extractors \<Rightarrow> 'j call_env \<Rightarrow>
   http_method \<Rightarrow> string list \<Rightarrow> 'b \<Rightarrow> ('r, 'g) server \<Rightarrow> reply \<times> ('r, 'g) server" where
  "serve_guardian find_in x lib prom utf8 ex env verb path body srv =
     (case dispatch find_in create_router verb path of
        NoRoute \<Rightarrow> (Ok (404, NoBody), srv)
      | WrongMethod \<Rightarrow> (Ok (405, NoBody), srv)
      | Call h binds \<Rightarrow> call_endpoint x lib prom utf8 ex env h binds body srv)"

definition api_state_new :: "NodeId \<Rightarrow> 'r ApiState" where
  "api_state_new node_id = \<lparr> ap_node_id = node_id, ap_raft_node = None \<rparr>"

definition api_set_raft_node :: "'r RaftNode \<Rightarrow> 'r ApiState \<Rightarrow> 'r ApiState" where
  "api_set_raft_node node state = state\<lparr> ap_raft_node := Some node \<rparr>"

section \<open>The RAFT API\<close>

definition raft_api_state_new :: "'r RaftApiState" where
  "raft_api_state_new = None"

definition raft_api_set_raft_node :: "'r RaftNode \<Rightarrow> 'r RaftApiState \<Rightarrow> 'r RaftApiState" where
  "raft_api_set_raft_node node state = Some node"

text \<open>A request with its decoded body, or the rejection of the decoder.\<close>

definition serve_raft ::
  "find_route \<Rightarrow> (raft_endpoint \<Rightarrow> 'req \<Rightarrow> 'r \<Rightarrow> (string + 'resp) \<times> 'r) \<Rightarrow> (raft_endpoint \<Rightarrow> 'b \<Rightarrow> 16 word + 'req) \<Rightarrow>
   nat option \<Rightarrow> http_method \<Rightarrow> string list \<Rightarrow> 'b \<Rightarrow> 'r RaftApiState \<Rightarrow>
   (16 word \<times> 'resp option, unit) outcome \<times> 'r RaftApiState" where
  "serve_raft find_in rpc decode t verb path body state =
     (case dispatch find_in create_raft_router verb path of
        NoRoute \<Rightarrow> (Ok (404, None), state)
      | WrongMethod \<Rightarrow> (Ok (405, None), state)
      | Call h binds \<Rightarrow>
          (case decode h body of
             Inl status \<Rightarrow> (Ok (status, None), state)
           | Inr req \<Rightarrow>
               (let (r, state') =
                  (case h of
                     AppendEndpoint \<Rightarrow> append_entries_handler (rpc h) state req
                   | VoteEndpoint \<Rightarrow> vote_handler (rpc h) state req
                   | SnapshotEndpoint \<Rightarrow> install_snapshot_handler (rpc h) state req)
                in ((case r of
                       Ok v \<Rightarrow> Ok (200, Some v)
                     | Err e \<Rightarrow> Ok (fst (into_response t e), None)
                     | Panic m \<Rightarrow> Panic m), state'))))"

section \<open>The observability API\<close>

fun probe_handler :: "probe \<Rightarrow> 16 word" where
  "probe_handler Liveness = 200"
| "probe_handler Readiness = 200"

definition serve_observability :: "find_route \<Rightarrow> http_method \<Rightarrow> string list \<Rightarrow> 16 word" where
  "serve_observability find_in verb path =
     (case dispatch find_in observability_router verb path of
        NoRoute \<Rightarrow> 404 | WrongMethod \<Rightarrow> 405 | Call h binds \<Rightarrow> probe_handler h)"

section \<open>What a request does\<close>

text \<open>The effect of a POST on the server, by its path: each of the four paths that take one runs its own handler
  on the decoded namespace and body, and any other path leaves the server as it is.\<close>

definition posted ::
  "'j crates \<Rightarrow> 'b extractors \<Rightarrow> 'j call_env \<Rightarrow> string list \<Rightarrow> 'b \<Rightarrow> ('r, 'g) server \<Rightarrow> ('r, 'g) server" where
  "posted x ex env path body srv =
     (let api = gu_node_api (sv_guardian srv);
          with_api = (\<lambda>a. srv\<lparr> sv_guardian := (sv_guardian srv)\<lparr> gu_node_api := a \<rparr> \<rparr>) in
      case path of
        [part, act] \<Rightarrow>
          if part = ''logging'' \<and> act = ''set-context'' then
            (case ex_context ex body of
               Inl _ \<Rightarrow> srv
             | Inr req \<Rightarrow> srv\<lparr> sv_context := snd (set_log_context_handler (ce_allowed env) req (sv_context srv)) \<rparr>)
          else if part = ''guardian_node'' \<and> act = ''advertise'' then
            (case ex_advertise ex body of
               Inl _ \<Rightarrow> srv
             | Inr ad \<Rightarrow> with_api (snd (advertise_handler x (ce_unix env) (ce_now env) api ad)))
          else srv
      | [part, raw, act] \<Rightarrow>
          if part \<noteq> ''attestation'' \<or> raw = [] \<or> raw = ''quote'' then srv
          else (case ex_path ex raw of None \<Rightarrow> srv | Some ns \<Rightarrow>
            if act = ''register'' then
              (case ex_register ex body of
                 Inl _ \<Rightarrow> srv
               | Inr evidence \<Rightarrow> with_api (snd (register_handler x (ce_send env) (ce_now env) (ce_later env) (ce_utc env)
                                     (ce_random env) api ns evidence)))
            else if act = ''verify'' then
              (case ex_verify ex body of
                 Inl _ \<Rightarrow> srv
               | Inr evidence \<Rightarrow> with_api (snd (verify_handler x (ce_now env) (ce_utc env) api ns evidence)))
            else srv)
      | _ \<Rightarrow> srv)"

section \<open>Documented behaviour of the router\<close>

text \<open>A parameter matches any non-empty segment as it stands in the request. Where a path matches several patterns, a pattern that is
  literal where another has a parameter goes first.\<close>

fun matches :: "route_pattern \<Rightarrow> string list \<Rightarrow> (string \<times> string) list option" where
  "matches [] [] = Some []"
| "matches (Static s # p) (v # path) = (if s = v then matches p path else None)"
| "matches (Param n # p) (v # path) = (if v = [] then None else map_option (Cons (n, v)) (matches p path))"
| "matches _ _ = None"

fun more_literal :: "route_pattern \<Rightarrow> route_pattern \<Rightarrow> bool" where
  "more_literal (Static s # p) (Param n # q) = True"
| "more_literal (Static s # p) (Static t # q) = (s = t \<and> more_literal p q)"
| "more_literal (Param n # p) (Param k # q) = more_literal p q"
| "more_literal _ _ = False"

definition router_faithful :: "find_route \<Rightarrow> bool" where
  "router_faithful find_in \<longleftrightarrow>
     (\<forall>ps path. case find_in ps path of
        None \<Rightarrow> (\<forall>p \<in> set ps. matches p path = None)
      | Some (p, binds) \<Rightarrow> p \<in> set ps \<and> matches p path = Some binds \<and>
          (\<forall>q \<in> set ps. matches q path \<noteq> None \<longrightarrow> \<not> more_literal q p))"




text \<open>A decoder of ASCII text: a percent sign that two hexadecimal digits do not follow stays.\<close>

definition hex_value :: "char \<Rightarrow> nat option" where
  "hex_value c = find (\<lambda>d. digit_char d = c) [0..<16]"

fun percent_decode :: "string \<Rightarrow> string option" where
  "percent_decode (p # a # b # rest) =
     (case (hex_value a, hex_value b) of
        (Some hi, Some lo) \<Rightarrow>
          if p \<noteq> CHR ''%'' then map_option (Cons p) (percent_decode (a # b # rest))
          else if hi < 8 then map_option (Cons (char_of (16 * hi + lo))) (percent_decode rest)
          else None
      | _ \<Rightarrow> map_option (Cons p) (percent_decode (a # b # rest)))"
| "percent_decode s = Some s"

text \<open>A router that tries the patterns in their order, the more literal ones first.\<close>

definition literal_first :: find_route where
  "literal_first ps path =
     (let candidates = filter (\<lambda>p. matches p path \<noteq> None) ps in
      map_option (\<lambda>p. (p, the (matches p path)))
        (find (\<lambda>p. \<not> list_ex (\<lambda>q. more_literal q p) candidates) candidates))"

text \<open>Inputs for the witnesses: bodies that are texts, and calls at fixed times.\<close>

definition text_extractors :: "string extractors" where
  "text_extractors = \<lparr> ex_path = percent_decode, ex_register = Inr, ex_verify = Inr, ex_advertise = (\<lambda>_. Inl 422),
     ex_context = (\<lambda>body. Inr \<lparr> sr_key = body, sr_value = Some body \<rparr>) \<rparr>"

definition sample_env :: "sample_json call_env" where
  "sample_env = \<lparr> ce_now = 3, ce_later = 4, ce_utc = 100, ce_unix = 100, ce_since_epoch = Some 7, ce_random = replicate 32 9,
     ce_path_exists = (\<lambda>_. True), ce_send = trusting_registry, ce_order = [], ce_allowed = True \<rparr>"

definition sample_server :: "'r Guardian \<Rightarrow> ('r, string list) server" where
  "sample_server g = \<lparr> sv_guardian = g, sv_context = Map.empty, sv_metrics = metrics_fresh [] \<rparr>"

section \<open>Lemmas\<close>

lemma more_literal_irrefl: "\<not> more_literal p p"
proof (induction p)
  case (Cons a p)
  then show ?case by (cases a) simp_all
qed simp

lemma more_literal_trans: "more_literal p q \<Longrightarrow> more_literal q r \<Longrightarrow> more_literal p r"
proof (induction p q arbitrary: r rule: more_literal.induct)
  case (1 s p n q)
  then show ?case by (cases r rule: list.exhaust; cases "hd r"; auto)
next
  case (2 s p t q)
  then show ?case by (cases r rule: list.exhaust; cases "hd r"; auto)
next
  case (3 n p k q)
  then show ?case by (cases r rule: list.exhaust; cases "hd r"; auto)
qed auto

lemma literal_first_faithful: "router_faithful literal_first"
proof -
  have "case literal_first ps path of
        None \<Rightarrow> (\<forall>p \<in> set ps. matches p path = None)
      | Some (p, binds) \<Rightarrow> p \<in> set ps \<and> matches p path = Some binds \<and>
          (\<forall>q \<in> set ps. matches q path \<noteq> None \<longrightarrow> \<not> more_literal q p)" for ps path
  proof -
    let ?cs = "filter (\<lambda>p. matches p path \<noteq> None) ps"
    show ?thesis
    proof (cases "find (\<lambda>p. \<not> list_ex (\<lambda>q. more_literal q p) ?cs) ?cs")
      case None
      then have none: "\<forall>p \<in> set ?cs. \<exists>q \<in> set ?cs. more_literal q p"
        unfolding find_None_iff list_ex_iff by blast
      have "set ?cs = {}"
      proof (rule ccontr)
        assume "set ?cs \<noteq> {}"
        moreover have "asymp_on (set ?cs) more_literal"
          by (rule asymp_onI) (use more_literal_irrefl more_literal_trans in blast)
        moreover have "transp_on (set ?cs) more_literal"
          by (rule transp_onI) (rule more_literal_trans)
        ultimately have "\<exists>m \<in> set ?cs. \<forall>q \<in> set ?cs. q \<noteq> m \<longrightarrow> \<not> more_literal q m"
          by (intro Finite_Set.bex_min_element List.finite_set)
        then obtain m where m: "m \<in> set ?cs" "\<forall>q \<in> set ?cs. q \<noteq> m \<longrightarrow> \<not> more_literal q m" by (elim bexE)
        from bspec [OF none m(1)] obtain q where "q \<in> set ?cs" "more_literal q m" by (elim bexE)
        with m(2) more_literal_irrefl [of m] show False by (cases "q = m") auto
      qed
      then have "\<forall>p \<in> set ps. matches p path = None" by auto
      moreover have "literal_first ps path = None" unfolding literal_first_def Let_def None by simp
      ultimately show ?thesis by simp
    next
      case (Some p)
      then have "p \<in> set ?cs" "\<not> list_ex (\<lambda>q. more_literal q p) ?cs"
        unfolding find_Some_iff by (auto simp only: nth_mem)
      then have "p \<in> set ps" "matches p path = Some (the (matches p path))"
        "\<forall>q \<in> set ps. matches q path \<noteq> None \<longrightarrow> \<not> more_literal q p"
        by (auto simp: list_ex_iff)
      moreover have "literal_first ps path = Some (p, the (matches p path))" unfolding literal_first_def Let_def Some by simp
      ultimately show ?thesis by simp
    qed
  qed
  then show ?thesis by (simp add: router_faithful_def)
qed

lemma router_faithful_Some:
  assumes "router_faithful find_in" and "find_in ps path = Some (p, binds)"
  shows "p \<in> set ps" "matches p path = Some binds" "q \<in> set ps \<Longrightarrow> matches q path \<noteq> None \<Longrightarrow> \<not> more_literal q p"
proof -
  have "p \<in> set ps \<and> matches p path = Some binds \<and> (\<forall>q \<in> set ps. matches q path \<noteq> None \<longrightarrow> \<not> more_literal q p)"
    using assms(1) [unfolded router_faithful_def, rule_format, of ps path] assms(2) by simp
  then show "p \<in> set ps" "matches p path = Some binds" "q \<in> set ps \<Longrightarrow> matches q path \<noteq> None \<Longrightarrow> \<not> more_literal q p"
    by simp_all
qed

lemma router_faithful_None:
  assumes "router_faithful find_in" and "find_in ps path = None" and "p \<in> set ps"
  shows "matches p path = None"
  using assms(1) [unfolded router_faithful_def, rule_format, of ps path] assms(2,3) by simp

text \<open>A path that matches one pattern of a table goes to it.\<close>

lemma dispatch_single:
  assumes "router_faithful find_in" and "matches p path = Some binds" and "p \<in> set (map fst table)"
    and "\<And>q. q \<in> set (map fst table) \<Longrightarrow> matches q path \<noteq> None \<Longrightarrow> q = p"
  shows "dispatch find_in table verb path =
     (case find (\<lambda>(p', m, h). p' = p \<and> method_allows m verb) table of
        None \<Rightarrow> WrongMethod | Some (_, _, h) \<Rightarrow> Call h binds)"
proof -
  have "find_in (map fst table) path = Some (p, binds)"
  proof (cases "find_in (map fst table) path")
    case None
    with router_faithful_None [OF assms(1) None assms(3)] assms(2) show ?thesis by simp
  next
    case (Some r)
    then obtain q bs where r: "find_in (map fst table) path = Some (q, bs)" by (cases r) auto
    with router_faithful_Some(1,2) [OF assms(1) r] assms(2) assms(4) [of q] show ?thesis by auto
  qed
  then show ?thesis by (simp add: dispatch_def)
qed

lemma dispatch_none:
  assumes "router_faithful find_in" and "\<And>q. q \<in> set (map fst table) \<Longrightarrow> matches q path = None"
  shows "dispatch find_in table verb path = NoRoute"
proof (cases "find_in (map fst table) path")
  case (Some r)
  then obtain q bs where "find_in (map fst table) path = Some (q, bs)" by (cases r) auto
  with router_faithful_Some(1,2) [OF assms(1) this] assms(2) [of q] show ?thesis by simp
qed (simp add: dispatch_def)

lemma dispatch_Call:
  assumes "dispatch find_in table verb path = Call h binds"
  obtains p m where "(p, m, h) \<in> set table" "method_allows m verb"
proof -
  from assms obtain p p' m where "find (\<lambda>(p', m, h). p' = p \<and> method_allows m verb) table = Some (p', m, h)"
    by (auto simp: dispatch_def split: option.splits)
  then have "(p', m, h) \<in> set table" "method_allows m verb"
    unfolding find_Some_iff by (metis nth_mem, auto)
  then show thesis by (rule that)
qed

lemma call_endpoint_steps:
  assumes "call_endpoint x lib prom utf8 ex env h binds body srv = (r, srv')"
  shows "(guardian_step x lib)\<^sup>=\<^sup>= (sv_guardian srv) (sv_guardian srv')" "context_step\<^sup>=\<^sup>= (sv_context srv) (sv_context srv')"
proof -
  let ?g = "sv_guardian srv"
  have api: "guardian_step x lib ?g (?g\<lparr> gu_node_api := a \<rparr>)" if "api_step x (gu_node_api ?g) a" for a
    by (rule guardian_step.Request [OF that])
  show "(guardian_step x lib)\<^sup>=\<^sup>= ?g (sv_guardian srv')"
    using assms api [OF api_step.Register] api [OF api_step.Verify] api [OF api_step.Advertise]
    by (cases h) (auto simp: call_endpoint_def Let_def split_beta split: sum.splits)
  have "context_step (sv_context srv) (snd (set_log_context_handler allowed req (sv_context srv)))" for allowed req
    by (simp add: set_log_context_handler_def context_step.simps split_beta) (metis prod.collapse)
  then show "context_step\<^sup>=\<^sup>= (sv_context srv) (sv_context srv')"
    using assms by (cases h) (auto simp: call_endpoint_def Let_def split_beta split: sum.splits)
qed

lemma call_endpoint_reads:
  assumes "h \<in> {MetricsEndpoint, HealthEndpoint, QuoteEndpoint, PeersEndpoint}"
  shows "snd (call_endpoint x lib prom utf8 ex env h binds body srv) = srv"
  using assms by (auto simp: call_endpoint_def Let_def)

lemma read_endpoints:
  assumes "(p, m, h) \<in> set create_router" and "method_allows m verb" and "verb \<noteq> POST"
  shows "h \<in> {MetricsEndpoint, HealthEndpoint, QuoteEndpoint, PeersEndpoint}"
  using assms by (auto simp: create_router_def create_guardian_node_router_def method_allows_def)

text \<open>The paths that match a pattern.\<close>

lemma matches_Nil [simp]: "matches [] path = Some binds \<longleftrightarrow> path = [] \<and> binds = []"
  by (cases path) auto

lemma matches_Static [simp]: "matches (Static a # p) path = Some binds \<longleftrightarrow> (\<exists>rest. path = a # rest \<and> matches p rest = Some binds)"
  by (cases path) auto

lemma matches_Param [simp]:
  "matches (Param n # p) path = Some binds \<longleftrightarrow>
     (\<exists>v rest bs. path = v # rest \<and> v \<noteq> [] \<and> matches p rest = Some bs \<and> binds = (n, v) # bs)"
  by (cases path) auto

lemma matches_paths:
  "matches [Static a] path = Some binds \<longleftrightarrow> path = [a] \<and> binds = []"
  "matches [Static a, Static b] path = Some binds \<longleftrightarrow> path = [a, b] \<and> binds = []"
  "matches [Static a, Param n, Static b] path = Some binds \<longleftrightarrow> (\<exists>v. path = [a, v, b] \<and> v \<noteq> [] \<and> binds = [(n, v)])"
  "matches [Static a, Static b, Param n] path = Some binds \<longleftrightarrow> (\<exists>v. path = [a, b, v] \<and> v \<noteq> [] \<and> binds = [(n, v)])"
  by auto

lemma create_router_patterns:
  "map fst create_router = [[Static ''metrics''], [Static ''health''], [Static ''logging'', Static ''set-context''],
     [Static ''attestation'', Param ''namespace'', Static ''register''], [Static ''attestation'', Param ''namespace'', Static ''verify''],
     [Static ''attestation'', Static ''quote'', Param ''nonce''], [Static ''guardian_node'', Static ''peers''],
     [Static ''guardian_node'', Static ''advertise'']]"
  by (simp add: create_router_def create_guardian_node_router_def)

lemma dispatch_chosen:
  "find_in (map fst create_router) path = Some (p, binds) \<Longrightarrow>
   dispatch find_in create_router verb path =
     (case find (\<lambda>(p', m, h). p' = p \<and> method_allows m verb) create_router of
        None \<Rightarrow> WrongMethod | Some (_, _, h) \<Rightarrow> Call h binds)"
  by (simp add: dispatch_def)

lemma dispatch_quote:
  assumes "router_faithful find_in" and "act \<noteq> []"
  shows "dispatch find_in create_router POST [''attestation'', ''quote'', act] = WrongMethod"
proof -
  let ?path = "[''attestation'', ''quote'', act]" and ?quote = "[Static ''attestation'', Static ''quote'', Param ''nonce'']"
  have quote: "?quote \<in> set (map fst create_router)" "matches ?quote ?path \<noteq> None"
    using assms(2) by (simp_all add: create_router_patterns)
  with router_faithful_None [OF assms(1), of "map fst create_router" ?path ?quote]
  obtain p binds where p: "find_in (map fst create_router) ?path = Some (p, binds)" by fastforce
  note chosen = router_faithful_Some [OF assms(1) p]
  have "p = ?quote"
    using chosen(1,2) chosen(3) [OF quote] by (auto simp: create_router_patterns matches_paths split: if_splits)
  with dispatch_chosen [where find_in = find_in, OF p] show ?thesis
    by (simp add: create_router_def create_guardian_node_router_def method_allows_def)
qed

lemma dispatch_attestation:
  assumes "router_faithful find_in" and "raw \<noteq> []" and "raw \<noteq> ''quote''"
  shows "dispatch find_in create_router POST [''attestation'', raw, ''register''] = Call RegisterEndpoint [(''namespace'', raw)]"
    and "dispatch find_in create_router POST [''attestation'', raw, ''verify''] = Call VerifyEndpoint [(''namespace'', raw)]"
proof -
  show "dispatch find_in create_router POST [''attestation'', raw, ''register''] = Call RegisterEndpoint [(''namespace'', raw)]"
    by (subst dispatch_single [OF assms(1), where p = "[Static ''attestation'', Param ''namespace'', Static ''register'']"
          and binds = "[(''namespace'', raw)]"])
      (use assms in \<open>auto simp: create_router_patterns create_router_def create_guardian_node_router_def method_allows_def split: if_splits\<close>)
  show "dispatch find_in create_router POST [''attestation'', raw, ''verify''] = Call VerifyEndpoint [(''namespace'', raw)]"
    by (subst dispatch_single [OF assms(1), where p = "[Static ''attestation'', Param ''namespace'', Static ''verify'']"
          and binds = "[(''namespace'', raw)]"])
      (use assms in \<open>auto simp: create_router_patterns create_router_def create_guardian_node_router_def method_allows_def split: if_splits\<close>)
qed

lemma posted_simps:
  "raw \<noteq> [] \<Longrightarrow> raw \<noteq> ''quote'' \<Longrightarrow>
     snd (call_endpoint x lib prom utf8 ex env RegisterEndpoint [(''namespace'', raw)] body srv) =
     posted x ex env [''attestation'', raw, ''register''] body srv"
  "raw \<noteq> [] \<Longrightarrow> raw \<noteq> ''quote'' \<Longrightarrow>
     snd (call_endpoint x lib prom utf8 ex env VerifyEndpoint [(''namespace'', raw)] body srv) =
     posted x ex env [''attestation'', raw, ''verify''] body srv"
  "snd (call_endpoint x lib prom utf8 ex env SetContextEndpoint [] body srv) = posted x ex env [''logging'', ''set-context''] body srv"
  "snd (call_endpoint x lib prom utf8 ex env AdvertiseEndpoint [] body srv) = posted x ex env [''guardian_node'', ''advertise''] body srv"
  by (simp_all add: posted_def call_endpoint_def path_param_def Let_def split_beta split: option.splits sum.splits)

lemma posted_other:
  assumes "\<And>raw. raw \<noteq> [] \<Longrightarrow> raw \<noteq> ''quote'' \<Longrightarrow> path \<noteq> [''attestation'', raw, ''register''] \<and> path \<noteq> [''attestation'', raw, ''verify'']"
    and "path \<noteq> [''logging'', ''set-context'']" and "path \<noteq> [''guardian_node'', ''advertise'']"
  shows "posted x ex env path body srv = srv"
  using assms by (auto simp: posted_def Let_def split: list.splits option.splits)

lemma serve_posted:
  assumes "router_faithful find_in"
  shows "snd (serve_guardian find_in x lib prom utf8 ex env POST path body srv) = posted x ex env path body srv"
proof (cases "find_in (map fst create_router) path")
  case None
  note none = router_faithful_None [OF assms None, unfolded create_router_patterns]
  have "posted x ex env path body srv = srv"
  proof (rule posted_other)
    show "path \<noteq> [''attestation'', raw, ''register''] \<and> path \<noteq> [''attestation'', raw, ''verify'']" if "raw \<noteq> []" for raw
      using none [of "[Static ''attestation'', Param ''namespace'', Static ''register'']"]
        none [of "[Static ''attestation'', Param ''namespace'', Static ''verify'']"] that by auto
  qed (use none [of "[Static ''logging'', Static ''set-context'']"] none [of "[Static ''guardian_node'', Static ''advertise'']"] in auto)
  then show ?thesis using None by (simp add: serve_guardian_def dispatch_def)
next
  case (Some found)
  then obtain p binds where p: "find_in (map fst create_router) path = Some (p, binds)" by (cases found) auto
  note chosen = router_faithful_Some [OF assms p]
  consider (att) raw act where "path = [''attestation'', raw, act]" "raw \<noteq> []" "raw \<noteq> ''quote''" "act \<in> {''register'', ''verify''}"
    | (quote) act where "path = [''attestation'', ''quote'', act]" "act \<noteq> []"
    | (logging) "path = [''logging'', ''set-context'']" | (advertise) "path = [''guardian_node'', ''advertise'']"
    | (read) "path \<in> {[''metrics''], [''health''], [''guardian_node'', ''peers'']}"
    using chosen(1,2) by (cases "hd (tl path) = ''quote''") (auto simp: create_router_patterns matches_paths)
  then show ?thesis
  proof cases
    case att
    then show ?thesis
      using dispatch_attestation [OF assms att(2,3)] posted_simps(1,2) [OF att(2,3)] by (auto simp: serve_guardian_def)
  next
    case quote
    then have "posted x ex env path body srv = srv" by (intro posted_other) auto
    then show ?thesis using dispatch_quote [OF assms quote(2)] quote(1) by (simp add: serve_guardian_def)
  next
    case logging
    then have "p = [Static ''logging'', Static ''set-context'']" "binds = []"
      using chosen(1,2) by (auto simp: create_router_patterns matches_paths)
    with dispatch_chosen [where find_in = find_in, OF p, of POST] logging show ?thesis
      by (simp add: serve_guardian_def posted_simps(3) create_router_def method_allows_def)
  next
    case advertise
    then have "p = [Static ''guardian_node'', Static ''advertise'']" "binds = []"
      using chosen(1,2) by (auto simp: create_router_patterns matches_paths)
    with dispatch_chosen [where find_in = find_in, OF p, of POST] advertise show ?thesis
      by (simp add: serve_guardian_def posted_simps(4) create_router_def create_guardian_node_router_def method_allows_def)
  next
    case read
    have "p \<in> {[Static ''metrics''], [Static ''health''], [Static ''guardian_node'', Static ''peers'']}"
      using chosen(1) [unfolded create_router_patterns list.set] chosen(2) read by (elim insertE emptyE) simp_all
    then have "find (\<lambda>(p', m, h). p' = p \<and> method_allows m POST) create_router = None"
      by (elim insertE emptyE) (simp_all add: create_router_def create_guardian_node_router_def method_allows_def)
    then have "dispatch find_in create_router POST path = WrongMethod"
      by (simp only: dispatch_chosen [where find_in = find_in, OF p] option.simps)
    moreover have "posted x ex env path body srv = srv" using read by (intro posted_other) auto
    ultimately show ?thesis by (simp add: serve_guardian_def)
  qed
qed






section \<open>Properties\<close>

text \<open>C13: Over HTTP a client can do to a node only what the steps of the node allow. Whatever method, path and
  body a request has and however the framework routes and decodes it, serving it is at most one step of the node and
  at most one change of the log context, and a request that is not a POST changes nothing. With a router
  that routes as documented, a POST has exactly the effect of its path: registration, verification and advertisement
  run their own handler on the node, setting the log context changes only the log context, and every
  other path changes nothing.\<close>

theorem http_refines_node:
  assumes "serve_guardian find_in x lib prom utf8 ex env verb path body srv = (r, srv')"
  shows "(guardian_step x lib)\<^sup>=\<^sup>= (sv_guardian srv) (sv_guardian srv') \<and>
     context_step\<^sup>=\<^sup>= (sv_context srv) (sv_context srv') \<and> (verb \<noteq> POST \<longrightarrow> srv' = srv) \<and>
     (router_faithful find_in \<and> verb = POST \<longrightarrow> srv' = posted x ex env path body srv)"
proof (cases "dispatch find_in create_router verb path")
  case (Call h binds)
  then have call: "call_endpoint x lib prom utf8 ex env h binds body srv = (r, srv')"
    using assms by (simp add: serve_guardian_def)
  have "srv' = srv" if "verb \<noteq> POST"
    using dispatch_Call [OF Call] read_endpoints [OF _ _ that] call_endpoint_reads call by (metis snd_conv)
  with call_endpoint_steps [OF call] serve_posted [of find_in x lib prom utf8 ex env path body srv] assms show ?thesis
    by (metis snd_conv)
qed (use assms serve_posted [of find_in x lib prom utf8 ex env path body srv] in \<open>auto simp: serve_guardian_def\<close>)

theorem http_refines_node_witness:
  "\<exists>g r srv'. guardian_main attesting_node (store_new sample_types no_faults [] empty_file_system) (Inr ())
       (\<lambda>_ _. Inr no_metrics) sample_surroundings = Ok g \<and>
     serve_guardian literal_first attesting_node sample_raft name_registry (\<lambda>_. Some []) text_extractors sample_env
       POST [''attestation'', ''guardian'', ''register''] ''evidence'' (sample_server g) = (r, srv') \<and>
     (guardian_step attesting_node sample_raft)\<^sup>=\<^sup>= g (sv_guardian srv') \<and>
     srv' = posted attesting_node text_extractors sample_env [''attestation'', ''guardian'', ''register''] ''evidence'' (sample_server g)"
proof -
  obtain g where g: "guardian_main attesting_node (store_new sample_types no_faults [] empty_file_system) (Inr ())
      (\<lambda>_ _. Inr no_metrics) sample_surroundings = Ok g"
    using sample_main by blast
  obtain r srv' where served: "serve_guardian literal_first attesting_node sample_raft name_registry (\<lambda>_. Some []) text_extractors
      sample_env POST [''attestation'', ''guardian'', ''register''] ''evidence'' (sample_server g) = (r, srv')" by fastforce
  have guardian: "sv_guardian (sample_server g) = g" by (simp add: sample_server_def)
  from http_refines_node [OF served] guardian literal_first_faithful g served show ?thesis by metis
qed



text \<open>The observability API has two probes, which always succeed, and nothing else: the peers and
  certificates that its documentation lists are not there.\<close>

theorem observability_paths:
  assumes "router_faithful find_in"
  shows "serve_observability find_in verb path =
     (if path \<in> {[''health''], [''ready'']} then (if verb \<in> {GET, HEAD} then 200 else 405) else 404)"
proof -
  let ?p = "\<lambda>s. [Static s]"
  have match: "matches (?p s) path = (if path = [s] then Some [] else None)" for s
  proof (cases path)
    case (Cons v rest)
    then show ?thesis by (cases rest) simp_all
  qed simp
  have patterns: "map fst observability_router = [?p ''health'', ?p ''ready'']" by (simp add: observability_router_def)
  show ?thesis
  proof (cases "path \<in> {[''health''], [''ready'']}")
    case True
    then obtain s where s: "path = [s]" "s \<in> {''health'', ''ready''}" by auto
    then have "dispatch find_in observability_router verb path =
       (case find (\<lambda>(p', m, h). p' = ?p s \<and> method_allows m verb) observability_router of
          None \<Rightarrow> WrongMethod | Some (_, _, h) \<Rightarrow> Call h [])"
      by (intro dispatch_single [OF assms]) (auto simp: patterns match)
    with s show ?thesis by (auto simp: serve_observability_def observability_router_def method_allows_def)
  next
    case False
    then have "dispatch find_in observability_router verb path = NoRoute"
      by (intro dispatch_none [OF assms]) (auto simp: patterns match)
    with False show ?thesis by (simp add: serve_observability_def)
  qed
qed

text \<open>Until a RAFT node is set, every call of the RAFT API that is decoded is refused with status 503.\<close>

theorem raft_api_unavailable:
  assumes "dispatch find_in create_raft_router verb path = Call h binds" and "decode h body = Inr req"
  shows "serve_raft find_in rpc decode t verb path body raft_api_state_new = (Ok (503, None), raft_api_state_new)"
  using assms
  by (cases h) (simp_all add: serve_raft_def raft_api_state_new_def append_entries_handler_def vote_handler_def
      install_snapshot_handler_def raft_rpc_handler_def into_response_def)

text \<open>Before the RAFT node is set, a node reports that it is bootstrapping in term zero; afterwards it reports
  what the RAFT node says.\<close>

theorem health_before_and_after:
  assumes "trusted_get cell = Ok t"
  shows "health_handler lib cell (api_state_new n) = Ok \<lparr> hp_node_id = n, hp_status = StBootstrapping, hp_term = 0,
       hp_cluster_size = 0, hp_trusted_peers = get_trusted_nodes t \<rparr> \<and>
     (\<exists>h. health_handler lib cell (api_set_raft_node node (api_state_new n)) = Ok h \<and>
        hp_status h = ns_status (get_node_state lib node) \<and> hp_term h = ns_term (get_node_state lib node))"
  using assms by (simp add: health_handler_def api_state_new_def api_set_raft_node_def Let_def)

end
