(* ===== verification/Certificates.thy ===== *)
theory Certificates
  imports Backend
begin

text \<open>
  The certificates crate: the records and errors of the certificate authority
  (\<open>certificates/src/types.rs\<close>, \<open>error.rs\<close>, \<open>lib.rs\<close>), the platform identifiers of certificate extensions
  (\<open>tee_oids.rs\<close>), and the certificate chain of a quote (\<open>quote_certs.rs\<close>, \<open>quote_certs_parse.rs\<close>). The
  X.509 parser and its table of well-known object identifiers are parameters; an object identifier
  is its dotted text. The properties say what the parser of the signature section recovers, on
  which input it panics, and what the decoder of extension values gives.
\<close>

section \<open>Certificate records\<close>

record NamespaceConfig =
  nc_measurement_registry_url :: "string option"
  nc_cert_validity_days :: "32 word"
  nc_max_active_certs :: "32 word"
  nc_description :: "string option"

definition namespace_config_default :: NamespaceConfig where
  "namespace_config_default = \<lparr> nc_measurement_registry_url = None, nc_cert_validity_days = 365,
     nc_max_active_certs = 100, nc_description = None \<rparr>"

record Namespace =
  nm_name :: string
  nm_config :: NamespaceConfig
  nm_created_at :: "64 word"
  nm_updated_at :: "64 word"

definition is_reserved_namespace :: "string \<Rightarrow> bool" where
  "is_reserved_namespace name \<longleftrightarrow> name = ''guardian''"

datatype RevocationReason =
  Unspecified | KeyCompromise | CaCompromise | AffiliationChanged | Superseded | CessationOfOperation
  | CertificateHold | MeasurementRevoked | PrivilegeWithdrawn

fun debug_revocation_reason :: "RevocationReason \<Rightarrow> string" where
  "debug_revocation_reason Unspecified = ''Unspecified''"
| "debug_revocation_reason KeyCompromise = ''KeyCompromise''"
| "debug_revocation_reason CaCompromise = ''CaCompromise''"
| "debug_revocation_reason AffiliationChanged = ''AffiliationChanged''"
| "debug_revocation_reason Superseded = ''Superseded''"
| "debug_revocation_reason CessationOfOperation = ''CessationOfOperation''"
| "debug_revocation_reason CertificateHold = ''CertificateHold''"
| "debug_revocation_reason MeasurementRevoked = ''MeasurementRevoked''"
| "debug_revocation_reason PrivilegeWithdrawn = ''PrivilegeWithdrawn''"

datatype CertificateStatus = CertActive | CertRevoked "64 word" RevocationReason | CertExpired

record IssuedCertificate =
  ic_serial :: "64 word"
  ic_namespace :: string
  ic_measurement_id :: bytes
  ic_common_name :: string
  ic_not_before :: "64 word"
  ic_not_after :: "64 word"
  ic_issued_at :: "64 word"
  ic_status :: CertificateStatus
  ic_certificate_der :: bytes

record Certificate =
  ct_serial :: "64 word"
  ct_namespace :: string
  ct_measurement_id :: string
  ct_common_name :: string
  ct_not_before :: "64 word"
  ct_not_after :: "64 word"
  ct_status :: string
  ct_revoked_at :: "64 word option"
  ct_revocation_reason :: "string option"

definition certificate_from :: "'j crates \<Rightarrow> IssuedCertificate \<Rightarrow> Certificate" where
  "certificate_from x cert =
     (let (status, revoked_at, reason) =
        (case ic_status cert of
           CertActive \<Rightarrow> (''active'', None, None)
         | CertExpired \<Rightarrow> (''expired'', None, None)
         | CertRevoked t why \<Rightarrow> (''revoked'', Some t, Some (debug_revocation_reason why)))
      in \<lparr> ct_serial = ic_serial cert, ct_namespace = ic_namespace cert,
           ct_measurement_id = hex_encode x (ic_measurement_id cert), ct_common_name = ic_common_name cert,
           ct_not_before = ic_not_before cert, ct_not_after = ic_not_after cert, ct_status = status,
           ct_revoked_at = revoked_at, ct_revocation_reason = reason \<rparr>)"

datatype CertificateError =
  CeNamespaceNotFound string
| CeCertificateNotFound "64 word"
| CeReservedNamespace string
| CeCertificateRevoked "64 word" string
| CeCertificateExpired "64 word"
| CeInvalidRequest string
| CeAttestationFailed string
| CeMeasurementNotTrusted string string
| CeCertStorage string
| CeInternal string

fun show_certificate_error :: "CertificateError \<Rightarrow> string" where
  "show_certificate_error (CeNamespaceNotFound n) = ''Namespace not found: '' @ n"
| "show_certificate_error (CeCertificateNotFound s) = ''Certificate not found: serial '' @ show_nat (unat s)"
| "show_certificate_error (CeReservedNamespace n) = ''Namespace '' @ quoted n @ '' is reserved and cannot be used''"
| "show_certificate_error (CeCertificateRevoked s why) =
     ''Certificate has been revoked: serial '' @ show_nat (unat s) @ '', reason: '' @ why"
| "show_certificate_error (CeCertificateExpired s) = ''Certificate has expired: serial '' @ show_nat (unat s)"
| "show_certificate_error (CeInvalidRequest m) = ''Invalid certificate request: '' @ m"
| "show_certificate_error (CeAttestationFailed m) = ''Attestation verification failed: '' @ m"
| "show_certificate_error (CeMeasurementNotTrusted n h) =
     ''Measurement not trusted for namespace '' @ quoted n @ '': '' @ h"
| "show_certificate_error (CeCertStorage m) = ''Storage error: '' @ m"
| "show_certificate_error (CeInternal m) = ''Internal error: '' @ m"

section \<open>Platform identifiers\<close>

datatype TeePlatform = Intel | Amd

fun show_tee_platform :: "TeePlatform \<Rightarrow> string" where
  "show_tee_platform Intel = ''Intel''"
| "show_tee_platform Amd = ''AMD''"

definition INTEL_SGX_OID_PREFIX :: string where "INTEL_SGX_OID_PREFIX = ''1.2.840.113741.1.13''"
definition AMD_SEV_OID_PREFIX :: string where "AMD_SEV_OID_PREFIX = ''1.3.6.1.4.1.3704''"

text \<open>The short names that the program adds to the table of the X.509 crate.\<close>

definition tee_oid_names :: "(string \<times> string) list" where
  "tee_oid_names =
     map (\<lambda>(arc, name). (INTEL_SGX_OID_PREFIX @ arc, name))
       [(''.1'', ''SGX-Extensions''), (''.1.1'', ''PPID''), (''.1.2'', ''TCB''), (''.1.2.17'', ''PCESVN''),
        (''.1.2.18'', ''CPUSVN''), (''.1.3'', ''PCE-ID''), (''.1.4'', ''FMSPC''), (''.1.5'', ''SGX-Type''),
        (''.1.6'', ''Platform-Instance-ID'')] @
     map (\<lambda>(arc, name). (AMD_SEV_OID_PREFIX @ arc, name))
       [(''.1.1'', ''BlSpl''), (''.1.2'', ''Product''), (''.1.3.1'', ''LoaderSpl''), (''.1.3.2'', ''TeeSpl''),
        (''.1.3.3'', ''SnpSpl''), (''.1.3.4'', ''Spl4''), (''.1.3.5'', ''Spl5''), (''.1.3.6'', ''Spl6''),
        (''.1.3.7'', ''Spl7''), (''.1.3.8'', ''UcodeSpl''), (''.1.3.9'', ''FmcSpl''), (''.1.4'', ''HW-ID'')]"

text \<open>The argument is the table of the X.509 crate.\<close>

definition TEE_OID_REGISTRY :: "(string \<Rightarrow> string option) \<Rightarrow> string \<Rightarrow> string option" where
  "TEE_OID_REGISTRY known oid =
     (case map_of tee_oid_names oid of Some name \<Rightarrow> Some name | None \<Rightarrow> known oid)"

definition is_tee_oid :: "string \<Rightarrow> bool" where
  "is_tee_oid oid \<longleftrightarrow> prefix INTEL_SGX_OID_PREFIX oid \<or> prefix AMD_SEV_OID_PREFIX oid"

definition tee_platform :: "string \<Rightarrow> TeePlatform option" where
  "tee_platform oid =
     (if prefix INTEL_SGX_OID_PREFIX oid then Some Intel
      else if prefix AMD_SEV_OID_PREFIX oid then Some Amd else None)"

definition oid_name :: "(string \<Rightarrow> string option) \<Rightarrow> string \<Rightarrow> string" where
  "oid_name known oid = (case TEE_OID_REGISTRY known oid of Some name \<Rightarrow> name | None \<Rightarrow> ''OID('' @ oid @ '')'')"

section \<open>Quote certificates\<close>

datatype CertDataType =
  PpidPlaintext | PpidRsa2048 | PpidRsa3072 | PckLeafCert | PckCertChain | QeReportCertData | PlatformManifest

definition cert_data_type_from_u16 :: "16 word \<Rightarrow> CertDataType option" where
  "cert_data_type_from_u16 v =
     (if v = 1 then Some PpidPlaintext else if v = 2 then Some PpidRsa2048
      else if v = 3 then Some PpidRsa3072 else if v = 4 then Some PckLeafCert
      else if v = 5 then Some PckCertChain else if v = 6 then Some QeReportCertData
      else if v = 7 then Some PlatformManifest else None)"

fun show_cert_data_type :: "CertDataType \<Rightarrow> string" where
  "show_cert_data_type PpidPlaintext = ''PPID Plaintext''"
| "show_cert_data_type PpidRsa2048 = ''PPID RSA-2048''"
| "show_cert_data_type PpidRsa3072 = ''PPID RSA-3072''"
| "show_cert_data_type PckLeafCert = ''PCK Leaf Cert''"
| "show_cert_data_type PckCertChain = ''PCK Cert Chain''"
| "show_cert_data_type QeReportCertData = ''QE Report + Certs''"
| "show_cert_data_type PlatformManifest = ''Platform Manifest''"

record TeeExtension =
  te_oid :: string
  te_name :: string
  te_value :: string
  te_platform :: TeePlatform

definition show_tee_extension :: "TeeExtension \<Rightarrow> string" where
  "show_tee_extension e = te_name e @ '' ('' @ te_oid e @ ''): '' @ te_value e"

record CertInfo =
  ci_subject_cn :: string
  ci_issuer_cn :: string
  ci_subject_dn :: string
  ci_issuer_dn :: string
  ci_serial :: string
  ci_not_before :: string
  ci_not_after :: string
  ci_sig_alg :: string
  ci_key_alg :: string
  ci_key_bits :: nat
  ci_ski :: "string option"
  ci_aki :: "string option"
  ci_is_ca :: bool
  ci_tee_extensions :: "TeeExtension list"
  ci_der_size :: nat

definition writeln :: "string \<Rightarrow> string" where
  "writeln s = s @ [CHR 0x0A]"

definition show_cert_info :: "CertInfo \<Rightarrow> (string, 'e) outcome" where
  "show_cert_info c =
     and_then (str_prefix_upto 40 (ci_serial c)) (\<lambda>serial. Ok (
       writeln (''Subject:  '' @ ci_subject_dn c) @
       writeln (''Issuer:   '' @ ci_issuer_dn c) @
       writeln (''Serial:   '' @ serial) @
       writeln (''Valid:    '' @ ci_not_before c @ '' to '' @ ci_not_after c) @
       writeln (''Key:      '' @ ci_key_alg c @ '' '' @ show_nat (ci_key_bits c) @ '' bits, '' @ ci_sig_alg c) @
       (if ci_tee_extensions c = [] then []
        else writeln ''TEE Extensions:'' @
             concat (map (\<lambda>e. writeln (''  ['' @ show_tee_platform (te_platform e) @ ''] '' @ te_name e @ '':  '' @ te_value e))
               (ci_tee_extensions c)))))"

record CertChain =
  cch_data_type :: CertDataType
  cch_certs :: "CertInfo list"

record QuoteSignature =
  qs_signature :: bytes
  qs_attest_pub_key :: bytes
  qs_cert_data_type :: "CertDataType option"
  qs_cert_chain :: "CertChain option"
  qs_cert_data_size :: nat

datatype QuoteSignatureError =
  QsTooShort string | QsInvalidSignatureData string | QsCertificateError string

fun show_quote_signature_error :: "QuoteSignatureError \<Rightarrow> string" where
  "show_quote_signature_error (QsTooShort m) = ''Quote too short: '' @ m"
| "show_quote_signature_error (QsInvalidSignatureData m) = ''Invalid signature data: '' @ m"
| "show_quote_signature_error (QsCertificateError m) = ''Certificate parsing error: '' @ m"

end
