(* ===== verification/Quote_Certs.thy ===== *)
theory Quote_Certs
  imports Certificates
begin

text \<open>
  The parser of the certificate chain in a quote, \<open>certificates/src/quote_certs_parse.rs\<close>. The X.509
  parser is a parameter: a function from bytes to the parts of a certificate that the program
  reads, and the table of object identifiers it knows. Searching, splitting and decoding of text
  are the functions of the Rust standard library.
\<close>

section \<open>Text\<close>

definition continuation :: "nat \<Rightarrow> bool" where
  "continuation b \<longleftrightarrow> 128 \<le> b \<and> b < 192"

fun utf8_valid :: "nat list \<Rightarrow> bool" where
  "utf8_valid [] = True"
| "utf8_valid (b # bs) =
     (if b < 128 then utf8_valid bs
      else if 194 \<le> b \<and> b < 224 then (case bs of c # cs \<Rightarrow> continuation c \<and> utf8_valid cs | _ \<Rightarrow> False)
      else if 224 \<le> b \<and> b < 240 then
        (case bs of c # d # ds \<Rightarrow>
             (if b = 224 then 160 \<le> c \<and> c < 192 else if b = 237 then 128 \<le> c \<and> c < 160 else continuation c) \<and>
             continuation d \<and> utf8_valid ds
         | _ \<Rightarrow> False)
      else if 240 \<le> b \<and> b < 245 then
        (case bs of c # d # e # es \<Rightarrow>
             (if b = 240 then 144 \<le> c \<and> c < 192 else if b = 244 then 128 \<le> c \<and> c < 144 else continuation c) \<and>
             continuation d \<and> continuation e \<and> utf8_valid es
         | _ \<Rightarrow> False)
      else False)"

definition from_utf8 :: "bytes \<Rightarrow> string option" where
  "from_utf8 bs = (if utf8_valid (map unat bs) then Some (map (\<lambda>b. char_of (unat b)) bs) else None)"

function without_whitespace :: "string \<Rightarrow> string" where
  "without_whitespace s =
     (case find (\<lambda>w. w \<noteq> [] \<and> prefix w s) whitespace of
        Some w \<Rightarrow> without_whitespace (drop (length w) s)
      | None \<Rightarrow> (case s of [] \<Rightarrow> [] | c # cs \<Rightarrow> c # without_whitespace cs))"
  by pat_completeness auto
termination
  by (relation "measure length") (auto simp: find_Some_iff prefix_def)

declare without_whitespace.simps [simp del]

section \<open>The X.509 library\<close>

datatype ParsedExtension =
  SubjectKeyIdentifier bytes | AuthorityKeyIdentifier "bytes option" | BasicConstraints bool | OtherExtension

record x509_extension =
  xe_oid :: string
  xe_value :: bytes
  xe_parsed :: ParsedExtension

datatype public_key = RsaKey nat | EcKey bytes | OtherKey

text \<open>A name is its text and the common names in it, those that are text.\<close>

record x509_name =
  xn_common_names :: "string option list"
  xn_text :: string

record x509_cert =
  xc_extensions :: "x509_extension list"
  xc_subject :: x509_name
  xc_issuer :: x509_name
  xc_raw_serial :: bytes
  xc_not_before :: string
  xc_not_after :: string
  xc_signature_oid :: string
  xc_key_oid :: string
  xc_public_key :: "public_key option"

record x509 =
  from_der :: "bytes \<Rightarrow> string + x509_cert"
  known_oids :: "string \<Rightarrow> string option"

section \<open>Certificates\<close>

definition decode_extension_value :: "'j crates \<Rightarrow> bytes \<Rightarrow> string" where
  "decode_extension_value x value =
     (let len = unat (value ! 1); body = subslice value 2 (2 + len) in
      if length value \<ge> 2 \<and> value ! 0 = 2 \<and> length value \<ge> 2 + len \<and> len \<le> 8
      then show_nat (unat (fold (\<lambda>b n. or (push_bit 8 n) (ucast b)) body (0 :: 64 word)))
      else if length value \<ge> 2 \<and> value ! 0 = 4 \<and> length value \<ge> 2 + len then hex_encode x body
      else if length value \<ge> 2 \<and> (value ! 0 = 12 \<or> value ! 0 = 19 \<or> value ! 0 = 22) \<and> length value \<ge> 2 + len \<and>
              from_utf8 body \<noteq> None
      then the (from_utf8 body)
      else hex_encode x value)"

definition extract_cn :: "x509_name \<Rightarrow> string" where
  "extract_cn name =
     (case xn_common_names name of Some cn # _ \<Rightarrow> cn | _ \<Rightarrow> ''Unknown'')"

definition extract_tee_extension :: "'j crates \<Rightarrow> x509 \<Rightarrow> x509_extension \<Rightarrow> TeeExtension option" where
  "extract_tee_extension x lib ext =
     (if \<not> is_tee_oid (xe_oid ext) then None
      else case tee_platform (xe_oid ext) of
        None \<Rightarrow> None
      | Some platform \<Rightarrow>
          Some \<lparr> te_oid = xe_oid ext, te_name = oid_name (known_oids lib) (xe_oid ext),
                 te_value = decode_extension_value x (xe_value ext), te_platform = platform \<rparr>)"

definition find_extension :: "string \<Rightarrow> x509_cert \<Rightarrow> ParsedExtension option" where
  "find_extension oid cert = map_option xe_parsed (find (\<lambda>e. xe_oid e = oid) (xc_extensions cert))"

definition alg_name :: "x509 \<Rightarrow> string \<Rightarrow> string" where
  "alg_name lib oid = (case TEE_OID_REGISTRY (known_oids lib) oid of Some n \<Rightarrow> n | None \<Rightarrow> oid)"

definition parse_x509_cert :: "'j crates \<Rightarrow> x509 \<Rightarrow> bytes \<Rightarrow> (CertInfo, QuoteSignatureError) outcome" where
  "parse_x509_cert x lib der_bytes =
     and_then (map_err (\<lambda>e. QsCertificateError (''Parse error: '' @ e)) (of_sum (from_der lib der_bytes))) (\<lambda>cert.
       let ski = (case find_extension ''2.5.29.14'' cert of
                    Some (SubjectKeyIdentifier k) \<Rightarrow> Some (hex_encode x k) | _ \<Rightarrow> None);
           aki = (case find_extension ''2.5.29.35'' cert of
                    Some (AuthorityKeyIdentifier k) \<Rightarrow> map_option (hex_encode x) k | _ \<Rightarrow> None);
           is_ca = (case find_extension ''2.5.29.19'' cert of Some (BasicConstraints ca) \<Rightarrow> ca | _ \<Rightarrow> False);
           key_bits = (case xc_public_key cert of
                         Some (RsaKey n) \<Rightarrow> n | Some (EcKey data) \<Rightarrow> length data * 8 | _ \<Rightarrow> 0)
       in Ok \<lparr> ci_subject_cn = extract_cn (xc_subject cert), ci_issuer_cn = extract_cn (xc_issuer cert),
               ci_subject_dn = xn_text (xc_subject cert), ci_issuer_dn = xn_text (xc_issuer cert),
               ci_serial = hex_encode x (xc_raw_serial cert),
               ci_not_before = xc_not_before cert, ci_not_after = xc_not_after cert,
               ci_sig_alg = alg_name lib (xc_signature_oid cert), ci_key_alg = alg_name lib (xc_key_oid cert),
               ci_key_bits = key_bits, ci_ski = ski, ci_aki = aki, ci_is_ca = is_ca,
               ci_tee_extensions = List.map_filter (extract_tee_extension x lib) (xc_extensions cert),
               ci_der_size = length der_bytes \<rparr>)"

definition BEGIN_CERTIFICATE :: string where "BEGIN_CERTIFICATE = ''-----BEGIN CERTIFICATE-----''"
definition END_CERTIFICATE :: string where "END_CERTIFICATE = ''-----END CERTIFICATE-----''"

definition pem_to_der :: "'j crates \<Rightarrow> string \<Rightarrow> (bytes option, 'e) outcome" where
  "pem_to_der x pem =
     (case str_find BEGIN_CERTIFICATE pem of
        None \<Rightarrow> Ok None
      | Some i \<Rightarrow> case str_find END_CERTIFICATE pem of
        None \<Rightarrow> Ok None
      | Some end_pos \<Rightarrow>
          and_then (str_slice pem (i + 27) end_pos) (\<lambda>text.
            Ok (case base64_decode x (without_whitespace text) of Inl _ \<Rightarrow> None | Inr der \<Rightarrow> Some der)))"

definition parse_certificate_der :: "'j crates \<Rightarrow> x509 \<Rightarrow> bytes \<Rightarrow> (CertInfo, QuoteSignatureError) outcome" where
  "parse_certificate_der x lib der_bytes = parse_x509_cert x lib der_bytes"

definition parse_certificate_pem :: "'j crates \<Rightarrow> x509 \<Rightarrow> string \<Rightarrow> (CertInfo, QuoteSignatureError) outcome" where
  "parse_certificate_pem x lib pem =
     and_then (pem_to_der x pem) (\<lambda>der.
       and_then (ok_or der (QsCertificateError ''Invalid PEM'')) (parse_x509_cert x lib))"

section \<open>Certification data\<close>

text \<open>Blocks that cannot be decoded or parsed are passed over.\<close>

fun parse_pem_blocks :: "'j crates \<Rightarrow> x509 \<Rightarrow> string list \<Rightarrow> (CertInfo list, QuoteSignatureError) outcome" where
  "parse_pem_blocks x lib [] = Ok []"
| "parse_pem_blocks x lib (pem_block # blocks) =
     (let trimmed = str_trim pem_block in
      if \<not> str_contains trimmed BEGIN_CERTIFICATE then parse_pem_blocks x lib blocks
      else and_then (pem_to_der x (trimmed @ END_CERTIFICATE)) (\<lambda>der.
        case der of
          None \<Rightarrow> parse_pem_blocks x lib blocks
        | Some d \<Rightarrow>
            (case parse_x509_cert x lib d of
               Ok info \<Rightarrow> and_then (parse_pem_blocks x lib blocks) (\<lambda>certs. Ok (info # certs))
             | Err _ \<Rightarrow> parse_pem_blocks x lib blocks
             | Panic m \<Rightarrow> Panic m)))"

definition parse_pem_chain ::
  "'j crates \<Rightarrow> x509 \<Rightarrow> CertDataType \<Rightarrow> bytes \<Rightarrow> (CertChain, QuoteSignatureError) outcome" where
  "parse_pem_chain x lib data_type pem_data =
     and_then (ok_or (from_utf8 pem_data) (QsCertificateError ''Invalid UTF-8'')) (\<lambda>pem_str.
       and_then (parse_pem_blocks x lib (str_split END_CERTIFICATE pem_str)) (\<lambda>certs.
         Ok \<lparr> cch_data_type = data_type, cch_certs = certs \<rparr>))"

definition parse_qe_report_cert_data ::
  "'j crates \<Rightarrow> x509 \<Rightarrow> bytes \<Rightarrow> (CertChain, QuoteSignatureError) outcome" where
  "parse_qe_report_cert_data x lib data =
     (if length data < 384 + 64 + 2 then Err (QsCertificateError ''QE Report data too short'')
      else let pos = 384 + 64; auth_size = le_nat (subslice data pos (pos + 2)); pos = pos + 2 + auth_size in
      if length data < pos + 6 then Err (QsCertificateError ''Missing nested cert data'')
      else let nested_type = (case cert_data_type_from_u16 (from_le_bytes (subslice data pos (pos + 2))) of
                                None \<Rightarrow> PckCertChain | Some t \<Rightarrow> t);
               nested_size = le_nat (subslice data (pos + 2) (pos + 6)); pos = pos + 6 in
      if length data < pos + nested_size then Err (QsCertificateError ''Nested cert data truncated'')
      else parse_pem_chain x lib nested_type (subslice data pos (pos + nested_size)))"

fun parse_cert_data ::
  "'j crates \<Rightarrow> x509 \<Rightarrow> CertDataType \<Rightarrow> bytes \<Rightarrow> (CertChain, QuoteSignatureError) outcome" where
  "parse_cert_data x lib PckCertChain data = parse_pem_chain x lib PckCertChain data"
| "parse_cert_data x lib PckLeafCert data = parse_pem_chain x lib PckLeafCert data"
| "parse_cert_data x lib QeReportCertData data = parse_qe_report_cert_data x lib data"
| "parse_cert_data x lib data_type data = Ok \<lparr> cch_data_type = data_type, cch_certs = [] \<rparr>"

text \<open>\<open>Result::ok\<close>\<close>

fun to_option :: "('a, 'e) outcome \<Rightarrow> ('a option, 'f) outcome" where
  "to_option (Ok v) = Ok (Some v)"
| "to_option (Err e) = Ok None"
| "to_option (Panic m) = Panic m"

definition parse_quote_signature ::
  "'j crates \<Rightarrow> x509 \<Rightarrow> bytes \<Rightarrow> nat \<Rightarrow> (QuoteSignature, QuoteSignatureError) outcome" where
  "parse_quote_signature x lib quote_bytes sig_data_offset =
     (if length quote_bytes < sig_data_offset + 4 then Err (QsTooShort ''Quote too short for signature'')
      else let sig_data = drop sig_data_offset quote_bytes; sig_data_len = le_nat (take 4 sig_data) in
      if length sig_data < 4 + sig_data_len then Err (QsTooShort ''Signature data truncated'')
      else let sig_content = subslice sig_data 4 (4 + sig_data_len) in
      if length sig_content < 134 then Err (QsTooShort ''Signature content too short'')
      else let cert_data_type = cert_data_type_from_u16 (from_le_bytes (subslice sig_content 128 130));
               cert_data_size = le_nat (subslice sig_content 130 134)
      in and_then
           (if length sig_content \<ge> 134 + cert_data_size \<and> cert_data_size > 0
            then to_option (parse_cert_data x lib (case cert_data_type of None \<Rightarrow> PckCertChain | Some t \<Rightarrow> t)
                              (subslice sig_content 134 (134 + cert_data_size)))
            else Ok None)
           (\<lambda>cert_chain. Ok \<lparr> qs_signature = take 64 sig_content, qs_attest_pub_key = subslice sig_content 64 128,
              qs_cert_data_type = cert_data_type, qs_cert_chain = cert_chain, qs_cert_data_size = cert_data_size \<rparr>))"

section \<open>The signature section\<close>

text \<open>The layout of the signature section that the parser expects.\<close>

definition signature_section :: "bytes \<Rightarrow> bytes \<Rightarrow> 16 word \<Rightarrow> bytes \<Rightarrow> bytes" where
  "signature_section sig key data_type cert_data =
     (let content = sig @ key @ to_le_bytes 2 data_type @ nat_to_le 4 (length cert_data) @ cert_data
      in nat_to_le 4 (length content) @ content)"

text \<open>An instance of the X.509 library that knows no object identifier and parses nothing.\<close>

definition sample_x509 :: x509 where
  "sample_x509 = \<lparr> from_der = (\<lambda>_. Inl ''unsupported''), known_oids = (\<lambda>_. None) \<rparr>"

text \<open>The big-endian number of some bytes after a number read so far.\<close>

primrec be_nat :: "nat \<Rightarrow> bytes \<Rightarrow> nat" where
  "be_nat acc [] = acc"
| "be_nat acc (b # bs) = be_nat (acc * 256 + unat b) bs"

text \<open>A marker that opens a certificate and runs into the text of the closing one.\<close>

definition broken_marker :: string where
  "broken_marker = ''-----BEGIN CERTIFICATE-----END CERTIFICATE''"

section \<open>Lemmas\<close>

lemma ascii_valid: "list_all (\<lambda>b. b < 128) bs \<Longrightarrow> utf8_valid bs"
  by (induction bs) simp_all

lemma from_utf8_ascii:
  assumes "list_all (\<lambda>c. (of_char c :: nat) < 128) s"
  shows "from_utf8 (str_bytes s) = Some s"
proof -
  have "map unat (str_bytes s) = map of_char s"
    by (simp add: str_bytes_def unsigned_of_nat take_bit_eq_mod)
  moreover have "utf8_valid (map of_char s)" using assms by (intro ascii_valid) (simp add: list_all_iff)
  moreover have "map (\<lambda>b. char_of (unat b)) (str_bytes s) = s"
    by (simp add: str_bytes_def unsigned_of_nat take_bit_eq_mod comp_def char_of_mod_256 map_idI)
  ultimately show ?thesis by (simp add: from_utf8_def)
qed

lemma broken_marker_pem: "pem_to_der x (broken_marker @ END_CERTIFICATE) = Panic ''byte index is not a char boundary or out of bounds''"
proof -
  have "str_find BEGIN_CERTIFICATE (broken_marker @ END_CERTIFICATE) = Some 0"
    by (simp add: BEGIN_CERTIFICATE_def END_CERTIFICATE_def broken_marker_def)
  moreover have "str_find END_CERTIFICATE (broken_marker @ END_CERTIFICATE) = Some 22"
    by (simp add: END_CERTIFICATE_def broken_marker_def)
  ultimately show ?thesis by (simp add: pem_to_der_def str_slice_def)
qed

lemma broken_marker_split: "str_split END_CERTIFICATE broken_marker = [broken_marker]"
  by (subst str_split.simps) (simp add: END_CERTIFICATE_def broken_marker_def)

lemma broken_marker_trim: "str_trim broken_marker = broken_marker"
proof -
  have solid: "list_all (\<lambda>w. w \<noteq> [] \<and> hd w \<noteq> CHR ''-'' \<and> last w \<noteq> CHR ''E'') whitespace"
    by code_simp
  have "\<not> prefix w broken_marker" if "w \<in> set whitespace" for w
    using solid that by (cases w) (auto simp: list_all_iff broken_marker_def)
  then have "trim_with whitespace broken_marker = broken_marker"
    by (subst trim_with.simps) (simp add: find_None_iff [THEN iffD2])
  moreover have "\<not> prefix (rev w) (rev broken_marker)" if "w \<in> set whitespace" for w
  proof -
    have "hd (rev w) \<noteq> CHR ''E''" "rev w \<noteq> []" using solid that by (auto simp: list_all_iff hd_rev)
    then show ?thesis by (cases "rev w") (auto simp: broken_marker_def)
  qed
  then have "trim_with (map rev whitespace) (rev broken_marker) = rev broken_marker"
    by (subst trim_with.simps) (simp add: find_None_iff [THEN iffD2])
  ultimately show ?thesis by (simp add: str_trim_def)
qed

lemma broken_marker_chain: "\<exists>m. parse_pem_chain x lib data_type (str_bytes broken_marker) = Panic m"
proof -
  have "from_utf8 (str_bytes broken_marker) = Some broken_marker"
    by (rule from_utf8_ascii) (simp add: broken_marker_def)
  moreover have "str_contains broken_marker BEGIN_CERTIFICATE"
    unfolding str_contains_iff
    by (rule exI [of _ "[]"], rule exI [of _ "''END CERTIFICATE''"]) (simp add: broken_marker_def BEGIN_CERTIFICATE_def)
  ultimately show ?thesis
    by (simp add: parse_pem_chain_def broken_marker_split broken_marker_trim broken_marker_pem)
qed

lemma length_nat_to_le_section [simp]: "length (nat_to_le k n) = k"
  by (induction k arbitrary: n) simp_all

text \<open>The parser reads back the layout, and then treats the certification data by its type.\<close>

lemma parse_signature_section:
  assumes "length sig = 64" and "length key = 64" and "134 + length cert_data < 2 ^ 32"
  shows "parse_quote_signature x lib (header @ signature_section sig key data_type cert_data @ trailer) (length header) =
     and_then (if cert_data = [] then Ok None
               else to_option (parse_cert_data x lib
                      (case cert_data_type_from_u16 data_type of None \<Rightarrow> PckCertChain | Some t \<Rightarrow> t) cert_data))
       (\<lambda>chain. Ok \<lparr> qs_signature = sig, qs_attest_pub_key = key,
          qs_cert_data_type = cert_data_type_from_u16 data_type, qs_cert_chain = chain,
          qs_cert_data_size = length cert_data \<rparr>)"
proof -
  define size4 where "size4 = nat_to_le 4 (length cert_data)"
  define type2 where "type2 = to_le_bytes 2 data_type"
  define content where "content = sig @ key @ type2 @ size4 @ cert_data"
  have len: "length size4 = 4" "length type2 = 2" by (simp_all add: size4_def type2_def to_le_bytes_def)
  have cl: "length content = 134 + length cert_data" using assms len by (simp add: content_def)
  have whole: "signature_section sig key data_type cert_data = nat_to_le 4 (length content) @ content"
    by (simp add: signature_section_def content_def size4_def type2_def)
  have parts: "take 64 content = sig" "subslice content 64 128 = key" "subslice content 128 130 = type2"
    "subslice content 130 134 = size4" "subslice content 134 (134 + length cert_data) = cert_data"
    using assms(1,2) len by (simp_all add: content_def subslice_def)
  have "le_nat (nat_to_le 4 (length content)) = length content" "le_nat size4 = length cert_data"
    using assms(3) cl by (simp_all add: size4_def)
  moreover have "(from_le_bytes type2 :: 16 word) = data_type"
    using from_le_bytes_to_le_bytes [of 2 data_type] by (simp add: type2_def)
  moreover have "subslice (nat_to_le 4 (length content) @ content @ trailer) 4 (4 + length content) = content"
    by (simp add: subslice_def)
  ultimately show ?thesis
    using cl parts by (simp add: parse_quote_signature_def whole Let_def)
qed

lemma shift_in_byte:
  fixes n :: "64 word" and b :: byte
  assumes "unat n < 2 ^ 56"
  shows "unat (or (push_bit 8 n) (ucast b)) = unat n * 256 + unat b"
proof -
  have b: "unat (ucast b :: 64 word) = unat b" "unat b < 256"
    using unat_bound [of b] by (simp_all add: unsigned_ucast_eq take_bit_nat_eq_self)
  have shifted: "unat (push_bit 8 n) = unat n * 256"
    using assms by (simp add: push_bit_eq_mult unat_mult_lem [THEN iffD1] unat_word_ariths)
  have "and (push_bit 8 n) (ucast b) = 0"
    by (rule bit_word_eqI) (auto simp: bit_simps dest: bit_imp_le_length)
  then have "or (push_bit 8 n) (ucast b) = push_bit 8 n + ucast b"
    using word_plus_and_or [of "push_bit 8 n" "ucast b"] by simp
  moreover have "unat (push_bit 8 n + ucast b :: 64 word) = unat n * 256 + unat b"
    using assms b shifted by (subst unat_add_lem [THEN iffD1]) auto
  ultimately show ?thesis by simp
qed

lemma fold_shift_in:
  fixes n :: "64 word"
  assumes "unat n * 256 ^ length bs + 256 ^ length bs \<le> 2 ^ 64"
  shows "unat (fold (\<lambda>b n. or (push_bit 8 n) (ucast b)) bs n) = be_nat (unat n) bs"
  using assms
proof (induction bs arbitrary: n)
  case (Cons b bs)
  have "unat n * 256 + 256 \<le> 2 ^ 64"
  proof -
    have "(unat n * 256 + 256) * 1 \<le> (unat n * 256 + 256) * 256 ^ length bs" by (rule mult_le_mono2) simp
    also have "\<dots> \<le> 2 ^ 64" using Cons.prems by (simp add: algebra_simps)
    finally show ?thesis by simp
  qed
  then have step: "unat (or (push_bit 8 n) (ucast b)) = unat n * 256 + unat b" by (intro shift_in_byte) simp
  have "unat b + 1 \<le> 256" using unat_bound [of b] by simp
  then have "(unat n * 256 + unat b + 1) * 256 ^ length bs \<le> (unat n * 256 + 256) * 256 ^ length bs" by (intro mult_le_mono1) simp
  also have "\<dots> \<le> 2 ^ 64" using Cons.prems by (simp add: algebra_simps)
  finally have "unat (or (push_bit 8 n) (ucast b)) * 256 ^ length bs + 256 ^ length bs \<le> 2 ^ 64"
    by (simp add: step algebra_simps)
  from Cons.IH [OF this] show ?case by (simp add: step)
qed simp

section \<open>Properties\<close>

text \<open>C30: The parser recovers the signature section of a quote. From a quote that has the documented
  layout at the given offset, whose signature section has a length that fits its field, it reads back the signature, the
  attestation key, the type and the size of the certification data. The certificate chain is exactly what
  parsing the certification data by its type gives, an unknown type counting as a chain of PCK certificates: there is
  none exactly when the data is empty or its parser gives an error, and the parser panics exactly when that of
  the data does.\<close>

theorem quote_signature_round_trip:
  fixes x lib data_type
  assumes "length sig = 64" and "length key = 64" and "134 + length cert_data < 2 ^ 32"
  defines "parsed \<equiv> parse_cert_data x lib
      (case cert_data_type_from_u16 data_type of None \<Rightarrow> PckCertChain | Some t \<Rightarrow> t) cert_data"
    and "quote_sig \<equiv> \<lambda>chain. \<lparr> qs_signature = sig, qs_attest_pub_key = key,
      qs_cert_data_type = cert_data_type_from_u16 data_type, qs_cert_chain = chain, qs_cert_data_size = length cert_data \<rparr>"
  shows "parse_quote_signature x lib (header @ signature_section sig key data_type cert_data @ trailer) (length header) =
     (if cert_data = [] then Ok (quote_sig None)
      else case parsed of
        Ok chain \<Rightarrow> Ok (quote_sig (Some chain))
      | Err e \<Rightarrow> Ok (quote_sig None)
      | Panic m \<Rightarrow> Panic m)"
  using parse_signature_section [OF assms(1-3), of x lib header data_type trailer]
  by (cases parsed) (simp_all add: parsed_def quote_sig_def)

theorem quote_signature_round_trip_witness:
  "parse_quote_signature sample_crates sample_x509
       ([9, 9] @ signature_section (replicate 64 1) (replicate 64 2) 1 [7] @ []) (length [9, 9 :: byte]) =
     Ok \<lparr> qs_signature = replicate 64 1, qs_attest_pub_key = replicate 64 2, qs_cert_data_type = Some PpidPlaintext,
          qs_cert_chain = Some \<lparr> cch_data_type = PpidPlaintext, cch_certs = [] \<rparr>, qs_cert_data_size = 1 \<rparr>"
  using quote_signature_round_trip [where sig = "replicate 64 1" and key = "replicate 64 2" and cert_data = "[7]"
      and x = sample_crates and lib = sample_x509 and data_type = 1 and header = "[9, 9]" and trailer = "[]"]
  by (simp add: cert_data_type_from_u16_def)

text \<open>C31: A quote can make the parser panic. When the certification data is a certificate chain whose text
  is an opening marker running into an unfinished closing marker, the closing marker that the
  parser adds is found inside the opening one, and slicing between them is out of range.\<close>

theorem quote_signature_panics:
  assumes "length sig = 64" and "length key = 64"
  shows "\<exists>m. parse_quote_signature x lib
     (header @ signature_section sig key 5 (str_bytes ''-----BEGIN CERTIFICATE-----END CERTIFICATE'') @ trailer)
     (length header) = Panic m"
proof -
  obtain m where "parse_pem_chain x lib PckCertChain (str_bytes broken_marker) = Panic m"
    using broken_marker_chain by blast
  moreover have "str_bytes broken_marker \<noteq> []" "134 + length (str_bytes broken_marker) < 2 ^ 32"
    by (simp_all add: broken_marker_def str_bytes_def)
  ultimately show ?thesis
    using parse_signature_section [OF assms, of "str_bytes broken_marker" x lib header 5 trailer]
    by (simp add: cert_data_type_from_u16_def broken_marker_def)
qed

theorem quote_signature_panics_witness:
  "\<exists>m. parse_quote_signature sample_crates sample_x509
     ([] @ signature_section (replicate 64 1) (replicate 64 2) 5
        (str_bytes ''-----BEGIN CERTIFICATE-----END CERTIFICATE'') @ []) (length ([] :: byte list)) = Panic m"
  by (rule quote_signature_panics) simp_all

text \<open>An integer extension of up to eight bytes is displayed as its big-endian value in decimal, without
  overflow, whatever follows it.\<close>

theorem integer_extension_value:
  assumes "length bs \<le> 8"
  shows "decode_extension_value x (2 # word_of_nat (length bs) # bs @ rest) = show_nat (be_nat 0 bs)"
proof -
  have len: "unat (word_of_nat (length bs) :: byte) = length bs"
    using assms by (simp add: unat_of_nat)
  have body: "subslice (2 # word_of_nat (length bs) # bs @ rest) 2 (2 + length bs) = bs" by (simp add: subslice_def)
  have "unat (fold (\<lambda>b n. or (push_bit 8 n) (ucast b)) bs (0 :: 64 word)) = be_nat 0 bs"
    using fold_shift_in [of 0 bs] assms power_increasing [of "length bs" 8 "256 :: nat"] by simp
  then show ?thesis using assms body by (simp add: decode_extension_value_def len Let_def)
qed

theorem integer_extension_value_witness:
  "decode_extension_value sample_crates [2, 2, 1, 44] = show_nat 300"
  using integer_extension_value [of "[1, 44]" sample_crates "[]"] by simp

end
