(* ===== verification/Info_Tools.thy ===== *)
theory Info_Tools
  imports Quote_Certs
begin

unbundle bit_operations_syntax

text \<open>
  The command line tools that display the attestation of the machine they run on,
  \<open>guardian/src/bin/tdx_info.rs\<close> and \<open>guardian/src/bin/snp_info.rs\<close>: how they collect evidence and claims, and
  what they compute from them; \<open>Info_Print\<close> has what they print. The properties compare what the tools show
  with what the verification backends compute.
\<close>

section \<open>TDX\<close>

text \<open>The first claims of the verifier; nothing stands for the null value the tools use when there is none.\<close>

definition first_claims :: "'j list \<Rightarrow> 'j option" where
  "first_claims claims = (case claims of [] \<Rightarrow> None | c # _ \<Rightarrow> Some c)"

definition present :: "bool \<Rightarrow> string" where
  "present b = (if b then ''ok'' else ''missing'')"

definition tdx_info_collect ::
  "'j crates \<Rightarrow> string + unit \<Rightarrow> (string \<Rightarrow> bool) \<Rightarrow> (bytes \<times> 'j option, string) outcome" where
  "tdx_info_collect x runtime_new path_exists =
     (let tsm_available = path_exists ''/sys/kernel/config/tsm/report''; tdx_device = path_exists ''/dev/tdx_guest'' in
      if \<not> tsm_available \<and> \<not> tdx_device
      then Err (''TDX not available'' @ [CHR 0x0A] @ ''  /dev/tdx_guest: '' @ present tdx_device @ [CHR 0x0A] @
             ''  /sys/kernel/config/tsm/report: '' @ present tsm_available)
      else
        and_then (of_sum runtime_new) (\<lambda>_.
        and_then (map_err (\<lambda>e. ''Failed to get evidence: '' @ e) (of_sum (get_evidence x Tdx (replicate 64 0)))) (\<lambda>evidence.
        and_then (ok_or (json_as_str x (json_index x evidence ''quote'')) ''Missing quote field in evidence'') (\<lambda>quote_b64.
        and_then (map_err (\<lambda>e. ''Failed to decode quote: '' @ e) (of_sum (base64_decode x quote_b64))) (\<lambda>quote_bytes.
        and_then (map_err (\<lambda>e. ''Failed to create verifier: '' @ e) (of_sum (to_verifier x Tdx))) (\<lambda>_.
        and_then (map_err (\<lambda>e. ''Verification failed: '' @ e) (of_sum (evaluate x Tdx evidence))) (\<lambda>claims.
          Ok (quote_bytes, first_claims claims))))))))"

definition calculate_sig_offset :: "bytes \<Rightarrow> nat" where
  "calculate_sig_offset quote =
     (if length quote < 48 then 0
      else let version = (from_le_bytes (take 2 quote) :: 16 word) in
      if version = 4 then 48 + 584
      else if version = 5 then
        (if length quote < 54 then 0
         else let quote_type = (from_le_bytes (subslice quote 48 50) :: 16 word);
                  body_size = (if quote_type = 2 then 584 else if quote_type = 3 then 648 else 584)
              in 48 + 2 + 4 + body_size)
      else 632)"

text \<open>The heading of the certificate at a position of the chain.\<close>

definition cert_label :: "string \<Rightarrow> nat \<Rightarrow> nat \<Rightarrow> string" where
  "cert_label leaf n i = (if i = 0 then leaf else if i = n - 1 then ''Root CA'' else ''Intermediate'')"

section \<open>SEV-SNP\<close>

definition snp_info_collect :: "'j crates \<Rightarrow> string + unit \<Rightarrow> (string \<Rightarrow> bool) \<Rightarrow> ('j \<times> 'j option, string) outcome" where
  "snp_info_collect x runtime_new path_exists =
     (if \<not> path_exists ''/dev/sev-guest'' then Err ''SNP not available: /dev/sev-guest missing''
      else
        and_then (of_sum runtime_new) (\<lambda>_.
        and_then (map_err (\<lambda>e. ''Failed to get evidence: '' @ e) (of_sum (get_evidence x Snp (replicate 64 0)))) (\<lambda>evidence.
        and_then (map_err (\<lambda>e. ''Failed to create verifier: '' @ e) (of_sum (to_verifier x Snp))) (\<lambda>_.
        and_then (map_err (\<lambda>e. ''Verification failed: '' @ e) (of_sum (evaluate x Snp evidence))) (\<lambda>claims.
          Ok (evidence, first_claims claims))))))"

definition extract_bytes :: "'j crates \<Rightarrow> 'j \<Rightarrow> string \<Rightarrow> bytes option" where
  "extract_bytes x obj key =
     (case json_get x obj key of
        None \<Rightarrow> None
      | Some val \<Rightarrow>
          (case json_as_str x val of
             Some hex_str \<Rightarrow> (case hex_decode x hex_str of Inl _ \<Rightarrow> None | Inr bs \<Rightarrow> Some bs)
           | None \<Rightarrow> map_option (\<lambda>arr. List.map_filter (\<lambda>v. map_option (\<lambda>n. (ucast n :: byte)) (json_as_u64 x v)) arr)
                       (json_as_array x val)))"

definition extract_u64 :: "'j crates \<Rightarrow> 'j \<Rightarrow> string \<Rightarrow> 64 word option" where
  "extract_u64 x obj key = (case json_get x obj key of None \<Rightarrow> None | Some v \<Rightarrow> json_as_u64 x v)"

text \<open>The measurement hash that \<open>print_measurement\<close> computes, where it prints one, and the flags that
  \<open>print_policy\<close> reads from the policy.\<close>

definition measurement_shown :: "'j crates \<Rightarrow> 'j \<Rightarrow> string option" where
  "measurement_shown x evidence =
     (let report = json_index x evidence ''attestation_report'' in
      if json_is_null x report then None
      else case (extract_bytes x report ''measurement'', extract_bytes x report ''host_data'') of
             (Some measurement, Some host_data) \<Rightarrow>
               Some (hex_encode x (sha256 x (measurement @ (if list_ex (\<lambda>b. b \<noteq> 0) host_data then host_data else []))))
           | _ \<Rightarrow> None)"

record policy_flags =
  pf_debug :: bool
  pf_debug_allowed :: bool
  pf_smt_allowed :: bool
  pf_migrate_ma :: bool
  pf_single_socket :: bool
  pf_abi_major :: "64 word"
  pf_abi_minor :: "64 word"

definition policy_shown :: "'j crates \<Rightarrow> 'j \<Rightarrow> policy_flags option" where
  "policy_shown x evidence =
     (let report = json_index x evidence ''attestation_report'' in
      if json_is_null x report then None
      else let policy = (case extract_u64 x report ''policy'' of None \<Rightarrow> 0 | Some p \<Rightarrow> p) in
        Some \<lparr> pf_debug = (drop_bit 19 policy AND 1 \<noteq> 0), pf_debug_allowed = (drop_bit 17 policy AND 1 \<noteq> 0),
               pf_smt_allowed = (drop_bit 4 policy AND 1 \<noteq> 0), pf_migrate_ma = (drop_bit 16 policy AND 1 \<noteq> 0),
               pf_single_socket = (drop_bit 18 policy AND 1 \<noteq> 0), pf_abi_major = drop_bit 8 policy AND 0xFF,
               pf_abi_minor = policy AND 0xF \<rparr>)"

definition split_pem_chain :: "string \<Rightarrow> string list" where
  "split_pem_chain pem_data =
     map (\<lambda>block. str_trim block @ END_CERTIFICATE)
       (filter (\<lambda>block. str_contains (str_trim block) BEGIN_CERTIFICATE) (str_split END_CERTIFICATE pem_data))"

text \<open>The display of a hexadecimal field: long texts are cut in the middle.\<close>

definition shorten :: "string \<Rightarrow> (string, 'e) outcome" where
  "shorten s =
     (if length s > 64
      then and_then (str_slice s 0 32) (\<lambda>start.
             and_then (str_slice s (length s - 32) (length s)) (\<lambda>rest. Ok (start @ ''...'' @ rest)))
      else Ok s)"

definition hex_field_display :: "'j crates \<Rightarrow> 'j \<Rightarrow> string \<Rightarrow> (string option, 'e) outcome" where
  "hex_field_display x obj key =
     (case json_get x obj key of
        None \<Rightarrow> Ok None
      | Some val \<Rightarrow>
          (case json_as_str x val of
             Some s \<Rightarrow> and_then (shorten s) (\<lambda>d. Ok (Some d))
           | None \<Rightarrow>
               (case json_as_u64 x val of
                  Some n \<Rightarrow> Ok (Some (''0x'' @ show_hex (unat n)))
                | None \<Rightarrow>
                    (case json_as_array x val of
                       Some arr \<Rightarrow>
                         and_then (shorten (hex_encode x
                             (List.map_filter (\<lambda>v. map_option (\<lambda>n. (ucast n :: byte)) (json_as_u64 x v)) arr)))
                           (\<lambda>d. Ok (Some d))
                     | None \<Rightarrow> Ok None))))"

text \<open>Documented behaviour of \<open>serde_json\<close>: indexing gives the value of a key that is there, and the null
  value otherwise, which is no text, no number and no array.\<close>

definition json_index_faithful :: "'j crates \<Rightarrow> bool" where
  "json_index_faithful x \<longleftrightarrow>
     (\<forall>v k. case json_get x v k of
        Some w \<Rightarrow> json_index x v k = w
      | None \<Rightarrow> json_as_str x (json_index x v k) = None \<and> json_as_u64 x (json_index x v k) = None \<and>
                 json_as_array x (json_index x v k) = None)"

text \<open>Evidence with a report, for a witness.\<close>

definition sample_snp_evidence :: sample_json where
  "sample_snp_evidence = JObj [(''attestation_report'', JObj
     [(''report_id'', JStr (sample_hex_encode (replicate 32 1))), (''report_data'', JStr (sample_hex_encode (replicate 64 2))),
      (''measurement'', JStr (sample_hex_encode (replicate 48 3))), (''host_data'', JStr (sample_hex_encode (replicate 32 4))),
      (''policy'', JNum 0)])]"

section \<open>Lemmas\<close>

lemma json_index_present: "json_index_faithful x \<Longrightarrow> json_get x v k = Some w \<Longrightarrow> json_index x v k = w"
  unfolding json_index_faithful_def by (metis option.case(2))

lemma json_index_absent:
  assumes "json_index_faithful x" and "json_get x v k = None"
  shows "json_as_str x (json_index x v k) = None" "json_as_u64 x (json_index x v k) = None"
    "json_as_array x (json_index x v k) = None"
  using assms unfolding json_index_faithful_def by (metis option.case(1))+

lemma map_filter_collect:
  "list_all2 (\<lambda>r b. r = Ok b) (map (\<lambda>v. and_then (ok_or (f v) e) (\<lambda>n. Ok (g n))) vs) bs \<Longrightarrow>
     List.map_filter (\<lambda>v. map_option g (f v)) vs = bs"
  by (induction vs arbitrary: bs) (auto simp: List.map_filter_simps list_all2_Cons1)

lemma extract_bytes_agrees:
  assumes "json_index_faithful x" and "extract_bytes_field x report field n = Ok bs"
  shows "extract_bytes x report field = Some bs"
proof (cases "json_get x report field")
  case None
  then show ?thesis
    using assms(2) json_index_absent [OF assms(1) None] by (simp add: extract_bytes_field_def)
next
  case (Some v)
  then show ?thesis
    using assms(2) json_index_present [OF assms(1) Some] map_filter_collect
    by (auto simp: extract_bytes_field_def extract_bytes_def split: option.splits if_splits)
qed

lemma extract_u64_agrees:
  assumes "json_index_faithful x" and "extract_u64_field x report field = Ok n"
  shows "extract_u64 x report field = Some n"
proof (cases "json_get x report field")
  case None
  then show ?thesis
    using assms(2) json_index_absent [OF assms(1) None] by (simp add: extract_u64_field_def)
next
  case (Some v)
  then show ?thesis
    using assms(2) json_index_present [OF assms(1) Some] by (simp add: extract_u64_field_def extract_u64_def)
qed

lemma and_single_bit: "p AND push_bit k 1 = (if bit p k then push_bit k 1 else (0 :: 'a::len word))"
  by (rule bit_word_eqI) (auto simp: bit_simps)

lemma sample_json_faithful: "json_index_faithful sample_crates"
  unfolding json_index_faithful_def sample_crates_def
  by (auto split: option.splits elim!: sample_get.elims)

section \<open>Properties\<close>

text \<open>C32: What the SEV-SNP tool shows is what the verifier uses: for every report that the backend parses,
  the measurement hash and the debug flag of the tool are those of the backend.\<close>

theorem snp_info_agrees:
  assumes "json_index_faithful x" and "snp_from_json x evidence = Ok r"
  shows "measurement_shown x evidence = Some (snp_measurement_hash x r) \<and>
     (\<exists>flags. policy_shown x evidence = Some flags \<and> pf_debug flags = snp_is_debug r)"
proof -
  let ?report = "json_index x evidence ''attestation_report''"
  have report: "\<not> json_is_null x ?report"
    "extract_bytes_field x ?report ''measurement'' 48 = Ok (sr_measurement r)"
    "extract_bytes_field x ?report ''host_data'' 32 = Ok (sr_host_data r)"
    "extract_u64_field x ?report ''policy'' = Ok (sr_policy r)"
    using assms(2) by (auto simp: snp_from_json_def Let_def split: if_splits)
  have "drop_bit 19 p AND 1 \<noteq> 0 \<longleftrightarrow> p AND push_bit 19 1 \<noteq> 0" for p :: "64 word"
    using and_single_bit [of p 19] by (simp add: and_one_eq bit_iff_odd_drop_bit mod_2_eq_odd)
  then show ?thesis
    using report extract_bytes_agrees [OF assms(1)] extract_u64_agrees [OF assms(1)]
    by (simp add: measurement_shown_def policy_shown_def snp_measurement_hash_def snp_is_debug_def Let_def)
qed

theorem snp_info_agrees_witness:
  "\<exists>r. snp_from_json sample_crates sample_snp_evidence = Ok r \<and>
     measurement_shown sample_crates sample_snp_evidence = Some (snp_measurement_hash sample_crates r)"
proof -
  have "hex_decode sample_crates (sample_hex_encode bs) = Inr bs" for bs
    using sample_hex_round_trip by (simp add: hex_round_trip_def sample_crates_def)
  then have decode: "sample_hex_decode (sample_hex_encode bs) = Inr bs" for bs by (simp add: sample_crates_def)
  obtain r where r: "snp_from_json sample_crates sample_snp_evidence = Ok r"
    by (simp add: snp_from_json_def extract_bytes_field_def extract_u64_field_def try_into_array_def
        sample_snp_evidence_def sample_crates_def decode Let_def del: and_then_Ok)
  with snp_info_agrees [OF sample_json_faithful r] show ?thesis by blast
qed

text \<open>The TDX tool looks for the signature where the body of the quote ends. For every quote that the
  backend parses, that is the end of the body it parsed, except for a version five quote of type
  three, whose body is 64 bytes longer.\<close>

theorem tdx_signature_follows_body:
  assumes "parse_raw evidence quote = Ok q"
  shows "calculate_sig_offset quote =
     (if tq_version q = 4 then HEADER_SIZE + BODY_SIZE
      else HEADER_SIZE + 6 + BODY_SIZE +
           (if (from_le_bytes (subslice quote 48 50) :: 16 word) = 3 then 64 else 0)) \<and>
     (tq_version q = 4 \<or> tq_version q = 5)"
proof -
  have "tq_version q = from_le_bytes (take 2 quote)" "tq_version q = 4 \<or> tq_version q = 5"
    "HEADER_SIZE + BODY_SIZE \<le> length quote"
    using assms by (auto simp: parse_raw_def Let_def subslice_def split: if_splits)
  then show ?thesis by (auto simp: calculate_sig_offset_def HEADER_SIZE_def BODY_SIZE_def Let_def)
qed

theorem tdx_signature_follows_body_witness:
  "\<exists>q. parse_raw () (sample_header @ concat (body_fields sample_body) @ []) = Ok q \<and>
     (tq_version q = 4 \<longrightarrow> calculate_sig_offset (sample_header @ concat (body_fields sample_body) @ []) = 632)"
proof -
  obtain q where q: "parse_raw () (sample_header @ concat (body_fields sample_body) @ []) = Ok q"
    by (rule parse_framed_body [OF sample_body_wf sample_header_ok, of "()" "[]"])
  with tdx_signature_follows_body [OF q] show ?thesis by (simp only: HEADER_SIZE_def BODY_SIZE_def) auto
qed

end
