(* ===== verification/Info_Print.thy ===== *)
theory Info_Print
  imports Info_Tools
begin

text \<open>
  What the tools \<open>guardian/src/bin/tdx_info.rs\<close> and \<open>guardian/src/bin/snp_info.rs\<close> print. Strings are their UTF-8
  bytes. A printing is the text on the standard output so far and how the code went on: it returned,
  it failed, or it panicked after having printed that much. The properties say for which inputs the
  tools panic.
\<close>

section \<open>Printing\<close>

type_synonym 'a printing = "string \<times> ('a, string) outcome"

definition println :: "string \<Rightarrow> unit printing" where
  "println s = (writeln s, Ok ())"

definition print_nothing :: "unit printing" where
  "print_nothing = ([], Ok ())"

text \<open>A computation between two printing statements.\<close>

definition compute :: "('a, string) outcome \<Rightarrow> 'a printing" where
  "compute r = ([], r)"

fun and_print :: "'a printing \<Rightarrow> ('a \<Rightarrow> 'b printing) \<Rightarrow> 'b printing" where
  "and_print (out, Ok v) k = (let (out', r) = k v in (out @ out', r))"
| "and_print (out, Err e) k = (out, Err e)"
| "and_print (out, Panic m) k = (out, Panic m)"

primrec print_all :: "unit printing list \<Rightarrow> unit printing" where
  "print_all [] = print_nothing"
| "print_all (p # ps) = and_print p (\<lambda>_. print_all ps)"

text \<open>\<open>{:14}\<close> fills up with spaces to a number of characters, which are the bytes that do not continue one.\<close>

definition is_continuation :: "char \<Rightarrow> bool" where
  "is_continuation c = continuation (of_char c)"

definition char_count :: "string \<Rightarrow> nat" where
  "char_count s = length (filter (\<lambda>c. \<not> is_continuation c) s)"

definition pad_right :: "nat \<Rightarrow> string \<Rightarrow> string" where
  "pad_right k s = s @ replicate (k - char_count s) CHR '' ''"

definition labelled :: "string \<Rightarrow> string \<Rightarrow> unit printing" where
  "labelled label text = println (pad_right 14 label @ '' '' @ text)"

text \<open>\<open>s.chars().take(n)\<close>\<close>

fun take_chars :: "nat \<Rightarrow> string \<Rightarrow> string" where
  "take_chars n [] = []"
| "take_chars n (c # cs) =
     (if is_continuation c then c # take_chars n cs
      else case n of 0 \<Rightarrow> [] | Suc k \<Rightarrow> c # take_chars k cs)"

definition show_bool :: "bool \<Rightarrow> string" where
  "show_bool b = (if b then ''true'' else ''false'')"

text \<open>Line drawing: a character of the block is three bytes.\<close>

definition light :: "nat \<Rightarrow> string" where "light n = [CHR 0xE2, CHR 0x94, char_of n]"
definition double :: "nat \<Rightarrow> string" where "double n = [CHR 0xE2, CHR 0x95, char_of n]"

definition heading :: "string \<Rightarrow> string" where
  "heading title = light 128 @ light 128 @ '' '' @ title @ '' '' @ light 128 @ light 128"

definition centred :: "nat \<Rightarrow> string \<Rightarrow> nat \<Rightarrow> string" where
  "centred before title after = replicate before CHR '' '' @ title @ replicate after CHR '' ''"

definition report_banner :: "string \<Rightarrow> unit printing list" where
  "report_banner title =
     [println (double 148 @ concat (replicate 78 (double 144)) @ double 151),
      println (double 145 @ centred 26 title 30 @ double 145),
      println (double 154 @ concat (replicate 78 (double 144)) @ double 157),
      println []]"

definition chain_banner :: "unit printing list" where
  "chain_banner =
     [println [],
      println (light 140 @ concat (replicate 78 (light 128)) @ light 144),
      println (light 130 @ centred 28 ''CERTIFICATE CHAIN'' 33 @ light 130),
      println (light 148 @ concat (replicate 78 (light 128)) @ light 152)]"

section \<open>TDX\<close>

fun cert_data_type_as_u16 :: "CertDataType \<Rightarrow> 16 word" where
  "cert_data_type_as_u16 PpidPlaintext = 1"
| "cert_data_type_as_u16 PpidRsa2048 = 2"
| "cert_data_type_as_u16 PpidRsa3072 = 3"
| "cert_data_type_as_u16 PckLeafCert = 4"
| "cert_data_type_as_u16 PckCertChain = 5"
| "cert_data_type_as_u16 QeReportCertData = 6"
| "cert_data_type_as_u16 PlatformManifest = 7"

text \<open>\<open>claims.get(k)\<close>, where the claims may be the null value.\<close>

definition claim_get :: "'j crates \<Rightarrow> 'j option \<Rightarrow> string \<Rightarrow> 'j option" where
  "claim_get x claims k = Option.bind claims (\<lambda>c. json_get x c k)"

definition print_text_field :: "'j crates \<Rightarrow> 'j \<Rightarrow> string \<Rightarrow> string \<Rightarrow> unit printing" where
  "print_text_field x obj key label =
     (case Option.bind (json_get x obj key) (json_as_str x) of
        None \<Rightarrow> print_nothing
      | Some val \<Rightarrow> labelled (label @ '':'') val)"

definition print_claims :: "'j crates \<Rightarrow> 'j option \<Rightarrow> unit printing" where
  "print_claims x claims = print_all
     [(case Option.bind (claim_get x claims ''tcb_status'') (json_as_str x) of
         None \<Rightarrow> print_nothing | Some tcb \<Rightarrow> println (''tcb_status:     '' @ tcb)),
      (case Option.bind (claim_get x claims ''tcb_date'') (json_as_str x) of
         None \<Rightarrow> print_nothing | Some date \<Rightarrow> println (''tcb_date:       '' @ date)),
      (case Option.bind (claim_get x claims ''advisory_ids'') (json_as_array x) of
         None \<Rightarrow> print_nothing
       | Some ids \<Rightarrow>
           if ids = [] then print_nothing
           else println (''advisory_ids:   '' @ str_join '', '' (List.map_filter (json_as_str x) ids))),
      (case Option.bind (claim_get x claims ''quote'') (\<lambda>q. json_get x q ''header'') of
         None \<Rightarrow> print_nothing
       | Some header \<Rightarrow> print_all
           [println [], println (heading ''Quote Header''),
            print_text_field x header ''version'' ''version'',
            print_text_field x header ''tee_type'' ''tee_type'',
            print_text_field x header ''att_key_type'' ''att_key_type'',
            print_text_field x header ''vendor_id'' ''vendor_id'']),
      (case Option.bind (claim_get x claims ''quote'') (\<lambda>q. json_get x q ''body'') of
         None \<Rightarrow> print_nothing
       | Some body \<Rightarrow> print_all
           [println [], println (heading ''TD Report''),
            print_text_field x body ''tcb_svn'' ''tcb_svn'',
            print_text_field x body ''mr_td'' ''mr_td'',
            print_text_field x body ''mr_seam'' ''mr_seam'',
            print_text_field x body ''td_attributes'' ''td_attributes'',
            print_text_field x body ''xfam'' ''xfam'',
            println [], println (heading ''RTMRs''),
            print_text_field x body ''rtmr_0'' ''RTMR[0]'',
            print_text_field x body ''rtmr_1'' ''RTMR[1]'',
            print_text_field x body ''rtmr_2'' ''RTMR[2]'',
            print_text_field x body ''rtmr_3'' ''RTMR[3]'',
            println [], println (heading ''Report Data''),
            print_text_field x body ''report_data'' ''report_data'']),
      (case claim_get x claims ''td_attributes'' of
         None \<Rightarrow> print_nothing
       | Some attrs \<Rightarrow> print_all
           [println [], println (heading ''TD Attributes''),
            (case Option.bind (json_get x attrs ''debug'') (json_as_bool x) of
               None \<Rightarrow> print_nothing | Some debug \<Rightarrow> println (''DEBUG:          '' @ show_bool debug)),
            (case Option.bind (json_get x attrs ''septve_disable'') (json_as_bool x) of
               None \<Rightarrow> print_nothing | Some sept \<Rightarrow> println (''SEPT_VE_DIS:    '' @ show_bool sept))])]"

text \<open>The first 16 bytes of a key or a signature.\<close>

definition print_head :: "'j crates \<Rightarrow> string \<Rightarrow> bytes \<Rightarrow> unit printing" where
  "print_head x label bs =
     and_print (compute (slice_range bs 0 16)) (\<lambda>h.
       println (label @ hex_encode x h @ ''... ('' @ show_nat (length bs) @ '' bytes)''))"

definition print_certs :: "CertInfo list \<Rightarrow> unit printing" where
  "print_certs certs = print_all (map (\<lambda>(i, cert). print_all
     [println (heading (show_nat (i + 1) @ '' '' @ cert_label ''PCK (Leaf)'' (length certs) i)),
      and_print (compute (show_cert_info cert)) (\<lambda>text. (text, Ok ())),
      println []]) (enumerate 0 certs))"

definition print_signature :: "'j crates \<Rightarrow> QuoteSignature \<Rightarrow> unit printing" where
  "print_signature x sig = print_all
     [print_head x ''signature:      '' (qs_signature sig),
      print_head x ''attest_key:     '' (qs_attest_pub_key sig),
      (case qs_cert_data_type sig of
         None \<Rightarrow> print_nothing
       | Some dt \<Rightarrow> print_all
           [println (''cert_type:      '' @ show_cert_data_type dt @ '' ('' @ show_nat (unat (cert_data_type_as_u16 dt)) @ '')''),
            println (''cert_size:      '' @ show_nat (qs_cert_data_size sig) @ '' bytes'')]),
      (case qs_cert_chain sig of
         None \<Rightarrow> print_nothing
       | Some chain \<Rightarrow> print_all [println [], print_certs (cch_certs chain)])]"

text \<open>The start and the end of a long text.\<close>

definition both_ends :: "string \<Rightarrow> (string, string) outcome" where
  "both_ends s =
     and_then (str_prefix_upto 40 s) (\<lambda>start.
       and_then (str_slice s (length s - 40) (length s)) (\<lambda>rest. Ok (start @ ''...'' @ rest)))"

definition print_raw_quote :: "'j crates \<Rightarrow> bytes \<Rightarrow> unit printing" where
  "print_raw_quote x quote_bytes = print_all
     [println (heading ''Raw Quote''),
      and_print (compute (both_ends (hex_encode x quote_bytes))) (\<lambda>ends.
        println (ends @ '' ('' @ show_nat (length quote_bytes) @ '' bytes)''))]"

definition tdx_info_run :: "'j crates \<Rightarrow> x509 \<Rightarrow> string + unit \<Rightarrow> (string \<Rightarrow> bool) \<Rightarrow> unit printing" where
  "tdx_info_run x lib runtime_new path_exists =
     and_print (compute (tdx_info_collect x runtime_new path_exists)) (\<lambda>(quote_bytes, claims).
       print_all (report_banner ''TDX ATTESTATION REPORT'' @ [print_claims x claims] @ chain_banner @
         [(case parse_quote_signature x lib quote_bytes (calculate_sig_offset quote_bytes) of
             Ok sig \<Rightarrow> print_signature x sig
           | Err e \<Rightarrow> println (''Certificate parse error: '' @ show_quote_signature_error e)
           | Panic m \<Rightarrow> compute (Panic m)),
          print_raw_quote x quote_bytes]))"

text \<open>Standard output, standard error and the exit code of a tool; a panic is reported and exits with 101.\<close>

definition info_main :: "unit printing \<Rightarrow> string \<times> string \<times> nat" where
  "info_main p =
     (case p of
        (out, Ok _) \<Rightarrow> (out, [], 0)
      | (out, Err e) \<Rightarrow> (out, writeln (''Error: '' @ e), 1)
      | (out, Panic m) \<Rightarrow> (out, m, 101))"

section \<open>SEV-SNP\<close>

text \<open>\<open>claims[k].as_u64().unwrap_or(0)\<close>\<close>

definition claim_u64 :: "'j crates \<Rightarrow> 'j option \<Rightarrow> string \<Rightarrow> 64 word" where
  "claim_u64 x claims k =
     (case Option.bind claims (\<lambda>c. json_as_u64 x (json_index x c k)) of None \<Rightarrow> 0 | Some n \<Rightarrow> n)"

definition show_u64 :: "64 word \<Rightarrow> string" where
  "show_u64 n = show_nat (unat n)"

definition print_tcb_status :: "'j crates \<Rightarrow> 'j option \<Rightarrow> unit printing" where
  "print_tcb_status x claims =
     println (''tcb_status:     bootloader='' @ show_u64 (claim_u64 x claims ''reported_tcb_bootloader'') @
       '', tee='' @ show_u64 (claim_u64 x claims ''reported_tcb_tee'') @
       '', snp='' @ show_u64 (claim_u64 x claims ''reported_tcb_snp'') @
       '', microcode='' @ show_u64 (claim_u64 x claims ''reported_tcb_microcode''))"

definition print_field :: "'j crates \<Rightarrow> 'j \<Rightarrow> string \<Rightarrow> string \<Rightarrow> unit printing" where
  "print_field x obj key label =
     (case json_get x obj key of
        None \<Rightarrow> print_nothing
      | Some val \<Rightarrow>
          (case json_as_u64 x val of
             Some n \<Rightarrow> labelled (label @ '':'') (show_u64 n)
           | None \<Rightarrow>
               (case json_as_str x val of
                  Some s \<Rightarrow> labelled (label @ '':'') s
                | None \<Rightarrow> print_nothing)))"

definition print_hex_field :: "'j crates \<Rightarrow> 'j \<Rightarrow> string \<Rightarrow> string \<Rightarrow> unit printing" where
  "print_hex_field x obj key label =
     and_print (compute (hex_field_display x obj key)) (\<lambda>display.
       case display of None \<Rightarrow> print_nothing | Some d \<Rightarrow> labelled (label @ '':'') d)"

definition print_report_header :: "'j crates \<Rightarrow> 'j \<Rightarrow> unit printing" where
  "print_report_header x evidence =
     (let report = json_index x evidence ''attestation_report'' in
      if json_is_null x report then println ''(attestation_report not found in evidence)''
      else print_all
        [println [], println (heading ''Report Header''),
         print_field x report ''version'' ''version'',
         print_field x report ''guest_svn'' ''guest_svn'',
         print_hex_field x report ''policy'' ''policy'',
         print_hex_field x report ''family_id'' ''family_id'',
         print_hex_field x report ''image_id'' ''image_id'',
         print_field x report ''vmpl'' ''vmpl'',
         print_field x report ''signature_algo'' ''sig_algo'',
         print_hex_field x report ''platform_version'' ''platform_tcb'',
         print_hex_field x report ''platform_info'' ''platform_info''])"

definition print_measurement :: "'j crates \<Rightarrow> 'j \<Rightarrow> unit printing" where
  "print_measurement x evidence =
     (let report = json_index x evidence ''attestation_report'' in
      if json_is_null x report then print_nothing
      else print_all
        [println [], println (heading ''Measurement''),
         print_hex_field x report ''measurement'' ''measurement'',
         print_hex_field x report ''host_data'' ''host_data'',
         (case measurement_shown x evidence of
            None \<Rightarrow> print_nothing | Some h \<Rightarrow> labelled ''meas_hash:'' h),
         println [], println (heading ''Identity''),
         print_hex_field x report ''report_id'' ''report_id'',
         print_hex_field x report ''report_id_ma'' ''report_id_ma'',
         print_hex_field x report ''report_data'' ''report_data'',
         print_hex_field x report ''id_key_digest'' ''id_key_digest'',
         print_hex_field x report ''author_key_digest'' ''author_key'',
         print_hex_field x report ''chip_id'' ''chip_id''])"

definition print_policy :: "'j crates \<Rightarrow> 'j \<Rightarrow> 'j option \<Rightarrow> unit printing" where
  "print_policy x evidence claims =
     (case policy_shown x evidence of
        None \<Rightarrow> print_nothing
      | Some flags \<Rightarrow> print_all
          [println [], println (heading ''Policy Flags''),
           labelled ''DEBUG:'' (show_bool (pf_debug flags)),
           labelled ''DEBUG_ALLOWED:'' (show_bool (pf_debug_allowed flags)),
           labelled ''SMT_ALLOWED:'' (show_bool (pf_smt_allowed flags)),
           labelled ''MIGRATE_MA:'' (show_bool (pf_migrate_ma flags)),
           labelled ''SINGLE_SOCKET:'' (show_bool (pf_single_socket flags)),
           labelled ''ABI_VERSION:'' (show_u64 (pf_abi_major flags) @ ''.'' @ show_u64 (pf_abi_minor flags)),
           (case Option.bind (claim_get x claims ''platform_smt_enabled'') (json_as_bool x) of
              None \<Rightarrow> print_nothing | Some smt_enabled \<Rightarrow> labelled ''SMT_ENABLED:'' (show_bool smt_enabled)),
           (case extract_u64 x (json_index x evidence ''attestation_report'') ''vmpl'' of
              None \<Rightarrow> print_nothing | Some vmpl \<Rightarrow> labelled ''VMPL:'' (show_u64 vmpl))])"

definition print_extension :: "TeeExtension \<Rightarrow> unit printing" where
  "print_extension e =
     and_print (compute (if length (te_value e) > 40
                         then and_then (str_slice (te_value e) 0 40) (\<lambda>v. Ok (v @ ''...''))
                         else Ok (te_value e))) (\<lambda>value_display.
       println (''    '' @ pad_right 12 (te_name e) @ '' '' @ value_display @ '' ('' @ show_tee_platform (te_platform e) @ '')''))"

text \<open>A key identifier, of which at most 32 bytes are shown.\<close>

definition print_key_id :: "string \<Rightarrow> string option \<Rightarrow> unit printing" where
  "print_key_id label k =
     (case k of
        None \<Rightarrow> print_nothing
      | Some h \<Rightarrow> and_print (compute (str_prefix_upto 32 h)) (labelled label))"

definition print_cert_info :: "CertInfo \<Rightarrow> unit printing" where
  "print_cert_info cert = print_all
     ([labelled ''subject:'' (ci_subject_cn cert),
       labelled ''issuer:'' (ci_issuer_cn cert),
       and_print (compute (str_prefix_upto 32 (ci_serial cert))) (labelled ''serial:''),
       labelled ''validity:'' (ci_not_before cert @ '' to '' @ ci_not_after cert),
       labelled ''key:'' (ci_key_alg cert @ '' ('' @ show_nat (ci_key_bits cert) @ '' bits)''),
       labelled ''sig_alg:'' (ci_sig_alg cert),
       labelled ''is_ca:'' (show_bool (ci_is_ca cert)),
       labelled ''size:'' (show_nat (ci_der_size cert) @ '' bytes''),
       print_key_id ''SKI:'' (ci_ski cert),
       print_key_id ''AKI:'' (ci_aki cert)] @
      (if ci_tee_extensions cert = [] then []
       else [println [], println ''  TEE Extensions:''] @ map print_extension (ci_tee_extensions cert)))"

definition print_chain_entry :: "'j crates \<Rightarrow> x509 \<Rightarrow> nat \<Rightarrow> nat \<Rightarrow> string \<Rightarrow> unit printing" where
  "print_chain_entry x lib n i pem = print_all
     [println (heading (show_nat (i + 1) @ '' '' @ cert_label ''VCEK (Leaf)'' n i)),
      (case parse_certificate_pem x lib pem of
         Ok cert_info \<Rightarrow> print_cert_info cert_info
       | Err e \<Rightarrow> print_all
           [println (''  Parse error: '' @ show_quote_signature_error e),
            println (''  PEM preview: '' @ take_chars 60 pem @ ''...'')]
       | Panic m \<Rightarrow> compute (Panic m)),
      println []]"

text \<open>The certificates of the evidence, when their format is recognised.\<close>

definition chain_certs :: "'j crates \<Rightarrow> 'j \<Rightarrow> string list option" where
  "chain_certs x cert_chain =
     (case json_as_str x cert_chain of
        Some chain_str \<Rightarrow> Some (split_pem_chain chain_str)
      | None \<Rightarrow> map_option (List.map_filter (json_as_str x)) (json_as_array x cert_chain))"

definition print_cert_chain :: "'j crates \<Rightarrow> x509 \<Rightarrow> 'j \<Rightarrow> unit printing" where
  "print_cert_chain x lib evidence =
     (let cert_chain = json_index x evidence ''cert_chain'' in
      if json_is_null x cert_chain then println ''(no certificate chain in evidence)''
      else case chain_certs x cert_chain of
        None \<Rightarrow> println ''(unrecognized cert_chain format)''
      | Some certs \<Rightarrow>
          if certs = [] then println ''(no certificates found)''
          else print_all (map (\<lambda>(i, pem). print_chain_entry x lib (length certs) i pem) (enumerate 0 certs)))"

definition print_raw_report :: "'j crates \<Rightarrow> 'j \<Rightarrow> unit printing" where
  "print_raw_report x evidence =
     (let report = json_index x evidence ''attestation_report'' in
      if json_is_null x report then print_nothing
      else let report_str = json_to_string x report in print_all
        [println (heading ''Raw Report''),
         and_print (compute (both_ends report_str)) (\<lambda>ends.
           println (ends @ '' (JSON: '' @ show_nat (length report_str) @ '' bytes, binary: 1184 bytes)''))])"

definition snp_info_run :: "'j crates \<Rightarrow> x509 \<Rightarrow> string + unit \<Rightarrow> (string \<Rightarrow> bool) \<Rightarrow> unit printing" where
  "snp_info_run x lib runtime_new path_exists =
     and_print (compute (snp_info_collect x runtime_new path_exists)) (\<lambda>(evidence, claims).
       print_all (report_banner ''SNP ATTESTATION REPORT'' @
         [print_tcb_status x claims, print_report_header x evidence, print_measurement x evidence,
          print_policy x evidence claims] @ chain_banner @
         [print_cert_chain x lib evidence, print_raw_report x evidence]))"

section \<open>When the text can be cut\<close>

definition ascii :: "string \<Rightarrow> bool" where
  "ascii s = list_all (\<lambda>c. (of_char c :: nat) < 128) s"

text \<open>The texts of the report, and the report as a text, are ASCII.\<close>

definition ascii_report :: "'j crates \<Rightarrow> 'j \<Rightarrow> bool" where
  "ascii_report x evidence \<longleftrightarrow>
     (let report = json_index x evidence ''attestation_report'' in
      ascii (json_to_string x report) \<and>
      (\<forall>key v s. json_get x report key = Some v \<and> json_as_str x v = Some s \<longrightarrow> ascii s))"

text \<open>A certificate can be printed when no value of its extensions is cut inside a character.\<close>

definition cert_presentable :: "CertInfo \<Rightarrow> bool" where
  "cert_presentable cert = list_all (\<lambda>e. length (te_value e) \<le> 40 \<or> is_char_boundary (te_value e) 40) (ci_tee_extensions cert)"

definition entry_presentable :: "'j crates \<Rightarrow> x509 \<Rightarrow> string \<Rightarrow> bool" where
  "entry_presentable x lib pem =
     (case parse_certificate_pem x lib pem of
        Ok cert \<Rightarrow> cert_presentable cert | Err _ \<Rightarrow> True | Panic _ \<Rightarrow> False)"

definition chain_presentable :: "'j crates \<Rightarrow> x509 \<Rightarrow> 'j \<Rightarrow> bool" where
  "chain_presentable x lib evidence =
     (let cert_chain = json_index x evidence ''cert_chain'' in
      json_is_null x cert_chain \<or>
      (case chain_certs x cert_chain of None \<Rightarrow> True | Some certs \<Rightarrow> list_all (entry_presentable x lib) certs))"

text \<open>The texts in a parsed certificate that are cut without a check are hexadecimal.\<close>

definition hex_texts :: "'j crates \<Rightarrow> CertInfo \<Rightarrow> bool" where
  "hex_texts x cert \<longleftrightarrow>
     (\<exists>bs. ci_serial cert = hex_encode x bs) \<and>
     (\<forall>h. ci_ski cert = Some h \<longrightarrow> (\<exists>bs. h = hex_encode x bs)) \<and>
     (\<forall>h. ci_aki cert = Some h \<longrightarrow> (\<exists>bs. h = hex_encode x bs))"

text \<open>For a witness: an X.509 library that finds one AMD extension in every certificate, a text of 42 bytes
  whose byte 40 is inside a character, and evidence with a report and one certificate.\<close>

definition accented_x509 :: x509 where
  "accented_x509 = \<lparr> from_der = (\<lambda>_. Inr
     \<lparr> xc_extensions = [\<lparr> xe_oid = AMD_SEV_OID_PREFIX @ ''.1.2'', xe_value = [12, 42] @ replicate 39 97 @ [195, 169, 97],
          xe_parsed = OtherExtension \<rparr>],
       xc_subject = \<lparr> xn_common_names = [], xn_text = [] \<rparr>, xc_issuer = \<lparr> xn_common_names = [], xn_text = [] \<rparr>,
       xc_raw_serial = [1], xc_not_before = [], xc_not_after = [], xc_signature_oid = [], xc_key_oid = [],
       xc_public_key = None \<rparr>),
     known_oids = (\<lambda>_. None) \<rparr>"

definition sample_chain_evidence :: sample_json where
  "sample_chain_evidence = JObj [(''attestation_report'', JObj [(''version'', JNum 2)]),
     (''cert_chain'', JArr [JStr (BEGIN_CERTIFICATE @ END_CERTIFICATE)])]"

definition reporting :: "sample_json \<Rightarrow> sample_json crates" where
  "reporting evidence = sample_crates\<lparr> get_evidence := (\<lambda>_ _. Inr evidence), to_verifier := (\<lambda>_. Inr ()),
     evaluate := (\<lambda>_ _. Inr []), base64_decode := (\<lambda>_. Inr []) \<rparr>"

section \<open>Lemmas\<close>

lemma snd_printing [simp]:
  "snd (println s) = Ok ()" "snd print_nothing = Ok ()" "snd (compute r) = r" "snd (labelled l t) = Ok ()"
  by (simp_all add: println_def print_nothing_def compute_def labelled_def)

lemma snd_and_print [simp]: "snd (and_print p k) = and_then (snd p) (\<lambda>v. snd (k v))"
  by (cases "(p, k)" rule: and_print.cases) (simp_all add: case_prod_beta)

lemma snd_print_all_append:
  "snd (print_all (ps @ qs)) = and_then (snd (print_all ps)) (\<lambda>_. snd (print_all qs))"
proof (induction ps)
  case (Cons p ps)
  then show ?case by (cases "snd p") simp_all
qed simp

lemma print_all_Cons: "snd (print_all (p # ps)) = and_then (snd p) (\<lambda>_. snd (print_all ps))" "snd (print_all []) = Ok ()"
  by simp_all

lemma print_all_Ok_iff: "snd (print_all ps) = Ok () \<longleftrightarrow> (\<forall>p \<in> set ps. snd p = Ok ())"
  by (induction ps) auto

declare print_all.simps [simp del]

lemma enumerate_all: "(\<forall>p \<in> set (enumerate n xs). P (snd p)) \<longleftrightarrow> (\<forall>v \<in> set xs. P v)"
proof -
  have "set xs = snd ` set (enumerate n xs)" by (metis map_snd_enumerate set_map)
  then show ?thesis by simp
qed

lemma print_all_enumerate:
  "snd (print_all (map (\<lambda>(i, v). f i v) (enumerate n xs))) = Ok () \<longleftrightarrow> (\<forall>p \<in> set (enumerate n xs). snd (f (fst p) (snd p)) = Ok ())"
  by (simp add: print_all_Ok_iff case_prod_beta)

lemma banners [simp]: "snd (print_all (report_banner t)) = Ok ()" "snd (print_all chain_banner) = Ok ()"
  by (simp_all add: print_all_Ok_iff report_banner_def chain_banner_def)

lemma ascii_slice: "ascii s \<Longrightarrow> a \<le> b \<Longrightarrow> b \<le> length s \<Longrightarrow> str_slice s a b = Ok (subslice s a b)"
  using ascii_boundary [of s] by (simp add: str_slice_def ascii_def list_all_iff)

lemma ascii_prefix: "ascii s \<Longrightarrow> str_prefix_upto n s = Ok (take n s)"
  by (rule str_prefix_upto_ascii) (simp add: ascii_def list_all_iff)

lemma ascii_both_ends: "ascii s \<Longrightarrow> \<exists>t. both_ends s = Ok t"
  by (simp add: both_ends_def ascii_prefix ascii_slice)

lemma ascii_shorten: "ascii s \<Longrightarrow> \<exists>t. shorten s = Ok t"
  by (simp add: shorten_def ascii_slice)

lemma ascii_hex: "hex_two_chars x \<Longrightarrow> ascii (hex_encode x bs)"
  by (simp add: hex_two_chars_def ascii_def list_all_iff)

lemma parse_x509_cert_hex:
  assumes "parse_x509_cert x lib der = Ok cert"
  shows "hex_texts x cert"
proof -
  from assms obtain c where "ci_serial cert = hex_encode x (xc_raw_serial c)"
    "ci_ski cert = (case find_extension ''2.5.29.14'' c of Some (SubjectKeyIdentifier k) \<Rightarrow> Some (hex_encode x k) | _ \<Rightarrow> None)"
    "ci_aki cert = (case find_extension ''2.5.29.35'' c of Some (AuthorityKeyIdentifier k) \<Rightarrow> map_option (hex_encode x) k | _ \<Rightarrow> None)"
    unfolding parse_x509_cert_def Let_def and_then_Ok by force
  then show ?thesis
    unfolding hex_texts_def by (simp split: option.split ParsedExtension.split) blast
qed

lemma parse_certificate_pem_hex: "parse_certificate_pem x lib pem = Ok cert \<Longrightarrow> hex_texts x cert"
  by (auto simp: parse_certificate_pem_def parse_x509_cert_hex)

lemma parse_pem_blocks_hex: "parse_pem_blocks x lib blocks = Ok certs \<Longrightarrow> cert \<in> set certs \<Longrightarrow> hex_texts x cert"
proof (induction x lib blocks arbitrary: certs rule: parse_pem_blocks.induct)
  case (2 x lib pem_block blocks)
  let ?trimmed = "str_trim pem_block"
  show ?case
  proof (cases "str_contains ?trimmed BEGIN_CERTIFICATE")
    case True
    then obtain der where der: "pem_to_der x (?trimmed @ END_CERTIFICATE) = (Ok der :: (bytes option, QuoteSignatureError) outcome)"
      using "2.prems"(1) by (auto simp: Let_def)
    show ?thesis
    proof (cases der)
      case None
      with True der 2 show ?thesis by (simp add: Let_def)
    next
      case (Some d)
      show ?thesis
      proof (cases "parse_x509_cert x lib d")
        case (Ok info)
        with True der Some "2.prems"(1) obtain rest where "parse_pem_blocks x lib blocks = Ok rest" "certs = info # rest"
          by (auto simp: Let_def)
        with 2 True der Some Ok show ?thesis by (auto simp: parse_x509_cert_hex)
      qed (use True der Some 2 in \<open>simp_all add: Let_def\<close>)
    qed
  qed (use 2 in \<open>simp add: Let_def\<close>)
qed simp

lemma parse_cert_data_hex: "parse_cert_data x lib t data = Ok chain \<Longrightarrow> cert \<in> set (cch_certs chain) \<Longrightarrow> hex_texts x cert"
  by (cases t) (auto simp: parse_pem_chain_def parse_qe_report_cert_data_def Let_def parse_pem_blocks_hex split: if_splits)

lemma to_option_Ok: "to_option r = Ok (Some v) \<longleftrightarrow> r = Ok v"
  by (cases r) simp_all

lemma parse_quote_signature_parts:
  assumes "parse_quote_signature x lib quote offset = Ok sig"
  shows "length (qs_signature sig) = 64" "length (qs_attest_pub_key sig) = 64"
    "qs_cert_chain sig = Some chain \<Longrightarrow> cert \<in> set (cch_certs chain) \<Longrightarrow> hex_texts x cert"
proof -
  let ?data = "drop offset quote"
  let ?content = "subslice ?data 4 (4 + le_nat (take 4 ?data))"
  note unfolded = assms [unfolded parse_quote_signature_def Let_def]
  have quote: "\<not> length quote < offset + 4" using unfolded by (rule contrapos_pn) simp
  note unfolded = unfolded [unfolded if_not_P [OF quote]]
  have data: "\<not> length ?data < 4 + le_nat (take 4 ?data)" using unfolded by (rule contrapos_pn) simp
  note unfolded = unfolded [unfolded if_not_P [OF data]]
  have long: "\<not> length ?content < 134" using unfolded by (rule contrapos_pn) simp
  note unfolded = unfolded [unfolded if_not_P [OF long] and_then_Ok]
  have parts: "qs_signature sig = take 64 ?content \<and> qs_attest_pub_key sig = subslice ?content 64 128 \<and>
    (qs_cert_chain sig = None \<or> (\<exists>t parsed. to_option (parse_cert_data x lib t parsed) =
       (Ok (qs_cert_chain sig) :: (CertChain option, QuoteSignatureError) outcome)))"
    using unfolded
    by (elim exE conjE, unfold outcome.inject) (hypsubst, simp only: QuoteSignature.select_convs split: if_split_asm, blast, simp)
  show "length (qs_signature sig) = 64" "length (qs_attest_pub_key sig) = 64"
    using long parts by (simp_all add: subslice_def)
  show "hex_texts x cert" if "qs_cert_chain sig = Some chain" "cert \<in> set (cch_certs chain)"
    using parts that parse_cert_data_hex by (auto simp: to_option_Ok)
qed

lemma print_text_field_Ok [simp]: "snd (print_text_field x obj key label) = Ok ()"
  by (simp add: print_text_field_def split: option.split)

lemma print_claims_Ok [simp]: "snd (print_claims x claims) = Ok ()"
  unfolding print_claims_def print_all_Ok_iff by (simp add: print_all_Ok_iff split: option.split)

lemma print_head_Ok: "16 \<le> length bs \<Longrightarrow> snd (print_head x label bs) = Ok ()"
  by (simp add: print_head_def slice_range_def del: and_then_Ok)

lemma print_certs_Ok:
  assumes "hex_two_chars x" and "\<And>cert. cert \<in> set certs \<Longrightarrow> hex_texts x cert"
  shows "snd (print_certs certs) = Ok ()"
proof -
  have "\<exists>t. show_cert_info cert = (Ok t :: (string, string) outcome)" if "cert \<in> set certs" for cert
    using assms(2) [OF that] ascii_hex [OF assms(1)] by (auto simp: hex_texts_def show_cert_info_def ascii_prefix)
  then have shown: "\<forall>p \<in> set (enumerate 0 certs). \<exists>t. show_cert_info (snd p) = (Ok t :: (string, string) outcome)"
    using enumerate_all [of 0 certs "\<lambda>c. \<exists>t. show_cert_info c = (Ok t :: (string, string) outcome)"] by blast
  show ?thesis
    unfolding print_certs_def print_all_enumerate using shown by (simp add: print_all_Ok_iff)
qed

lemma print_signature_Ok:
  assumes "hex_two_chars x" and "parse_quote_signature x lib quote offset = Ok sig"
  shows "snd (print_signature x sig) = Ok ()"
proof -
  note parts = parse_quote_signature_parts [OF assms(2)]
  have "snd (print_certs (cch_certs chain)) = Ok ()" if "qs_cert_chain sig = Some chain" for chain
    using print_certs_Ok [OF assms(1)] parts(3) [OF that] by blast
  with parts(1,2) show ?thesis
    unfolding print_signature_def print_all_Ok_iff
    by (simp add: print_head_Ok print_all_Ok_iff split: option.split)
qed

lemma print_raw_quote_Ok: "hex_two_chars x \<Longrightarrow> snd (print_raw_quote x quote) = Ok ()"
  using ascii_both_ends [OF ascii_hex, of x quote] by (auto simp: print_raw_quote_def print_all_Ok_iff)

lemma tdx_info_collect_no_panic: "no_panic (tdx_info_collect x runtime_new path_exists)"
  by (simp add: tdx_info_collect_def no_panic_simps Let_def)

lemma print_hex_field_Ok:
  assumes "hex_two_chars x" and "\<And>v s. json_get x report key = Some v \<Longrightarrow> json_as_str x v = Some s \<Longrightarrow> ascii s"
  shows "snd (print_hex_field x report key label) = Ok ()"
proof -
  have "\<exists>d. hex_field_display x report key = (Ok d :: (string option, string) outcome)"
    using assms(2) ascii_shorten ascii_shorten [OF ascii_hex [OF assms(1)]]
    by (fastforce simp: hex_field_display_def split: option.split)
  then show ?thesis by (auto simp: print_hex_field_def simp del: and_then_Ok split: option.split)
qed

lemma print_field_Ok [simp]: "snd (print_field x report key label) = Ok ()"
  by (simp add: print_field_def split: option.split)

lemma report_parts_Ok:
  assumes "hex_two_chars x" and "ascii_report x evidence"
  shows "snd (print_report_header x evidence) = Ok ()" "snd (print_measurement x evidence) = Ok ()"
    "snd (print_policy x evidence claims) = Ok ()" "snd (print_raw_report x evidence) = Ok ()"
proof -
  let ?report = "json_index x evidence ''attestation_report''"
  have field: "snd (print_hex_field x ?report key label) = Ok ()" for key label
    using assms(2) by (intro print_hex_field_Ok [OF assms(1)]) (auto simp: ascii_report_def Let_def)
  obtain t where ends: "both_ends (json_to_string x ?report) = Ok t"
    using assms(2) ascii_both_ends [of "json_to_string x ?report"] by (auto simp: ascii_report_def Let_def)
  show "snd (print_report_header x evidence) = Ok ()"
    by (simp add: print_report_header_def Let_def print_all_Ok_iff field)
  show "snd (print_measurement x evidence) = Ok ()"
    by (simp add: print_measurement_def Let_def print_all_Ok_iff field split: option.split)
  show "snd (print_policy x evidence claims) = Ok ()"
    by (simp add: print_policy_def print_all_Ok_iff split: option.split)
  show "snd (print_raw_report x evidence) = Ok ()"
    by (simp add: print_raw_report_def Let_def print_all_Ok_iff ends)
qed

lemma print_extension_Ok_iff:
  "snd (print_extension e) = Ok () \<longleftrightarrow> length (te_value e) \<le> 40 \<or> is_char_boundary (te_value e) 40"
  by (auto simp: print_extension_def str_slice_def is_char_boundary_def)

lemma print_cert_info_Ok_iff:
  assumes "hex_two_chars x" and "hex_texts x cert"
  shows "snd (print_cert_info cert) = Ok () \<longleftrightarrow> cert_presentable cert"
proof -
  have key: "snd (print_key_id label k) = Ok ()" if "\<And>h. k = Some h \<Longrightarrow> \<exists>bs. h = hex_encode x bs" for label k
    using that by (auto simp: print_key_id_def ascii_prefix [OF ascii_hex [OF assms(1)]] split: option.split)
  have "str_prefix_upto 32 (ci_serial cert) = (Ok (take 32 (ci_serial cert)) :: (string, string) outcome)"
    using assms(2) by (auto simp: hex_texts_def ascii_prefix [OF ascii_hex [OF assms(1)]])
  moreover have "snd (print_key_id label (ci_ski cert)) = Ok ()" "snd (print_key_id label (ci_aki cert)) = Ok ()" for label
    using assms(2) by (auto intro!: key simp: hex_texts_def)
  ultimately show ?thesis
    unfolding print_cert_info_def print_all_Ok_iff
    by (auto simp: print_extension_Ok_iff cert_presentable_def list_all_iff)
qed

lemma print_chain_entry_Ok_iff:
  assumes "hex_two_chars x"
  shows "snd (print_chain_entry x lib n i pem) = Ok () \<longleftrightarrow> entry_presentable x lib pem"
  using print_cert_info_Ok_iff [OF assms parse_certificate_pem_hex]
  by (auto simp: print_chain_entry_def print_all_Ok_iff entry_presentable_def split: outcome.split)

lemma print_cert_chain_Ok_iff:
  assumes "hex_two_chars x"
  shows "snd (print_cert_chain x lib evidence) = Ok () \<longleftrightarrow> chain_presentable x lib evidence"
proof -
  have "snd (print_all (map (\<lambda>(i, pem). print_chain_entry x lib (length certs) i pem) (enumerate 0 certs))) = Ok ()
    \<longleftrightarrow> list_all (entry_presentable x lib) certs" for certs
    by (simp add: print_all_enumerate print_chain_entry_Ok_iff [OF assms] enumerate_all [where P = "entry_presentable x lib"] list_all_iff)
  then show ?thesis
    by (simp add: print_cert_chain_def chain_presentable_def Let_def split: option.split)
qed

lemma cert_data_type_u16_round_trip: "cert_data_type_from_u16 (cert_data_type_as_u16 t) = Some t"
  by (cases t) (simp_all add: cert_data_type_from_u16_def)

lemma accented_value:
  "decode_extension_value x ([12, 42] @ replicate 39 97 @ [195, 169, 97]) = replicate 39 CHR ''a'' @ [CHR 0xC3, CHR 0xA9, CHR ''a'']"
proof -
  have "from_utf8 (replicate 39 97 @ [195, 169, 97]) = Some (replicate 39 CHR ''a'' @ [CHR 0xC3, CHR 0xA9, CHR ''a''])"
    by code_simp
  then show ?thesis by (simp add: decode_extension_value_def subslice_def)
qed

lemma accented_cert:
  "\<exists>cert. parse_x509_cert x accented_x509 der = Ok cert \<and> \<not> cert_presentable cert"
proof -
  have "is_tee_oid (AMD_SEV_OID_PREFIX @ ''.1.2'')" "tee_platform (AMD_SEV_OID_PREFIX @ ''.1.2'') = Some Amd"
    by (simp_all add: is_tee_oid_def tee_platform_def AMD_SEV_OID_PREFIX_def INTEL_SGX_OID_PREFIX_def)
  then show ?thesis
    by (simp add: parse_x509_cert_def accented_x509_def extract_tee_extension_def accented_value List.map_filter_simps
        cert_presentable_def is_char_boundary_def nth_append Let_def del: and_then_Ok append_Cons)
qed

section \<open>Properties\<close>

text \<open>C33: How the TDX tool ends. Its exit code is 1 when evidence and claims cannot be collected, 101, a panic,
  when the parser of the signature section panics on the quote, and 0 otherwise; whatever the claims, the
  certificates and the quote hold, printing them does not panic.\<close>

theorem tdx_info_exit:
  assumes "hex_two_chars x"
  shows "snd (snd (info_main (tdx_info_run x lib runtime_new path_exists))) =
     (case tdx_info_collect x runtime_new path_exists of
        Ok (quote, claims) \<Rightarrow>
          if no_panic (parse_quote_signature x lib quote (calculate_sig_offset quote)) then 0 else 101
      | _ \<Rightarrow> 1)"
proof -
  have ending: "snd (snd (info_main p)) = (case snd p of Ok _ \<Rightarrow> 0 | Err _ \<Rightarrow> 1 | Panic _ \<Rightarrow> 101)" for p
    by (cases p) (simp add: info_main_def split: outcome.split)
  show ?thesis
  proof (cases "tdx_info_collect x runtime_new path_exists")
    case (Ok r)
    obtain quote claims where r: "r = (quote, claims)" by (cases r)
    have "snd (tdx_info_run x lib runtime_new path_exists) =
      (case parse_quote_signature x lib quote (calculate_sig_offset quote) of Panic m \<Rightarrow> Panic m | _ \<Rightarrow> Ok ())"
      using print_signature_Ok [OF assms, of lib quote] print_raw_quote_Ok [OF assms]
      by (auto simp: tdx_info_run_def Ok r snd_print_all_append print_all_Cons simp del: and_then_Ok split: outcome.split)
    with Ok r show ?thesis by (auto simp: ending split: outcome.split)
  next
    case (Panic m)
    with tdx_info_collect_no_panic [of x runtime_new path_exists] show ?thesis by simp
  qed (simp add: ending tdx_info_run_def)
qed

theorem tdx_info_exit_witness:
  "snd (snd (info_main (tdx_info_run sample_crates sample_x509 (Inl ''no threads'') (\<lambda>_. True)))) = 1"
  by (subst tdx_info_exit [OF sample_hex_two_chars]) (simp add: tdx_info_collect_def Let_def)

text \<open>How the SEV-SNP tool ends on a report of ASCII texts. It prints everything and returns, unless the
  parser panics on a certificate, or a certificate of the chain has a TEE extension whose value is longer than
  40 bytes with a character across byte 40: there the tool panics.\<close>

theorem snp_info_completes:
  assumes "hex_two_chars x" and "snp_info_collect x runtime_new path_exists = Ok (evidence, claims)"
    and "ascii_report x evidence"
  shows "snd (snp_info_run x lib runtime_new path_exists) = Ok () \<longleftrightarrow> chain_presentable x lib evidence"
  using print_cert_chain_Ok_iff [OF assms(1), of lib evidence] report_parts_Ok [OF assms(1,3)]
  by (auto simp: snp_info_run_def assms(2) print_all_Ok_iff print_tcb_status_def report_banner_def chain_banner_def)

theorem snp_info_completes_witness:
  "snp_info_collect (reporting sample_chain_evidence) (Inr ()) (\<lambda>_. True) = Ok (sample_chain_evidence, None) \<and>
   snd (snp_info_run (reporting sample_chain_evidence) sample_x509 (Inr ()) (\<lambda>_. True)) = Ok () \<and>
   snd (snp_info_run (reporting sample_chain_evidence) accented_x509 (Inr ()) (\<lambda>_. True)) \<noteq> Ok ()"
proof -
  let ?x = "reporting sample_chain_evidence"
  have hex: "hex_two_chars ?x" using sample_hex_two_chars by (simp add: hex_two_chars_def reporting_def)
  have collected: "snp_info_collect ?x (Inr ()) (\<lambda>_. True) = Ok (sample_chain_evidence, None)"
    by (simp add: snp_info_collect_def reporting_def first_claims_def del: and_then_Ok)
  have report: "ascii_report ?x sample_chain_evidence"
    by (auto simp: ascii_report_def reporting_def sample_crates_def sample_chain_evidence_def ascii_def Let_def)
  have certs: "chain_presentable ?x lib sample_chain_evidence \<longleftrightarrow> entry_presentable ?x lib (BEGIN_CERTIFICATE @ END_CERTIFICATE)" for lib
    by (simp add: chain_presentable_def reporting_def sample_crates_def sample_chain_evidence_def chain_certs_def
        List.map_filter_def Let_def)
  have der: "pem_to_der ?x (BEGIN_CERTIFICATE @ END_CERTIFICATE) = Ok (Some [])"
    by (simp add: pem_to_der_def BEGIN_CERTIFICATE_def END_CERTIFICATE_def reporting_def str_slice_def is_char_boundary_def)
  have "entry_presentable ?x sample_x509 (BEGIN_CERTIFICATE @ END_CERTIFICATE)"
    by (simp add: entry_presentable_def parse_certificate_pem_def der parse_x509_cert_def sample_x509_def del: and_then_Ok)
  moreover have "\<not> entry_presentable ?x accented_x509 (BEGIN_CERTIFICATE @ END_CERTIFICATE)"
    using accented_cert [of ?x "[]"] by (auto simp: entry_presentable_def parse_certificate_pem_def der simp del: and_then_Ok)
  ultimately show ?thesis
    using snp_info_completes [OF hex collected report] collected certs by blast
qed

end
