(* ===== verification/Raft_Log.thy ===== *)
theory Raft_Log
  imports Persistent_Store
begin

text \<open>
  What the RAFT library expects of the log storage: a sequence of entries with consecutive indices, of
  which a prefix may have been purged. The locale \<open>sequence_log\<close> is that contract; the persistent
  store of \<open>consensus/src/persistent_storage.rs\<close> is an instance. The property follows an overwrite of
  conflicting entries through the store.
\<close>

section \<open>The contract\<close>

text \<open>\<open>holds s b es\<close>: the log of \<open>s\<close> is the entries \<open>es\<close>, the first of them at index \<open>b\<close>. The operations are
  related to their successful results.\<close>

locale sequence_log =
  fixes holds :: "'s \<Rightarrow> nat \<Rightarrow> 'e list \<Rightarrow> bool"
    and idx :: "'e \<Rightarrow> nat"
    and appended :: "'e list \<Rightarrow> 's \<Rightarrow> 's \<Rightarrow> bool"
    and truncated :: "nat \<Rightarrow> 's \<Rightarrow> 's \<Rightarrow> bool"
    and purged :: "nat \<Rightarrow> 's \<Rightarrow> 's \<Rightarrow> bool"
    and reading :: "'s \<Rightarrow> nat \<Rightarrow> nat \<Rightarrow> 'e list"
  assumes append_law: "holds s b es \<Longrightarrow> map idx es' = [b + length es..<b + length es + length es'] \<Longrightarrow>
      appended es' s s' \<Longrightarrow> holds s' b (es @ es')"
    and truncate_law: "holds s b es \<Longrightarrow> b \<le> k \<Longrightarrow> truncated k s s' \<Longrightarrow> holds s' b (take (k - b) es)"
    and purge_law: "holds s b es \<Longrightarrow> b \<le> Suc k \<Longrightarrow> Suc k \<le> b + length es \<Longrightarrow> purged k s s' \<Longrightarrow>
      holds s' (Suc k) (drop (Suc k - b) es)"
    and read_law: "holds s b es \<Longrightarrow> b \<le> lo \<Longrightarrow> lo < hi \<Longrightarrow> hi \<le> b + length es \<Longrightarrow>
      reading s lo hi = drop (lo - b) (take (hi - b) es)"
begin

text \<open>A follower whose entries from an index on conflict with the leader's removes them and appends the
  leader's: afterwards the log is its old part before the index, followed by the leader's entries.\<close>

lemma overwrite:
  assumes "holds s b es" and "b \<le> k" and "k \<le> b + length es"
    and "truncated k s s1" and "map idx es' = [k..<k + length es']" and "appended es' s1 s2" and "es' \<noteq> []"
  shows "holds s2 b (take (k - b) es @ es')"
    "reading s2 b (k + length es') = take (k - b) es @ es'"
proof -
  have "holds s1 b (take (k - b) es)" using assms(1,2,4) by (rule truncate_law)
  moreover have "b + length (take (k - b) es) = k" using assms(2,3) by simp
  ultimately show "holds s2 b (take (k - b) es @ es')" using assms(5,6) by (intro append_law) simp_all
  from read_law [OF this, of b "k + length es'"] show "reading s2 b (k + length es') = take (k - b) es @ es'"
    using assms(2,3,7) by (cases es') auto
qed

text \<open>Purging what has been read leaves the rest readable.\<close>

lemma purge_keeps_rest:
  assumes "holds s b es" and "b \<le> Suc k" and "Suc k < b + length es" and "purged k s s'"
  shows "reading s' (Suc k) (b + length es) = drop (Suc k - b) es"
  using read_law [OF purge_law [OF assms(1,2) _ assms(4)], of "Suc k" "b + length es"] assms(2,3) by simp

end

section \<open>The store as a sequence\<close>

definition entry_index :: "('v, 'l, 'e, 'p, 'm) raft_types \<Rightarrow> 'e \<Rightarrow> nat" where
  "entry_index T e = unat (log_index T (entry_log_id T e))"

definition log_holds ::
  "('v, 'l, 'e, 'p, 'm) raft_types \<Rightarrow> ('v, 'l, 'e, 'm) Store \<times> file_system \<Rightarrow> nat \<Rightarrow> 'e list \<Rightarrow> bool" where
  "log_holds T = (\<lambda>(s, fs) b es.
     map (entry_index T) es = [b..<b + length es] \<and>
     (\<forall>i. ps_log s i = (if b \<le> unat i \<and> unat i < b + length es then Some (es ! (unat i - b)) else None)))"

definition log_appended ::
  "('v, 'l, 'e, 'p, 'm) raft_types \<Rightarrow> 'e list \<Rightarrow> ('v, 'l, 'e, 'm) Store \<times> file_system \<Rightarrow>
   ('v, 'l, 'e, 'm) Store \<times> file_system \<Rightarrow> bool" where
  "log_appended T es = (\<lambda>(s, fs) (s', fs'). \<exists>faults. store_append T faults es s fs = (Ok (), s', fs'))"

definition log_truncated ::
  "('v, 'l, 'e, 'p, 'm) raft_types \<Rightarrow> nat \<Rightarrow> ('v, 'l, 'e, 'm) Store \<times> file_system \<Rightarrow>
   ('v, 'l, 'e, 'm) Store \<times> file_system \<Rightarrow> bool" where
  "log_truncated T k = (\<lambda>(s, fs) (s', fs').
     \<exists>faults l. unat (log_index T l) = k \<and> store_truncate T faults l s fs = (Ok (), s', fs'))"

definition log_purged ::
  "('v, 'l, 'e, 'p, 'm) raft_types \<Rightarrow> nat \<Rightarrow> ('v, 'l, 'e, 'm) Store \<times> file_system \<Rightarrow>
   ('v, 'l, 'e, 'm) Store \<times> file_system \<Rightarrow> bool" where
  "log_purged T k = (\<lambda>(s, fs) (s', fs').
     \<exists>faults l. unat (log_index T l) = k \<and> store_purge T faults l s fs = (Ok (), s', fs'))"

text \<open>The range from an index up to, but without, another one, which may be behind the largest index.\<close>

definition log_reading :: "('v, 'l, 'e, 'm) Store \<times> file_system \<Rightarrow> nat \<Rightarrow> nat \<Rightarrow> 'e list" where
  "log_reading = (\<lambda>(s, fs) lo hi.
     case try_get_log_entries s (Included (word_of_nat lo))
            (if hi < 2 ^ 64 then Excluded (word_of_nat hi) else Unbounded) of
       Ok es \<Rightarrow> es | _ \<Rightarrow> [])"

section \<open>Lemmas\<close>

lemma append_entries_effect:
  "append_entries T faults es s fs = (Ok (), s', fs') \<Longrightarrow>
     s' = s\<lparr> ps_log := fold (\<lambda>e m. m(log_index T (entry_log_id T e) \<mapsto> e)) es (ps_log s) \<rparr>"
proof (induction T faults es s fs rule: append_entries.induct)
  case (2 T faults entry entries s fs)
  obtain fs1 where w: "persist_log_entry T faults entry fs = (Ok (), fs1)"
    using 2(2) by (auto split: prod.splits outcome.splits)
  with 2(1) [OF w [symmetric] refl] 2(2) show ?case by simp
qed simp

lemma log_holds_snoc:
  assumes "log_holds T (s, fs) b es" and "entry_index T e = b + length es"
  shows "log_holds T (s\<lparr> ps_log := (ps_log s)(log_index T (entry_log_id T e) \<mapsto> e) \<rparr>, fs') b (es @ [e])"
proof -
  have "i = log_index T (entry_log_id T e) \<longleftrightarrow> unat i = b + length es" for i
    using assms(2) by (auto simp: entry_index_def word_unat_eq_iff)
  with assms show ?thesis
    by (auto simp: log_holds_def nth_append)
qed

lemma log_holds_fold:
  assumes "log_holds T (s, fs) b es" and "map (entry_index T) es' = [b + length es..<b + length es + length es']"
  shows "log_holds T (s\<lparr> ps_log := fold (\<lambda>e m. m(log_index T (entry_log_id T e) \<mapsto> e)) es' (ps_log s) \<rparr>, fs') b (es @ es')"
  using assms
proof (induction es' arbitrary: es s fs)
  case Nil
  then show ?case by (simp add: log_holds_def)
next
  case (Cons e es')
  have e: "entry_index T e = b + length es" "map (entry_index T) es' = [b + length (es @ [e])..<b + length (es @ [e]) + length es']"
    using Cons.prems(2) by (simp_all add: upt_conv_Cons del: upt_Suc)
  from Cons.IH [OF log_holds_snoc [OF Cons.prems(1) e(1)] e(2)] show ?case by simp
qed

lemma log_holds_restrict:
  assumes "log_holds T (s, fs) b es" and "b \<le> lo" and "hi \<le> b + length es" and "lo \<le> hi"
    and "\<And>i. ps_log s' i = (if lo \<le> unat i \<and> unat i < hi then ps_log s i else None)"
  shows "log_holds T (s', fs') lo (drop (lo - b) (take (hi - b) es))"
proof -
  have "map (entry_index T) (drop (lo - b) (take (hi - b) es)) = drop (lo - b) (take (hi - b) [b..<b + length es])"
    using assms(1) by (simp add: log_holds_def flip: drop_map take_map)
  also have "\<dots> = [lo..<hi]" using assms(2-4) by (simp add: drop_upt take_upt min_def)
  finally show ?thesis
    using assms by (auto simp: log_holds_def)
qed

lemma sorted_word_range:
  assumes "hi \<le> 2 ^ LENGTH('a)"
  shows "sorted_list_of_set {i :: 'a::len word. lo \<le> unat i \<and> unat i < hi} = map word_of_nat [lo..<hi]"
proof -
  have unat: "unat (word_of_nat n :: 'a word) = n" if "n < hi" for n
    using that assms by (simp add: unsigned_of_nat take_bit_nat_eq_self)
  have "set (map word_of_nat [lo..<hi]) = {i :: 'a word. lo \<le> unat i \<and> unat i < hi}"
    by (auto simp: unat intro!: image_eqI [of _ _ "unat _"])
  moreover have "sorted_wrt (<) (map word_of_nat [lo..<hi] :: 'a word list)"
    by (auto simp: sorted_wrt_map word_less_nat_alt unat intro!: sorted_wrt_mono_rel [OF _ sorted_wrt_upt])
  ultimately show ?thesis
    by (metis sorted_list_of_set.idem_if_sorted_distinct strict_sorted_iff)
qed

lemma log_holds_bound:
  assumes "log_holds T (s, fs) b es" and "es \<noteq> []"
  shows "b + length es \<le> 2 ^ 64"
proof -
  have "map (entry_index T) es ! (length es - 1) = b + (length es - 1)"
    using assms by (simp add: log_holds_def)
  then have "entry_index T (last es) = b + length es - 1" using assms(2) by (simp add: last_conv_nth Suc_leI)
  moreover have "entry_index T (last es) < 2 ^ 64" using unat_bound [of "log_index T (entry_log_id T (last es))"] by (simp add: entry_index_def)
  ultimately show ?thesis by linarith
qed

lemma log_holds_read:
  assumes "log_holds T (s, fs) b es" and "b \<le> lo" and "lo < hi" and "hi \<le> b + length es"
  shows "log_reading (s, fs) lo hi = drop (lo - b) (take (hi - b) es)"
proof -
  have bound: "hi \<le> 2 ^ 64" using log_holds_bound [OF assms(1)] assms(2-4) by (cases es) auto
  define above_hi where "above_hi = (if hi < 2 ^ 64 then Excluded (word_of_nat hi) else Unbounded)"
  have lo: "unat (word_of_nat lo :: 64 word) = lo" using assms(3) bound by (simp add: unsigned_of_nat take_bit_nat_eq_self)
  have hi: "unat (word_of_nat hi :: 64 word) = hi" if "hi < 2 ^ 64" using that by (simp add: unsigned_of_nat take_bit_nat_eq_self)
  have below: "below above_hi i \<longleftrightarrow> unat i < hi" for i
    using unat_bound [of i] bound hi by (auto simp: above_hi_def word_less_nat_alt)
  have "{i \<in> dom (ps_log s). above (Included (word_of_nat lo)) i \<and> below above_hi i} = {i. lo \<le> unat i \<and> unat i < hi}"
    using assms lo by (auto simp: below word_le_nat_alt log_holds_def split: if_splits)
  moreover have "\<not> range_invalid (Included (word_of_nat lo)) above_hi"
    using assms(3) lo hi by (auto simp: above_hi_def word_less_nat_alt)
  ultimately have "log_reading (s, fs) lo hi = map (\<lambda>i. the (ps_log s i)) (map word_of_nat [lo..<hi])"
    using sorted_word_range [where 'a = 64, of hi lo] bound
    unfolding log_reading_def try_get_log_entries_def prod.case unfolding above_hi_def [symmetric] by simp
  also have "\<dots> = map (\<lambda>n. es ! (n - b)) [lo..<hi]"
  proof -
    have "the (ps_log s (word_of_nat n)) = es ! (n - b)" if "lo \<le> n" "n < hi" for n
      using assms that bound by (simp add: log_holds_def unsigned_of_nat take_bit_nat_eq_self)
    then show ?thesis by simp
  qed
  also have "\<dots> = drop (lo - b) (take (hi - b) es)"
    by (rule nth_equalityI) (use assms in auto)
  finally show ?thesis .
qed

lemma log_holds_last:
  assumes "log_holds T (s, fs) b es" and "es \<noteq> []"
  shows "get_log_state T s = (ps_last_purged_log_id s, Some (entry_log_id T (last es)))"
proof -
  define k where "k = b + (length es - 1)"
  have len: "0 < length es" using assms(2) by simp
  then have bounds: "b \<le> k" "k < b + length es" "k - b = length es - 1" by (simp_all add: k_def)
  have "k < 2 ^ 64" using log_holds_bound [OF assms] bounds(2) by linarith
  then have k: "unat (word_of_nat k :: 64 word) = k" by (simp add: unsigned_of_nat take_bit_nat_eq_self)
  have there: "ps_log s (word_of_nat k) = Some (last es)"
    using assms bounds k by (simp add: log_holds_def last_conv_nth)
  moreover have "Max (dom (ps_log s)) = word_of_nat k"
  proof (rule Max_eqI)
    show "i \<le> word_of_nat k" if "i \<in> dom (ps_log s)" for i
    proof -
      have "unat i < b + length es" using assms(1) that by (auto simp: log_holds_def split: if_splits)
      with len k show ?thesis by (simp add: word_le_nat_alt k_def)
    qed
  qed (use there in auto)
  ultimately show ?thesis by (auto simp: get_log_state_def)
qed

section \<open>The instance\<close>

interpretation store_log: sequence_log "log_holds T" "entry_index T" "log_appended T" "log_truncated T" "log_purged T" log_reading
  for T :: "('v, 'l, 'e, 'p, 'm) raft_types"
proof (unfold_locales, goal_cases)
  case (1 s b es es' s')
  then show ?case
    by (cases s; cases s') (auto simp: log_appended_def elim!: store_append_Ok dest!: append_entries_effect intro: log_holds_fold)
next
  case (2 s b es k s')
  obtain m fs m' fs' where s: "s = (m, fs)" "s' = (m', fs')" by (cases s; cases s')
  from 2(3) obtain faults l where l: "unat (log_index T l) = k" "store_truncate T faults l m fs = (Ok (), m', fs')"
    by (auto simp: log_truncated_def s)
  have "m' = m\<lparr> ps_log := ps_log m |` (- {i \<in> dom (ps_log m). log_index T l \<le> i}) \<rparr>"
    using remove_keys_effect [OF l(2) [unfolded store_truncate_def]] by (simp add: finite_subset)
  then have "ps_log m' i = (if b \<le> unat i \<and> unat i < min k (b + length es) then ps_log m i else None)" for i
    using 2(1) l(1) by (auto simp: s log_holds_def restrict_map_def word_le_nat_alt)
  from log_holds_restrict [OF 2(1) [unfolded s] _ _ _ this] 2(2) show ?case
    by (cases "k \<le> b + length es") (simp_all add: s min_def)
next
  case (3 s b es k s')
  obtain m fs m' fs' where s: "s = (m, fs)" "s' = (m', fs')" by (cases s; cases s')
  from 3(4) obtain faults l where l: "unat (log_index T l) = k" "store_purge T faults l m fs = (Ok (), m', fs')"
    by (auto simp: log_purged_def s)
  have "m' = m\<lparr> ps_last_purged_log_id := Some l, ps_log := ps_log m |` (- {i \<in> dom (ps_log m). i \<le> log_index T l}) \<rparr>"
    using l(2) by (auto simp: store_purge_def dest!: remove_keys_effect split: if_splits)
  then have "ps_log m' i = (if Suc k \<le> unat i \<and> unat i < b + length es then ps_log m i else None)" for i
    using 3(1) l(1) by (auto simp: s log_holds_def restrict_map_def word_le_nat_alt)
  from log_holds_restrict [OF 3(1) [unfolded s] _ _ _ this] 3(2,3) show ?case by (simp add: s)
next
  case (4 s b es lo hi)
  then show ?case using log_holds_read by (cases s) blast
qed

lemma sample_ids [simp]:
  "log_index sample_types l = l" "entry_log_id sample_types e = e" "entry_index sample_types e = unat e"
  by (simp_all add: sample_types_def entry_index_def)

lemma sample_log: "log_holds sample_types (sample_store, sample_files) 1 [1]"
proof -
  have one: "1 \<le> unat i \<and> unat i < 1 + length [1 :: 64 word] \<longleftrightarrow> i = 1" for i :: "64 word"
    by (auto simp: word_unat_eq_iff)
  have "ps_log sample_store i = (if i = 1 then Some ([1] ! (unat i - 1)) else None)" for i
    by (simp add: sample_store_def store_default_def)
  then show ?thesis by (simp only: log_holds_def prod.case one) simp
qed

lemma sample_truncate: "fst (store_truncate sample_types no_faults 1 sample_store sample_files) = Ok ()"
proof -
  have "{k \<in> dom (ps_log sample_store). 1 \<le> k} = {1}"
    by (auto simp: sample_store_def store_default_def)
  then show ?thesis by (simp add: store_truncate_def delete_log_entry_def no_faults_def Let_def)
qed

lemma sample_append_more: "fst (store_append sample_types no_faults [1, 2] s fs) = Ok ()"
  by (simp add: store_append_def persist_log_entry_def fsync_log_entries_def write_encoded_no_faults sample_types_def)
    (simp add: no_faults_def)

section \<open>Properties\<close>

text \<open>C10: A conflict is resolved as RAFT requires. When the log is a sequence of entries and the store removes
  what starts at an index and appends the leader's entries from that index on, the log is the old entries
  before the index followed by the leader's, reading its whole range returns exactly these, and the last
  log position is that of the leader's last entry.\<close>

theorem conflict_overwritten:
  assumes "log_holds T (s, fs) b es" and "b \<le> unat (log_index T l)" and "unat (log_index T l) \<le> b + length es"
    and "store_truncate T faults l s fs = (Ok (), s1, fs1)"
    and "map (entry_index T) es' = [unat (log_index T l)..<unat (log_index T l) + length es']" and "es' \<noteq> []"
    and "store_append T faults' es' s1 fs1 = (Ok (), s2, fs2)"
  shows "log_holds T (s2, fs2) b (take (unat (log_index T l) - b) es @ es') \<and>
     log_reading (s2, fs2) b (unat (log_index T l) + length es') = take (unat (log_index T l) - b) es @ es' \<and>
     get_log_state T s2 = (ps_last_purged_log_id s2, Some (entry_log_id T (last es')))"
proof -
  have steps: "log_truncated T (unat (log_index T l)) (s, fs) (s1, fs1)" "log_appended T es' (s1, fs1) (s2, fs2)"
    using assms(4,7) by (auto simp: log_truncated_def log_appended_def)
  note overwritten = store_log.overwrite [OF assms(1-3) steps(1) assms(5) steps(2) assms(6)]
  with log_holds_last [OF overwritten(1)] assms(6) show ?thesis by simp
qed

theorem conflict_overwritten_witness:
  "\<exists>s1 fs1 s2 fs2. store_truncate sample_types no_faults 1 sample_store sample_files = (Ok (), s1, fs1) \<and>
     store_append sample_types no_faults [1, 2] s1 fs1 = (Ok (), s2, fs2) \<and> log_reading (s2, fs2) 1 3 = [1, 2]"
proof -
  obtain s1 fs1 where t: "store_truncate sample_types no_faults 1 sample_store sample_files = (Ok (), s1, fs1)"
    using sample_truncate by (cases "store_truncate sample_types no_faults 1 sample_store sample_files") auto
  obtain s2 fs2 where a: "store_append sample_types no_faults [1, 2] s1 fs1 = (Ok (), s2, fs2)"
    using sample_append_more [of s1 fs1] by (cases "store_append sample_types no_faults [1, 2] s1 fs1") auto
  have "log_reading (s2, fs2) 1 (1 + length [1, 2 :: 64 word]) = take (1 - 1) [1] @ [1, 2]"
    using conflict_overwritten [OF sample_log _ _ t _ _ a] by (simp add: sample_ids upt_rec)
  with t a show ?thesis by (simp add: numeral_3_eq_3)
qed

end
