(* ===== verification/Formation.thy ===== *)
theory Formation
  imports Coordinator
begin

text \<open>
  The state machine of cluster formation that the coordinator promises: the phases of
  \<open>consensus/src/coordinator.rs\<close> and the moves between them, without what decides them. The coordinator
  refines it, and the property says in addition exactly when a node becomes active.
\<close>

section \<open>Phases\<close>

datatype phase = AwaitingPeers | Checking | Coordinating | Starting | AwaitingStart | Entering | Active

fun phase_of :: "CoordinatorState \<Rightarrow> phase" where
  "phase_of WaitingForPeers = AwaitingPeers"
| "phase_of CheckingCluster = Checking"
| "phase_of CoordinatingBootstrap = Coordinating"
| "phase_of Bootstrapping = Starting"
| "phase_of (WaitingForBootstrap d) = AwaitingStart"
| "phase_of (Joining d) = Entering"
| "phase_of ClusterActive = Active"

inductive moves :: "phase \<Rightarrow> phase \<Rightarrow> bool" where
  EnoughPeers: "moves AwaitingPeers Checking"
| ClusterFound: "moves Checking Entering"
| NoCluster: "moves Checking Coordinating"
| Lowest: "moves Coordinating Starting"
| NotLowest: "moves Coordinating AwaitingStart"
| Started: "moves Starting Active"
| StartFailed: "moves Starting Coordinating"
| Outranked: "moves Starting AwaitingStart"
| StartedElsewhere: "moves AwaitingStart Entering"
| Failover: "moves AwaitingStart Starting"
| StartTimeout: "moves AwaitingStart Coordinating"
| Admitted: "moves Entering Active"
| EntryTimeout: "moves Entering AwaitingPeers"

inductive_simps moves_from_active [simp]: "moves Active q"
inductive_simps moves_to_active [simp]: "moves p Active"

text \<open>The edges of the diagram in the documentation of the coordinator.\<close>

definition documented :: "(phase \<times> phase) set" where
  "documented = {(AwaitingPeers, Checking), (Checking, Entering), (Checking, Coordinating), (Coordinating, Starting),
     (Coordinating, AwaitingStart), (Entering, Active), (Starting, Active), (AwaitingStart, Active)}"

section \<open>Lemmas\<close>

lemma coordinate_moves:
  assumes "coordinate lib e c = (c', acts)"
  shows "phase_of (co_state c') = phase_of (co_state c) \<or> moves (phase_of (co_state c)) (phase_of (co_state c'))"
proof (cases "co_state c")
  case Bootstrapping
  then show ?thesis
    using assms
    by (auto simp: coordinate_def handle_bootstrapping_def Let_def intro: moves.intros
        split: if_splits prod.splits outcome.splits)
next
  case (WaitingForBootstrap d)
  then show ?thesis
    using assms
    by (auto simp: coordinate_def handle_waiting_for_bootstrap_def Let_def intro: moves.intros
        split: if_splits option.splits)
qed (use assms in \<open>auto simp: coordinate_def handle_waiting_for_peers_def handle_checking_cluster_def
      handle_coordinating_bootstrap_def handle_joining_def Let_def intro: moves.intros
      split: if_splits option.splits prod.splits\<close>)

lemma not_learner:
  "ns_status (get_node_state lib node) \<in> {StLeader, StFollower, StCandidate} \<longleftrightarrow>
     (let m = raft_metrics lib (rn_raft node) in
        rn_node_id node \<notin> set (rm_learners m) \<and> (rm_voters m \<noteq> [] \<or> rm_learners m \<noteq> []))"
  by (auto simp: get_node_state_def Let_def)

lemma joins_iff:
  "handle_joining lib e c d = ClusterActive \<longleftrightarrow>
     rd_now e < d \<and> ns_status (get_node_state lib (co_raft_node c)) \<in> {StLeader, StFollower, StCandidate}"
  by (cases "ns_status (get_node_state lib (co_raft_node c))") (auto simp: handle_joining_def Let_def)

lemma coordinate_activates:
  assumes "coordinate lib e c = (c', acts)" and "co_state c \<noteq> ClusterActive"
  shows "co_state c' = ClusterActive \<longleftrightarrow>
     co_state c = Bootstrapping \<and> (\<exists>members. acts = [Initialize members True]) \<or>
     (\<exists>d. co_state c = Joining d \<and> rd_now e < d \<and>
        ns_status (get_node_state lib (co_raft_node c)) \<in> {StLeader, StFollower, StCandidate})"
proof (cases "co_state c")
  case Bootstrapping
  then show ?thesis
    using assms
    by (auto simp: coordinate_def handle_bootstrapping_def Let_def split: if_splits prod.splits outcome.splits)
next
  case (Joining d)
  then have "c' = c\<lparr> co_state := handle_joining lib e c d \<rparr>" using assms by (simp add: coordinate_def)
  then show ?thesis using Joining by (simp add: joins_iff)
qed (use assms in \<open>auto simp: coordinate_def handle_waiting_for_peers_def handle_checking_cluster_def
      handle_coordinating_bootstrap_def handle_waiting_for_bootstrap_def Let_def
      split: if_splits option.splits prod.splits\<close>)

lemma coordinate_stays_active:
  "coordinate lib e c = (c', acts) \<Longrightarrow> co_state c = ClusterActive \<Longrightarrow> co_state c' = ClusterActive"
  by (auto simp: coordinate_def split: prod.splits)

section \<open>Properties\<close>

text \<open>C8: The coordinator refines the state machine of cluster formation. In every run of a new coordinator the
  phases follow the moves of the machine, and a node that is active stays so. A node becomes active in exactly two
  ways: by a bootstrap it carries out itself with success, or from waiting to join, before its deadline, when its RAFT
  instance holds some membership in which it is not a learner. The membership need not list the node:
  the code takes the report of a leader, follower or candidate for admission.\<close>

theorem formation_refined:
  assumes "(coordinator_step lib)\<^sup>*\<^sup>* (coordinator_new n node, []) (c, done)"
  shows "moves\<^sup>*\<^sup>* AwaitingPeers (phase_of (co_state c)) \<and>
     (\<forall>e c' acts. coordinate lib e c = (c', acts) \<longrightarrow>
        (phase_of (co_state c') = phase_of (co_state c) \<or> moves (phase_of (co_state c)) (phase_of (co_state c'))) \<and>
        (co_state c = ClusterActive \<longrightarrow> co_state c' = ClusterActive) \<and>
        (co_state c \<noteq> ClusterActive \<longrightarrow>
           (co_state c' = ClusterActive \<longleftrightarrow>
              co_state c = Bootstrapping \<and> (\<exists>members. acts = [Initialize members True]) \<or>
              (\<exists>d. co_state c = Joining d \<and> rd_now e < d \<and>
                 (let m = raft_metrics lib (rn_raft (co_raft_node c)) in
                    rn_node_id (co_raft_node c) \<notin> set (rm_learners m) \<and> (rm_voters m \<noteq> [] \<or> rm_learners m \<noteq> []))))))"
proof -
  have "moves\<^sup>*\<^sup>* AwaitingPeers (phase_of (co_state (fst s)))"
    if "(coordinator_step lib)\<^sup>*\<^sup>* (coordinator_new n node, []) s" for s
    using that
  proof (induction rule: rtranclp_induct)
    case base
    then show ?case by (simp add: coordinator_new_def)
  next
    case (step s t)
    from step(2,3) show ?case
      by (cases rule: coordinator_step.cases) (auto dest: coordinate_moves intro: rtranclp.rtrancl_into_rtrancl)
  qed
  from this [OF assms] have "moves\<^sup>*\<^sup>* AwaitingPeers (phase_of (co_state c))" by simp
  then show ?thesis
    unfolding not_learner [symmetric]
    by (intro conjI allI impI) (blast dest: coordinate_moves coordinate_stays_active coordinate_activates)+
qed

theorem formation_refined_witness:
  "\<exists>c acts. (coordinator_step sample_raft)\<^sup>*\<^sup>* (coordinator_new 1 (sample_raft_node 1 no_metrics), []) (c, acts) \<and>
     co_state c = CheckingCluster \<and> moves\<^sup>*\<^sup>* AwaitingPeers (phase_of (co_state c))"
proof -
  let ?c = "coordinator_new 1 (sample_raft_node 1 no_metrics)"
  have "trusted_count (sample_trust [2, 3, 4]) \<ge> MIN_PEERS_FOR_BOOTSTRAP"
    by (simp add: trusted_count_length MIN_PEERS_FOR_BOOTSTRAP_def)
  then have step: "coordinate sample_raft (sample_readings [2, 3, 4] sample_health) ?c = (?c\<lparr> co_state := CheckingCluster \<rparr>, [])"
    by (simp add: coordinate_def coordinator_new_def handle_waiting_for_peers_def sample_readings_def)
  have "(coordinator_step sample_raft)\<^sup>*\<^sup>* (?c, []) (?c\<lparr> co_state := CheckingCluster \<rparr>, [] @ [])"
    by (rule r_into_rtranclp, rule coordinator_step.Iterate, rule step)
  with formation_refined [OF this] show ?thesis by (intro exI conjI) (assumption | simp)+
qed

text \<open>The documented diagram has an edge that the coordinator never takes: a node that waits for another to
  bootstrap does not become active in one step.\<close>

theorem diagram_edge_missing:
  "coordinate lib e c = (c', acts) \<Longrightarrow> co_state c = WaitingForBootstrap d \<Longrightarrow> co_state c' \<noteq> ClusterActive"
  "(AwaitingStart, Active) \<in> documented"
  using coordinate_moves [of lib e c c' acts] by (auto simp: documented_def)

text \<open>A node that the membership held by its RAFT instance does not list becomes active all the same.\<close>

theorem unlisted_becomes_active:
  assumes "co_state c = Joining d" and "rd_now e < d" and "coordinate lib e c = (c', acts)"
    and "rm_voters (raft_metrics lib (rn_raft (co_raft_node c))) \<noteq> []"
    and "rn_node_id (co_raft_node c) \<notin> set (rm_voters (raft_metrics lib (rn_raft (co_raft_node c))) @
           rm_learners (raft_metrics lib (rn_raft (co_raft_node c))))"
  shows "co_state c' = ClusterActive"
  using coordinate_activates [OF assms(3)] not_learner [of lib "co_raft_node c"] assms by (auto simp: Let_def)

end
