(* ===== verification/Sensitive.thy ===== *)
theory Sensitive
  imports Guardian_Prelude
begin

text \<open>
  The wrapper for secrets, \<open>common/src/sensitive.rs\<close>. Memory is a map from places to contents, and values are
  moved between places by copying them, as Rust does, so that what is left behind is visible. Erasing a
  value is a parameter. The property follows a secret from the wrapper to the end of its life.
\<close>

section \<open>Memory\<close>

type_synonym place = nat

record 'a memory =
  mem_cells :: "place \<Rightarrow> 'a option"
  mem_next :: place

definition mem_store :: "'a \<Rightarrow> 'a memory \<Rightarrow> place \<times> 'a memory" where
  "mem_store v m = (mem_next m, \<lparr> mem_cells = (mem_cells m)(mem_next m \<mapsto> v), mem_next = Suc (mem_next m) \<rparr>)"

section \<open>The wrapper\<close>

datatype Sensitive = Sensitive place

fun inner :: "Sensitive \<Rightarrow> place" where
  "inner (Sensitive p) = p"

text \<open>The value is moved into the wrapper.\<close>

definition sensitive_new :: "'a \<Rightarrow> 'a memory \<Rightarrow> Sensitive \<times> 'a memory" where
  "sensitive_new value m = (let (p, m') = mem_store value m in (Sensitive p, m'))"

definition expose :: "Sensitive \<Rightarrow> 'a memory \<Rightarrow> 'a option" where
  "expose s m = mem_cells m (inner s)"

definition expose_mut :: "Sensitive \<Rightarrow> ('a \<Rightarrow> 'a) \<Rightarrow> 'a memory \<Rightarrow> 'a memory" where
  "expose_mut s f m = m\<lparr> mem_cells := (mem_cells m)(inner s := map_option f (mem_cells m (inner s))) \<rparr>"

definition sensitive_drop :: "('a \<Rightarrow> 'a) \<Rightarrow> Sensitive \<Rightarrow> 'a memory \<Rightarrow> 'a memory" where
  "sensitive_drop zeroize s m = expose_mut s zeroize m"

text \<open>The bytes are read into a new place and the wrapper is forgotten: its destructor does not run.\<close>

definition into_inner :: "Sensitive \<Rightarrow> 'a memory \<Rightarrow> place option \<times> 'a memory" where
  "into_inner s m =
     (case mem_cells m (inner s) of
        None \<Rightarrow> (None, m)
      | Some v \<Rightarrow> (let (p, m') = mem_store v m in (Some p, m')))"

definition sensitive_debug :: "Sensitive \<Rightarrow> 'a memory \<Rightarrow> string" where
  "sensitive_debug s m = ''Sensitive<REDACTED>''"

section \<open>Properties\<close>

definition fresh_memory :: "'a memory \<Rightarrow> bool" where
  "fresh_memory m \<longleftrightarrow> (\<forall>p \<ge> mem_next m. mem_cells m p = None)"

text \<open>A secret in a wrapper can be read and changed through it, its debug text does not depend on it, and dropping
  the wrapper erases it, leaving no copy. Taking it out with \<open>into_inner\<close> leaves a copy in the place of the
  wrapper, which erasing the value taken out does not touch.\<close>

theorem sensitive_life:
  assumes "fresh_memory m" and "\<And>p. mem_cells m p \<noteq> Some v" and "zeroize v \<noteq> v"
    and "sensitive_new v m = (s, m1)"
  shows "expose s m1 = Some v \<and> expose s (expose_mut s f m1) = Some (f v) \<and>
     sensitive_debug s m1 = sensitive_debug s (expose_mut s f m1) \<and>
     (\<forall>p. mem_cells (sensitive_drop zeroize s m1) p \<noteq> Some v) \<and>
     (\<exists>p m2. into_inner s m1 = (Some p, m2) \<and> mem_cells m2 p = Some v \<and> p \<noteq> inner s \<and>
        mem_cells (m2\<lparr> mem_cells := (mem_cells m2)(p := map_option zeroize (mem_cells m2 p)) \<rparr>) (inner s) = Some v)"
  using assms
  by (auto simp: sensitive_new_def mem_store_def expose_def expose_mut_def sensitive_drop_def into_inner_def
      sensitive_debug_def)

theorem sensitive_life_witness:
  "\<exists>s m1. sensitive_new [1, 2, 3 :: nat] \<lparr> mem_cells = Map.empty, mem_next = 0 \<rparr> = (s, m1) \<and> expose s m1 = Some [1, 2, 3]"
proof -
  let ?m = "\<lparr> mem_cells = Map.empty, mem_next = 0 \<rparr> :: nat list memory"
  obtain s m1 where new: "sensitive_new [1, 2, 3] ?m = (s, m1)" by fastforce
  with sensitive_life [OF _ _ _ new, of "\<lambda>_. []"] show ?thesis by (auto simp: fresh_memory_def)
qed

end
