(* ===== verification/Python_Prelude.thy ===== *)
theory Python_Prelude
  imports Guardian_Prelude
begin

text \<open>
  What the models of the Python tools share: exceptions as the errors of an outcome, the values of a
  configuration with the operations the tools use on them, and the operations on texts. A dictionary is a
  list of its items in the order of insertion, and a float is the text of its literal. A text is the list of its characters, which are code points
  below 256.
\<close>

section \<open>Exceptions and values\<close>

datatype py_exn =
    ValueError string | KeyError string | TypeError | AttributeError string | RuntimeError string
  | ClickException string | SystemExit int | TimeoutError string | OtherException string

type_synonym 'a py = "('a, py_exn) outcome"

datatype pyval = PNone | PBool bool | PInt int | PFloat string | PStr string | PList "pyval list"
  | PDict "(string \<times> pyval) list"

type_synonym pydict = "(string \<times> pyval) list"

fun truthy :: "pyval \<Rightarrow> bool" where
  "truthy PNone = False"
| "truthy (PBool b) = b"
| "truthy (PInt i) = (i \<noteq> 0)"
| "truthy (PFloat t) = list_ex (\<lambda>c. c \<in> set ''123456789NI'') (takeWhile (\<lambda>c. c \<noteq> CHR ''e'' \<and> c \<noteq> CHR ''E'') t)"
| "truthy (PStr s) = (s \<noteq> [])"
| "truthy (PList vs) = (vs \<noteq> [])"
| "truthy (PDict d) = (d \<noteq> [])"

text \<open>\<open>d[k] = v\<close> keeps the position of a key that is there; \<open>del d[k]\<close> and \<open>d.pop(k, None)\<close> remove it.\<close>

fun dict_set :: "'k \<Rightarrow> 'v \<Rightarrow> ('k \<times> 'v) list \<Rightarrow> ('k \<times> 'v) list" where
  "dict_set k v [] = [(k, v)]"
| "dict_set k v ((j, w) # d) = (if j = k then (k, v) # d else (j, w) # dict_set k v d)"

definition dict_del :: "'k \<Rightarrow> ('k \<times> 'v) list \<Rightarrow> ('k \<times> 'v) list" where
  "dict_del k d = filter (\<lambda>(j, w). j \<noteq> k) d"

text \<open>\<open>v.get(k, default)\<close>, \<open>k in v\<close> and \<open>v[k]\<close> for a value of any type.\<close>

fun py_get :: "pyval \<Rightarrow> string \<Rightarrow> pyval \<Rightarrow> pyval py" where
  "py_get (PDict d) k dflt = Ok (case map_of d k of Some v \<Rightarrow> v | None \<Rightarrow> dflt)"
| "py_get _ k dflt = Err (AttributeError ''get'')"

fun py_in :: "string \<Rightarrow> pyval \<Rightarrow> bool py" where
  "py_in k (PDict d) = Ok (map_of d k \<noteq> None)"
| "py_in k (PStr s) = Ok (str_contains s k)"
| "py_in k (PList vs) = Ok (PStr k \<in> set vs)"
| "py_in k _ = Err TypeError"

fun py_item :: "pyval \<Rightarrow> string \<Rightarrow> pyval py" where
  "py_item (PDict d) k = (case map_of d k of Some v \<Rightarrow> Ok v | None \<Rightarrow> Err (KeyError k))"
| "py_item _ k = Err TypeError"

fun py_items :: "pyval \<Rightarrow> pydict py" where
  "py_items (PDict d) = Ok d"
| "py_items _ = Err (AttributeError ''items'')"

text \<open>Assignment to an item.\<close>

fun py_setitem :: "pyval \<Rightarrow> string \<Rightarrow> pyval \<Rightarrow> pyval py" where
  "py_setitem (PDict d) k v = Ok (PDict (dict_set k v d))"
| "py_setitem _ k v = Err TypeError"

section \<open>Texts\<close>

definition code :: "char \<Rightarrow> nat" where
  "code c = of_char c"

definition ascii_digit :: "char \<Rightarrow> bool" where
  "ascii_digit c = (48 \<le> code c \<and> code c \<le> 57)"

text \<open>\<open>isdigit\<close> also accepts the superscripts.\<close>

definition py_isdigit :: "char \<Rightarrow> bool" where
  "py_isdigit c = (ascii_digit c \<or> code c \<in> {178, 179, 185})"

definition py_isspace :: "char \<Rightarrow> bool" where
  "py_isspace c = (9 \<le> code c \<and> code c \<le> 13 \<or> 28 \<le> code c \<and> code c \<le> 32 \<or> code c = 133 \<or> code c = 160)"

definition py_strip :: "string \<Rightarrow> string" where
  "py_strip s = rev (dropWhile py_isspace (rev (dropWhile py_isspace s)))"

definition lower_char :: "char \<Rightarrow> char" where
  "lower_char c =
     (if 65 \<le> code c \<and> code c \<le> 90 \<or> 192 \<le> code c \<and> code c \<le> 222 \<and> code c \<noteq> 215
      then char_of (code c + 32) else c)"

definition py_lower :: "string \<Rightarrow> string" where
  "py_lower s = map lower_char s"

text \<open>\<open>s.split(sep, 1)\<close> when the separator is there.\<close>

definition split_once :: "string \<Rightarrow> string \<Rightarrow> (string \<times> string) option" where
  "split_once sep s = map_option (\<lambda>i. (take i s, drop (i + length sep) s)) (str_find sep s)"

text \<open>\<open>s.split()\<close>: the maximal parts without white space.\<close>

function split_words :: "string \<Rightarrow> string list" where
  "split_words [] = []"
| "split_words (c # cs) =
     (if py_isspace c then split_words cs
      else (c # takeWhile (\<lambda>d. \<not> py_isspace d) cs) # split_words (dropWhile (\<lambda>d. \<not> py_isspace d) cs))"
  by pat_completeness auto

termination split_words
  by (relation "measure length") (auto simp: le_imp_less_Suc length_dropWhile_le)

text \<open>\<open>int(s)\<close>: white space around it, a sign, and digits that single underscores may separate.\<close>

definition decimal :: "string \<Rightarrow> nat" where
  "decimal s = fold (\<lambda>c n. 10 * n + (code c - 48)) s 0"

definition py_digits :: "string \<Rightarrow> nat option" where
  "py_digits s =
     (let parts = str_split ''_'' s in
      if list_all (\<lambda>p. p \<noteq> [] \<and> list_all ascii_digit p) parts then Some (decimal (concat parts)) else None)"

definition py_int :: "string \<Rightarrow> int py" where
  "py_int s =
     (let t = py_strip s;
          r = (case t of
                 [] \<Rightarrow> None
               | c # cs \<Rightarrow>
                   if c = CHR ''-'' then map_option (\<lambda>n. - int n) (py_digits cs)
                   else if c = CHR ''+'' then map_option int (py_digits cs)
                   else map_option int (py_digits t))
      in ok_or r (ValueError ''invalid literal for int()''))"

definition show_int :: "int \<Rightarrow> string" where
  "show_int i = (if i < 0 then CHR ''-'' # show_nat (nat (- i)) else show_nat (nat i))"

text \<open>\<open>{i:02x}\<close>: the sign counts.\<close>

definition hex2 :: "int \<Rightarrow> string" where
  "hex2 i = (if i < 0 then CHR ''-'' # pad_left 1 CHR ''0'' (show_hex (nat (- i))) else pad_left 2 CHR ''0'' (show_hex (nat i)))"

text \<open>\<open>{s:<n}\<close>\<close>

definition ljust :: "nat \<Rightarrow> string \<Rightarrow> string" where
  "ljust n s = s @ replicate (n - length s) CHR '' ''"

text \<open>The texts of values. A quote character is chosen as \<open>repr\<close> does.\<close>

definition repr_char :: "char \<Rightarrow> char \<Rightarrow> string" where
  "repr_char q c =
     (if c = q \<or> c = CHR 0x5C then [CHR 0x5C, c]
      else if code c = 10 then [CHR 0x5C, CHR ''n''] else if code c = 13 then [CHR 0x5C, CHR ''r'']
      else if code c = 9 then [CHR 0x5C, CHR ''t'']
      else if code c < 32 \<or> 127 \<le> code c \<and> code c \<le> 160 \<or> code c = 173
      then [CHR 0x5C, CHR ''x''] @ pad_left 2 CHR ''0'' (show_hex (code c))
      else [c])"

definition repr_str :: "string \<Rightarrow> string" where
  "repr_str s =
     (let q = (if CHR 0x27 \<in> set s \<and> CHR 0x22 \<notin> set s then CHR 0x22 else CHR 0x27)
      in q # concat (map (repr_char q) s) @ [q])"

primrec py_repr :: "pyval \<Rightarrow> string" where
  "py_repr PNone = ''None''"
| "py_repr (PBool b) = (if b then ''True'' else ''False'')"
| "py_repr (PInt i) = show_int i"
| "py_repr (PFloat t) = t"
| "py_repr (PStr s) = repr_str s"
| "py_repr (PList vs) = ''['' @ str_join '', '' (map py_repr vs) @ '']''"
| "py_repr (PDict d) = ''{'' @ str_join '', '' (map (\<lambda>(k, t). repr_str k @ '': '' @ t) (map (map_prod (\<lambda>k. k) py_repr) d)) @ ''}''"

fun py_str :: "pyval \<Rightarrow> string" where
  "py_str (PStr s) = s"
| "py_str v = py_repr v"

definition ascii_upper :: "string \<Rightarrow> string" where
  "ascii_upper s = map (\<lambda>c. if 97 \<le> code c \<and> code c \<le> 122 then char_of (code c - 32) else c) s"

section \<open>Actions\<close>

text \<open>An action changes a world, and returns a value or raises.\<close>

type_synonym ('w, 'a) act = "'w \<Rightarrow> 'a py \<times> 'w"

definition ret :: "'a \<Rightarrow> ('w, 'a) act" where
  "ret a w = (Ok a, w)"

definition lift :: "'a py \<Rightarrow> ('w, 'a) act" where
  "lift r w = (r, w)"

definition raise :: "py_exn \<Rightarrow> ('w, 'a) act" where
  "raise e w = (Err e, w)"

fun act_next :: "'a py \<times> 'w \<Rightarrow> ('a \<Rightarrow> ('w, 'b) act) \<Rightarrow> 'b py \<times> 'w" where
  "act_next (Ok a, w) f = f a w"
| "act_next (Err e, w) f = (Err e, w)"
| "act_next (Panic p, w) f = (Panic p, w)"

definition act_bind :: "('w, 'a) act \<Rightarrow> ('a \<Rightarrow> ('w, 'b) act) \<Rightarrow> ('w, 'b) act" where
  "act_bind m f w = act_next (m w) f"

definition act_seq :: "('w, 'a) act \<Rightarrow> ('w, 'b) act \<Rightarrow> ('w, 'b) act" where
  "act_seq m n = act_bind m (\<lambda>_. n)"

definition when_do :: "bool \<Rightarrow> ('w, unit) act \<Rightarrow> ('w, unit) act" where
  "when_do b m = (if b then m else ret ())"

fun act_map :: "('a \<Rightarrow> ('w, 'b) act) \<Rightarrow> 'a list \<Rightarrow> ('w, 'b list) act" where
  "act_map f [] = ret []"
| "act_map f (x # xs) = act_bind (f x) (\<lambda>y. act_bind (act_map f xs) (\<lambda>ys. ret (y # ys)))"

text \<open>\<open>except Exception\<close> does not catch the exit of the program.\<close>

fun is_exit :: "py_exn \<Rightarrow> bool" where
  "is_exit (SystemExit n) = True"
| "is_exit _ = False"

definition except_do :: "('w, 'a) act \<Rightarrow> (py_exn \<Rightarrow> ('w, 'a) act) \<Rightarrow> ('w, 'a) act" where
  "except_do m h w =
     (case m w of
        (Err e, w') \<Rightarrow> if is_exit e then (Err e, w') else h e w'
      | r \<Rightarrow> r)"

fun exn_text :: "py_exn \<Rightarrow> string" where
  "exn_text (ValueError s) = s"
| "exn_text (KeyError k) = repr_str k"
| "exn_text TypeError = []"
| "exn_text (AttributeError s) = s"
| "exn_text (RuntimeError s) = s"
| "exn_text (ClickException s) = s"
| "exn_text (SystemExit n) = show_int n"
| "exn_text (TimeoutError s) = s"
| "exn_text (OtherException s) = s"

section \<open>Lemmas\<close>

lemma map_of_dict_set [simp]: "map_of (dict_set k v d) = (map_of d)(k \<mapsto> v)"
  by (induction k v d rule: dict_set.induct) (auto simp: fun_eq_iff)

lemma map_of_dict_del [simp]: "map_of (dict_del k d) j = (if j = k then None else map_of d j)"
  by (induction d) (auto simp: dict_del_def)

lemma keys_dict_set: "map fst (dict_set k v d) = (if k \<in> set (map fst d) then map fst d else map fst d @ [k])"
  by (induction k v d rule: dict_set.induct) auto

lemma str_find_singleton: "str_find [c] s = (if c \<in> set s then Some (length (takeWhile (\<lambda>d. d \<noteq> c) s)) else None)"
  by (induction s) auto

lemma str_split_absent:
  assumes "c \<notin> set s"
  shows "str_split [c] s = [s]"
  using assms by (subst str_split.simps) (simp add: str_find_singleton)

lemma str_split_Cons:
  assumes "c \<notin> set s"
  shows "str_split [c] (s @ c # t) = s # str_split [c] t"
proof -
  have "takeWhile (\<lambda>d. d \<noteq> c) (s @ c # t) = s"
    using assms by (induction s) auto
  then show ?thesis by (subst str_split.simps) (simp add: str_find_singleton)
qed

lemma ascii_digit_space: "ascii_digit c \<Longrightarrow> \<not> py_isspace c"
  by (auto simp: ascii_digit_def py_isspace_def)

lemma py_strip_id:
  assumes "list_all (\<lambda>c. \<not> py_isspace c) s"
  shows "py_strip s = s"
  using assms by (simp add: py_strip_def dropWhile_eq_self_iff list_all_iff hd_rev) (metis hd_in_set list_all_iff rev_is_Nil_conv rev_rev_ident dropWhile_eq_self_iff hd_rev last_in_set)

lemma digit_char_code: "d < 10 \<Longrightarrow> code (digit_char d) = 48 + d"
  by (simp add: code_def digit_char_def)

lemma show_nat_digits: "list_all ascii_digit (show_nat n)"
proof (induction n rule: show_nat.induct)
  case (1 n)
  have "ascii_digit (digit_char d)" if "d < 10" for d
    using digit_char_code [OF that] that by (simp add: ascii_digit_def)
  then show ?case using 1 by (subst show_nat.simps) simp
qed

lemma decimal_snoc: "decimal (s @ [c]) = 10 * decimal s + (code c - 48)"
  by (simp add: decimal_def)

lemma decimal_show_nat: "decimal (show_nat n) = n"
proof (induction n rule: show_nat.induct)
  case (1 n)
  show ?case
  proof (cases "n < 10")
    case True
    then show ?thesis using digit_char_code [OF True] by (subst show_nat.simps) (simp add: decimal_def)
  next
    case False
    moreover have "code (digit_char (n mod 10)) = 48 + n mod 10" by (rule digit_char_code) simp
    ultimately show ?thesis using 1 by (subst show_nat.simps) (simp add: decimal_snoc)
  qed
qed

lemma digits_not:
  assumes "list_all ascii_digit s" and "\<not> ascii_digit c"
  shows "c \<notin> set s"
  using assms by (auto simp: list_all_iff)

text \<open>Reading back what was printed.\<close>

lemma py_int_show_nat [simp]: "py_int (show_nat n) = Ok (int n)"
proof -
  let ?s = "show_nat n"
  have digits: "list_all ascii_digit ?s" by (rule show_nat_digits)
  have "py_strip ?s = ?s"
    using digits by (intro py_strip_id) (auto simp: list_all_iff ascii_digit_space)
  moreover obtain c cs where s: "?s = c # cs" using show_nat_nonempty by (metis neq_Nil_conv)
  moreover have "c \<noteq> CHR ''-''" "c \<noteq> CHR ''+''"
    using digits s by (auto simp: ascii_digit_def code_def)
  moreover have "CHR ''_'' \<notin> set ?s" using digits by (intro digits_not) (auto simp: ascii_digit_def code_def)
  then have "py_digits ?s = Some n"
    using digits by (simp add: py_digits_def str_split_absent decimal_show_nat)
  ultimately show ?thesis by (simp add: py_int_def)
qed

text \<open>White space at the end of a text is stripped, and a number is followed by what comes after it.\<close>

lemma py_strip_line:
  assumes "s \<noteq> []" and "\<not> py_isspace (hd s)" and "\<not> py_isspace (List.last s)"
  shows "py_strip (s @ ''\<newline>'') = s"
proof -
  obtain c t where s: "s = c # t" using assms(1) by (cases s) auto
  obtain d u where r: "rev s = d # u" using assms(1) by (cases "rev s") auto
  have "\<not> py_isspace c" "\<not> py_isspace d"
    using assms(2,3) s r by (simp_all add: List.last_rev [symmetric, of s] hd_rev [symmetric])
  moreover have "py_isspace CHR ''\<newline>''" by (simp add: py_isspace_def code_def)
  ultimately show ?thesis
    using s r by (simp add: py_strip_def) (metis append_Cons rev.simps(2) rev_rev_ident)
qed

lemma split_once_first:
  assumes "c \<notin> set s"
  shows "split_once [c] (s @ c # t) = Some (s, t)"
proof -
  have "takeWhile (\<lambda>d. d \<noteq> c) (s @ c # t) = s" using assms by (induction s) auto
  then show ?thesis by (simp add: split_once_def str_find_singleton)
qed

lemma show_int_chars: "c \<in> set (show_int i) \<Longrightarrow> ascii_digit c \<or> c = CHR ''-''"
  using show_nat_digits by (auto simp: show_int_def list_all_iff split: if_splits)

lemma show_int_nonempty [simp]: "show_int i \<noteq> []"
  by (simp add: show_int_def)

lemma show_int_hd: "\<not> py_isspace (hd (show_int i))"
proof -
  have "hd (show_int i) \<in> set (show_int i)" by (rule hd_in_set) simp
  then have "ascii_digit (hd (show_int i)) \<or> hd (show_int i) = CHR ''-''" by (rule show_int_chars)
  then show ?thesis using ascii_digit_space by (auto simp: py_isspace_def code_def)
qed

lemma py_digits_show_nat: "py_digits (show_nat n) = Some n"
proof -
  have "CHR ''_'' \<notin> set (show_nat n)"
    using show_nat_digits by (intro digits_not) (auto simp: ascii_digit_def code_def)
  then show ?thesis by (simp add: py_digits_def str_split_absent decimal_show_nat show_nat_digits)
qed

lemma py_int_show_int [simp]: "py_int (show_int i) = Ok i"
proof (cases "i < 0")
  case True
  let ?s = "show_nat (nat (- i))"
  have "list_all (\<lambda>c. \<not> py_isspace c) (CHR ''-'' # ?s)"
    using show_nat_digits [of "nat (- i)"] ascii_digit_space
    by (auto simp: list_all_iff) (simp add: py_isspace_def code_def)
  then show ?thesis
    using True by (simp add: py_int_def show_int_def py_strip_id py_digits_show_nat)
next
  case False
  then show ?thesis by (simp add: show_int_def)
qed

lemma act_bind_Ok:
  "act_bind m f w = (Ok b, w') \<longleftrightarrow> (\<exists>a v. m w = (Ok a, v) \<and> f a v = (Ok b, w'))"
proof (cases "m w")
  case (Pair r v)
  then show ?thesis by (cases r) (auto simp: act_bind_def)
qed

lemma act_bind_ret [simp]: "act_bind (ret a) f = f a"
  by (simp add: act_bind_def ret_def fun_eq_iff)

lemma act_bind_lift [simp]: "act_bind (lift (Ok a)) f = f a"
  by (simp add: act_bind_def lift_def fun_eq_iff)

lemma act_bind_lift_Err [simp]: "act_bind (lift (Err e)) f = raise e"
  by (simp add: act_bind_def lift_def raise_def fun_eq_iff)

lemma act_bind_raise [simp]: "act_bind (raise e) f = raise e"
  by (simp add: act_bind_def raise_def fun_eq_iff)

lemma lift_Ok: "lift r w = (Ok a, w') \<longleftrightarrow> r = Ok a \<and> w' = w"
  by (auto simp: lift_def)

lemma ret_Ok: "ret a w = (Ok b, w') \<longleftrightarrow> b = a \<and> w' = w"
  by (auto simp: ret_def)

lemma raise_Ok [simp]: "raise e w \<noteq> (Ok b, w')"
  by (simp add: raise_def)

text \<open>
  Running an action step by step: the congruence rules keep the simplifier out of the continuations until
  they are applied.
\<close>

lemma act_bind_cong: "act_bind m f w = act_bind m f w"
  by (rule refl)

lemma act_next_cong: "r = r' \<Longrightarrow> act_next r f = act_next r' f"
  by simp

lemma act_seq_eval: "act_seq m n w = act_next (m w) (\<lambda>_. n)"
  by (simp add: act_seq_def act_bind_def)

lemma act_seq_cong: "act_seq m n w = act_seq m n w"
  by (rule refl)

lemmas act_cong = act_bind_cong act_next_cong act_seq_cong

lemmas act_eval = act_bind_def act_seq_eval ret_def lift_def raise_def

end
