(* ===== verification/Python_Json.thy ===== *)
theory Python_Json
  imports Python_Prelude
begin

text \<open>
  The texts that \<open>json.dumps\<close> writes and \<open>json.loads\<close> reads. A text with an escape for a character that
  is not below 256 is rejected here.
\<close>

section \<open>Writing\<close>

definition json_char :: "char \<Rightarrow> string" where
  "json_char c =
     (if c = CHR 0x22 \<or> c = CHR 0x5C then [CHR 0x5C, c]
      else if code c = 10 then [CHR 0x5C, CHR ''n''] else if code c = 13 then [CHR 0x5C, CHR ''r'']
      else if code c = 9 then [CHR 0x5C, CHR ''t''] else if code c = 12 then [CHR 0x5C, CHR ''f'']
      else if code c = 8 then [CHR 0x5C, CHR ''b'']
      else if code c < 32 \<or> 126 < code c
      then [CHR 0x5C, CHR ''u'', CHR ''0'', CHR ''0'', digit_char (code c div 16), digit_char (code c mod 16)]
      else [c])"

definition json_string :: "string \<Rightarrow> string" where
  "json_string s = CHR 0x22 # concat (map json_char s) @ [CHR 0x22]"

primrec json_dumps :: "pyval \<Rightarrow> string" where
  "json_dumps PNone = ''null''"
| "json_dumps (PBool b) = (if b then ''true'' else ''false'')"
| "json_dumps (PInt i) = show_int i"
| "json_dumps (PFloat t) = t"
| "json_dumps (PStr s) = json_string s"
| "json_dumps (PList vs) = ''['' @ str_join '', '' (map json_dumps vs) @ '']''"
| "json_dumps (PDict d) =
     ''{'' @ str_join '', '' (map (\<lambda>(k, t). json_string k @ '': '' @ t) (map (map_prod (\<lambda>k. k) json_dumps) d)) @ ''}''"

section \<open>Reading\<close>

definition json_ws :: "string \<Rightarrow> string" where
  "json_ws s = dropWhile (\<lambda>c. code c \<in> {9, 10, 13, 32}) s"

fun hex_value :: "char \<Rightarrow> nat option" where
  "hex_value c =
     (let n = code c in
      if 48 \<le> n \<and> n \<le> 57 then Some (n - 48)
      else if 97 \<le> n \<and> n \<le> 102 then Some (n - 87)
      else if 65 \<le> n \<and> n \<le> 70 then Some (n - 55) else None)"

definition unicode_escape :: "char \<Rightarrow> char \<Rightarrow> char \<Rightarrow> char \<Rightarrow> char option" where
  "unicode_escape a b c d =
     (case (hex_value a, hex_value b, hex_value c, hex_value d) of
        (Some w, Some x, Some y, Some z) \<Rightarrow>
          (let n = 4096 * w + 256 * x + 16 * y + z in if n < 256 then Some (char_of n) else None)
      | _ \<Rightarrow> None)"

definition simple_escape :: "char \<Rightarrow> char option" where
  "simple_escape e =
     (if e = CHR 0x22 \<or> e = CHR 0x5C \<or> e = CHR ''/'' then Some e
      else map_of [(CHR ''b'', CHR 0x08), (CHR ''f'', CHR 0x0C), (CHR ''n'', CHR 0x0A),
                   (CHR ''r'', CHR 0x0D), (CHR ''t'', CHR 0x09)] e)"

text \<open>The rest of a string after its opening quote.\<close>

fun scan_string :: "string \<Rightarrow> (string \<times> string) option" where
  "scan_string [] = None"
| "scan_string (c # s) =
     (if c = CHR 0x22 then Some ([], s)
      else if c = CHR 0x5C then
        (case s of
           [] \<Rightarrow> None
         | e # s1 \<Rightarrow>
             if e = CHR ''u'' then
               (case s1 of
                  h1 # h2 # h3 # h4 # s2 \<Rightarrow>
                    (case unicode_escape h1 h2 h3 h4 of
                       None \<Rightarrow> None
                     | Some d \<Rightarrow> map_option (apfst ((#) d)) (scan_string s2))
                | _ \<Rightarrow> None)
             else
               (case simple_escape e of
                  None \<Rightarrow> None
                | Some d \<Rightarrow> map_option (apfst ((#) d)) (scan_string s1)))
      else if code c < 32 then None
      else map_option (apfst ((#) c)) (scan_string s))"

definition scan_fraction :: "string \<Rightarrow> string" where
  "scan_fraction s =
     (case s of
        c # t \<Rightarrow> if c = CHR ''.'' \<and> takeWhile ascii_digit t \<noteq> [] then c # takeWhile ascii_digit t else []
      | [] \<Rightarrow> [])"

definition scan_exponent :: "string \<Rightarrow> string" where
  "scan_exponent s =
     (case s of
        c # t \<Rightarrow>
          (let sign = (case t of d # _ \<Rightarrow> if d = CHR ''-'' \<or> d = CHR ''+'' then [d] else [] | [] \<Rightarrow> []);
               digits = takeWhile ascii_digit (drop (length sign) t) in
           if (c = CHR ''e'' \<or> c = CHR ''E'') \<and> digits \<noteq> [] then c # sign @ digits else [])
      | [] \<Rightarrow> [])"

definition scan_number :: "string \<Rightarrow> (pyval \<times> string) option" where
  "scan_number s =
     (let sign = (if prefix ''-'' s then ''-'' else []);
          t = drop (length sign) s;
          digits = (if prefix ''0'' t then ''0'' else takeWhile ascii_digit t) in
      if digits = [] then None
      else
        (let frac = scan_fraction (drop (length digits) t);
             expo = scan_exponent (drop (length digits + length frac) t);
             rest = drop (length digits + length frac + length expo) t in
         if frac = [] \<and> expo = []
         then Some (PInt ((if sign = [] then 1 else -1) * int (decimal digits)), rest)
         else Some (PFloat (sign @ digits @ frac @ expo), rest)))"

definition scan_constant :: "string \<Rightarrow> (pyval \<times> string) option" where
  "scan_constant s =
     (case find (\<lambda>(t, v). prefix t s)
             [(''null'', PNone), (''true'', PBool True), (''false'', PBool False), (''NaN'', PFloat ''NaN''),
              (''Infinity'', PFloat ''Infinity''), (''-Infinity'', PFloat ''-Infinity'')] of
        Some (t, v) \<Rightarrow> Some (v, drop (length t) s)
      | None \<Rightarrow> None)"

text \<open>Objects and arrays after their first bracket; a member begins at the quote of its key.\<close>

function (sequential) scan_value :: "string \<Rightarrow> (pyval \<times> string) option"
  and scan_members :: "pydict \<Rightarrow> string \<Rightarrow> (pyval \<times> string) option"
  and scan_elements :: "pyval list \<Rightarrow> string \<Rightarrow> (pyval \<times> string) option" where
  "scan_value [] = None"
| "scan_value (c # s) =
     (if c = CHR 0x22 then map_option (apfst PStr) (scan_string s)
      else if c = CHR ''{'' then
        (if prefix ''}'' (json_ws s) then Some (PDict [], tl (json_ws s))
         else if length (json_ws s) \<le> length s then scan_members [] (json_ws s) else None)
      else if c = CHR ''['' then
        (if prefix '']'' (json_ws s) then Some (PList [], tl (json_ws s))
         else if length (json_ws s) \<le> length s then scan_elements [] (json_ws s) else None)
      else (case scan_constant (c # s) of Some r \<Rightarrow> Some r | None \<Rightarrow> scan_number (c # s)))"
| "scan_members acc [] = None"
| "scan_members acc (c # s) =
     (if c \<noteq> CHR 0x22 then None
      else
        (case scan_string s of
           None \<Rightarrow> None
         | Some (k, s1) \<Rightarrow>
             if \<not> prefix '':'' (json_ws s1) then None
             else
               (let s2 = json_ws (tl (json_ws s1)) in
                if length s \<le> length s2 then None
                else
                  (case scan_value s2 of
                     None \<Rightarrow> None
                   | Some (v, s3) \<Rightarrow>
                       (let s4 = json_ws s3; acc' = dict_set k v acc in
                        if prefix ''}'' s4 then Some (PDict acc', tl s4)
                        else if prefix '','' s4 \<and> length (json_ws (tl s4)) \<le> length s
                        then scan_members acc' (json_ws (tl s4))
                        else None)))))"
| "scan_elements acc s =
     (case scan_value s of
        None \<Rightarrow> None
      | Some (v, s1) \<Rightarrow>
          (let s2 = json_ws s1; acc' = acc @ [v] in
           if prefix '']'' s2 then Some (PList acc', tl s2)
           else if prefix '','' s2 \<and> length (json_ws (tl s2)) < length s
           then scan_elements acc' (json_ws (tl s2))
           else None))"
  by pat_completeness auto

termination
  by (relation "measure (\<lambda>x. case x of
        Inl s \<Rightarrow> 2 * length s | Inr (Inl (acc, s)) \<Rightarrow> 2 * length s | Inr (Inr (acc, s)) \<Rightarrow> 2 * length s + 1)")
     auto

definition json_loads :: "string \<Rightarrow> pyval py" where
  "json_loads s =
     (case scan_value (json_ws s) of
        Some (v, rest) \<Rightarrow> if json_ws rest = [] then Ok v else Err (ValueError ''Extra data'')
      | None \<Rightarrow> Err (ValueError ''Expecting value''))"

section \<open>Reading back what was written\<close>

lemma code_bound: "code c < 256"
  unfolding code_def using of_char_mod_256 [of c] by (metis mod_less_divisor zero_less_numeral)

lemma hex_value_digit_char: "d < 16 \<Longrightarrow> hex_value (digit_char d) = Some d"
  by (auto simp: digit_char_def code_def Let_def)

lemma unicode_escape_char:
  "unicode_escape CHR ''0'' CHR ''0'' (digit_char (code c div 16)) (digit_char (code c mod 16)) = Some c"
proof -
  have "code c div 16 < 16" using code_bound [of c] by simp
  moreover have "hex_value CHR ''0'' = Some 0" by (simp add: code_def)
  ultimately show ?thesis
    using code_bound [of c] by (simp add: unicode_escape_def hex_value_digit_char del: hex_value.simps) (simp add: code_def)
qed

lemma scan_json_char: "scan_string (json_char c @ s) = map_option (apfst ((#) c)) (scan_string s)"
proof -
  have char: "c = char_of n" if "code c = n" for n using that by (auto simp: code_def)
  have ctl: "char_of (8 :: nat) = CHR 0x08" "char_of (9 :: nat) = CHR 0x09" "char_of (10 :: nat) = CHR 0x0A"
    "char_of (12 :: nat) = CHR 0x0C" "char_of (13 :: nat) = CHR 0x0D" by (simp_all add: char_of_def bit_0)
  show ?thesis
    by (auto simp: json_char_def simple_escape_def unicode_escape_char [unfolded code_def] code_def ctl
             dest!: char [unfolded code_def])
qed

lemma scan_json_chars:
  "scan_string (concat (map json_char t) @ s) = map_option (apfst ((@) t)) (scan_string s)"
proof (induction t)
  case Nil
  then show ?case by (cases "scan_string s") auto
next
  case (Cons c t)
  then show ?case by (cases "scan_string s") (auto simp: scan_json_char)
qed

text \<open>A string is read back, whatever follows.\<close>

lemma scan_json_string:
  "scan_value (json_string t @ s) = Some (PStr t, s)"
  "scan_string (tl (json_string t) @ s) = Some (t, s)"
  by (simp_all add: json_string_def scan_json_chars)

lemma json_ws_id: "code c \<notin> {9, 10, 13, 32} \<Longrightarrow> json_ws (c # s) = c # s"
  by (simp add: json_ws_def)

lemma json_string_Cons: "json_string t = CHR 0x22 # tl (json_string t)"
  by (simp add: json_string_def)

lemma json_ws_string: "json_ws (json_string t @ s) = json_string t @ s"
  by (subst (1 2) json_string_Cons) (simp add: json_ws_def code_def)

text \<open>The members of an object with texts as values, from a key on.\<close>

definition member_text :: "string \<times> string \<Rightarrow> string" where
  "member_text = (\<lambda>(k, v). json_string k @ '': '' @ json_string v)"

lemma scan_member:
  fixes k v :: string
  assumes "rest \<noteq> []" and "code (hd rest) \<notin> {9, 10, 13, 32}"
  shows "scan_members acc (member_text (k, v) @ rest) =
    (let acc' = dict_set k (PStr v) acc in
     if prefix ''}'' rest then Some (PDict acc', tl rest)
     else if prefix '','' rest \<and> length (json_ws (tl rest)) \<le> length (tl (json_string k) @ '': '' @ json_string v @ rest)
     then scan_members acc' (json_ws (tl rest)) else None)"
proof -
  let ?s = "tl (json_string k) @ '': '' @ json_string v @ rest"
  have shape: "member_text (k, v) @ rest = CHR 0x22 # ?s"
    using json_string_Cons [of k] by (simp add: member_text_def)
  have key: "scan_string ?s = Some (k, '': '' @ json_string v @ rest)" by (rule scan_json_string)
  have colon: "json_ws ('': '' @ json_string v @ rest) = '': '' @ json_string v @ rest"
    by (simp add: json_ws_def code_def)
  have gap: "json_ws ('' '' @ json_string v @ rest) = json_string v @ rest"
    using json_ws_string [of v rest] by (simp add: json_ws_def code_def)
  have rest: "json_ws rest = rest" using assms by (cases rest) (auto simp: json_ws_def)
  have "length (json_string v @ rest) < length ?s" by simp
  then show ?thesis
    unfolding shape by (simp add: key [simplified] colon [simplified] gap [simplified] rest scan_json_string(1) Let_def)
qed

lemma member_texts_Cons:
  assumes "ms \<noteq> []"
  obtains u where "str_join '', '' (map member_text ms) @ t = CHR 0x22 # u"
  using assms by (cases ms; cases "tl ms") (auto simp: member_text_def json_string_def)

lemma scan_members_texts:
  assumes "ms \<noteq> []"
  shows "scan_members acc (str_join '', '' (map member_text ms) @ ''}'' @ rest) =
    Some (PDict (foldl (\<lambda>d (k, v). dict_set k (PStr v) d) acc ms), rest)"
  using assms
proof (induction ms arbitrary: acc)
  case (Cons m ms)
  obtain k v where m: "m = (k, v)" by (cases m)
  show ?case
  proof (cases ms)
    case Nil
    then show ?thesis using scan_member [of "''}'' @ rest" acc k v] by (simp add: m code_def)
  next
    case (Cons m' ms')
    let ?t = "str_join '', '' (map member_text ms) @ ''}'' @ rest"
    obtain u where u: "?t = CHR 0x22 # u" using member_texts_Cons [of ms "''}'' @ rest"] Cons by auto
    then have ws: "json_ws (CHR '' '' # ?t) = ?t" by (simp add: json_ws_def code_def)
    have "scan_members acc (member_text (k, v) @ '','' @ CHR '' '' # ?t) = scan_members (dict_set k (PStr v) acc) ?t"
      using scan_member [of "CHR '','' # CHR '' '' # ?t" acc k v] ws by (simp add: code_def)
    moreover have "str_join '', '' (map member_text (m # ms)) @ ''}'' @ rest = member_text (k, v) @ '','' @ CHR '' '' # ?t"
      using Cons m by simp
    ultimately show ?thesis using Cons.IH [of "dict_set k (PStr v) acc"] Cons m by simp
  qed
qed simp

lemma json_dumps_texts:
  "json_dumps (PDict (map (\<lambda>(k, v). (k, PStr v)) ms)) = ''{'' @ str_join '', '' (map member_text ms) @ ''}''"
  by (simp add: comp_def case_prod_unfold member_text_def)

lemma dict_set_new: "k \<notin> fst ` set d \<Longrightarrow> dict_set k v d = d @ [(k, v)]"
  by (induction k v d rule: dict_set.induct) auto

lemma foldl_dict_set:
  assumes "distinct (map fst ms)" and "fst ` set acc \<inter> fst ` set ms = {}"
  shows "foldl (\<lambda>d (k, v). dict_set k (PStr v) d) acc ms = acc @ map (\<lambda>(k, v). (k, PStr v)) ms"
  using assms
proof (induction ms arbitrary: acc)
  case (Cons m ms)
  obtain k v where m: "m = (k, v)" by (cases m)
  then have "dict_set k (PStr v) acc = acc @ [(k, PStr v)]" using Cons.prems by (intro dict_set_new) auto
  then show ?case using Cons.IH [of "acc @ [(k, PStr v)]"] Cons.prems m by auto
qed simp

text \<open>An object of texts is read back.\<close>

lemma json_texts_round_trip:
  assumes "ms \<noteq> []" and "distinct (map fst ms)"
  shows "json_loads (json_dumps (PDict (map (\<lambda>(k, v). (k, PStr v)) ms))) = Ok (PDict (map (\<lambda>(k, v). (k, PStr v)) ms))"
proof -
  let ?t = "str_join '', '' (map member_text ms) @ ''}''"
  obtain u where u: "?t = CHR 0x22 # u" using member_texts_Cons [OF assms(1)] by blast
  have ws: "json_ws ?t = ?t" unfolding u by (simp add: json_ws_def code_def)
  have "scan_value (CHR ''{'' # ?t) = scan_members [] ?t"
    using ws u by simp
  also have "\<dots> = Some (PDict (map (\<lambda>(k, v). (k, PStr v)) ms), [])"
    using scan_members_texts [OF assms(1), of "[]" "[]"] foldl_dict_set [OF assms(2), of "[]"] by simp
  finally show ?thesis
    unfolding json_dumps_texts by (simp add: json_loads_def json_ws_def code_def)
qed

end
