(* ===== verification/Cli_Config.thy ===== *)
theory Cli_Config
  imports Python_Prelude
begin

text \<open>
  The configuration of the developer tool \<open>guardian\<close> and what reads and writes it: loading and saving
  (\<open>utils/__init__.py\<close>), running commands over ssh, the setup wizard (\<open>setup.py\<close>) and the commands of
  \<open>cli.py\<close>. The YAML library, the prompts of click and the programs that are run are parameters; a program
  and a prompt change the world outside the machine's files. A file that exists can be read. The duration
  of a command is left out.
\<close>

section \<open>The machine\<close>

record 'x machine =
  mc_files :: "(string, string) hash_map"
  mc_env :: "(string, string) hash_map"
  mc_output :: "(bool \<times> string) list"
  mc_world :: 'x

definition outside :: "('x, 'a) act \<Rightarrow> ('x machine, 'a) act" where
  "outside f m = (case f (mc_world m) of (r, w) \<Rightarrow> (r, m\<lparr> mc_world := w \<rparr>))"

definition echo_to :: "bool \<Rightarrow> string \<Rightarrow> ('x machine, unit) act" where
  "echo_to err line m = (Ok (), m\<lparr> mc_output := mc_output m @ [(err, line)] \<rparr>)"

definition echo :: "string \<Rightarrow> ('x machine, unit) act" where
  "echo line = echo_to False (line @ ''\<newline>'')"

record yaml_lib =
  safe_load :: "string \<Rightarrow> pyval py"
  dump :: "pyval \<Rightarrow> string"


record SSHResult =
  returncode :: int
  stdout :: string
  stderr :: string

text \<open>\<open>subprocess.run\<close>: the arguments, the timeout, and whether the output is captured.\<close>

type_synonym 'x subprocess = "string list \<Rightarrow> int option \<Rightarrow> bool \<Rightarrow> ('x, SSHResult) act"

section \<open>utils/__init__.py\<close>

definition CONFIG_PATH :: string where
  "CONFIG_PATH = ''~/.guardian/config.yaml''"

definition HOSTS :: "(string \<times> int \<times> string) list" where
  "HOSTS = [(''tdx'', 1, ''10.42.1.1''), (''sev'', 2, ''10.42.2.1'')]"

definition SSH_OPTIONS :: "string list" where
  "SSH_OPTIONS =
     [''-o'', ''StrictHostKeyChecking=no'', ''-o'', ''UserKnownHostsFile=/dev/null'', ''-o'', ''LogLevel=ERROR'',
      ''-o'', ''ControlMaster=auto'', ''-o'', ''ControlPath=~/.ssh/guardian-control-%r@%h:%p'',
      ''-o'', ''ControlPersist=10m'', ''-o'', ''ConnectTimeout=10'', ''-o'', ''ServerAliveInterval=15'',
      ''-o'', ''ServerAliveCountMax=3'']"

fun suffix_hosts :: "string \<Rightarrow> pydict \<Rightarrow> pydict py" where
  "suffix_hosts parallel_id [] = Ok []"
| "suffix_hosts parallel_id ((name, host) # hosts) =
     and_then (py_in ''workspace'' host) (\<lambda>has.
       and_then
         (if has then and_then (py_item host ''workspace'') (\<lambda>ws.
                        py_setitem host ''workspace'' (PStr (py_str ws @ ''-parallel-'' @ parallel_id)))
          else Ok host) (\<lambda>host'.
       and_then (suffix_hosts parallel_id hosts) (\<lambda>hosts'. Ok ((name, host') # hosts'))))"

definition apply_parallel :: "string \<Rightarrow> pyval \<Rightarrow> pyval py" where
  "apply_parallel parallel_id config =
     and_then (py_get config ''hosts'' (PDict [])) (\<lambda>hosts.
       and_then (py_items hosts) (\<lambda>items.
         and_then (suffix_hosts parallel_id items) (\<lambda>items'.
           if items = [] then Ok config else py_setitem config ''hosts'' (PDict items'))))"

definition load_config :: "yaml_lib \<Rightarrow> ('x machine, pyval) act" where
  "load_config yaml m =
     (case mc_files m CONFIG_PATH of
        None \<Rightarrow> ret (PDict []) m
      | Some text \<Rightarrow>
          (case safe_load yaml text of
             Ok v \<Rightarrow>
               (let config = (if truthy v then v else PDict []) in
                case mc_env m ''GUARDIAN_PARALLEL'' of
                  None \<Rightarrow> ret config m
                | Some parallel_id \<Rightarrow>
                    if parallel_id = [] then ret config m else lift (apply_parallel parallel_id config) m)
           | _ \<Rightarrow> ret (PDict []) m))"


definition get_host_config :: "pyval \<Rightarrow> string \<Rightarrow> pyval py" where
  "get_host_config config host_type =
     and_then (py_get config ''hosts'' (PDict [])) (\<lambda>hosts.
       and_then (py_in host_type hosts) (\<lambda>known.
         if \<not> known
         then Err (ValueError (''Host '' @ [CHR 0x27] @ host_type @ [CHR 0x27] @
                     '' not configured. Run: guardian setup --'' @ host_type))
         else py_item hosts host_type))"

definition get_identity :: "pyval \<Rightarrow> pyval py" where
  "get_identity config =
     and_then (py_get config ''identity'' PNone) (\<lambda>identity.
       if \<not> truthy identity then Err (ValueError ''Identity not configured. Run: guardian setup'')
       else Ok identity)"

fun first_cert_api :: "pydict \<Rightarrow> (string \<times> pyval) py" where
  "first_cert_api [] = Err (ValueError ''No host with cert_api=true configured. Run: guardian setup'')"
| "first_cert_api ((host_type, host_config) # hosts) =
     and_then (py_get host_config ''cert_api'' PNone) (\<lambda>api.
       if truthy api then Ok (host_type, host_config) else first_cert_api hosts)"

definition find_cert_api_host :: "pyval \<Rightarrow> (string \<times> pyval) py" where
  "find_cert_api_host config =
     and_then (py_get config ''hosts'' (PDict [])) (\<lambda>hosts. and_then (py_items hosts) first_cert_api)"

definition parse_target :: "string \<Rightarrow> (string \<times> string) py" where
  "parse_target target =
     (if CHR ''.'' \<in> set target \<and> py_isdigit (hd target) then
        (let parts = str_split ''.'' target in
         if length parts = 4 \<and> parts ! 0 = ''10'' \<and> parts ! 1 = ''42''
         then and_then (py_int (parts ! 2)) (\<lambda>host_id.
                case find (\<lambda>(name, ident, nebula_ip). ident = host_id) HOSTS of
                  Some (name, _) \<Rightarrow> Ok (name, target)
                | None \<Rightarrow> Ok (''unknown'', target))
         else Ok (''unknown'', target))
      else
        (case split_once ''.'' target of
           Some (before, octet) \<Rightarrow>
             (let host_type = py_lower before in
              case map_of HOSTS host_type of
                None \<Rightarrow> Err (ValueError (''Unknown host type: '' @ host_type @ ''. Use: tdx, sev''))
              | Some (ident, _) \<Rightarrow> Ok (host_type, ''10.42.'' @ show_int ident @ ''.'' @ octet))
         | None \<Rightarrow> Ok (''tdx'', ''10.42.1.'' @ target)))"

definition at_host :: "pyval \<Rightarrow> string py" where
  "at_host host_config =
     and_then (py_item host_config ''username'') (\<lambda>username.
       and_then (py_item host_config ''address'') (\<lambda>address. Ok (py_str username @ ''@'' @ py_str address)))"

text \<open>Arguments of a program are texts.\<close>

fun argv :: "pyval list \<Rightarrow> string list py" where
  "argv [] = Ok []"
| "argv (PStr s # vs) = and_then (argv vs) (\<lambda>ss. Ok (s # ss))"
| "argv (_ # vs) = Err TypeError"


definition build_ssh_cmd :: "pyval \<Rightarrow> string option \<Rightarrow> bool \<Rightarrow> string \<Rightarrow> pyval list py" where
  "build_ssh_cmd config target tty host_type =
     and_then (get_host_config config host_type) (\<lambda>host_config.
     and_then (py_item host_config ''ssh_key'') (\<lambda>key.
       (let cmd = [PStr ''ssh'', PStr ''-i'', key] @ map PStr SSH_OPTIONS @
                  (if tty then [PStr ''-tt''] else [PStr ''-o'', PStr ''BatchMode=yes'']) in
        if target \<noteq> None \<and> target \<noteq> Some [] then Ok (cmd @ [PStr (''root@'' @ the target)])
        else and_then (at_host host_config) (\<lambda>dest. Ok (cmd @ [PStr dest])))))"

record remote_options =
  ro_timeout :: "int option"
  ro_target :: "string option"
  ro_raise_on_nonzero :: bool
  ro_allocate_tty :: bool
  ro_host_type :: string

definition remote_defaults :: remote_options where
  "remote_defaults = \<lparr> ro_timeout = Some 300, ro_target = None, ro_raise_on_nonzero = True,
                       ro_allocate_tty = False, ro_host_type = ''tdx'' \<rparr>"

definition ssh_argv :: "pyval \<Rightarrow> string \<Rightarrow> remote_options \<Rightarrow> string list py" where
  "ssh_argv config command opts =
     and_then (build_ssh_cmd config (ro_target opts) (ro_allocate_tty opts) (ro_host_type opts)) (\<lambda>cmd.
       argv (cmd @ [PStr command]))"

text \<open>The two forms of \<open>remote_execute\<close>: with the output streamed, and with it captured.\<close>

definition remote_stream ::
  "'x subprocess \<Rightarrow> pyval \<Rightarrow> string \<Rightarrow> remote_options \<Rightarrow> ('x machine, int) act" where
  "remote_stream run config command opts =
     act_bind (lift (ssh_argv config command opts)) (\<lambda>cmd.
     act_bind (outside (run cmd (ro_timeout opts) False)) (\<lambda>result.
       if ro_raise_on_nonzero opts \<and> returncode result \<noteq> 0
       then raise (RuntimeError (''Command failed with exit code '' @ show_int (returncode result)))
       else ret (returncode result)))"

definition remote_execute ::
  "'x subprocess \<Rightarrow> pyval \<Rightarrow> string \<Rightarrow> remote_options \<Rightarrow> ('x machine, SSHResult) act" where
  "remote_execute run config command opts =
     act_bind (lift (ssh_argv config command opts)) (\<lambda>cmd.
     act_bind (outside (run cmd (ro_timeout opts) True)) (\<lambda>result.
       if ro_raise_on_nonzero opts \<and> returncode result \<noteq> 0
       then raise (RuntimeError (''Command failed: '' @
              (if stderr result \<noteq> [] then stderr result else stdout result)))
       else ret result))"

section \<open>setup.py\<close>
















definition host_summary :: "string \<times> pyval \<Rightarrow> ('x machine, unit) act" where
  "host_summary = (\<lambda>(ht, hc).
     act_bind (lift (py_get hc ''cert_api'' PNone)) (\<lambda>api.
     act_bind (lift (at_host hc)) (\<lambda>dest.
     act_bind (lift (py_item hc ''nebula_address'')) (\<lambda>nebula_address.
       echo (''  '' @ ht @ '': '' @ dest @ '' ('' @ py_str nebula_address @ '')'' @
             (if truthy api then '' [cert-api]'' else []))))))"



section \<open>cli.py\<close>

definition cli_parallel :: "int option \<Rightarrow> ('x machine, unit) act" where
  "cli_parallel slot m =
     (Ok (), case slot of
               None \<Rightarrow> m
             | Some n \<Rightarrow> m\<lparr> mc_env := (mc_env m)(''GUARDIAN_PARALLEL'' \<mapsto> show_int n) \<rparr>)"




text \<open>What the two ssh commands do with a captured result and with an exit code.\<close>

definition exit_with :: "int \<Rightarrow> ('x machine, unit) act" where
  "exit_with exit_code = when_do (exit_code \<noteq> 0) (raise (SystemExit exit_code))"

definition show_result :: "SSHResult \<Rightarrow> ('x machine, unit) act" where
  "show_result result =
     act_seq (echo_to False (stdout result)) (
     act_seq (when_do (stderr result \<noteq> []) (echo_to True (stderr result))) (
     exit_with (returncode result)))"

definition cli_ssh :: "yaml_lib \<Rightarrow> 'x subprocess \<Rightarrow> string \<Rightarrow> string list \<Rightarrow> ('x machine, unit) act" where
  "cli_ssh yaml run target command =
     act_bind (load_config yaml) (\<lambda>config.
     act_bind (lift (parse_target target)) (\<lambda>(host_type, ip).
     if command \<noteq> []
     then act_bind (remote_execute run config (str_join '' '' command)
                      (remote_defaults\<lparr> ro_target := Some ip, ro_host_type := host_type \<rparr>)) show_result
     else (let shell = (if suffix ''.10'' target \<or> suffix ''.10'' ip then ''bash'' else ''sh'') in
           act_bind (remote_stream run config shell
             (remote_defaults\<lparr> ro_target := Some ip, ro_allocate_tty := True, ro_raise_on_nonzero := False,
                               ro_timeout := None, ro_host_type := host_type \<rparr>)) exit_with)))"

definition cli_ssh_host ::
  "yaml_lib \<Rightarrow> 'x subprocess \<Rightarrow> string list \<Rightarrow> string \<Rightarrow> string option \<Rightarrow> ('x machine, unit) act" where
  "cli_ssh_host yaml run command host inline_cmd =
     act_bind (load_config yaml) (\<lambda>config.
     (let inl = (case inline_cmd of Some c \<Rightarrow> c | None \<Rightarrow> []);
          cmd = (if inl \<noteq> [] then inl else str_join '' '' command);
          interactive = remote_defaults\<lparr> ro_allocate_tty := True, ro_raise_on_nonzero := False,
                                          ro_timeout := None, ro_host_type := host \<rparr> in
      if cmd \<noteq> [] then
        (if inl \<noteq> [] then act_bind (remote_stream run config cmd interactive) exit_with
         else act_bind (remote_execute run config cmd (remote_defaults\<lparr> ro_host_type := host \<rparr>)) show_result)
      else act_bind (remote_stream run config ''bash'' interactive) exit_with))"





section \<open>Actions that leave the files alone\<close>

definition quiet :: "('x machine, 'a) act \<Rightarrow> bool" where
  "quiet f = (\<forall>m. mc_files (snd (f m)) = mc_files m \<and> mc_env (snd (f m)) = mc_env m)"

named_theorems quiet_intros

lemma quiet_basic [quiet_intros]:
  "quiet (ret a)" "quiet (lift r)" "quiet (raise e)" "quiet (echo_to err line)" "quiet (echo line)" "quiet (outside g)"
  by (simp_all add: quiet_def ret_def lift_def raise_def echo_to_def echo_def outside_def split: prod.splits)

lemma quiet_bind [quiet_intros]:
  assumes "quiet f" and "\<And>a. quiet (g a)"
  shows "quiet (act_bind f g)"
  unfolding quiet_def
proof (intro allI)
  fix m
  obtain r v where r: "f m = (r, v)" by (cases "f m")
  then have "mc_files v = mc_files m \<and> mc_env v = mc_env m"
    using assms(1) unfolding quiet_def by (metis snd_conv)
  with r assms(2) show "mc_files (snd (act_bind f g m)) = mc_files m \<and> mc_env (snd (act_bind f g m)) = mc_env m"
    unfolding quiet_def by (cases r) (simp_all add: act_bind_def)
qed

lemma quiet_seq [quiet_intros]: "quiet f \<Longrightarrow> quiet g \<Longrightarrow> quiet (act_seq f g)"
  unfolding act_seq_def by (intro quiet_bind)

lemma quiet_if [quiet_intros]: "quiet f \<Longrightarrow> quiet g \<Longrightarrow> quiet (if b then f else g)"
  by simp

lemma quiet_when [quiet_intros]: "quiet f \<Longrightarrow> quiet (when_do b f)"
  unfolding when_do_def by (intro quiet_intros)

lemma quiet_map [quiet_intros]: "(\<And>x. quiet (f x)) \<Longrightarrow> quiet (act_map f xs)"
  by (induction xs) (auto intro!: quiet_intros)

lemma quiet_load [quiet_intros]: "quiet (load_config yaml)"
  by (auto simp: quiet_def load_config_def ret_def lift_def Let_def split: option.splits outcome.splits)

lemma quiet_host_summary [quiet_intros]: "quiet (host_summary x)"
  unfolding host_summary_def by (cases x) (auto intro!: quiet_intros)


section \<open>What the wizard stores\<close>





























text \<open>
  Loading applies the suffix of a parallel slot to the workspaces; a configuration that is loaded and saved
  again, as by the setup wizard, gets the suffix once more each time.
\<close>

theorem parallel_suffix_accumulates:
  assumes "apply_parallel slot (PDict [(''hosts'', PDict [(h, PDict [(''workspace'', PStr ws)])])]) = Ok config"
  shows "apply_parallel slot config =
    Ok (PDict [(''hosts'', PDict [(h, PDict [(''workspace'', PStr (ws @ ''-parallel-'' @ slot @ ''-parallel-'' @ slot))])])])"
  using assms by (auto simp: apply_parallel_def)

end
