(* ===== verification/Cluster_Locks.thy ===== *)
theory Cluster_Locks
  imports Python_Json Cli_Config
begin

text \<open>
  Cluster allocation for test runs, \<open>utils/cluster.py\<close>: lock files on the TDX host that several developers
  share, taken and released by short shell scripts over ssh. The host is the directory of lock files with its
  inodes and advisory locks; a script runs in one piece or, in \<open>shell_step\<close>, interleaved with others. Between two
  commands of an allocator anything may happen on the host, and a command may not reach it. The texts of
  dates are a parameter. Names and purposes have no single quote, so the scripts write them as they are.
\<close>

section \<open>The lock directory\<close>

definition LOCK_DIR :: string where
  "LOCK_DIR = ''/var/run/guardian-locks''"

definition TTL_SECONDS :: int where
  "TTL_SECONDS = 120"

definition HEARTBEAT_INTERVAL :: int where
  "HEARTBEAT_INTERVAL = 60"

definition NUM_CLUSTERS :: int where
  "NUM_CLUSTERS = 10"

definition lock_path :: "int \<Rightarrow> string" where
  "lock_path cluster_id = LOCK_DIR @ ''/cluster-'' @ show_int cluster_id @ ''.lock''"

text \<open>Lock files by cluster, the text and the modification time (in seconds) of each inode, and the inodes that
  a process has locked.\<close>

record lock_host =
  lh_dir :: bool
  lh_path :: "(int, nat) hash_map"
  lh_text :: "nat \<Rightarrow> string"
  lh_mtime :: "nat \<Rightarrow> int"
  lh_flocked :: "nat set"
  lh_next :: nat
  lh_time :: int

definition put :: "nat \<Rightarrow> string \<Rightarrow> lock_host \<Rightarrow> lock_host" where
  "put i text h = h\<lparr> lh_text := (lh_text h)(i := text), lh_mtime := (lh_mtime h)(i := lh_time h) \<rparr>"

text \<open>Opening for writing creates the file or empties it.\<close>

definition open_trunc :: "int \<Rightarrow> lock_host \<Rightarrow> (nat \<times> lock_host) option" where
  "open_trunc cluster_id h =
     (if \<not> lh_dir h then None
      else case lh_path h cluster_id of
             Some i \<Rightarrow> Some (i, put i [] h)
           | None \<Rightarrow>
               Some (lh_next h, put (lh_next h) [] (h\<lparr> lh_path := (lh_path h)(cluster_id \<mapsto> lh_next h),
                                                       lh_next := Suc (lh_next h) \<rparr>)))"

section \<open>The scripts\<close>

text \<open>The commands that the allocator sends, and their texts.\<close>

datatype lock_command =
    MakeDir
  | ReadLock int
  | AcquireLock int string
  | RemoveLock int
  | TouchLock int

fun script :: "lock_command \<Rightarrow> string" where
  "script MakeDir = ''mkdir -p '' @ LOCK_DIR"
| "script (ReadLock c) =
     ''\<newline>        if [ -f '' @ lock_path c @ '' ]; then\<newline>            stat -c '' @ [CHR 0x27] @ ''%Y'' @ [CHR 0x27] @ '' '' @ lock_path c @
     ''\<newline>            cat '' @ lock_path c @
     ''\<newline>        else\<newline>            echo '' @ [CHR 0x22] @ ''NOLOCK'' @ [CHR 0x22] @ ''\<newline>        fi\<newline>        ''"
| "script (AcquireLock c json) =
     ''\<newline>        exec 200>'' @ lock_path c @
     ''\<newline>        if flock -n 200; then\<newline>            echo '' @ [CHR 0x27] @ json @ [CHR 0x27] @ '' > '' @ lock_path c @
     ''\<newline>            exit 0\<newline>        else\<newline>            exit 1\<newline>        fi\<newline>        ''"
| "script (RemoveLock c) = ''rm -f '' @ lock_path c"
| "script (TouchLock c) = ''touch '' @ lock_path c"

text \<open>What a shell that executes the acquiring script has done so far. The lock on descriptor 200 ends with the
  shell.\<close>

datatype shell =
    Started int string
  | Opened int string nat
  | Locked int string nat
  | Written nat
  | Exited int

fun shell_step :: "shell \<Rightarrow> lock_host \<Rightarrow> shell \<times> lock_host" where
  "shell_step (Started c json) h =
     (case open_trunc c h of None \<Rightarrow> (Exited 1, h) | Some (i, h') \<Rightarrow> (Opened c json i, h'))"
| "shell_step (Opened c json i) h =
     (if i \<in> lh_flocked h then (Exited 1, h)
      else (Locked c json i, h\<lparr> lh_flocked := insert i (lh_flocked h) \<rparr>))"
| "shell_step (Locked c json i) h =
     (case open_trunc c h of
        None \<Rightarrow> (Written i, h)
      | Some (j, h') \<Rightarrow> (Written i, put j (json @ ''\<newline>'') h'))"
| "shell_step (Written i) h = (Exited 0, h\<lparr> lh_flocked := lh_flocked h - {i} \<rparr>)"
| "shell_step (Exited n) h = (Exited n, h)"

definition exit_code :: "shell \<Rightarrow> int" where
  "exit_code sh = (case sh of Exited n \<Rightarrow> n | _ \<Rightarrow> 255)"

text \<open>The scripts run in one piece.\<close>

fun run_script :: "lock_command \<Rightarrow> lock_host \<Rightarrow> SSHResult \<times> lock_host" where
  "run_script MakeDir h = (\<lparr> returncode = 0, stdout = [], stderr = [] \<rparr>, h\<lparr> lh_dir := True \<rparr>)"
| "run_script (ReadLock c) h =
     (\<lparr> returncode = 0,
        stdout = (case lh_path h c of
                    Some i \<Rightarrow> show_int (lh_mtime h i) @ ''\<newline>'' @ lh_text h i
                  | None \<Rightarrow> ''NOLOCK\<newline>''),
        stderr = [] \<rparr>, h)"
| "run_script (AcquireLock c json) h =
     (case (\<lambda>(sh, h). shell_step sh h) ((\<lambda>(sh, h). shell_step sh h) ((\<lambda>(sh, h). shell_step sh h)
             (shell_step (Started c json) h))) of
        (sh, h') \<Rightarrow> (\<lparr> returncode = exit_code sh, stdout = [], stderr = [] \<rparr>, h'))"
| "run_script (RemoveLock c) h =
     (\<lparr> returncode = 0, stdout = [], stderr = [] \<rparr>, h\<lparr> lh_path := map_remove c (lh_path h) \<rparr>)"
| "run_script (TouchLock c) h =
     (case lh_path h c of
        Some i \<Rightarrow> (\<lparr> returncode = 0, stdout = [], stderr = [] \<rparr>, h\<lparr> lh_mtime := (lh_mtime h)(i := lh_time h) \<rparr>)
      | None \<Rightarrow>
          (case open_trunc c h of
             Some (i, h') \<Rightarrow> (\<lparr> returncode = 0, stdout = [], stderr = [] \<rparr>, h')
           | None \<Rightarrow> (\<lparr> returncode = 1, stdout = [], stderr = [] \<rparr>, h)))"

section \<open>Allocators\<close>

record LockInfo =
  li_session_id :: pyval
  li_holder :: pyval
  li_acquired_at :: string
  li_purpose :: pyval
  li_mtime :: int

record ClusterAllocation =
  ca_cluster_id :: int
  ca_ips :: "string list"
  ca_session_id :: string
  ca_lock_path :: string

text \<open>
  What happens before a command: the effect of everyone else on the host, whether the command reaches it, and how
  far the clock of the allocator's machine moves (in microseconds). When the list is used up, nothing else happens.
\<close>

record turn =
  tn_others :: "lock_host \<Rightarrow> lock_host"
  tn_reached :: bool
  tn_elapsed :: int

record allocator =
  al_host :: lock_host
  al_turns :: "turn list"
  al_now :: int
  al_allocations :: "(int \<times> ClusterAllocation) list"
  al_heartbeats :: "int set"
  al_running :: bool

definition quiet_turn :: turn where
  "quiet_turn = \<lparr> tn_others = (\<lambda>h. h), tn_reached = True, tn_elapsed = 0 \<rparr>"

definition send :: "lock_command \<Rightarrow> (allocator, SSHResult) act" where
  "send cmd a =
     (let t = (case al_turns a of [] \<Rightarrow> quiet_turn | t # _ \<Rightarrow> t);
          h = tn_others t (al_host a);
          (r, h') = (if tn_reached t then run_script cmd h
                     else (\<lparr> returncode = 255, stdout = [], stderr = ''unreachable'' \<rparr>, h))
      in (Ok r, a\<lparr> al_host := h', al_turns := tl (al_turns a), al_now := al_now a + tn_elapsed t \<rparr>))"

text \<open>A command is sent only when the configuration gives an ssh command line.\<close>

definition ssh_execute :: "pyval \<Rightarrow> lock_command \<Rightarrow> bool \<Rightarrow> (allocator, SSHResult) act" where
  "ssh_execute config cmd raise_on_error =
     act_seq (lift (ssh_argv config (script cmd) (remote_defaults\<lparr> ro_raise_on_nonzero := False \<rparr>))) (
     act_bind (send cmd) (\<lambda>result.
       if raise_on_error \<and> returncode result \<noteq> 0
       then raise (RuntimeError (''SSH command failed: '' @ script cmd @ ''\<newline>stderr: '' @ stderr result))
       else ret result))"

definition ensure_lock_dir :: "pyval \<Rightarrow> (allocator, unit) act" where
  "ensure_lock_dir config = act_seq (ssh_execute config MakeDir True) (ret ())"

text \<open>Dates are texts; \<open>fromisoformat\<close> says which ones can be read.\<close>

definition to_json :: "string \<Rightarrow> string \<Rightarrow> string \<Rightarrow> string \<Rightarrow> string" where
  "to_json session_id holder acquired_at purpose =
     json_dumps (PDict [(''session_id'', PStr session_id), (''holder'', PStr holder),
                        (''acquired_at'', PStr acquired_at), (''purpose'', PStr purpose)])"

definition from_json :: "(string \<Rightarrow> bool) \<Rightarrow> string \<Rightarrow> int \<Rightarrow> LockInfo py" where
  "from_json fromisoformat data mtime =
     and_then (json_loads data) (\<lambda>parsed.
     and_then (py_item parsed ''session_id'') (\<lambda>session_id.
     and_then (py_item parsed ''holder'') (\<lambda>holder.
     and_then (py_item parsed ''acquired_at'') (\<lambda>acquired_at.
     and_then (case acquired_at of
                 PStr s \<Rightarrow> if fromisoformat s then Ok s else Err (ValueError ''Invalid isoformat string'')
               | _ \<Rightarrow> Err TypeError) (\<lambda>date.
     and_then (py_item parsed ''purpose'') (\<lambda>purpose.
       Ok \<lparr> li_session_id = session_id, li_holder = holder, li_acquired_at = date, li_purpose = purpose,
            li_mtime = mtime \<rparr>))))))"

definition parse_lock :: "(string \<Rightarrow> bool) \<Rightarrow> SSHResult \<Rightarrow> LockInfo option py" where
  "parse_lock fromisoformat result =
     (if returncode result \<noteq> 0 \<or> py_strip (stdout result) = ''NOLOCK'' then Ok None
      else case split_once ''\<newline>'' (py_strip (stdout result)) of
             None \<Rightarrow> Ok None
           | Some (first, lock_data) \<Rightarrow>
               (case and_then (py_int first) (from_json fromisoformat lock_data) of
                  Ok info \<Rightarrow> Ok (Some info)
                | Err (ValueError _) \<Rightarrow> Ok None
                | Err e \<Rightarrow> Err e
                | Panic p \<Rightarrow> Panic p))"

definition read_lock :: "(string \<Rightarrow> bool) \<Rightarrow> pyval \<Rightarrow> int \<Rightarrow> (allocator, LockInfo option) act" where
  "read_lock fromisoformat config cluster_id =
     act_bind (ssh_execute config (ReadLock cluster_id) False) (\<lambda>result. lift (parse_lock fromisoformat result))"

definition is_stale :: "int \<Rightarrow> LockInfo \<Rightarrow> bool" where
  "is_stale now info = (now - li_mtime info * 1000000 > TTL_SECONDS * 1000000)"

definition try_acquire_lock ::
  "pyval \<Rightarrow> string \<Rightarrow> string \<Rightarrow> int \<Rightarrow> string \<Rightarrow> string \<Rightarrow> (allocator, bool) act" where
  "try_acquire_lock config holder utcnow cluster_id session_id purpose =
     act_bind (ssh_execute config (AcquireLock cluster_id (to_json session_id holder utcnow purpose)) False) (\<lambda>result.
       ret (returncode result = 0))"

definition release_lock :: "pyval \<Rightarrow> int \<Rightarrow> (allocator, unit) act" where
  "release_lock config cluster_id = act_seq (ssh_execute config (RemoveLock cluster_id) False) (ret ())"

text \<open>One round of the heartbeat thread; an exception is ignored.\<close>

definition heartbeat :: "pyval \<Rightarrow> int \<Rightarrow> (allocator, unit) act" where
  "heartbeat config cluster_id a =
     (if al_running a \<and> map_of (al_allocations a) cluster_id \<noteq> None
      then except_do (act_seq (ssh_execute config (TouchLock cluster_id) False) (ret ())) (\<lambda>_. ret ()) a
      else (Ok (), a))"

definition clusters :: "int list" where
  "clusters = [0, 1, 2, 3, 4, 5, 6, 7, 8, 9]"

definition list_clusters :: "(string \<Rightarrow> bool) \<Rightarrow> pyval \<Rightarrow> (allocator, (int \<times> LockInfo option) list) act" where
  "list_clusters fromisoformat config =
     act_seq (ensure_lock_dir config)
       (act_map (\<lambda>c. act_bind (read_lock fromisoformat config c) (\<lambda>info. ret (c, info))) clusters)"

definition find_available :: "(string \<Rightarrow> bool) \<Rightarrow> pyval \<Rightarrow> (allocator, int list) act" where
  "find_available fromisoformat config =
     act_bind (list_clusters fromisoformat config) (\<lambda>cs a.
       (Ok (map fst (filter (\<lambda>(c, info). case info of None \<Rightarrow> True | Some i \<Rightarrow> is_stale (al_now a) i) cs)), a))"

definition cluster_id_to_ips :: "int \<Rightarrow> string list \<Rightarrow> (string \<times> string list) list py" where
  "cluster_id_to_ips cluster_id host_types =
     (if cluster_id < 0 \<or> cluster_id > 9
      then Err (ValueError (''cluster_id must be 0-9, got '' @ show_int cluster_id))
      else foldl (\<lambda>r ht. and_then r (\<lambda>d.
             case map_of HOSTS ht of
               None \<Rightarrow> Err (KeyError ht)
             | Some (host_id, _) \<Rightarrow>
                 Ok (dict_set ht (map (\<lambda>i. ''10.42.'' @ show_int host_id @ ''.'' @ show_int (20 + cluster_id * 10 + i))
                                      [0, 1, 2, 3, 4, 5, 6, 7, 8, 9]) d)))
             (Ok []) host_types)"

definition clusters_to_try :: "int option \<Rightarrow> int list" where
  "clusters_to_try preferred_id =
     (let first = (case preferred_id of Some p \<Rightarrow> if 0 \<le> p \<and> p < NUM_CLUSTERS then [p] else [] | None \<Rightarrow> [])
      in first @ filter (\<lambda>c. c \<notin> set first) clusters)"

definition allocate :: "int \<Rightarrow> string \<Rightarrow> (allocator, ClusterAllocation) act" where
  "allocate cluster_id session_id =
     act_bind (lift (cluster_id_to_ips cluster_id [''tdx''])) (\<lambda>ips_by_host.
     act_bind (lift (ok_or (map_of ips_by_host ''tdx'') (KeyError ''tdx''))) (\<lambda>ips a.
       (let allocation = \<lparr> ca_cluster_id = cluster_id, ca_ips = ips, ca_session_id = session_id,
                           ca_lock_path = lock_path cluster_id \<rparr>
        in (Ok allocation, a\<lparr> al_allocations := dict_set cluster_id allocation (al_allocations a),
                              al_heartbeats := insert cluster_id (al_heartbeats a) \<rparr>))))"

text \<open>One cluster of the loop in \<open>acquire\<close>: the allocation, or none when the loop goes on.\<close>

definition try_cluster ::
  "(string \<Rightarrow> bool) \<Rightarrow> pyval \<Rightarrow> string \<Rightarrow> string \<Rightarrow> string \<Rightarrow> string \<Rightarrow> int \<Rightarrow>
   (allocator, ClusterAllocation option) act" where
  "try_cluster fromisoformat config holder utcnow session_id purpose cluster_id =
     act_bind (read_lock fromisoformat config cluster_id) (\<lambda>lock_info a.
       (case lock_info of
          Some info \<Rightarrow>
            if is_stale (al_now a) info
            then act_seq (release_lock config cluster_id)
                   (act_bind (try_acquire_lock config holder utcnow cluster_id session_id purpose) (\<lambda>won.
                      if won then act_bind (allocate cluster_id session_id) (\<lambda>al. ret (Some al)) else ret None)) a
            else (Ok None, a)
        | None \<Rightarrow>
            act_bind (try_acquire_lock config holder utcnow cluster_id session_id purpose) (\<lambda>won.
              if won then act_bind (allocate cluster_id session_id) (\<lambda>al. ret (Some al)) else ret None) a))"

fun try_clusters ::
  "(string \<Rightarrow> bool) \<Rightarrow> pyval \<Rightarrow> string \<Rightarrow> string \<Rightarrow> string \<Rightarrow> string \<Rightarrow> int list \<Rightarrow>
   (allocator, ClusterAllocation option) act" where
  "try_clusters fromisoformat config holder utcnow session_id purpose [] = ret None"
| "try_clusters fromisoformat config holder utcnow session_id purpose (c # cs) =
     act_bind (try_cluster fromisoformat config holder utcnow session_id purpose c) (\<lambda>r.
       case r of
         Some al \<Rightarrow> ret (Some al)
       | None \<Rightarrow> try_clusters fromisoformat config holder utcnow session_id purpose cs)"

text \<open>The ages in the message are printed in whole seconds.\<close>

definition status_line :: "int \<Rightarrow> int \<times> LockInfo option \<Rightarrow> string" where
  "status_line now = (\<lambda>(c, lock_info). ''  cluster-'' @ show_int c @ '': '' @
     (case lock_info of
        Some info \<Rightarrow> py_str (li_holder info) @ '' ('' @ show_int ((now - li_mtime info * 1000000) div 1000000) @ ''s ago)''
      | None \<Rightarrow> ''FREE''))"

definition acquire ::
  "(string \<Rightarrow> bool) \<Rightarrow> pyval \<Rightarrow> string \<Rightarrow> string \<Rightarrow> string \<Rightarrow> int option \<Rightarrow> string \<Rightarrow>
   (allocator, ClusterAllocation) act" where
  "acquire fromisoformat config holder utcnow session_id preferred_id purpose =
     act_seq (ensure_lock_dir config) (
     act_bind (try_clusters fromisoformat config holder utcnow session_id purpose (clusters_to_try preferred_id)) (\<lambda>r.
       case r of
         Some al \<Rightarrow> ret al
       | None \<Rightarrow>
           act_bind (list_clusters fromisoformat config) (\<lambda>cs a.
             (Err (RuntimeError (''No clusters available. All 10 clusters are in use:\<newline>'' @
                str_join ''\<newline>'' (map (status_line (al_now a)) cs))), a))))"

definition release :: "pyval \<Rightarrow> ClusterAllocation \<Rightarrow> (allocator, unit) act" where
  "release config allocation a =
     release_lock config (ca_cluster_id allocation)
       (a\<lparr> al_allocations := dict_del (ca_cluster_id allocation) (al_allocations a),
           al_heartbeats := al_heartbeats a - {ca_cluster_id allocation} \<rparr>)"

definition release_all :: "pyval \<Rightarrow> (allocator, unit) act" where
  "release_all config a =
     act_seq (act_map (release config) (map snd (al_allocations a))) (ret ()) (a\<lparr> al_running := False \<rparr>)"

text \<open>Two shells on the host; the list says whose turn it is.\<close>

fun interleave :: "bool list \<Rightarrow> shell \<Rightarrow> shell \<Rightarrow> lock_host \<Rightarrow> shell \<times> shell \<times> lock_host" where
  "interleave [] s t h = (s, t, h)"
| "interleave (b # bs) s t h =
     (if b then (case shell_step t h of (t', h') \<Rightarrow> interleave bs s t' h')
      else (case shell_step s h of (s', h') \<Rightarrow> interleave bs s' t h'))"

text \<open>An empty lock directory, a configuration that a developer wrote by hand, and an allocator.\<close>

definition empty_host :: lock_host where
  "empty_host = \<lparr> lh_dir = True, lh_path = Map.empty, lh_text = (\<lambda>_. []), lh_mtime = (\<lambda>_. 0), lh_flocked = {},
                   lh_next = 0, lh_time = 1000 \<rparr>"

definition hand_config :: pyval where
  "hand_config = PDict [(''hosts'', PDict [(''tdx'', PDict [(''ssh_key'', PStr ''k''), (''username'', PStr ''u''),
                                                           (''address'', PStr ''a'')])])]"

definition new_allocator :: "lock_host \<Rightarrow> allocator" where
  "new_allocator h = \<lparr> al_host = h, al_turns = [], al_now = 1000000000, al_allocations = [], al_heartbeats = {},
                       al_running = True \<rparr>"

section \<open>The lock table\<close>

text \<open>What the lock directory stands for: a text and a time for each locked cluster.\<close>

type_synonym lock_table = "(int, string \<times> int) hash_map"

definition lock_of :: "lock_host \<Rightarrow> lock_table" where
  "lock_of h c = map_option (\<lambda>i. (lh_text h i, lh_mtime h i)) (lh_path h c)"

definition host_ok :: "lock_host \<Rightarrow> bool" where
  "host_ok h = (lh_flocked h = {} \<and> (\<forall>c i. lh_path h c = Some i \<longrightarrow> i < lh_next h) \<and>
     (\<forall>c d i. lh_path h c = Some i \<longrightarrow> lh_path h d = Some i \<longrightarrow> c = d))"

lemma lock_of_put:
  "lh_path h d = Some i \<Longrightarrow> lock_of (put i text h) d = Some (text, lh_time h)"
  "lh_path h d \<noteq> Some i \<Longrightarrow> lock_of (put i text h) d = lock_of h d"
  by (cases "lh_path h d"; simp add: lock_of_def put_def)+

lemma lock_of_put_table:
  assumes "host_ok h" and "lh_path h c = Some i"
  shows "lock_of (put i text h) = (lock_of h)(c \<mapsto> (text, lh_time h))"
proof
  fix d
  have "lh_path h d \<noteq> Some i" if "d \<noteq> c" using assms that by (auto simp: host_ok_def)
  then show "lock_of (put i text h) d = ((lock_of h)(c \<mapsto> (text, lh_time h))) d"
    using assms(2) by (cases "d = c") (simp_all add: lock_of_put)
qed

lemma put_simps [simp]:
  "lh_dir (put i text h) = lh_dir h" "lh_time (put i text h) = lh_time h" "lh_path (put i text h) = lh_path h"
  "lh_flocked (put i text h) = lh_flocked h" "lh_next (put i text h) = lh_next h" "host_ok (put i text h) = host_ok h"
  by (simp_all add: put_def host_ok_def)

lemma open_trunc_ok:
  assumes "host_ok h" and "lh_dir h"
  obtains i h' where "open_trunc c h = Some (i, h')" "host_ok h'" "lh_dir h'" "lh_time h' = lh_time h"
    "lh_path h' c = Some i" "lock_of h' = (lock_of h)(c \<mapsto> ([], lh_time h))"
proof (cases "lh_path h c")
  case None
  let ?h = "h\<lparr> lh_path := (lh_path h)(c \<mapsto> lh_next h), lh_next := Suc (lh_next h) \<rparr>"
  have ok: "host_ok ?h" using assms(1) by (auto simp: host_ok_def less_Suc_eq)
  have "lock_of (put (lh_next h) [] ?h) = (lock_of ?h)(c \<mapsto> ([], lh_time ?h))"
    by (rule lock_of_put_table [OF ok]) simp
  also have "\<dots> = (lock_of h)(c \<mapsto> ([], lh_time h))" by (auto simp: lock_of_def fun_eq_iff)
  finally show ?thesis using that ok None assms(2) by (simp add: open_trunc_def)
next
  case (Some i)
  then show ?thesis using that assms lock_of_put_table [OF assms(1) Some] by (simp add: open_trunc_def)
qed

text \<open>The refinement: each script acts on the table.\<close>

lemma run_acquire:
  assumes "host_ok h" and "lh_dir h"
  obtains h' where "run_script (AcquireLock c json) h = (\<lparr> returncode = 0, stdout = [], stderr = [] \<rparr>, h')"
    "host_ok h'" "lh_dir h'" "lh_time h' = lh_time h" "lock_of h' = (lock_of h)(c \<mapsto> (json @ ''\<newline>'', lh_time h))"
proof -
  obtain i h1 where 1: "open_trunc c h = Some (i, h1)" "host_ok h1" "lh_dir h1" "lh_time h1 = lh_time h"
    "lh_path h1 c = Some i" "lock_of h1 = (lock_of h)(c \<mapsto> ([], lh_time h))"
    using open_trunc_ok [OF assms] .
  let ?h2 = "h1\<lparr> lh_flocked := insert i (lh_flocked h1) \<rparr>"
  have free: "i \<notin> lh_flocked h1" using 1 by (simp add: host_ok_def)
  have 2: "open_trunc c ?h2 = Some (i, put i [] ?h2)" using 1 by (simp add: open_trunc_def)
  let ?h3 = "put i (json @ ''\<newline>'') (put i [] ?h2)"
  let ?h4 = "?h3\<lparr> lh_flocked := lh_flocked ?h3 - {i} \<rparr>"
  have "run_script (AcquireLock c json) h = (\<lparr> returncode = 0, stdout = [], stderr = [] \<rparr>, ?h4)"
    using 1 2 free by (simp add: exit_code_def)
  moreover have "host_ok ?h4" "lh_dir ?h4" "lh_time ?h4 = lh_time h"
    using 1 by (auto simp: host_ok_def put_def)
  moreover have "lock_of ?h4 = (lock_of h)(c \<mapsto> (json @ ''\<newline>'', lh_time h))"
  proof -
    have "lock_of ?h4 = lock_of (put i (json @ ''\<newline>'') (put i [] h1))"
      by (simp add: lock_of_def put_def fun_eq_iff)
    also have "\<dots> = (lock_of h1)(c \<mapsto> ([], lh_time h1), c \<mapsto> (json @ ''\<newline>'', lh_time h1))"
      using 1 by (simp add: lock_of_put_table)
    finally show ?thesis using 1 by simp
  qed
  ultimately show ?thesis by (rule that)
qed

lemma run_remove:
  assumes "host_ok h"
  obtains h' where "run_script (RemoveLock c) h = (\<lparr> returncode = 0, stdout = [], stderr = [] \<rparr>, h')"
    "host_ok h'" "lh_dir h' = lh_dir h" "lh_time h' = lh_time h" "lock_of h' = (lock_of h)(c := None)"
proof (rule that)
  let ?h = "h\<lparr> lh_path := map_remove c (lh_path h) \<rparr>"
  show "run_script (RemoveLock c) h = (\<lparr> returncode = 0, stdout = [], stderr = [] \<rparr>, ?h)" by simp
  show "host_ok ?h" using assms by (auto simp: host_ok_def map_remove_def split: if_splits)
  show "lock_of ?h = (lock_of h)(c := None)" by (auto simp: lock_of_def map_remove_def fun_eq_iff)
qed simp_all

definition listing :: "(string \<times> int) option \<Rightarrow> SSHResult" where
  "listing l = \<lparr> returncode = 0,
     stdout = (case l of Some (text, m) \<Rightarrow> show_int m @ ''\<newline>'' @ text | None \<Rightarrow> ''NOLOCK\<newline>''), stderr = [] \<rparr>"

lemma run_read: "run_script (ReadLock c) h = (listing (lock_of h c), h)"
  by (simp add: listing_def lock_of_def split: option.splits)

definition open_to :: "(string \<Rightarrow> bool) \<Rightarrow> int \<Rightarrow> lock_table \<Rightarrow> int \<Rightarrow> bool" where
  "open_to fromisoformat now t c =
     (case parse_lock fromisoformat (listing (t c)) of
        Ok None \<Rightarrow> True
      | Ok (Some info) \<Rightarrow> is_stale now info
      | _ \<Rightarrow> False)"

definition readable :: "(string \<Rightarrow> bool) \<Rightarrow> lock_table \<Rightarrow> bool" where
  "readable fromisoformat t = list_all (\<lambda>c. is_ok (parse_lock fromisoformat (listing (t c)))) clusters"

text \<open>A lock that was just written is read back.\<close>

lemma from_json_to_json:
  assumes "fromisoformat date"
  shows "from_json fromisoformat (to_json session_id holder date purpose) m =
    Ok \<lparr> li_session_id = PStr session_id, li_holder = PStr holder, li_acquired_at = date, li_purpose = PStr purpose,
         li_mtime = m \<rparr>"
proof -
  have "json_loads (to_json session_id holder date purpose) =
    Ok (PDict [(''session_id'', PStr session_id), (''holder'', PStr holder), (''acquired_at'', PStr date),
               (''purpose'', PStr purpose)])"
    using json_texts_round_trip [of "[(''session_id'', session_id), (''holder'', holder), (''acquired_at'', date),
      (''purpose'', purpose)]"] by (simp add: to_json_def)
  then show ?thesis using assms by (simp add: from_json_def)
qed

lemma to_json_shape: "\<exists>u. to_json session_id holder date purpose = ''{'' @ u @ ''}''"
  by (simp add: to_json_def)

lemma newline_not_in: "CHR ''\<newline>'' \<notin> set ''NOLOCK''"
  by simp

lemma newline_not_shown: "CHR ''\<newline>'' \<notin> set (show_int m)"
proof
  assume "CHR ''\<newline>'' \<in> set (show_int m)"
  from show_int_chars [OF this] show False by (simp add: ascii_digit_def code_def)
qed

lemma parse_written:
  assumes "fromisoformat date"
  shows "parse_lock fromisoformat (listing (Some (to_json session_id holder date purpose @ ''\<newline>'', m))) =
    Ok (Some \<lparr> li_session_id = PStr session_id, li_holder = PStr holder, li_acquired_at = date,
               li_purpose = PStr purpose, li_mtime = m \<rparr>)"
proof -
  define j where "j = to_json session_id holder date purpose"
  obtain u where u: "j = ''{'' @ u @ ''}''" using to_json_shape unfolding j_def by blast
  define x where "x = show_int m @ ''\<newline>'' @ j"
  have strip: "py_strip (x @ ''\<newline>'') = x"
  proof (rule py_strip_line)
    show "x \<noteq> []" by (simp add: x_def)
    show "\<not> py_isspace (hd x)" using show_int_hd [of m] by (simp add: x_def)
    show "\<not> py_isspace (List.last x)" by (simp add: x_def u py_isspace_def code_def)
  qed
  have "CHR ''\<newline>'' \<in> set x" by (simp add: x_def)
  then have other: "x \<noteq> ''NOLOCK''" using newline_not_in by blast
  have split: "split_once ''\<newline>'' x = Some (show_int m, j)"
    using split_once_first [OF newline_not_shown, of m j] by (simp add: x_def)
  have out: "stdout (listing (Some (j @ ''\<newline>'', m))) = x @ ''\<newline>''" "returncode (listing (Some (j @ ''\<newline>'', m))) = 0"
    by (simp_all add: listing_def x_def)
  have "from_json fromisoformat j m = Ok \<lparr> li_session_id = PStr session_id, li_holder = PStr holder, li_acquired_at = date,
               li_purpose = PStr purpose, li_mtime = m \<rparr>" unfolding j_def using from_json_to_json [where fromisoformat = fromisoformat and date = date] assms by blast
  then show ?thesis
    unfolding parse_lock_def j_def [symmetric] out strip using other by (simp add: split)
qed

section \<open>An allocator that is left alone\<close>

definition usable :: "pyval \<Rightarrow> bool" where
  "usable config =
     (case get_host_config config ''tdx'' of
        Ok (PDict d) \<Rightarrow>
          (case map_of d ''ssh_key'' of Some (PStr k) \<Rightarrow> map_of d ''username'' \<noteq> None \<and> map_of d ''address'' \<noteq> None | _ \<Rightarrow> False)
      | _ \<Rightarrow> False)"

lemma argv_texts: "argv (map PStr ss) = Ok ss"
  by (induction ss) auto

lemma usable_ssh:
  assumes "usable config"
  shows "\<exists>cmd. ssh_argv config command (remote_defaults\<lparr> ro_raise_on_nonzero := False \<rparr>) = Ok cmd"
proof -
  obtain d k u a where d: "get_host_config config ''tdx'' = Ok (PDict d)" "map_of d ''ssh_key'' = Some (PStr k)"
    "map_of d ''username'' = Some u" "map_of d ''address'' = Some a"
    using assms by (auto simp: usable_def split: outcome.splits pyval.splits option.splits) (metis pyval.exhaust)+
  define ss where "ss = [''ssh'', ''-i'', k] @ SSH_OPTIONS @ [''-o'', ''BatchMode=yes''] @ [py_str u @ ''@'' @ py_str a] @ [command]"
  have "ssh_argv config command (remote_defaults\<lparr> ro_raise_on_nonzero := False \<rparr>) = argv (map PStr ss)"
    using d by (simp add: ssh_argv_def build_ssh_cmd_def remote_defaults_def at_host_def ss_def del: argv.simps)
  then show ?thesis using argv_texts by auto
qed

lemma ssh_execute_alone:
  assumes "usable config" and "al_turns a = []"
  shows "ssh_execute config cmd False a =
    (Ok (fst (run_script cmd (al_host a))), a\<lparr> al_host := snd (run_script cmd (al_host a)) \<rparr>)"
proof -
  obtain argv where "ssh_argv config (script cmd) (remote_defaults\<lparr> ro_raise_on_nonzero := False \<rparr>) = Ok argv"
    using usable_ssh [OF assms(1)] by blast
  then show ?thesis
    using assms(2)
    by (simp add: ssh_execute_def act_eval send_def quiet_turn_def Let_def split: prod.splits cong: act_cong)
qed

lemma ensure_lock_dir_alone:
  assumes "usable config" and "al_turns a = []"
  shows "ensure_lock_dir config a = (Ok (), a\<lparr> al_host := (al_host a)\<lparr> lh_dir := True \<rparr> \<rparr>)"
proof -
  obtain argv where "ssh_argv config (script MakeDir) (remote_defaults\<lparr> ro_raise_on_nonzero := False \<rparr>) = Ok argv"
    using usable_ssh [OF assms(1)] by blast
  then show ?thesis
    using assms(2)
    by (simp add: ensure_lock_dir_def ssh_execute_def act_eval send_def quiet_turn_def Let_def cong: act_cong)
qed

lemma read_lock_alone:
  assumes "usable config" and "al_turns a = []"
  shows "read_lock fi config c a = (parse_lock fi (listing (lock_of (al_host a) c)), a)"
  using assms by (simp add: read_lock_def act_eval ssh_execute_alone run_read del: run_script.simps)

definition tdx_ips :: "int \<Rightarrow> string list" where
  "tdx_ips c = map (\<lambda>i. ''10.42.1.'' @ show_int (20 + c * 10 + i)) [0, 1, 2, 3, 4, 5, 6, 7, 8, 9]"

definition granted :: "int \<Rightarrow> string \<Rightarrow> ClusterAllocation" where
  "granted c session_id =
     \<lparr> ca_cluster_id = c, ca_ips = tdx_ips c, ca_session_id = session_id, ca_lock_path = lock_path c \<rparr>"

lemma show_int_one: "show_int 1 = ''1''"
  by code_simp

lemma allocate_granted:
  assumes "0 \<le> c" and "c \<le> 9"
  shows "allocate c session_id a = (Ok (granted c session_id),
    a\<lparr> al_allocations := dict_set c (granted c session_id) (al_allocations a), al_heartbeats := insert c (al_heartbeats a) \<rparr>)"
proof -
  have "cluster_id_to_ips c [''tdx''] = Ok [(''tdx'', tdx_ips c)]"
    using assms show_int_one by (simp add: cluster_id_to_ips_def HOSTS_def tdx_ips_def)
  then show ?thesis by (simp add: allocate_def act_eval granted_def Let_def cong: act_cong)
qed

text \<open>Trying one cluster: it is taken when it is free or stale, and nothing happens otherwise.\<close>

lemma win_alone:
  assumes "usable config" and "al_turns a = []" and "host_ok (al_host a)" and "lh_dir (al_host a)"
    and "0 \<le> c" and "c \<le> 9"
  obtains a' where
    "act_bind (try_acquire_lock config holder date c session_id purpose) (\<lambda>won.
       if won then act_bind (allocate c session_id) (\<lambda>al. ret (Some al)) else ret None) a =
     (Ok (Some (granted c session_id)), a')"
    "host_ok (al_host a')" "lh_dir (al_host a')" "al_turns a' = []" "lh_time (al_host a') = lh_time (al_host a)"
    "lock_of (al_host a') = (lock_of (al_host a))(c \<mapsto> (to_json session_id holder date purpose @ ''\<newline>'', lh_time (al_host a)))"
proof -
  obtain h' where h': "run_script (AcquireLock c (to_json session_id holder date purpose)) (al_host a) =
      (\<lparr> returncode = 0, stdout = [], stderr = [] \<rparr>, h')"
    "host_ok h'" "lh_dir h'" "lh_time h' = lh_time (al_host a)"
    "lock_of h' = (lock_of (al_host a))(c \<mapsto> (to_json session_id holder date purpose @ ''\<newline>'', lh_time (al_host a)))"
    using run_acquire [OF assms(3,4)] .
  then show ?thesis
    using assms(1,2) allocate_granted [OF assms(5,6)]
    by (intro that [of "a\<lparr> al_host := h', al_allocations := dict_set c (granted c session_id) (al_allocations a),
                          al_heartbeats := insert c (al_heartbeats a) \<rparr>"])
       (simp_all add: try_acquire_lock_def act_eval ssh_execute_alone del: run_script.simps cong: act_cong)
qed

lemma try_cluster_alone:
  assumes "usable config" and "al_turns a = []" and "host_ok (al_host a)" and "lh_dir (al_host a)"
    and "0 \<le> c" and "c \<le> 9" and "open_to fi (al_now a) (lock_of (al_host a)) c"
  obtains a' where
    "try_cluster fi config holder date session_id purpose c a = (Ok (Some (granted c session_id)), a')"
    "lock_of (al_host a') = (lock_of (al_host a))(c \<mapsto> (to_json session_id holder date purpose @ ''\<newline>'', lh_time (al_host a)))"
    "host_ok (al_host a')" "lh_dir (al_host a')" "al_turns a' = []" "lh_time (al_host a') = lh_time (al_host a)"
proof (cases "parse_lock fi (listing (lock_of (al_host a) c))")
  case (Ok lock_info)
  note read = read_lock_alone [OF assms(1,2), of fi c, unfolded Ok]
  show ?thesis
  proof (cases lock_info)
    case None
    obtain a' where a': "act_bind (try_acquire_lock config holder date c session_id purpose) (\<lambda>won.
         if won then act_bind (allocate c session_id) (\<lambda>al. ret (Some al)) else ret None) a =
       (Ok (Some (granted c session_id)), a')"
      "host_ok (al_host a')" "lh_dir (al_host a')" "al_turns a' = []" "lh_time (al_host a') = lh_time (al_host a)"
      "lock_of (al_host a') = (lock_of (al_host a))(c \<mapsto> (to_json session_id holder date purpose @ ''\<newline>'', lh_time (al_host a)))"
      using win_alone [OF assms(1-6)] .
    have "try_cluster fi config holder date session_id purpose c a = (Ok (Some (granted c session_id)), a')"
      using a'(1) read None by (simp add: try_cluster_def act_bind_def cong: act_cong)
    then show ?thesis using a' that by simp
  next
    case (Some info)
    obtain h1 where h1: "run_script (RemoveLock c) (al_host a) = (\<lparr> returncode = 0, stdout = [], stderr = [] \<rparr>, h1)"
      "host_ok h1" "lh_dir h1 = lh_dir (al_host a)" "lh_time h1 = lh_time (al_host a)"
      "lock_of h1 = (lock_of (al_host a))(c := None)"
      using run_remove [OF assms(3)] .
    let ?a = "a\<lparr> al_host := h1 \<rparr>"
    have rel: "release_lock config c a = (Ok (), ?a)"
      using h1(1) assms(1,2) by (simp add: release_lock_def act_eval ssh_execute_alone del: run_script.simps cong: act_cong)
    have pre: "al_turns ?a = []" "host_ok (al_host ?a)" "lh_dir (al_host ?a)" using assms(2,4) h1(2,3) by simp_all
    obtain a' where a': "act_bind (try_acquire_lock config holder date c session_id purpose) (\<lambda>won.
         if won then act_bind (allocate c session_id) (\<lambda>al. ret (Some al)) else ret None) ?a =
       (Ok (Some (granted c session_id)), a')"
      "host_ok (al_host a')" "lh_dir (al_host a')" "al_turns a' = []" "lh_time (al_host a') = lh_time (al_host ?a)"
      "lock_of (al_host a') = (lock_of (al_host ?a))(c \<mapsto> (to_json session_id holder date purpose @ ''\<newline>'', lh_time (al_host ?a)))"
      using win_alone [OF assms(1) pre assms(5,6)] .
    have stale: "is_stale (al_now a) info" using assms(7) Ok Some by (simp add: open_to_def)
    have "try_cluster fi config holder date session_id purpose c a = (Ok (Some (granted c session_id)), a')"
      using a'(1) read Some stale rel by (simp add: try_cluster_def act_bind_def act_seq_eval cong: act_cong)
    then show ?thesis using a' h1 that by simp
  qed
qed (use assms(7) in \<open>auto simp: open_to_def\<close>)

lemma try_cluster_taken:
  assumes "usable config" and "al_turns a = []" and "is_ok (parse_lock fi (listing (lock_of (al_host a) c)))"
    and "\<not> open_to fi (al_now a) (lock_of (al_host a)) c"
  shows "try_cluster fi config holder date session_id purpose c a = (Ok None, a)"
  using assms(3,4) read_lock_alone [OF assms(1,2), of fi c]
  by (auto simp: try_cluster_def act_bind_def open_to_def split: outcome.splits option.splits)

lemma try_clusters_none:
  assumes "usable config" and "al_turns a = []"
    and "\<And>c. c \<in> set cs \<Longrightarrow> is_ok (parse_lock fi (listing (lock_of (al_host a) c)))"
    and "find (open_to fi (al_now a) (lock_of (al_host a))) cs = None"
  shows "try_clusters fi config holder date session_id purpose cs a = (Ok None, a)"
  using assms(3,4)
proof (induction cs)
  case Nil
  then show ?case by (simp add: ret_def)
next
  case (Cons c cs)
  then have "\<not> open_to fi (al_now a) (lock_of (al_host a)) c" by (auto split: if_splits)
  then have "try_cluster fi config holder date session_id purpose c a = (Ok None, a)"
    using try_cluster_taken [OF assms(1,2)] Cons.prems(1) by simp
  then show ?case using Cons by (simp add: act_bind_def split: if_splits)
qed

lemma try_clusters_first:
  assumes "usable config" and "al_turns a = []" and "host_ok (al_host a)" and "lh_dir (al_host a)"
    and "\<And>c. c \<in> set cs \<Longrightarrow> is_ok (parse_lock fi (listing (lock_of (al_host a) c))) \<and> 0 \<le> c \<and> c \<le> 9"
    and "find (open_to fi (al_now a) (lock_of (al_host a))) cs = Some c"
  obtains a' where
    "try_clusters fi config holder date session_id purpose cs a = (Ok (Some (granted c session_id)), a')"
    "lock_of (al_host a') = (lock_of (al_host a))(c \<mapsto> (to_json session_id holder date purpose @ ''\<newline>'', lh_time (al_host a)))"
    "host_ok (al_host a')" "lh_dir (al_host a')" "al_turns a' = []" "lh_time (al_host a') = lh_time (al_host a)"
proof -
  have c: "open_to fi (al_now a) (lock_of (al_host a)) c" "0 \<le> c" "c \<le> 9"
    using assms(5,6) by (auto simp: find_Some_iff)
  obtain a' where a': "try_cluster fi config holder date session_id purpose c a = (Ok (Some (granted c session_id)), a')"
    "lock_of (al_host a') = (lock_of (al_host a))(c \<mapsto> (to_json session_id holder date purpose @ ''\<newline>'', lh_time (al_host a)))"
    "host_ok (al_host a')" "lh_dir (al_host a')" "al_turns a' = []" "lh_time (al_host a') = lh_time (al_host a)"
    using try_cluster_alone [OF assms(1-4) c(2,3,1)] .
  have "try_clusters fi config holder date session_id purpose cs a = (Ok (Some (granted c session_id)), a')"
    using assms(5,6)
  proof (induction cs)
    case (Cons d cs)
    show ?case
    proof (cases "open_to fi (al_now a) (lock_of (al_host a)) d")
      case True
      then show ?thesis using Cons.prems a'(1) by (simp add: act_bind_def ret_def)
    next
      case False
      then have "try_cluster fi config holder date session_id purpose d a = (Ok None, a)"
        using try_cluster_taken [OF assms(1,2)] Cons.prems(1) by simp
      then show ?thesis using Cons False by (simp add: act_bind_def)
    qed
  qed simp
  then show ?thesis using a' that by simp
qed

lemma in_clusters: "c \<in> set clusters \<longleftrightarrow> 0 \<le> c \<and> c \<le> 9"
proof
  show "0 \<le> c \<and> c \<le> 9 \<Longrightarrow> c \<in> set clusters"
    by (simp add: clusters_def) presburger
qed (auto simp: clusters_def)

lemma clusters_range: "set (clusters_to_try p) = set clusters"
proof (cases "\<exists>q. p = Some q \<and> 0 \<le> q \<and> q < NUM_CLUSTERS")
  case True
  then obtain q where q: "p = Some q" "0 \<le> q" "q < NUM_CLUSTERS" by blast
  then have "q \<in> set clusters" by (simp add: in_clusters NUM_CLUSTERS_def)
  then show ?thesis using q by (auto simp: clusters_to_try_def)
next
  case False
  then have "clusters_to_try p = filter (\<lambda>c. c \<notin> set []) clusters"
    by (cases p) (auto simp: clusters_to_try_def)
  then show ?thesis by simp
qed

lemma lock_of_dir [simp]: "lock_of (h\<lparr> lh_dir := b \<rparr>) = lock_of h" "host_ok (h\<lparr> lh_dir := b \<rparr>) = host_ok h"
  by (simp_all add: lock_of_def host_ok_def fun_eq_iff)

lemma list_clusters_alone:
  assumes "usable config" and "al_turns a = []" and "readable fi (lock_of (al_host a))"
  shows "\<exists>cs. list_clusters fi config a = (Ok cs, a\<lparr> al_host := (al_host a)\<lparr> lh_dir := True \<rparr> \<rparr>)"
proof -
  let ?a = "a\<lparr> al_host := (al_host a)\<lparr> lh_dir := True \<rparr> \<rparr>"
  define entry where "entry = (\<lambda>c. act_bind (read_lock fi config c) (\<lambda>info. ret (c, info)))"
  have "\<exists>infos. act_map entry cs ?a = (Ok infos, ?a)"
    if "\<And>c. c \<in> set cs \<Longrightarrow> is_ok (parse_lock fi (listing (lock_of (al_host a) c)))" for cs
    using that
  proof (induction cs)
    case Nil
    then show ?case by (simp add: ret_def)
  next
    case (Cons c cs)
    obtain info where "parse_lock fi (listing (lock_of (al_host a) c)) = Ok info"
      using Cons.prems [of c] by (cases "parse_lock fi (listing (lock_of (al_host a) c))") auto
    then have "entry c ?a = (Ok (c, info), ?a)"
      using assms(2) by (simp add: entry_def act_bind_def read_lock_alone [OF assms(1)] ret_def)
    moreover obtain infos where "act_map entry cs ?a = (Ok infos, ?a)" using Cons by auto
    ultimately show ?case by (simp add: act_bind_def ret_def)
  qed
  from this [of clusters] show ?thesis
    using assms(3) ensure_lock_dir_alone [OF assms(1,2)]
    by (auto simp: list_clusters_def act_seq_eval readable_def list_all_iff entry_def)
qed

text \<open>The allocator takes the first cluster in its order that is free or stale, or reports that there is none.\<close>

lemma acquire_first:
  assumes "usable config" and "al_turns a = []" and "host_ok (al_host a)" and "readable fi (lock_of (al_host a))"
    and "find (open_to fi (al_now a) (lock_of (al_host a))) (clusters_to_try p) = Some c"
  obtains a' where
    "acquire fi config holder date session_id p purpose a = (Ok (granted c session_id), a')"
    "lock_of (al_host a') = (lock_of (al_host a))(c \<mapsto> (to_json session_id holder date purpose @ ''\<newline>'', lh_time (al_host a)))"
    "host_ok (al_host a')" "lh_dir (al_host a')" "al_turns a' = []" "lh_time (al_host a') = lh_time (al_host a)"
proof -
  let ?a = "a\<lparr> al_host := (al_host a)\<lparr> lh_dir := True \<rparr> \<rparr>"
  have ok: "c \<in> set (clusters_to_try p) \<Longrightarrow> is_ok (parse_lock fi (listing (lock_of (al_host ?a) c))) \<and> 0 \<le> c \<and> c \<le> 9" for c
    using assms(4) unfolding clusters_range by (simp add: readable_def list_all_iff in_clusters)
  have pre: "al_turns ?a = []" "host_ok (al_host ?a)" "lh_dir (al_host ?a)"
    "find (open_to fi (al_now ?a) (lock_of (al_host ?a))) (clusters_to_try p) = Some c"
    using assms(2,3,5) by simp_all
  obtain a' where a': "try_clusters fi config holder date session_id purpose (clusters_to_try p) ?a =
      (Ok (Some (granted c session_id)), a')"
    "lock_of (al_host a') = (lock_of (al_host ?a))(c \<mapsto> (to_json session_id holder date purpose @ ''\<newline>'', lh_time (al_host ?a)))"
    "host_ok (al_host a')" "lh_dir (al_host a')" "al_turns a' = []" "lh_time (al_host a') = lh_time (al_host ?a)"
    using try_clusters_first [OF assms(1) pre(1-3) ok pre(4)] .
  have "acquire fi config holder date session_id p purpose a = (Ok (granted c session_id), a')"
    using a'(1) ensure_lock_dir_alone [OF assms(1,2)] by (simp add: acquire_def act_seq_eval act_bind_def ret_def)
  then show ?thesis using a' that by simp
qed

lemma acquire_none:
  assumes "usable config" and "al_turns a = []" and "readable fi (lock_of (al_host a))"
    and "find (open_to fi (al_now a) (lock_of (al_host a))) (clusters_to_try p) = None"
  shows "\<exists>m. acquire fi config holder date session_id p purpose a =
    (Err (RuntimeError m), a\<lparr> al_host := (al_host a)\<lparr> lh_dir := True \<rparr> \<rparr>)"
proof -
  let ?a = "a\<lparr> al_host := (al_host a)\<lparr> lh_dir := True \<rparr> \<rparr>"
  have "try_clusters fi config holder date session_id purpose (clusters_to_try p) ?a = (Ok None, ?a)"
    using assms unfolding readable_def list_all_iff
    by (intro try_clusters_none) (simp_all add: clusters_range)
  moreover obtain cs where "list_clusters fi config ?a = (Ok cs, ?a)"
    using list_clusters_alone [OF assms(1), of ?a fi] assms(2,3) by auto
  ultimately show ?thesis
    using ensure_lock_dir_alone [OF assms(1,2)] by (simp add: acquire_def act_seq_eval act_bind_def)
qed

section \<open>Exclusion and its limits\<close>

lemma acquire_Ok:
  assumes "usable config" and "al_turns a = []" and "host_ok (al_host a)" and "readable fi (lock_of (al_host a))"
    and "acquire fi config holder date session_id p purpose a = (Ok al, a')"
  obtains c where "al = granted c session_id" "c \<in> set clusters" "open_to fi (al_now a) (lock_of (al_host a)) c"
    "lock_of (al_host a') = (lock_of (al_host a))(c \<mapsto> (to_json session_id holder date purpose @ ''\<newline>'', lh_time (al_host a)))"
    "host_ok (al_host a')"
proof (cases "find (open_to fi (al_now a) (lock_of (al_host a))) (clusters_to_try p)")
  case None
  then show ?thesis
    using acquire_none [OF assms(1,2,4) None, of holder date session_id purpose] assms(5) by auto
next
  case (Some c)
  obtain a'' where "acquire fi config holder date session_id p purpose a = (Ok (granted c session_id), a'')"
    "lock_of (al_host a'') = (lock_of (al_host a))(c \<mapsto> (to_json session_id holder date purpose @ ''\<newline>'', lh_time (al_host a)))"
    "host_ok (al_host a'')" "lh_dir (al_host a'')" "al_turns a'' = []" "lh_time (al_host a'') = lh_time (al_host a)"
    using acquire_first [OF assms(1-4) Some] .
  moreover have "c \<in> set clusters" "open_to fi (al_now a) (lock_of (al_host a)) c"
    using Some clusters_range [of p] by (auto simp: find_Some_iff)
  ultimately show ?thesis using assms(5) that by simp
qed

lemma fresh_lock_taken:
  assumes "fi date" and "now \<le> (m + TTL_SECONDS) * 1000000"
    and "t c = Some (to_json session_id holder date purpose @ ''\<newline>'', m)"
  shows "\<not> open_to fi now t c" and "is_ok (parse_lock fi (listing (t c)))"
  using parse_written [where fromisoformat = fi and date = date and session_id = session_id and holder = holder
      and purpose = purpose and m = m] assms
  by (simp_all add: open_to_def is_stale_def TTL_SECONDS_def algebra_simps)

text \<open>C34: Runs one after the other exclude each other. Two allocators that nobody disturbs, the second one on the
  host as the first one left it and before the lock of the first is too old, get different clusters; the first
  one took a cluster that was free or stale, and its lock is still there when the second one has its own.\<close>

theorem acquire_exclusive:
  assumes usable: "usable config" "usable config'" and alone: "al_turns a = []" "al_turns b = []"
    and host: "host_ok (al_host a)" "readable fi (lock_of (al_host a))" and date: "fi date"
    and first: "acquire fi config holder date session_id p purpose a = (Ok al, a')"
    and second: "acquire fi config' holder' date' session_id' p' purpose' b = (Ok bl, b')"
    and later: "al_host b = (al_host a')\<lparr> lh_time := time \<rparr>"
    and fresh: "al_now b \<le> (lh_time (al_host a) + TTL_SECONDS) * 1000000"
  shows "ca_cluster_id bl \<noteq> ca_cluster_id al \<and>
    open_to fi (al_now a) (lock_of (al_host a)) (ca_cluster_id al) \<and>
    lock_of (al_host b') (ca_cluster_id al) = lock_of (al_host a') (ca_cluster_id al)"
proof -
  obtain c where c: "al = granted c session_id" "c \<in> set clusters" "open_to fi (al_now a) (lock_of (al_host a)) c"
    "lock_of (al_host a') = (lock_of (al_host a))(c \<mapsto> (to_json session_id holder date purpose @ ''\<newline>'', lh_time (al_host a)))"
    "host_ok (al_host a')"
    using acquire_Ok [OF usable(1) alone(1) host first] .
  have table: "lock_of (al_host b) = lock_of (al_host a')" using later by (simp add: lock_of_def fun_eq_iff)
  have entry: "lock_of (al_host b) c = Some (to_json session_id holder date purpose @ ''\<newline>'', lh_time (al_host a))"
    using table c(4) by simp
  note taken = fresh_lock_taken [where fi = fi and t = "lock_of (al_host b)" and c = c, OF date fresh entry]
  have "readable fi (lock_of (al_host b))"
    using host(2) taken(2) table c(4) by (auto simp: readable_def list_all_iff)
  moreover have "host_ok (al_host b)" using c(5) later by (simp add: host_ok_def)
  ultimately obtain d where d: "bl = granted d session_id'" "d \<in> set clusters" "open_to fi (al_now b) (lock_of (al_host b)) d"
    "lock_of (al_host b') = (lock_of (al_host b))(d \<mapsto> (to_json session_id' holder' date' purpose' @ ''\<newline>'', lh_time (al_host b)))"
    "host_ok (al_host b')"
    using acquire_Ok [OF usable(2) alone(2) _ _ second] by blast
  have "d \<noteq> c" using d(3) taken(1) by auto
  then show ?thesis using c d table by (simp add: granted_def)
qed

lemma ssh_execute_turn:
  assumes "usable config" and "al_turns a = t # ts" and "tn_reached t"
  shows "ssh_execute config cmd False a =
    (Ok (fst (run_script cmd (tn_others t (al_host a)))),
     a\<lparr> al_host := snd (run_script cmd (tn_others t (al_host a))), al_turns := ts, al_now := al_now a + tn_elapsed t \<rparr>)"
proof -
  obtain argv where "ssh_argv config (script cmd) (remote_defaults\<lparr> ro_raise_on_nonzero := False \<rparr>) = Ok argv"
    using usable_ssh [OF assms(1)] by blast
  then show ?thesis
    using assms(2,3) by (simp add: ssh_execute_def act_eval send_def Let_def split: prod.splits cong: act_cong)
qed

lemma hand_config_usable: "usable hand_config"
  by (simp add: usable_def hand_config_def get_host_config_def)

lemma empty_host_ok: "host_ok empty_host" "lock_of empty_host = Map.empty"
  by (simp_all add: host_ok_def empty_host_def lock_of_def fun_eq_iff)

lemma parse_nolock: "parse_lock fi (listing None) = Ok None"
proof -
  have "py_strip ''NOLOCK\<newline>'' = ''NOLOCK''" by code_simp
  then show ?thesis by (simp add: parse_lock_def listing_def)
qed

lemma empty_readable: "readable fi Map.empty"
  by (simp add: readable_def list_all_iff parse_nolock)

lemma free_open: "t c = None \<Longrightarrow> open_to fi now t c"
  by (simp add: open_to_def parse_nolock)

theorem acquire_exclusive_witness:
  "\<exists>al a' bl b'.
     acquire (\<lambda>_. True) hand_config ''dev@host'' ''2026-01-01T00:00:00'' ''s1'' None ''test'' (new_allocator empty_host) = (Ok al, a') \<and>
     acquire (\<lambda>_. True) hand_config ''dev@host'' ''2026-01-01T00:00:09'' ''s2'' None ''test'' (new_allocator (al_host a')) = (Ok bl, b') \<and>
     ca_cluster_id bl \<noteq> ca_cluster_id al"
proof -
  let ?a = "new_allocator empty_host"
  have a: "al_turns ?a = []" "host_ok (al_host ?a)" "readable (\<lambda>_. True) (lock_of (al_host ?a))"
    using empty_host_ok empty_readable by (simp_all add: new_allocator_def)
  have "clusters_to_try None = 0 # tl clusters" by (simp add: clusters_to_try_def clusters_def)
  then have "find (open_to (\<lambda>_. True) (al_now ?a) (lock_of (al_host ?a))) (clusters_to_try None) = Some 0"
    using free_open empty_host_ok by (simp add: new_allocator_def)
  from acquire_first [OF hand_config_usable a this, of "''dev@host''" "''2026-01-01T00:00:00''" "''s1''" "''test''"]
  obtain a' where first: "acquire (\<lambda>_. True) hand_config ''dev@host'' ''2026-01-01T00:00:00'' ''s1'' None ''test'' ?a =
      (Ok (granted 0 ''s1''), a')"
    and a': "lock_of (al_host a') = (lock_of (al_host ?a))(0 \<mapsto> (to_json ''s1'' ''dev@host'' ''2026-01-01T00:00:00'' ''test'' @ ''\<newline>'', lh_time (al_host ?a)))"
      "host_ok (al_host a')" "lh_time (al_host a') = lh_time (al_host ?a)" by blast
  let ?b = "new_allocator (al_host a')"
  have entry: "lock_of (al_host ?b) 0 = Some (to_json ''s1'' ''dev@host'' ''2026-01-01T00:00:00'' ''test'' @ ''\<newline>'', 1000)"
    using a'(1) by (simp add: new_allocator_def empty_host_def)
  have fresh: "al_now ?b \<le> (1000 + TTL_SECONDS) * 1000000" by (simp add: new_allocator_def TTL_SECONDS_def)
  note taken = fresh_lock_taken [where fi = "\<lambda>_. True" and t = "lock_of (al_host ?b)" and c = 0, OF TrueI fresh entry]
  have b: "al_turns ?b = []" "host_ok (al_host ?b)" "readable (\<lambda>_. True) (lock_of (al_host ?b))"
    using a' a(3) taken(2) by (auto simp: new_allocator_def readable_def list_all_iff)
  have "clusters_to_try None = 0 # 1 # tl (tl clusters)" by (simp add: clusters_to_try_def clusters_def)
  moreover have "lock_of (al_host ?b) 1 = None" using a'(1) empty_host_ok by (simp add: new_allocator_def)
  ultimately have "find (open_to (\<lambda>_. True) (al_now ?b) (lock_of (al_host ?b))) (clusters_to_try None) = Some 1"
    using taken(1) free_open by simp
  from acquire_first [OF hand_config_usable b this, of "''dev@host''" "''2026-01-01T00:00:09''" "''s2''" "''test''"]
  obtain b' where second: "acquire (\<lambda>_. True) hand_config ''dev@host'' ''2026-01-01T00:00:09'' ''s2'' None ''test'' ?b =
      (Ok (granted 1 ''s2''), b')" by blast
  have "al_host ?b = (al_host a')\<lparr> lh_time := 1000 \<rparr>" using a'(3) by (simp add: new_allocator_def empty_host_def)
  then have "ca_cluster_id (granted 1 ''s2'') \<noteq> ca_cluster_id (granted 0 ''s1'')"
    using acquire_exclusive [OF hand_config_usable hand_config_usable a(1) b(1) a(2,3) TrueI first second] fresh
    by (simp add: new_allocator_def empty_host_def)
  with first second show ?thesis by blast
qed

text \<open>C38: The lock does not exclude runs at the same time. When another allocator runs between the moment this one has
  read that cluster 0 is free and the moment it takes the lock, both get cluster 0: the script checks only the
  advisory lock, which ended with the script of the other, and overwrites the file.\<close>

theorem acquire_race:
  assumes usable: "usable config" "usable config'" and other: "al_turns a = []"
    and host: "host_ok (al_host b)" "readable fi (lock_of (al_host b))" "lock_of (al_host b) 0 = None"
    and turns: "al_turns b = [quiet_turn, quiet_turn, quiet_turn\<lparr> tn_others := (\<lambda>h.
       al_host (snd (acquire fi config' holder' date' session_id' None purpose' (a\<lparr> al_host := h \<rparr>)))) \<rparr>]"
  shows "\<exists>a' b'.
    acquire fi config' holder' date' session_id' None purpose' (a\<lparr> al_host := (al_host b)\<lparr> lh_dir := True \<rparr> \<rparr>) =
      (Ok (granted 0 session_id'), a') \<and>
    acquire fi config holder date session_id None purpose b = (Ok (granted 0 session_id), b') \<and>
    lock_of (al_host b') 0 = Some (to_json session_id holder date purpose @ ''\<newline>'', lh_time (al_host b))"
proof -
  let ?h = "(al_host b)\<lparr> lh_dir := True \<rparr>" and ?json = "to_json session_id holder date purpose"
  let ?a = "a\<lparr> al_host := ?h \<rparr>"
  have order: "clusters_to_try None = 0 # tl clusters" by (simp add: clusters_to_try_def clusters_def)
  have a: "al_turns ?a = []" "host_ok (al_host ?a)" "readable fi (lock_of (al_host ?a))" using other host by simp_all
  have "find (open_to fi (al_now ?a) (lock_of (al_host ?a))) (clusters_to_try None) = Some 0"
    using order host(3) free_open by simp
  from acquire_first [OF usable(2) a this, of holder' date' session_id' purpose']
  obtain a' where a': "acquire fi config' holder' date' session_id' None purpose' ?a = (Ok (granted 0 session_id'), a')"
    "host_ok (al_host a')" "lh_dir (al_host a')" "lh_time (al_host a') = lh_time (al_host b)" by auto
  from run_acquire [OF a'(2,3)]
  obtain h' where h': "run_script (AcquireLock 0 ?json) (al_host a') = (\<lparr> returncode = 0, stdout = [], stderr = [] \<rparr>, h')"
    "lock_of h' = (lock_of (al_host a'))(0 \<mapsto> (?json @ ''\<newline>'', lh_time (al_host a')))" by metis
  let ?turn = "quiet_turn\<lparr> tn_others := (\<lambda>h.
       al_host (snd (acquire fi config' holder' date' session_id' None purpose' (a\<lparr> al_host := h \<rparr>)))) \<rparr>"
  let ?b1 = "b\<lparr> al_host := ?h, al_turns := [quiet_turn, ?turn] \<rparr>" and ?b2 = "b\<lparr> al_host := ?h, al_turns := [?turn] \<rparr>"
  obtain argv where argv: "ssh_argv config (script MakeDir) (remote_defaults\<lparr> ro_raise_on_nonzero := False \<rparr>) = Ok argv"
    using usable_ssh [OF usable(1)] by blast
  have dir: "ensure_lock_dir config b = (Ok (), ?b1)"
    using turns argv by (simp add: ensure_lock_dir_def ssh_execute_def act_eval send_def quiet_turn_def Let_def cong: act_cong)
  have read: "read_lock fi config 0 ?b1 = (Ok None, ?b2)"
    using ssh_execute_turn [OF usable(1), of ?b1 quiet_turn "[?turn]"] host(3) parse_nolock
    by (simp add: read_lock_def act_eval run_read quiet_turn_def del: run_script.simps cong: act_cong)
  let ?b3 = "b\<lparr> al_host := h', al_turns := [] \<rparr>"
  have "try_acquire_lock config holder date 0 session_id purpose ?b2 = (Ok True, ?b3)"
    using ssh_execute_turn [OF usable(1), of ?b2 ?turn "[]"] a'(1) h'(1)
    by (simp add: try_acquire_lock_def act_eval quiet_turn_def del: run_script.simps cong: act_cong)
  moreover have "\<exists>b'. allocate 0 session_id ?b3 = (Ok (granted 0 session_id), b') \<and> al_host b' = h'"
    using allocate_granted [of 0 session_id ?b3] by simp
  ultimately obtain b' where b': "try_cluster fi config holder date session_id purpose 0 ?b1 = (Ok (Some (granted 0 session_id)), b')"
    "al_host b' = h'"
    using read by (auto simp: try_cluster_def act_bind_def ret_def)
  then have "acquire fi config holder date session_id None purpose b = (Ok (granted 0 session_id), b')"
    using dir order by (simp add: acquire_def act_seq_eval act_bind_def ret_def)
  then show ?thesis using a' b' h'(2) by auto
qed

definition racing_allocator :: allocator where
  "racing_allocator = (new_allocator empty_host)\<lparr> al_turns := [quiet_turn, quiet_turn, quiet_turn\<lparr> tn_others := (\<lambda>h.
     al_host (snd (acquire (\<lambda>_. True) hand_config ''other@host'' ''2026-01-01T00:00:00'' ''s1'' None ''test''
       ((new_allocator empty_host)\<lparr> al_host := h \<rparr>)))) \<rparr>] \<rparr>"

theorem acquire_race_witness:
  "\<exists>b'. acquire (\<lambda>_. True) hand_config ''dev@host'' ''2026-01-01T00:00:00'' ''s2'' None ''test'' racing_allocator =
     (Ok (granted 0 ''s2''), b')"
  using acquire_race [OF hand_config_usable hand_config_usable, of "new_allocator empty_host" racing_allocator "\<lambda>_. True"
      "''other@host''" "''2026-01-01T00:00:00''" "''s1''" "''test''" "''dev@host''" "''2026-01-01T00:00:00''" "''s2''" "''test''"]
    empty_host_ok empty_readable
  by (auto simp: racing_allocator_def new_allocator_def)

lemma parse_emptied: "parse_lock fi (listing (Some ([], m))) = Ok None"
proof -
  have "py_strip (show_int m @ ''\<newline>'') = show_int m"
  proof (rule py_strip_line)
    have "List.last (show_int m) \<in> set (show_int m)" by simp
    then have "ascii_digit (List.last (show_int m)) \<or> List.last (show_int m) = CHR ''-''" by (rule show_int_chars)
    then show "\<not> py_isspace (List.last (show_int m))"
      using ascii_digit_space by (auto simp: py_isspace_def code_def)
  qed (simp_all add: show_int_hd)
  moreover have "split_once ''\<newline>'' (show_int m) = None"
    using newline_not_shown by (simp add: split_once_def str_find_singleton)
  ultimately show ?thesis by (simp add: parse_lock_def listing_def)
qed

text \<open>A script that loses the advisory lock erases the lock file of the winner. When a second script opens the file
  after the first one has written it and before the first one exits, the first one reports success, the second
  one reports failure, and the file is empty, which \<open>_read_lock\<close> takes for a free cluster.\<close>

theorem lock_erased:
  assumes "host_ok h" and "lh_dir h"
  shows "\<exists>h'. interleave [False, False, False, True, True, False] (Started c json) (Started c json') h =
      (Exited 0, Exited 1, h') \<and> parse_lock fi (listing (lock_of h' c)) = Ok None"
proof -
  obtain i h1 where 1: "open_trunc c h = Some (i, h1)" "host_ok h1" "lh_dir h1" "lh_path h1 c = Some i"
    using open_trunc_ok [OF assms] by metis
  then have "i \<notin> lh_flocked h1" by (simp add: host_ok_def)
  moreover have "open_trunc c h = Some (i, h1) \<Longrightarrow> open_trunc c g = Some (i, put i [] g)"
    if "lh_dir g" "lh_path g c = Some i" for g
    using that by (simp add: open_trunc_def)
  ultimately show ?thesis
    using 1 parse_emptied by (auto simp: lock_of_def put_def)
qed

theorem lock_erased_witness:
  "\<exists>h'. interleave [False, False, False, True, True, False] (Started 0 ''a'') (Started 0 ''b'') empty_host =
      (Exited 0, Exited 1, h') \<and> parse_lock (\<lambda>_. True) (listing (lock_of h' 0)) = Ok None"
  using lock_erased [OF empty_host_ok(1), of 0 "''a''" "''b''" "\<lambda>_. True"] by (simp add: empty_host_def)

text \<open>
  Releasing does not look at the session: after a stale lock was taken over, the release of the previous owner
  frees the cluster of the new one.
\<close>

theorem release_frees_any_lock:
  assumes "usable config" and "al_turns a = []" and "host_ok (al_host a)"
  shows "\<exists>a'. release config allocation a = (Ok (), a') \<and> lock_of (al_host a') (ca_cluster_id allocation) = None"
proof -
  let ?a = "a\<lparr> al_allocations := dict_del (ca_cluster_id allocation) (al_allocations a),
               al_heartbeats := al_heartbeats a - {ca_cluster_id allocation} \<rparr>"
  obtain h' where "run_script (RemoveLock (ca_cluster_id allocation)) (al_host ?a) =
      (\<lparr> returncode = 0, stdout = [], stderr = [] \<rparr>, h')"
    "lock_of h' = (lock_of (al_host ?a))(ca_cluster_id allocation := None)"
    using run_remove [of "al_host ?a" "ca_cluster_id allocation"] assms(3) by auto
  then show ?thesis
    using assms(1,2)
    by (simp add: release_def release_lock_def act_eval ssh_execute_alone del: run_script.simps cong: act_cong)
qed

text \<open>A lock file that is an object without the expected members makes every reader raise \<open>KeyError\<close>.\<close>

theorem foreign_lock_raises: "parse_lock fi (listing (Some (''{}\<newline>'', m))) = Err (KeyError ''session_id'')"
proof -
  define x where "x = show_int m @ ''\<newline>'' @ ''{}''"
  have strip: "py_strip (x @ ''\<newline>'') = x"
    using show_int_hd [of m] by (intro py_strip_line) (simp_all add: x_def py_isspace_def code_def)
  have out: "stdout (listing (Some (''{}\<newline>'', m))) = x @ ''\<newline>''" "returncode (listing (Some (''{}\<newline>'', m))) = 0"
    by (simp_all add: listing_def x_def)
  have "CHR ''\<newline>'' \<in> set x" by (simp add: x_def)
  then have other: "x \<noteq> ''NOLOCK''" using newline_not_in by blast
  have split: "split_once ''\<newline>'' x = Some (show_int m, ''{}'')"
    using split_once_first [OF newline_not_shown, of m "''{}''"] by (simp add: x_def)
  have "json_loads ''{}'' = Ok (PDict [])" by code_simp
  then show ?thesis
    unfolding parse_lock_def out strip using other by (simp add: split from_json_def)
qed

end
