(* ===== verification/Vm_Tools.thy ===== *)
theory Vm_Tools
  imports Cli_Config
begin

text \<open>
  Virtual machines of the test set-up: their names and QEMU command lines (\<open>utils/vm.py\<close>), the commands
  \<open>guardian vm\<close> with the network partitions they simulate (\<open>vm_control.py\<close>), the extraction of measurements
  (\<open>utils/measurements.py\<close>) and the monitor of their states (\<open>utils/vm_monitor.py\<close>). Progress bars and log
  messages are left out. The packet filter of a host is a list of rules of which the first that matches drops a
  packet.
\<close>

section \<open>Machines\<close>

definition BRIDGE_NAME :: string where
  "BRIDGE_NAME = ''br0''"

definition DEV_VM_IP :: string where
  "DEV_VM_IP = ''10.42.1.10''"

record VMTarget =
  vt_ip :: string
  vt_mac :: string
  vt_cid :: int
  vt_name :: string
  vt_octet :: int

definition mac_of :: "int \<Rightarrow> string" where
  "mac_of octet = ''52:54:00:12:34:'' @ hex2 octet"

definition vm_name :: "int \<Rightarrow> string" where
  "vm_name octet = ''guardian-test-vm-'' @ show_int octet"

definition parse_vm_target :: "string \<Rightarrow> int \<Rightarrow> VMTarget py" where
  "parse_vm_target target host_id =
     and_then (if CHR ''.'' \<in> set target
               then and_then (py_int (List.last (str_split ''.'' target))) (\<lambda>octet. Ok (octet, target))
               else and_then (py_int target) (\<lambda>octet. Ok (octet, ''10.42.'' @ show_int host_id @ ''.'' @ show_int octet)))
       (\<lambda>(octet, full_ip).
          Ok \<lparr> vt_ip = full_ip, vt_mac = mac_of octet, vt_cid = octet, vt_name = vm_name octet, vt_octet = octet \<rparr>)"

definition tdx_object :: string where
  "tdx_object =
     ''-object '' @ [CHR 0x27] @
     concat (map (\<lambda>c. if c = CHR ''~'' then [CHR 0x22] else [c])
       ''{~qom-type~:~tdx-guest~,~id~:~tdx~,~quote-generation-socket~:{~type~:~vsock~,~cid~:~2~,~port~:~4050~}}'') @
     [CHR 0x27]"

definition build_qemu_command ::
  "string \<Rightarrow> string \<Rightarrow> string \<Rightarrow> int \<Rightarrow> string \<Rightarrow> string \<Rightarrow> bool \<Rightarrow> string \<Rightarrow> int \<Rightarrow> string" where
  "build_qemu_command name ip mac cid disk bios tdx memory cpus =
     (let machine = (if tdx then ''q35,accel=kvm,kernel-irqchip=split,confidential-guest-support=tdx,hpet=off''
                     else ''q35,accel=kvm'') in
      str_join ('' '' @ [CHR 0x5C] @ ''\<newline>  '')
        ([''qemu-system-x86_64'', ''-name '' @ name, ''-machine '' @ machine, ''-cpu host'', ''-smp '' @ show_int cpus,
          ''-m '' @ memory] @
         (if tdx then [tdx_object] else []) @
         [''-bios '' @ bios, ''-drive file='' @ disk @ '',format=raw,if=virtio'',
          ''-netdev bridge,id=net0,br='' @ BRIDGE_NAME, ''-device virtio-net-pci,netdev=net0,mac='' @ mac,
          ''-device vhost-vsock-pci,guest-cid='' @ show_int cid, ''-display none'',
          ''-serial file:/tmp/'' @ name @ ''-console.log'', ''-daemonize'']))"

record vm_params =
  vp_name :: string
  vp_mac :: string
  vp_ip :: string
  vp_cid :: int
  vp_bios_path :: string
  vp_disk_path :: string
  vp_memory :: string
  vp_cpus :: int
  vp_host_type :: string

definition writable_boot_path :: "vm_params \<Rightarrow> string" where
  "writable_boot_path vm = ''/tmp/guardian-'' @ vp_name vm @ ''.img''"

definition qemu_command :: "vm_params \<Rightarrow> string" where
  "qemu_command vm =
     build_qemu_command (vp_name vm) (vp_ip vm) (vp_mac vm) (vp_cid vm) (writable_boot_path vm) (vp_bios_path vm)
       True (vp_memory vm) (vp_cpus vm)"

definition launch_vm :: "'x subprocess \<Rightarrow> pyval \<Rightarrow> vm_params \<Rightarrow> ('x machine, unit) act" where
  "launch_vm run config vm =
     (let opts = remote_defaults\<lparr> ro_host_type := vp_host_type vm \<rparr>; boot = writable_boot_path vm in
      act_bind (remote_execute run config (''pgrep -f '' @ [CHR 0x27] @ ''mac='' @ vp_mac vm @ [CHR 0x27])
                  (opts\<lparr> ro_raise_on_nonzero := False \<rparr>)) (\<lambda>check.
      if returncode check = 0 then raise (ValueError (''MAC address '' @ vp_mac vm @ '' already in use'')) else
      act_seq (remote_execute run config (''rm -f '' @ boot) opts) (
      act_seq (remote_execute run config (''cp '' @ vp_disk_path vm @ '' '' @ boot @ '' && chmod 644 '' @ boot) opts) (
      act_seq (remote_execute run config (qemu_command vm) opts) (ret ())))))"

definition rsync_args :: "string \<Rightarrow> string list \<Rightarrow> string" where
  "rsync_args flag ps = str_join '' '' (map (\<lambda>p. flag @ ''='' @ [CHR 0x27] @ p @ [CHR 0x27]) ps)"

text \<open>The rsync command is given to a shell.\<close>

definition build_vm_image ::
  "'x subprocess \<Rightarrow> (string \<Rightarrow> ('x, SSHResult) act) \<Rightarrow> pyval \<Rightarrow> string \<Rightarrow> string \<Rightarrow> string \<Rightarrow> string list option \<Rightarrow>
   string list option \<Rightarrow> string \<Rightarrow> ('x machine, unit) act" where
  "build_vm_image run shell config local_path remote_path build_cmd rsync_excludes rsync_includes host_type =
     (let excludes = (case rsync_excludes of Some e \<Rightarrow> e | None \<Rightarrow> [''logs/'', ''*.qcow2'', ''result'', ''*-result'']);
          include_args = rsync_args ''--include'' (case rsync_includes of Some i \<Rightarrow> i | None \<Rightarrow> []);
          exclude_args = rsync_args ''--exclude'' excludes in
      act_bind (lift (get_host_config config host_type)) (\<lambda>host_config.
      act_bind (lift (py_item host_config ''ssh_key'')) (\<lambda>key.
      act_bind (lift (at_host host_config)) (\<lambda>dest.
      act_bind (outside (shell (''rsync -azv --delete '' @ include_args @ '' '' @ exclude_args @ '' -e '' @ [CHR 0x27] @
          ''ssh -i '' @ py_str key @ '' -o StrictHostKeyChecking=no -o UserKnownHostsFile=/dev/null'' @ [CHR 0x27] @
          '' '' @ local_path @ ''/ '' @ dest @ '':'' @ remote_path @ ''/''))) (\<lambda>result.
      if returncode result \<noteq> 0 then raise (OtherException (''Failed to sync to '' @ host_type)) else
      act_seq (remote_stream run config (''cd '' @ remote_path @ '' && '' @ build_cmd)
                 (remote_defaults\<lparr> ro_host_type := host_type \<rparr>)) (ret ()))))))"

definition extract_measurements :: "'x subprocess \<Rightarrow> pyval \<Rightarrow> string \<Rightarrow> int \<Rightarrow> string \<Rightarrow> ('x machine, unit) act" where
  "extract_measurements run config workspace ip_octet host_type =
     act_seq (remote_stream run config
       (workspace @ ''/test-vm-result/extract-'' @ host_type @ ''-measurements --ip-octet '' @ show_int ip_octet)
       (remote_defaults\<lparr> ro_host_type := host_type \<rparr>)) (ret ())"

section \<open>guardian vm\<close>

definition or_default :: "string option \<Rightarrow> string \<Rightarrow> string" where
  "or_default given d = (case given of Some s \<Rightarrow> if s = [] then d else s | None \<Rightarrow> d)"

definition vm_launch ::
  "yaml_lib \<Rightarrow> 'x subprocess \<Rightarrow> string \<Rightarrow> string option \<Rightarrow> string option \<Rightarrow> string \<Rightarrow> int \<Rightarrow> ('x machine, unit) act" where
  "vm_launch yaml run target bios disk memory cpus =
     act_bind (load_config yaml) (\<lambda>config.
     act_bind (lift (parse_target target)) (\<lambda>(host_type, ip).
     act_bind (lift (get_host_config config host_type)) (\<lambda>host_config.
     act_bind (lift (py_item host_config ''workspace'')) (\<lambda>workspace.
     act_bind (lift (parse_vm_target (List.last (str_split ''.'' ip)) 1)) (\<lambda>vm.
     act_seq (echo (''Launching '' @ vt_name vm @ '' on '' @ host_type @ '' (IP: '' @ ip @ '', MAC: '' @ vt_mac vm @
                    '', CID: '' @ show_int (vt_cid vm) @ '')'')) (
     except_do
       (act_seq (launch_vm run config
          \<lparr> vp_name = vt_name vm, vp_mac = vt_mac vm, vp_ip = ip, vp_cid = vt_cid vm,
            vp_bios_path = or_default bios (py_str workspace @ ''/test-vm-result/OVMF_DEBUG.fd''),
            vp_disk_path = or_default disk (py_str workspace @ ''/test-vm-result/boot.img''),
            vp_memory = memory, vp_cpus = cpus, vp_host_type = host_type \<rparr>)
         (echo (''[OK] '' @ vt_name vm @ '' launched on '' @ host_type)))
       (\<lambda>e. act_seq (echo_to True (''[FAIL] '' @ vt_name vm @ '': '' @ exn_text e @ ''\<newline>'')) (raise (SystemExit 1)))))))))"

definition vm_kill ::
  "yaml_lib \<Rightarrow> 'x subprocess \<Rightarrow> bool \<Rightarrow> string option \<Rightarrow> string \<Rightarrow> ('x machine, unit) act" where
  "vm_kill yaml run all target host =
     act_bind (load_config yaml) (\<lambda>config.
     if all then
       act_seq (echo (''Killing all test VMs on '' @ host @ ''...'')) (
       act_seq (remote_execute run config (''pkill -9 -f '' @ [CHR 0x27] @ ''guardian-test-vm'' @ [CHR 0x27])
                  (remote_defaults\<lparr> ro_raise_on_nonzero := False, ro_host_type := host \<rparr>)) (
       echo (''[OK] All test VMs killed on '' @ host)))
     else if target \<noteq> None \<and> target \<noteq> Some [] then
       act_bind (lift (parse_target (the target))) (\<lambda>(host_type, ip).
       act_bind (lift (parse_vm_target (List.last (str_split ''.'' ip)) 1)) (\<lambda>vm.
       act_seq (echo (''Killing '' @ vt_name vm @ '' on '' @ host_type @ ''...'')) (
       act_seq (remote_execute run config (''pkill -9 -f '' @ [CHR 0x27] @ vt_name vm @ [CHR 0x27])
                  (remote_defaults\<lparr> ro_raise_on_nonzero := False, ro_host_type := host_type \<rparr>)) (
       echo (''[OK] '' @ vt_name vm @ '' killed on '' @ host_type)))))
     else act_seq (echo_to True ''[FAIL] Must specify --all or --target\<newline>'') (raise (SystemExit 1)))"

text \<open>Rules of the forward chain: the source and the destination that a packet must have to be dropped.\<close>

type_synonym fw_rule = "string option \<times> string option"

datatype fw_command = FwInsert fw_rule | FwDelete fw_rule

definition fw_match :: "fw_rule \<Rightarrow> string" where
  "fw_match = (\<lambda>(s, d). (case s of Some ip \<Rightarrow> '' -s '' @ ip | None \<Rightarrow> []) @ (case d of Some ip \<Rightarrow> '' -d '' @ ip | None \<Rightarrow> []))"

fun fw_text :: "fw_command \<Rightarrow> string" where
  "fw_text (FwInsert r) = ''iptables -I FORWARD'' @ fw_match r @ '' -j DROP''"
| "fw_text (FwDelete r) = ''iptables -D FORWARD'' @ fw_match r @ '' -j DROP 2>/dev/null || true''"

datatype direction = Send | Recv | Both

definition disconnect_rules :: "string \<Rightarrow> string option \<Rightarrow> direction \<Rightarrow> fw_command list" where
  "disconnect_rules ip from_ip dir =
     (case from_ip of
        None \<Rightarrow>
          (if dir = Both \<or> dir = Send then [FwInsert (Some ip, None)] else []) @
          (if dir = Both \<or> dir = Recv then [FwInsert (None, Some ip)] else [])
      | Some peer \<Rightarrow>
          (if dir = Both \<or> dir = Send then [FwInsert (Some peer, Some ip)] else []) @
          (if dir = Both \<or> dir = Recv then [FwInsert (Some ip, Some peer)] else []))"

definition reconnect_commands :: "string \<Rightarrow> fw_command list" where
  "reconnect_commands ip = [FwDelete (Some ip, None), FwDelete (None, Some ip)]"

fun direction_text :: "direction \<Rightarrow> string" where
  "direction_text Send = ''send''"
| "direction_text Recv = ''recv''"
| "direction_text Both = ''both''"

definition send_rules :: "'x subprocess \<Rightarrow> pyval \<Rightarrow> string \<Rightarrow> fw_command list \<Rightarrow> ('x machine, unit) act" where
  "send_rules run config host_type rules =
     act_seq (act_map (\<lambda>r. remote_execute run config (fw_text r)
       (remote_defaults\<lparr> ro_raise_on_nonzero := False, ro_host_type := host_type \<rparr>)) rules) (ret ())"

definition vm_disconnect ::
  "yaml_lib \<Rightarrow> 'x subprocess \<Rightarrow> string \<Rightarrow> string option \<Rightarrow> direction \<Rightarrow> ('x machine, unit) act" where
  "vm_disconnect yaml run target from_ip dir =
     act_bind (load_config yaml) (\<lambda>config.
     act_bind (lift (parse_target target)) (\<lambda>(host_type, ip).
     act_seq (echo (''Disconnecting '' @ ip @ '' from '' @
                (if from_ip \<noteq> None \<and> from_ip \<noteq> Some [] then the from_ip else ''network'') @
                '' ('' @ direction_text dir @ '') on '' @ host_type)) (
     (let rules = disconnect_rules ip from_ip dir in
      act_seq (send_rules run config host_type rules)
        (echo (''[OK] Applied '' @ show_nat (length rules) @ '' iptables rules on '' @ host_type))))))"

definition vm_reconnect :: "yaml_lib \<Rightarrow> 'x subprocess \<Rightarrow> string \<Rightarrow> ('x machine, unit) act" where
  "vm_reconnect yaml run target =
     act_bind (load_config yaml) (\<lambda>config.
     act_bind (lift (parse_target target)) (\<lambda>(host_type, ip).
     act_seq (echo (''Reconnecting '' @ ip @ '' on '' @ host_type @ ''...'')) (
     act_seq (send_rules run config host_type (reconnect_commands ip))
       (echo (''[OK] VM reconnected on '' @ host_type)))))"

definition read_measurements :: "yaml_lib \<Rightarrow> 'x subprocess \<Rightarrow> string \<Rightarrow> ('x machine, unit) act" where
  "read_measurements yaml run host =
     act_bind (load_config yaml) (\<lambda>config.
     act_bind (lift (get_host_config config host)) (\<lambda>host_config.
     act_bind (lift (py_item host_config ''workspace'')) (\<lambda>workspace.
     (let boot_image = py_str workspace @ ''/test-vm-result/boot.img'' in
     act_bind (remote_execute run config (''sha256sum '' @ boot_image @ '' | cut -d'' @ [CHR 0x27] @ '' '' @ [CHR 0x27] @ '' -f1'')
                 (remote_defaults\<lparr> ro_host_type := host \<rparr>)) (\<lambda>result.
     (let boot_hash = py_strip (stdout result);
          cache_file = ''/tmp/guardian-rtmr-cache/'' @ boot_hash @ ''/measurements.txt'' in
     act_bind (remote_execute run config (''cat '' @ cache_file)
                 (remote_defaults\<lparr> ro_raise_on_nonzero := False, ro_host_type := host \<rparr>)) (\<lambda>result.
     if returncode result \<noteq> 0
     then act_seq (echo_to True (''Measurements not found for boot.img hash '' @ take 16 boot_hash @ ''...\<newline>'')) (
          act_seq (echo_to True (''Cache file: '' @ cache_file @ ''\<newline>'')) (
          act_seq (echo_to True (''Run '' @ [CHR 0x27] @ ''guardian test integration --'' @ host @ [CHR 0x27] @
                                 '' to extract measurements.\<newline>'')) (
          raise (SystemExit 1))))
     else echo_to False (stdout result))))))))"

text \<open>The chain after a command, and whether it drops a packet.\<close>

fun apply_fw :: "fw_command \<Rightarrow> fw_rule list \<Rightarrow> fw_rule list" where
  "apply_fw (FwInsert r) chain = r # chain"
| "apply_fw (FwDelete r) chain = remove1 r chain"

definition fw_after :: "fw_command list \<Rightarrow> fw_rule list \<Rightarrow> fw_rule list" where
  "fw_after cmds chain = fold apply_fw cmds chain"

definition dropped :: "fw_rule list \<Rightarrow> string \<Rightarrow> string \<Rightarrow> bool" where
  "dropped chain src dst =
     list_ex (\<lambda>(s, d). (s = None \<or> s = Some src) \<and> (d = None \<or> d = Some dst)) chain"

section \<open>The monitor\<close>

datatype VMStatus =
    VmUnknown | VmStopped | VmBooting | VmSshOnline | VmBootstrapping | VmLearner | VmCandidate | VmFollower
  | VmLeader | VmOffline | VmInvalid

definition OPERATIONAL :: "VMStatus list" where
  "OPERATIONAL = [VmBootstrapping, VmLearner, VmCandidate, VmFollower, VmLeader]"

definition HEALTH_STATUS_MAP :: "(string \<times> VMStatus) list" where
  "HEALTH_STATUS_MAP =
     [(''BOOTSTRAPPING'', VmBootstrapping), (''LEARNER'', VmLearner), (''CANDIDATE'', VmCandidate),
      (''FOLLOWER'', VmFollower), (''LEADER'', VmLeader), (''INVALID'', VmInvalid)]"

record VMState =
  vm_vm_id :: string
  vm_ip :: string
  vm_health_url :: "string option"
  vm_ssh_port :: int
  vm_status :: VMStatus
  vm_error_message :: "string option"
  vm_node_state :: pyval
  vm_term :: pyval
  vm_verified_peers :: "int option"

definition ip_to_mac :: "string \<Rightarrow> string py" where
  "ip_to_mac ip = and_then (py_int (List.last (str_split ''.'' ip))) (\<lambda>octet. Ok (mac_of octet))"

definition set_status :: "VMStatus \<Rightarrow> string \<Rightarrow> VMState \<Rightarrow> VMState" where
  "set_status status reason vm =
     (if vm_status vm \<noteq> status
      then vm\<lparr> vm_status := status, vm_error_message := (if reason = [] then None else Some reason) \<rparr>
      else vm)"

text \<open>Whether a QEMU process of the machine runs: the monitor asks the TDX host, and an error counts as no.\<close>

definition qemu_is_running :: "'x subprocess \<Rightarrow> pyval \<Rightarrow> string \<Rightarrow> ('x machine, bool) act" where
  "qemu_is_running run config ip =
     except_do
       (act_bind (lift (ip_to_mac ip)) (\<lambda>mac.
        act_bind (remote_execute run config
                    (''pgrep -f '' @ [CHR 0x27] @ ''[q]emu.*mac='' @ mac @ [CHR 0x27] @ '' >/dev/null && echo yes || echo no'')
                    (remote_defaults\<lparr> ro_timeout := Some 10, ro_raise_on_nonzero := False \<rparr>)) (\<lambda>result.
          ret (py_strip (stdout result) = ''yes''))))
       (\<lambda>_. ret False)"

definition check_dev_vm :: "bool \<Rightarrow> bool \<Rightarrow> VMState \<Rightarrow> VMState" where
  "check_dev_vm ssh_online qemu_running vm =
     (if ssh_online then set_status VmSshOnline [] vm
      else if qemu_running then set_status VmBooting [] vm
      else set_status VmStopped [] vm)"

definition py_len :: "pyval \<Rightarrow> int py" where
  "py_len v =
     (case v of
        PStr s \<Rightarrow> Ok (int (length s)) | PList vs \<Rightarrow> Ok (int (length vs)) | PDict d \<Rightarrow> Ok (int (length d))
      | _ \<Rightarrow> Err TypeError)"

text \<open>The status that a report stands for; a list or a dictionary cannot be looked up.\<close>

definition reported_status :: "pyval \<Rightarrow> VMStatus py" where
  "reported_status node_state =
     (if \<not> truthy node_state then Ok VmUnknown
      else case node_state of
             PStr s \<Rightarrow> Ok (case map_of HEALTH_STATUS_MAP s of Some st \<Rightarrow> st | None \<Rightarrow> VmUnknown)
           | PList vs \<Rightarrow> Err TypeError
           | PDict d \<Rightarrow> Err TypeError
           | _ \<Rightarrow> Ok VmUnknown)"

definition healthy_update :: "pyval \<Rightarrow> VMState \<Rightarrow> VMState py" where
  "healthy_update data vm =
     and_then (py_get data ''trusted_peers'' (PList [])) (\<lambda>trusted_peers.
     and_then (py_get data ''status'' PNone) (\<lambda>node_state.
     and_then (py_get data ''term'' PNone) (\<lambda>term.
     and_then (py_len trusted_peers) (\<lambda>n.
     and_then (reported_status node_state) (\<lambda>status.
       Ok (set_status status [] (vm\<lparr> vm_node_state := node_state, vm_term := term, vm_verified_peers := Some n \<rparr>)))))))"

text \<open>The reply is none when the request failed; its body may not be JSON.\<close>

definition check_guardian_vm :: "(int \<times> pyval py) option \<Rightarrow> bool \<Rightarrow> VMState \<Rightarrow> VMState" where
  "check_guardian_vm reply qemu_running vm =
     (let checked = (case reply of
                       Some (status_code, body) \<Rightarrow> if status_code = 200 then and_then body (\<lambda>data. healthy_update data vm)
                                            else Err (OtherException [])
                     | None \<Rightarrow> Err (OtherException []));
          cleared = vm\<lparr> vm_node_state := PNone, vm_term := PNone, vm_verified_peers := None \<rparr> in
      case checked of
        Ok vm' \<Rightarrow> vm'
      | _ \<Rightarrow>
          if qemu_running
          then set_status (if vm_status vm \<in> set OPERATIONAL then VmOffline else VmBooting) ''health check failed'' cleared
          else set_status VmStopped [] cleared)"

text \<open>
  Waiting for a status: at each iteration the clock and the status are read. The result is none when the
  observations end before the wait does.
\<close>

fun wait_for_status :: "VMStatus list \<Rightarrow> int \<Rightarrow> int \<Rightarrow> (int \<times> VMStatus) list \<Rightarrow> unit py option" where
  "wait_for_status targets start timeout [] = None"
| "wait_for_status targets start timeout ((now, status) # obs) =
     (if \<not> now - start < timeout then Some (Err (TimeoutError ''timeout''))
      else if status \<in> set targets then Some (Ok ())
      else wait_for_status targets start timeout obs)"

section \<open>Partitions\<close>

text \<open>A partition is undone by reconnecting, except one from a single peer. Disconnecting a machine drops every packet
  from it and to it, and reconnecting gives back the chain as it was. Disconnecting from a peer in the direction
  send drops the packets of the peer to the machine and, unless a rule did so before, not those that the machine
  sends; and reconnecting leaves the pair of a disconnected peer cut off.\<close>

theorem partition_repair:
  "dropped (fw_after (disconnect_rules ip None Both) chain) ip peer \<and>
    dropped (fw_after (disconnect_rules ip None Both) chain) peer ip \<and>
    fw_after (reconnect_commands ip) (fw_after (disconnect_rules ip None Both) chain) = chain \<and>
    dropped (fw_after (disconnect_rules ip (Some peer) Send) chain) peer ip \<and>
    (dropped (fw_after (disconnect_rules ip (Some peer) Send) chain) ip peer =
       (ip = peer \<or> dropped chain ip peer)) \<and>
    dropped (fw_after (reconnect_commands ip) (fw_after (disconnect_rules ip (Some peer) Both) chain)) ip peer \<and>
    dropped (fw_after (reconnect_commands ip) (fw_after (disconnect_rules ip (Some peer) Both) chain)) peer ip"
  by (auto simp: fw_after_def disconnect_rules_def reconnect_commands_def dropped_def)

text \<open>Disconnecting twice and reconnecting once leaves the machine cut off.\<close>

theorem reconnect_once:
  "dropped (fold apply_fw (disconnect_rules ip None Both @ disconnect_rules ip None Both @ reconnect_commands ip) chain) ip peer"
  by (simp add: disconnect_rules_def reconnect_commands_def dropped_def)

lemma str_contains_append [intro]: "str_contains (u @ s @ v) s"
  by (auto simp: str_contains_iff)

lemma str_contains_trans: "str_contains a b \<Longrightarrow> str_contains b c \<Longrightarrow> str_contains a c"
  by (auto simp: str_contains_iff) (metis append.assoc)

lemma str_contains_join: "s \<in> set ss \<Longrightarrow> str_contains (str_join sep ss) s"
proof (induction sep ss rule: str_join.induct)
  case (3 sep s' t ts)
  show ?case
  proof (cases "s = s'")
    case True
    then show ?thesis using str_contains_append [of "[]" s "sep @ str_join sep (t # ts)"] by simp
  next
    case False
    have "str_contains (s' @ sep @ str_join sep (t # ts)) (str_join sep (t # ts))"
      using str_contains_append [of "s' @ sep" "str_join sep (t # ts)" "[]"] by simp
    then show ?thesis using 3 False str_contains_trans by auto
  qed
qed (use str_contains_append [of "[]" _ "[]"] in auto)

lemma qemu_command_has:
  "str_contains (qemu_command vm) (''-name '' @ vp_name vm)"
  "str_contains (qemu_command vm) ''-machine q35,accel=kvm,kernel-irqchip=split,confidential-guest-support=tdx,hpet=off''"
  unfolding qemu_command_def build_qemu_command_def Let_def by (rule str_contains_join; simp)+

text \<open>The command that kills one machine matches the command lines of the machines whose number it begins.\<close>

theorem kill_matches_others:
  "str_contains (qemu_command (vm\<lparr> vp_name := vm_name 110 \<rparr>)) (vm_name 11)"
proof -
  have "vm_name 110 = vm_name 11 @ ''0''" by code_simp
  then have "str_contains (''-name '' @ vm_name 110) (vm_name 11)"
    using str_contains_append [of "''-name ''" "vm_name 11" "''0''"] by simp
  then show ?thesis
    using str_contains_trans [OF qemu_command_has(1) [of "vm\<lparr> vp_name := vm_name 110 \<rparr>"]] by simp
qed

text \<open>The command line of a machine asks for TDX on every host.\<close>

theorem launch_assumes_tdx:
  "str_contains (qemu_command (vm\<lparr> vp_host_type := ''sev'' \<rparr>)) ''confidential-guest-support=tdx''"
proof -
  have "str_contains ''-machine q35,accel=kvm,kernel-irqchip=split,confidential-guest-support=tdx,hpet=off''
      ''confidential-guest-support=tdx''" by code_simp
  then show ?thesis using str_contains_trans [OF qemu_command_has(2)] by blast
qed

section \<open>Reports\<close>

definition report_status :: "VMStatus \<Rightarrow> string" where
  "report_status st = (case find (\<lambda>(k, v). v = st) HEALTH_STATUS_MAP of Some (k, _) \<Rightarrow> k | None \<Rightarrow> [])"

text \<open>What the monitor shows of a node. A readable report gives the reported role; after a failed check a machine
  without a QEMU process is stopped, and one with a process is offline when it was in operation and booting
  otherwise; so the second failure in a row shows a machine that is offline as booting.\<close>

theorem monitor_shows:
  assumes "vm_status vm \<in> set OPERATIONAL"
  shows "vm_status (check_guardian_vm None True vm) = VmOffline \<and>
    vm_status (check_guardian_vm None True (check_guardian_vm None True vm)) = VmBooting \<and>
    ((\<forall>d. reply \<noteq> Some (200, Ok (PDict d))) \<longrightarrow> vm_status (check_guardian_vm reply False vm) = VmStopped) \<and>
    (st \<in> set OPERATIONAL \<longrightarrow>
      vm_status (check_guardian_vm (Some (200, Ok (PDict [(''status'', PStr (report_status st))]))) qemu vm) = st)"
proof -
  have stopped: "vm_status (check_guardian_vm reply False vm) = VmStopped"
    if readable: "\<forall>d. reply \<noteq> Some (200, Ok (PDict d))"
  proof -
    have "healthy_update data vm = Err (AttributeError ''get'')" if "\<forall>d. data \<noteq> PDict d" for data
      using that by (cases data) (auto simp: healthy_update_def)
    with readable show ?thesis
      by (auto simp: check_guardian_vm_def set_status_def Let_def split: option.splits outcome.splits)
  qed
  have "vm_status (check_guardian_vm (Some (200, Ok (PDict [(''status'', PStr (report_status st))]))) qemu vm) = st"
    if "st \<in> set OPERATIONAL"
    using that
    by (auto simp: check_guardian_vm_def healthy_update_def reported_status_def report_status_def HEALTH_STATUS_MAP_def
        OPERATIONAL_def py_len_def set_status_def)
  with stopped assms show ?thesis
    by (auto simp: check_guardian_vm_def set_status_def OPERATIONAL_def)
qed

definition sample_vm :: VMState where
  "sample_vm = \<lparr> vm_vm_id = ''VM-20'', vm_ip = ''10.42.1.20'', vm_health_url = Some ''http://10.42.1.20:8443/health'',
     vm_ssh_port = 22, vm_status = VmFollower, vm_error_message = None, vm_node_state = PNone, vm_term = PNone,
     vm_verified_peers = None \<rparr>"

theorem monitor_shows_witness:
  "vm_status (check_guardian_vm None True (check_guardian_vm None True sample_vm)) = VmBooting \<and>
   vm_status (check_guardian_vm None False sample_vm) = VmStopped \<and>
   vm_status (check_guardian_vm (Some (200, Ok (PDict [(''status'', PStr (report_status VmLeader))]))) True sample_vm) = VmLeader"
  using monitor_shows [of sample_vm None VmLeader True] by (simp add: sample_vm_def OPERATIONAL_def)

end
