(* ===== verification/Registry_Tests.thy ===== *)
theory Registry_Tests
  imports Measurement_Client Peer_Registry Gossip Attestation
begin

text \<open>
  The unit tests of the crates \<open>peer_registry\<close> and \<open>bootstrap\<close>, run on the model. A test module is
  the list of its tests, each with the value of its assertions; a failing \<open>unwrap\<close> fails the test.
  What a test reads from its surroundings, the clock and the random challenges, is an argument, so
  a lemma that a module passes covers every run of it and states what the run needs: the tests of
  the session registry pass when they end within the sixty seconds a challenge lives. Spawned tasks
  are taken in any order. Tests of what a crate does with its own data, the digest and the
  serialisation, are left out.
\<close>

section \<open>Running tests\<close>

type_synonym test_run = "(string \<times> bool) list"

definition all_pass :: "test_run \<Rightarrow> bool" where
  "all_pass = list_all snd"

definition unwrap_then :: "('a, 'e) outcome \<Rightarrow> ('a \<Rightarrow> bool) \<Rightarrow> bool" where
  "unwrap_then r k = (case r of Ok v \<Rightarrow> k v | _ \<Rightarrow> False)"

fun is_err :: "('a, 'e) outcome \<Rightarrow> bool" where
  "is_err (Err e) = True"
| "is_err _ = False"

lemma all_pass_simps [simp]:
  "all_pass []" "all_pass ((name, b) # ts) \<longleftrightarrow> b \<and> all_pass ts"
  by (simp_all add: all_pass_def)

lemma unwrap_then_Ok [simp]: "unwrap_then (Ok v) k = k v"
  by (simp add: unwrap_then_def)

section \<open>Types of the peer registry\<close>

definition node_tests :: test_run where
  "node_tests =
     [(''test_ip_to_node_id'', ip_to_node_id (Ipv4Addr 192 168 1 100) = 0xC0A80164),
      (''test_node_id_to_ip'', node_id_to_ip 0xC0A80164 = Ipv4Addr 192 168 1 100),
      (''test_roundtrip'',
         let original_ip = Ipv4Addr 10 0 0 1;
             node_id = ip_to_node_id original_ip;
             recovered_ip = node_id_to_ip node_id
         in original_ip = recovered_ip),
      (''test_peer_state_is_trusted'', peer_is_trusted Trusted \<and> \<not> peer_is_trusted Discovered),
      (''test_bootstrap_node_node_id'',
         let node = \<lparr> bn_ip_address = Ipv4Addr 192 168 1 100, bn_raft_port = 8444,
                      bn_api_port = 8443 \<rparr>
         in bootstrap_node_id node = 0xC0A80164)]"

definition identity_tests :: "'j crates \<Rightarrow> test_run" where
  "identity_tests x =
     [(''test_instance_id_from_bytes32'',
         instance_as_bytes (InstanceId (replicate 32 0xAB)) = replicate 32 0xAB),
      (''test_instance_id_from_array'',
         let bs = replicate 32 0xCD in instance_as_bytes (InstanceId bs) = bs),
      (''test_instance_id_is_zero'',
         is_zero (InstanceId (replicate 32 0)) \<and> \<not> is_zero (InstanceId (replicate 32 1))),
      (''test_instance_id_hex_roundtrip'',
         let original = InstanceId (replicate 32 0xDE);
             hex = instance_to_hex x original
         in unwrap_then (from_hex x 32 hex) (\<lambda>bs. original = InstanceId bs)),
      (''test_instance_id_short'', instance_short x (InstanceId (replicate 32 0xAB)) = ''abababab''),
      (''test_instance_id_hash_eq'',
         let id1 = InstanceId (replicate 32 1); id2 = InstanceId (replicate 32 1);
             id3 = InstanceId (replicate 32 2)
         in id1 = id2 \<and> id1 \<noteq> id3 \<and> id2 \<in> {id1} \<and> id3 \<notin> {id1})]"

definition error_tests :: test_run where
  "error_tests =
     [(''test_status_codes'',
         status_code (AttestationFailed ''x'') = 400 \<and>
         status_code (NonceVerificationFailed ''x'') = 401 \<and>
         status_code (MeasurementNotTrusted ''x'') = 403 \<and>
         status_code DebugNotAllowed = 403 \<and>
         status_code (TcbOutdated ''x'') = 403 \<and>
         status_code NoPendingChallenge = 404 \<and>
         status_code IdentityRequired = 409),
      (''test_is_transient'',
         is_transient (ConnectionFailed ''x'') \<and> is_transient (Timeout ''x'') \<and>
         \<not> is_transient (AttestationFailed ''x'') \<and> \<not> is_transient DebugNotAllowed)]"

definition tee_tests :: "(nat \<Rightarrow> instant) \<Rightarrow> utc \<Rightarrow> test_run" where
  "tee_tests t utc_now =
     [(''test_tee_state_is_verified'',
         let verified = Verified ''abc123'' ''UpToDate'' Tdx utc_now
         in state_is_verified verified \<and> \<not> state_is_pending verified \<and>
            \<not> state_is_rejected verified \<and> state_tee verified = Some Tdx),
      (''test_tee_record_pending'',
         let instance_id = InstanceId (replicate 32 0xAB);
             r = new_pending (t 0) instance_id ''guardian'' (replicate 32 0xAA) ''abc123'' Tdx 60
         in state_is_pending (tr_state r) \<and> \<not> is_challenge_expired (t 1) r \<and>
            get_valid_challenge (t 2) r \<noteq> None),
      (''test_peer_registry_event_namespace'',
         let instance_id = InstanceId (replicate 32 0xAB);
             event = EvVerified ''guardian'' instance_id
                       (new_pending (t 0) instance_id ''guardian'' (replicate 32 0) ''hash'' Tdx 60)
         in event_namespace event = ''guardian'')]"

text \<open>The readings of a clock from the start of a test on, all within the life of a challenge.\<close>

definition within_expiry :: "(nat \<Rightarrow> instant) \<Rightarrow> bool" where
  "within_expiry t \<longleftrightarrow> mono t \<and> (\<forall>n. t n \<le> t 0 + DEFAULT_CHALLENGE_EXPIRY)"

lemma within_expiryD:
  assumes "within_expiry t"
  shows "t n \<le> t m + 60"
proof -
  have "t n \<le> t 0 + 60" "t 0 \<le> t m"
    using assms by (simp_all add: within_expiry_def DEFAULT_CHALLENGE_EXPIRY_def monoD)
  then show ?thesis by simp
qed

lemma node_tests_pass: "all_pass node_tests"
  by (simp add: node_tests_def Let_def bootstrap_node_id_def ip_to_node_id_def node_id_to_ip_def)

lemma short_digits: "digit_char 10 = CHR ''a''" "digit_char 11 = CHR ''b''"
  by code_simp+

lemma identity_tests_pass:
  assumes "hex_round_trip x" "hex_encode x = sample_hex_encode"
  shows "all_pass (identity_tests x)"
proof -
  have "take 4 (replicate 32 (0xAB :: byte)) = [0xAB, 0xAB, 0xAB, 0xAB]"
    by (simp add: eval_nat_numeral)
  then have "instance_short x (InstanceId (replicate 32 0xAB)) = ''abababab''"
    using assms(2) short_digits by (simp add: instance_short_def sample_hex_encode_def)
  then show ?thesis
    using assms(1) by (simp add: identity_tests_def Let_def is_zero_def instance_to_hex_def from_hex_def
        to_hex_def hex_round_trip_def from_slice_def copy_from_slice_def)
qed

lemma error_tests_pass: "all_pass error_tests"
  by (simp add: error_tests_def)

lemma tee_tests_pass:
  assumes "within_expiry t"
  shows "all_pass (tee_tests t utc_now)"
  using within_expiryD [OF assms]
  by (simp add: tee_tests_def Let_def new_pending_def is_challenge_expired_def get_valid_challenge_def
      not_less)

section \<open>Backends and the measurement registry\<close>

definition td_attributes_tests :: test_run where
  "td_attributes_tests =
     [(''test_td_attributes_debug_flag'',
         td_is_debug (td_from_bytes [1, 0, 0, 0, 0, 0, 0, 0]) \<and>
         \<not> td_is_debug (td_from_bytes [0, 0, 0, 0, 0, 0, 0, 0])),
      (''test_td_attributes_multiple_flags'',
         let attrs = TdAttributes (TD_DEBUG OR TD_MIGRATABLE)
         in td_is_debug attrs \<and> is_migratable attrs \<and> \<not> is_perfmon_enabled attrs),
      (''test_td_attributes_from_bytes'',
         let attrs = td_from_bytes [1, 0, 0, 0, 0, 0, 0, 0]
         in td_is_debug attrs \<and> td_as_raw attrs = 1),
      (''test_td_attributes_roundtrip'',
         let original = TdAttributes 0x123456789ABCDEF0;
             bs = td_as_bytes original;
             restored = td_from_bytes bs
         in original = restored),
      (''test_td_attributes_debug_format'',
         let debug_str = td_debug_fmt (TdAttributes (TD_DEBUG OR TD_PKS))
         in str_contains debug_str ''DEBUG'' \<and> str_contains debug_str ''PKS'')]"

definition detect_tests :: test_run where
  "detect_tests =
     [(''test_detect_tee_type_tdx'',
         detect_tee_type sample_crates (JObj [(''quote'', JStr ''base64data'')]) = Some Tdx),
      (''test_detect_tee_type_snp'',
         detect_tee_type sample_crates (JObj [(''attestation_report'', JObj [])]) = Some Snp),
      (''test_detect_tee_type_unknown'',
         detect_tee_type sample_crates (JObj [(''unknown'', JStr ''data'')]) = None)]"

definition client_tests :: test_run where
  "client_tests =
     [(''test_new_client'', mc_base_url (client_new ''http://localhost:9000'') = ''http://localhost:9000''),
      (''test_with_config'', mc_max_retries (client_with_config ''http://localhost:9000'' 5) = 5)]"

lemmas td_flag_defs = td_is_debug_def is_pks_enabled_def is_sept_ve_disabled_def is_migratable_def
  is_key_locker_enabled_def is_perfmon_enabled_def td_is_set_def TD_DEBUG_def TD_PKS_def
  TD_SEPT_VE_DISABLE_def TD_MIGRATABLE_def TD_KL_def TD_PERFMON_def

lemma td_debug_pks_text:
  "\<exists>h. td_debug_fmt (TdAttributes (TD_DEBUG OR TD_PKS)) = h @ ''DEBUG'' @ ''|PKS'' @ ''])''"
  by (simp add: td_debug_fmt_def Let_def td_flag_defs)

lemma td_attributes_tests_pass: "all_pass td_attributes_tests"
proof -
  obtain h where h: "td_debug_fmt (TdAttributes (TD_DEBUG OR TD_PKS)) = h @ ''DEBUG'' @ ''|PKS'' @ ''])''"
    using td_debug_pks_text by blast
  have "str_contains (td_debug_fmt (TdAttributes (TD_DEBUG OR TD_PKS))) ''DEBUG''"
    unfolding str_contains_iff h by blast
  moreover have "td_debug_fmt (TdAttributes (TD_DEBUG OR TD_PKS)) = (h @ ''DEBUG|'') @ ''PKS'' @ ''])''"
    by (simp add: h)
  then have "str_contains (td_debug_fmt (TdAttributes (TD_DEBUG OR TD_PKS))) ''PKS''"
    unfolding str_contains_iff by blast
  ultimately show ?thesis
    by (simp add: td_attributes_tests_def Let_def td_as_bytes_def td_from_bytes_def
        from_le_bytes_to_le_bytes) (simp add: td_flag_defs from_le_bytes_def)
qed

lemma detect_tests_pass: "all_pass detect_tests"
  unfolding detect_tests_def by (simp add: detect_tee_type_def sample_crates_def)

lemma client_tests_pass: "all_pass client_tests"
  by (simp add: client_tests_def client_new_def client_with_config_def)

section \<open>The session registry\<close>

text \<open>\<open>t n\<close> is the clock's \<open>n\<close>-th reading in a test and \<open>c n\<close> the \<open>n\<close>-th random challenge.\<close>

definition registry_tests :: "(nat \<Rightarrow> instant) \<Rightarrow> (nat \<Rightarrow> bytes) \<Rightarrow> utc \<Rightarrow> test_run" where
  "registry_tests t c utc_now =
     (let instance_id = InstanceId (replicate 32 0xAB);
          first = register (t 0) (t 1) (c 0) registry_new instance_id ''guardian'' ''abc123'' Tdx;
          state = Verified ''abc123'' ''UpToDate'' Tdx utc_now
      in [(''test_register_and_get_challenge'',
             unwrap_then (fst first) (\<lambda>(challenge, is_new).
               is_new \<and> length challenge = 32 \<and>
               get_pending_challenge (t 2) (snd first) instance_id = Some challenge)),
          (''test_register_returns_existing_challenge'',
             unwrap_then (fst first) (\<lambda>(challenge1, is_new1).
               is_new1 \<and>
               unwrap_then (fst (register (t 2) (t 3) (c 1) (snd first) instance_id ''guardian''
                                   ''abc123'' Tdx)) (\<lambda>(challenge2, is_new2).
                 \<not> is_new2 \<and> challenge1 = challenge2))),
          (''test_register_rejects_verified_instance'',
             unwrap_then (fst first) (\<lambda>_.
               let r1 = snd (complete_verification (snd first) instance_id state)
               in is_err (fst (register (t 2) (t 3) (c 1) r1 instance_id ''guardian'' ''abc123'' Tdx)))),
          (''test_complete_verification'',
             unwrap_then (fst first) (\<lambda>_.
               let (r, r1) = complete_verification (snd first) instance_id state
               in r \<noteq> None \<and> is_verified r1 instance_id \<and>
                  get_pending_challenge (t 2) r1 instance_id = None)),
          (''test_revoke'',
             unwrap_then (fst first) (\<lambda>_.
               let r1 = snd (complete_verification (snd first) instance_id state)
               in is_verified r1 instance_id \<and>
                  (let (revoked, r2) = revoke r1 instance_id ''test revocation''
                   in revoked \<and> \<not> is_verified r2 instance_id))),
          (''test_event_subscription'',
             unwrap_then (fst first) (\<lambda>_.
               case pr_events (snd first) of
                 event # _ \<Rightarrow>
                   (case event of EvRegistered _ _ _ _ \<Rightarrow> True | _ \<Rightarrow> False) \<and>
                   event_namespace event = ''guardian''
               | [] \<Rightarrow> False)),
          (''test_get_verified_by_namespace'',
             let instance1 = InstanceId (replicate 32 1); instance2 = InstanceId (replicate 32 2);
                 instance3 = InstanceId (replicate 32 3);
                 s1 = register (t 0) (t 1) (c 0) registry_new instance1 ''guardian'' ''hash1'' Tdx
             in unwrap_then (fst s1) (\<lambda>_.
                  let s2 = register (t 2) (t 3) (c 1) (snd s1) instance2 ''guardian'' ''hash2'' Tdx
                  in unwrap_then (fst s2) (\<lambda>_.
                       let s3 = register (t 4) (t 5) (c 2) (snd s2) instance3 ''k8s-prod'' ''hash3'' Tdx
                       in unwrap_then (fst s3) (\<lambda>_.
                            let verified_state = Verified ''hash'' ''UpToDate'' Tdx utc_now;
                                r1 = snd (complete_verification (snd s3) instance1 verified_state);
                                r2 = snd (complete_verification r1 instance2 verified_state);
                                r3 = snd (complete_verification r2 instance3 verified_state)
                            in card (get_verified_by_namespace r3 ''guardian'') = 2 \<and>
                               card (get_verified_by_namespace r3 ''k8s-prod'') = 1))))])"

section \<open>Trusted peers\<close>

text \<open>The singleton cell as a test leaves it, and the registry a test starts with.\<close>

definition init_or_get :: "trusted_cell \<Rightarrow> trusted_nodes" where
  "init_or_get cell = (case cell of None \<Rightarrow> Map.empty | Some t \<Rightarrow> t)"

definition test_addr :: "16 word \<Rightarrow> socket_addr" where
  "test_addr port = SocketAddr (V4 (Ipv4Addr 192 168 1 100)) port"

definition get_clean_registry :: "trusted_cell \<Rightarrow> trusted_nodes" where
  "get_clean_registry cell = trusted_clear (init_or_get cell)"

text \<open>\<open>order\<close> is the order in which the ten tasks of the last test run.\<close>

definition trusted_tests :: "trusted_cell \<Rightarrow> NodeId list \<Rightarrow> test_run" where
  "trusted_tests cell order =
     (let registry = get_clean_registry cell;
          marked = mark_trusted registry 1 (test_addr 8444) (test_addr 8443)
      in [(''test_singleton_init_or_get'',
             trusted_count registry = 0 \<and> trusted_count (init_or_get (Some registry)) = 0),
          (''test_mark_trusted'', is_trusted marked 1 \<and> trusted_count marked = 1),
          (''test_is_not_trusted'', \<not> is_trusted registry 999),
          (''test_revoke_trust'', is_trusted marked 1 \<and> \<not> is_trusted (revoke_trust marked 1) 1),
          (''test_get_trusted_nodes'',
             let r = mark_trusted (mark_trusted marked 2 (test_addr 8444) (test_addr 8443))
                       3 (test_addr 8444) (test_addr 8443);
                 trusted = get_trusted_nodes r
             in length trusted = 3 \<and> 1 \<in> set trusted \<and> 2 \<in> set trusted \<and> 3 \<in> set trusted),
          (''test_get_addresses'',
             let raft_addr = SocketAddr (V4 (Ipv4Addr 192 168 1 100)) 8444;
                 api_addr = SocketAddr (V4 (Ipv4Addr 192 168 1 100)) 8443;
                 r = mark_trusted registry 1 raft_addr api_addr
             in get_raft_addr r 1 = Some raft_addr \<and> get_api_addr r 1 = Some api_addr \<and>
                map_len (get_raft_addresses r) = 1 \<and> get_raft_addresses r 1 = Some raft_addr),
          (''test_update_addresses'',
             let addr1 = SocketAddr (V4 (Ipv4Addr 192 168 1 100)) 8444;
                 addr2 = SocketAddr (V4 (Ipv4Addr 192 168 1 101)) 8444;
                 r1 = mark_trusted registry 1 addr1 addr1;
                 r2 = mark_trusted r1 1 addr2 addr2
             in get_raft_addr r1 1 = Some addr1 \<and> get_raft_addr r2 1 = Some addr2 \<and>
                trusted_count r2 = 1),
          (''test_clear_registry'',
             let r = mark_trusted marked 2 (test_addr 8444) (test_addr 8443);
                 cleared = trusted_clear r
             in trusted_count r = 2 \<and> trusted_count cleared = 0 \<and> \<not> is_trusted cleared 1),
          (''test_concurrent_modifications'',
             let mark = (\<lambda>r i. mark_trusted r i (SocketAddr (V4 (Ipv4Addr 192 168 1 (ucast i))) 8444)
                                 (SocketAddr (V4 (Ipv4Addr 192 168 1 (ucast i))) 8443))
             in trusted_count (foldl mark registry order) = 10)])"

section \<open>Gossip\<close>

definition gossip_types_tests :: "'j crates \<Rightarrow> 64 word \<Rightarrow> nat \<Rightarrow> test_run" where
  "gossip_types_tests x stamp now =
     (let raft = SocketAddr (V4 (Ipv4Addr 192 168 1 20)) 8444;
          api = SocketAddr (V4 (Ipv4Addr 192 168 1 20)) 8443
      in [(''test_peer_advertisement_validate_format'',
             is_ok (validate_format x now
               (advertisement_new stamp 123456 raft api (replicate 64 CHR ''a'')
                  (replicate 64 CHR ''b'') []))),
          (''test_peer_advertisement_invalid_instance_id'',
             is_err (validate_format x now
               (advertisement_new stamp 123456 raft api (replicate 64 CHR ''a'') ''short'' []))),
          (''test_peer_advertisement_invalid_measurement_hash'',
             is_err (validate_format x now
               (advertisement_new stamp 123456 raft api ''zzzz'' (replicate 64 CHR ''b'') [])))])"

definition cache_tests :: "64 word \<Rightarrow> (nat \<Rightarrow> instant) \<Rightarrow> test_run" where
  "cache_tests stamp t =
     (let advert = (\<lambda>ip h i. advertisement_new stamp 123456 (SocketAddr (V4 ip) 8444)
                               (SocketAddr (V4 ip) 8443) (replicate 64 h) (replicate 64 i) []);
          ad = advert (Ipv4Addr 192 168 1 20) CHR ''a'' CHR ''b''
      in [(''test_gossip_cache_add_and_get'',
             case cache_get (add_verified (t 0) cache_new ad) 123456 of
               Some result \<Rightarrow> ad_node_id result = 123456 | None \<Rightarrow> False),
          (''test_gossip_cache_newer_replaces_older'',
             let ad_old = ad\<lparr> ad_timestamp := 1000 \<rparr>;
                 ad_new = (advert (Ipv4Addr 192 168 1 21) CHR ''c'' CHR ''d'')\<lparr> ad_timestamp := 2000 \<rparr>;
                 peers = add_verified (t 1) (add_verified (t 0) cache_new ad_old) ad_new
             in case cache_get peers 123456 of
                  Some result \<Rightarrow> ad_measurement_hash result = replicate 64 CHR ''c''
                | None \<Rightarrow> False),
          (''test_gossip_cache_contains'',
             \<not> cache_contains cache_new 123456 \<and>
             cache_contains (add_verified (t 0) cache_new ad) 123456)])"

definition node_id_tests :: test_run where
  "node_id_tests =
     [(''test_ip_to_node_id_deterministic'',
         let ip = Ipv4Addr 192 168 1 100; id1 = ip_to_node_id ip; id2 = ip_to_node_id ip
         in id1 = id2),
      (''test_ip_to_node_id_different'',
         let ip1 = Ipv4Addr 192 168 1 100; ip2 = Ipv4Addr 192 168 1 101;
             id1 = ip_to_node_id ip1; id2 = ip_to_node_id ip2
         in id1 \<noteq> id2)]"

section \<open>They pass\<close>

lemma registry_tests_pass:
  assumes "within_expiry t" "length (c 0) = 32"
  shows "all_pass (registry_tests t c utc_now)"
proof -
  have le: "t 2 \<le> t 1 + 60" by (rule within_expiryD [OF assms(1)])
  have keep: "{r. (r = a \<or> Q r) \<and> P r} = (if P a then insert a {r. Q r \<and> P r} else {r. Q r \<and> P r})"
    for a :: TeeRecord and P Q by auto
  define i where "i = InstanceId (replicate 32 0xAB)"
  define i1 where "i1 = InstanceId (replicate 32 1)"
  define i2 where "i2 = InstanceId (replicate 32 2)"
  define i3 where "i3 = InstanceId (replicate 32 3)"
  have ne: "i1 \<noteq> i2" "i1 \<noteq> i3" "i2 \<noteq> i3" by (simp_all add: i1_def i2_def i3_def)
  show ?thesis
    unfolding registry_tests_def Let_def i_def [symmetric] i1_def [symmetric] i2_def [symmetric]
      i3_def [symmetric]
    using assms(2) le ne ne [symmetric]
    by (simp add: Let_def register_def registry_new_def registry_with_config_def
        DEFAULT_CHALLENGE_EXPIRY_def send_event_def get_pending_challenge_def new_pending_def
        get_valid_challenge_def complete_verification_def is_verified_def revoke_def
        get_verified_by_namespace_def map_remove_apply keep Collect_conv_if)
qed

lemma trusted_tests_pass:
  assumes "distinct order" "set order = word_of_nat ` {..<10}"
  shows "all_pass (trusted_tests cell order)"
proof -
  have one: "dom (\<lambda>n :: NodeId. map_option f (if n = 1 then Some v else None)) = {1}" 
    for f :: "PeerInfo \<Rightarrow> socket_addr" and v by (auto split: if_splits)
  have marks: "dom (foldl (\<lambda>r i. mark_trusted r i (f i) (g i)) m is) = dom m \<union> set is" for f g m "is"
    by (induction "is" arbitrary: m) (auto simp: mark_trusted_def)
  have "inj_on (word_of_nat :: nat \<Rightarrow> NodeId) {..<10}"
    by (rule inj_onI) (simp add: word_of_nat_eq_iff take_bit_nat_eq_self)
  then have "card (set order) = 10" by (simp add: assms(2) card_image)
  then show ?thesis
    by (simp add: trusted_tests_def Let_def get_clean_registry_def init_or_get_def trusted_clear_def
        trusted_count_def map_len_def marks get_trusted_nodes_def get_raft_addresses_def)
      (simp add: mark_trusted_def is_trusted_def revoke_trust_def get_raft_addr_def get_api_addr_def one)
qed

lemma gossip_types_tests_pass:
  assumes "hex_decode x = sample_hex_decode" "unat stamp \<le> now + 300"
  shows "all_pass (gossip_types_tests x stamp now)"
proof -
  have "sample_hex_decode (replicate 64 CHR ''a'') = Inr (replicate 32 0xAA)"
    "sample_hex_decode (replicate 64 CHR ''b'') = Inr (replicate 32 0xBB)"
    by code_simp+
  then show ?thesis
    using assms by (simp add: gossip_types_tests_def Let_def advertisement_new_def validate_format_def)
qed

lemma cache_tests_pass: "all_pass (cache_tests stamp t)"
  by (simp add: cache_tests_def Let_def advertisement_new_def add_verified_def cache_new_def
      cache_get_def cache_contains_def)

lemma node_id_tests_pass: "all_pass node_id_tests"
  by (simp add: node_id_tests_def Let_def ip_to_node_id_inject)

end
