(* ===== verification/Node_Tests.thy ===== *)
theory Node_Tests
  imports Registry_Tests Api_Server Guardian_Node Sensitive Logging Metrics Certificates
begin

text \<open>
  The unit tests of the crates \<open>common\<close>, \<open>consensus\<close>, \<open>guardian\<close> and \<open>certificates\<close>, run on the model in
  the way of the tests of the peer registry. The lemma on a module says what its run depends on: the
  test of the key limit of the log context passes when the rate limiter, once it refuses a call, refuses
  the calls that follow.
\<close>

section \<open>Common\<close>

definition hex_ip_tests :: test_run where
  "hex_ip_tests =
     [(''test_parse_hex_ip'',
         unwrap_then (parse_hex_ip ''c0a87a14'') (\<lambda>ip. ip = Ipv4Addr 192 168 122 20) \<and>
         unwrap_then (parse_hex_ip ''0a000001'') (\<lambda>ip. ip = Ipv4Addr 10 0 0 1) \<and>
         unwrap_then (parse_hex_ip ''7f000001'') (\<lambda>ip. ip = Ipv4Addr 127 0 0 1) \<and>
         unwrap_then (parse_hex_ip ''ffffffff'') (\<lambda>ip. ip = Ipv4Addr 255 255 255 255)),
      (''test_parse_hex_ip_invalid_length'',
         parse_hex_ip ''c0a8'' = Err (InvalidHexLength 4) \<and>
         parse_hex_ip ''c0a87a14ff'' = Err (InvalidHexLength 10) \<and>
         parse_hex_ip [] = Err (InvalidHexLength 0)),
      (''test_parse_hex_ip_invalid_hex'',
         (case parse_hex_ip ''zzzzzzzz'' of Err (HexParseError _) \<Rightarrow> True | _ \<Rightarrow> False) \<and>
         (case parse_hex_ip ''c0a87a1g'' of Err (HexParseError _) \<Rightarrow> True | _ \<Rightarrow> False))]"

text \<open>The JSON text of a byte array is a string, which the JSON library writes and reads back unchanged.\<close>

definition bytes_tests :: "'j crates \<Rightarrow> test_run" where
  "bytes_tests x =
     [(''test_bytes48_roundtrip'',
         unwrap_then (deserialize_bytes x 48 (serialize_bytes x (replicate 48 42)))
           (\<lambda>restored. replicate 48 42 = restored)),
      (''test_bytes32_roundtrip'',
         unwrap_then (deserialize_bytes x 32 (serialize_bytes x (replicate 32 42)))
           (\<lambda>restored. replicate 32 42 = restored)),
      (''test_bytes48_hex_prefix'',
         unwrap_then (deserialize_bytes x 48 (''0x'' @ concat (replicate 48 ''00'')))
           (\<lambda>restored. replicate 48 0 = restored)),
      (''test_bytes64_roundtrip'',
         unwrap_then (deserialize_bytes x 64 (serialize_bytes x (replicate 64 42)))
           (\<lambda>restored. replicate 64 42 = restored)),
      (''test_bytes64_hex_prefix'',
         unwrap_then (deserialize_bytes x 64 (''0x'' @ concat (replicate 64 ''00'')))
           (\<lambda>restored. replicate 64 0 = restored))]"

definition health_of :: "NodeStatus \<Rightarrow> 64 word \<Rightarrow> nat \<Rightarrow> NodeId list \<Rightarrow> HealthResponse" where
  "health_of status trm cluster_size trusted_peers =
     \<lparr> hp_node_id = 123, hp_status = status, hp_term = trm, hp_cluster_size = cluster_size,
       hp_trusted_peers = trusted_peers \<rparr>"

definition api_types_tests :: test_run where
  "api_types_tests =
     [(''test_node_status_display'',
         show_node_status StBootstrapping = ''BOOTSTRAPPING'' \<and>
         show_node_status StLearner = ''LEARNER'' \<and>
         show_node_status StFollower = ''FOLLOWER'' \<and>
         show_node_status StCandidate = ''CANDIDATE'' \<and>
         show_node_status StLeader = ''LEADER''),
      (''test_node_status_methods'',
         status_is_leader StLeader \<and> \<not> status_is_leader StFollower \<and>
         status_is_bootstrapping StBootstrapping \<and> \<not> status_is_bootstrapping StLeader \<and>
         status_in_cluster StLeader \<and> status_in_cluster StFollower \<and> status_in_cluster StLearner \<and>
         \<not> status_in_cluster StBootstrapping),
      (''test_health_response_is_leader'',
         let health = health_of StLeader 5 3 [456, 789]
         in health_is_leader health \<and> \<not> health_is_bootstrapping health \<and> health_in_cluster health),
      (''test_health_response_is_bootstrapping'',
         let health = health_of StBootstrapping 0 0 [456, 789]
         in \<not> health_is_leader health \<and> health_is_bootstrapping health \<and> \<not> health_in_cluster health),
      (''test_health_response_ready_for_bootstrap'',
         let ready = health_of StBootstrapping 0 0 [456, 789];
             in_cluster = health_of StFollower 5 3 [456, 789];
             not_enough = health_of StBootstrapping 0 0 [456]
         in ready_for_bootstrap ready 2 \<and> \<not> ready_for_bootstrap ready 3 \<and>
            \<not> ready_for_bootstrap in_cluster 2 \<and> \<not> ready_for_bootstrap not_enough 2),
      (''test_health_response_is_mutually_ready'',
         let health = health_of StBootstrapping 0 0 [456, 789]
         in is_mutually_ready health 456 2 \<and> \<not> is_mutually_ready health 999 2 \<and>
            \<not> is_mutually_ready health 456 3)]"

definition sensitive_tests :: "bytes memory \<Rightarrow> test_run" where
  "sensitive_tests m0 =
     (let (secret, m) = sensitive_new [1, 2, 3] m0
      in [(''test_sensitive_new'', expose secret m = Some [1, 2, 3]),
          (''test_sensitive_debug_redacts'',
             let debug_str = sensitive_debug secret m
             in debug_str = ''Sensitive<REDACTED>'' \<and> \<not> str_contains debug_str ''1'' \<and>
                \<not> str_contains debug_str ''2'' \<and> \<not> str_contains debug_str ''3''),
          (''test_sensitive_expose_mut'',
             expose secret (expose_mut secret (\<lambda>d. d @ [4]) m) = Some [1, 2, 3, 4]),
          (''test_sensitive_into_inner'',
             case into_inner secret m of
               (Some p, m') \<Rightarrow> mem_cells m' p = Some [1, 2, 3]
             | (None, m') \<Rightarrow> False),
          (''test_sensitive_prevents_logging'',
             let (secret2, m2) = sensitive_new [42, 43, 44] m0;
                 log_output = ''Got secret: '' @ sensitive_debug secret2 m2
             in \<not> str_contains log_output ''42'' \<and> \<not> str_contains log_output ''43'' \<and>
                \<not> str_contains log_output ''44'' \<and> str_contains log_output ''REDACTED'')])"

text \<open>\<open>allowed n\<close>: the rate limiter lets the \<open>n\<close>-th call pass. Its state is shared by the tests, which run side
  by side.\<close>

fun fill_keys :: "(nat \<Rightarrow> bool) \<Rightarrow> nat \<Rightarrow> log_context \<Rightarrow> log_context" where
  "fill_keys allowed 0 ctx = ctx"
| "fill_keys allowed (Suc i) ctx =
     snd (set_log_context (allowed i) (''key'' @ show_nat i) (Some (''value'' @ show_nat i))
            (fill_keys allowed i ctx))"

definition log_context_tests :: "(nat \<Rightarrow> bool) \<Rightarrow> log_context \<Rightarrow> test_run" where
  "log_context_tests allowed ctx0 =
     [(''test_rate_limiting'', is_ok (fst (set_log_context (allowed 0) ''rate-test-key'' None ctx0))),
      (''test_key_limit'',
         let filled = fill_keys allowed MAX_CONTEXT_KEYS Map.empty
         in is_err (fst (set_log_context (allowed MAX_CONTEXT_KEYS) ''overflow'' (Some ''value'') filled))),
      (''test_removal_bypasses_rate_limit'',
         let (r1, ctx1) = set_log_context (allowed 0) ''any-key'' None ctx0;
             (r2, ctx2) = set_log_context (allowed 1) ''any-key'' (Some []) ctx1
         in is_ok r1 \<and> is_ok r2)]"

definition initialise_twice :: "'g prometheus \<Rightarrow> init_call \<Rightarrow> 'g metrics_state \<Rightarrow> bool" where
  "initialise_twice prom c st =
     (let (result, st1) = run_init prom c st;
          (result2, st2) = run_init prom c st1
      in is_ok result \<and> is_ok result2)"

definition base_metrics_tests :: "'g prometheus \<Rightarrow> 'g metrics_state \<Rightarrow> test_run" where
  "base_metrics_tests prom st = [(''test_metrics_initialization'', initialise_twice prom InitBase st)]"

definition raft_metrics_tests :: "'g prometheus \<Rightarrow> 'g metrics_state \<Rightarrow> test_run" where
  "raft_metrics_tests prom st = [(''test_metrics_initialization'', initialise_twice prom InitRaft st)]"

definition gossip_metrics_tests :: "'g prometheus \<Rightarrow> 'g metrics_state \<Rightarrow> test_run" where
  "gossip_metrics_tests prom st =
     [(''test_gossip_metrics_initialization'',
         initialise_twice prom InitGossip (snd (init_metrics prom st)))]"

section \<open>Consensus\<close>

definition setup_test_router :: "trusted_cell \<Rightarrow> trusted_cell \<times> (Router, unit) outcome" where
  "setup_test_router cell =
     (let cell1 = Some (trusted_clear (init_or_get cell)) in (cell1, router_new cell1))"

definition router_addr :: "8 word \<Rightarrow> socket_addr" where
  "router_addr n = SocketAddr (V4 (Ipv4Addr 192 168 1 n)) 8444"

text \<open>The clones of a router share its map. \<open>swapped\<close>: the second task runs before the first.\<close>

definition router_new_tests :: "trusted_cell \<Rightarrow> test_run" where
  "router_new_tests cell =
     [(''test_router_new'', unwrap_then (snd (setup_test_router cell)) (\<lambda>router. map_len router = 0))]"

definition router_tests :: "trusted_cell \<Rightarrow> bool \<Rightarrow> test_run" where
  "router_tests cell swapped =
     (let (cell1, created) = setup_test_router cell
      in [(''test_add_node'',
             unwrap_then created (\<lambda>router.
               let nodes = router_add_node router 1 (router_addr 1)
               in map_len nodes = 1 \<and> nodes 1 = Some (router_addr 1))),
          (''test_add_multiple_nodes'',
             unwrap_then created (\<lambda>router.
               let nodes = router_add_node (router_add_node (router_add_node router 1 (router_addr 1))
                             2 (router_addr 2)) 3 (router_addr 3)
               in map_len nodes = 3 \<and> nodes 1 = Some (router_addr 1) \<and>
                  nodes 2 = Some (router_addr 2) \<and> nodes 3 = Some (router_addr 3))),
          (''test_add_node_updates_existing'',
             unwrap_then created (\<lambda>router.
               let addr2 = SocketAddr (V4 (Ipv4Addr 192 168 1 2)) 9999;
                   nodes = router_add_node (router_add_node router 1 (router_addr 1)) 1 addr2
               in map_len nodes = 1 \<and> nodes 1 = Some addr2)),
          (''test_remove_node'',
             unwrap_then created (\<lambda>router.
               map_len (router_remove_node (router_add_node router 1 (router_addr 1)) 1) = 0)),
          (''test_remove_nonexistent_node'',
             unwrap_then created (\<lambda>router. map_len (router_remove_node router 999) = 0)),
          (''test_concurrent_access'',
             unwrap_then created (\<lambda>router.
               let task1 = (\<lambda>r. router_add_node r 1 (router_addr 1));
                   task2 = (\<lambda>r. router_add_node r 2 (router_addr 2));
                   nodes = (if swapped then task1 (task2 router) else task2 (task1 router))
               in map_len nodes = 2))])"

definition trust_check_tests :: "trusted_cell \<Rightarrow> test_run" where
  "trust_check_tests cell =
     (let (cell1, created) = setup_test_router cell
      in [(''test_trust_check_untrusted_peer'',
             unwrap_then (trusted_get cell1) (\<lambda>registry. \<not> is_trusted registry 999)),
          (''test_trust_check_trusted_peer'',
             unwrap_then (trusted_get cell1) (\<lambda>registry.
               is_trusted (mark_trusted registry 123 (router_addr 123) (router_addr 123)) 123)),
          (''test_trust_revocation'',
             unwrap_then (trusted_get cell1) (\<lambda>registry.
               let marked = mark_trusted registry 123 (router_addr 123) (router_addr 123)
               in is_trusted marked 123 \<and> \<not> is_trusted (revoke_trust marked 123) 123)),
          (''test_router_uses_global_registry'',
             unwrap_then created (\<lambda>router. unwrap_then (trusted_get cell1) (\<lambda>registry.
               let cell2 = Some (mark_trusted registry 456 (router_addr 100) (router_addr 100))
               in unwrap_then (trusted_get cell2) (\<lambda>now. is_trusted now 456) \<and>
                  unwrap_then (router_new cell2) (\<lambda>router2.
                    unwrap_then (trusted_get cell2) (\<lambda>now. is_trusted now 456) \<and>
                    map_len (router_add_node router 1 (router_addr 1)) = 1 \<and>
                    map_len router2 = 0))))])"

definition coordinator_tests :: "nat \<Rightarrow> test_run" where
  "coordinator_tests now =
     [(''test_coordinator_state_display'',
         show_coordinator_state WaitingForPeers = ''WAITING_FOR_PEERS'' \<and>
         show_coordinator_state CheckingCluster = ''CHECKING_CLUSTER'' \<and>
         show_coordinator_state CoordinatingBootstrap = ''COORDINATING_BOOTSTRAP'' \<and>
         show_coordinator_state Bootstrapping = ''BOOTSTRAPPING'' \<and>
         show_coordinator_state (WaitingForBootstrap now) = ''WAITING_FOR_BOOTSTRAP'' \<and>
         show_coordinator_state (Joining now) = ''JOINING'' \<and>
         show_coordinator_state ClusterActive = ''CLUSTER_ACTIVE''),
      (''test_health_response_helpers'',
         let bootstrapping = health_of StBootstrapping 0 0 [456, 789];
             leader = health_of StLeader 5 3 [456, 789]
         in health_is_bootstrapping bootstrapping \<and> \<not> health_in_cluster bootstrapping \<and>
            ready_for_bootstrap bootstrapping 2 \<and> is_mutually_ready bootstrapping 456 2 \<and>
            \<not> is_mutually_ready bootstrapping 999 2 \<and>
            health_is_leader leader \<and> health_in_cluster leader \<and> \<not> ready_for_bootstrap leader 2)]"

definition raft_api_tests :: "nat option \<Rightarrow> test_run" where
  "raft_api_tests t =
     [(''test_raft_api_state_new'', (raft_api_state_new :: unit RaftApiState) = None),
      (''test_api_error_bad_request'', fst (into_response t (BadRequest ''test error'')) = 400),
      (''test_api_error_internal'', fst (into_response t (Internal ''test error'')) = 500),
      (''test_api_error_bootstrapping'', fst (into_response t Bootstrapping_Error) = 503)]"

definition consensus_error_tests :: test_run where
  "consensus_error_tests =
     [(''test_consensus_error_display'',
         show_consensus_error (CeStorage ''disk full'') = ''Storage error: disk full''),
      (''test_consensus_error_network'',
         show_consensus_error (CeNetwork ''connection refused'') = ''Network error: connection refused''),
      (''test_consensus_error_config'',
         show_consensus_error (CeConfig ''invalid port'') = ''Configuration error: invalid port'')]"

section \<open>The guardian and the certificates\<close>

definition api_state_tests :: test_run where
  "api_state_tests =
     [(''test_api_state_new'', ap_node_id (api_state_new 123 :: unit ApiState) = 123)]"

definition oid_tests :: "(string \<Rightarrow> string option) \<Rightarrow> test_run" where
  "oid_tests known =
     [(''test_registry_lookup'',
         TEE_OID_REGISTRY known ''1.2.840.113741.1.13.1.4'' = Some ''FMSPC'' \<and>
         TEE_OID_REGISTRY known ''1.3.6.1.4.1.3704.1.3.3'' = Some ''SnpSpl''),
      (''test_platform_detection'',
         is_tee_oid ''1.2.840.113741.1.13.1.4'' \<and> is_tee_oid ''1.3.6.1.4.1.3704.1.4'' \<and>
         \<not> is_tee_oid ''2.5.29.14'')]"

section \<open>They pass\<close>

lemma hex_ip_tests_pass: "all_pass hex_ip_tests"
  unfolding hex_ip_tests_def by code_simp

lemma bytes_tests_pass:
  assumes "hex_lower_digits x" and "hex_round_trip x" and "hex_encode x = sample_hex_encode"
  shows "all_pass (bytes_tests x)"
proof -
  have there: "deserialize_bytes x (length b) (serialize_bytes x b) = Ok b"
    and prefixed: "deserialize_bytes x (length b) (''0x'' @ hex_encode x b) = Ok b" for b
    using assms(2) strip_0x_hex [OF assms(1), of b]
    by (simp_all add: deserialize_bytes_def serialize_bytes_def to_hex_def hex_round_trip_def
        from_slice_def copy_from_slice_def)
  have zeros: "hex_encode x (replicate n 0) = concat (replicate n ''00'')" for n
  proof -
    have "digit_char 0 = CHR ''0''" by code_simp
    then show ?thesis by (simp add: assms(3) sample_hex_encode_def)
  qed
  show ?thesis
    using there [of "replicate 48 42"] there [of "replicate 32 42"] there [of "replicate 64 42"]
      prefixed [of "replicate 48 0"] prefixed [of "replicate 64 0"]
    unfolding bytes_tests_def zeros by (simp only: all_pass_simps unwrap_then_Ok length_replicate)
qed

lemma api_types_tests_pass: "all_pass api_types_tests"
  by (simp add: api_types_tests_def Let_def health_of_def health_is_leader_def health_is_bootstrapping_def
      health_in_cluster_def ready_for_bootstrap_def is_mutually_ready_def)

lemma sensitive_tests_pass: "all_pass (sensitive_tests m)"
  by (simp add: sensitive_tests_def sensitive_new_def mem_store_def expose_def expose_mut_def into_inner_def
      Let_def sensitive_debug_def) code_simp

lemma fill_keys_dom:
  assumes "\<And>i. i < n \<Longrightarrow> allowed i" and "n \<le> MAX_CONTEXT_KEYS"
  shows "dom (fill_keys allowed n Map.empty) = (\<lambda>i. ''key'' @ show_nat i) ` {..<n}"
  using assms
proof (induction n)
  case (Suc n)
  let ?key = "\<lambda>i. ''key'' @ show_nat i"
  let ?ctx = "fill_keys allowed n Map.empty"
  have dom: "dom ?ctx = ?key ` {..<n}" using Suc by simp
  have "inj_on ?key {..<n}" by (rule inj_onI) (simp add: show_nat_inj)
  then have "map_len ?ctx < MAX_CONTEXT_KEYS"
    using Suc.prems(2) by (simp add: map_len_def dom card_image)
  then have "fill_keys allowed (Suc n) Map.empty = ?ctx(?key n \<mapsto> ''value'' @ show_nat n)"
    using Suc.prems(1) [of n] by (simp add: set_log_context_def)
  then have "dom (fill_keys allowed (Suc n) Map.empty) = insert (?key n) (dom ?ctx)" by simp
  then show ?case by (simp only: dom lessThan_Suc image_insert)
qed simp

lemma log_context_tests_pass:
  assumes "allowed MAX_CONTEXT_KEYS \<Longrightarrow> \<forall>i < MAX_CONTEXT_KEYS. allowed i"
  shows "all_pass (log_context_tests allowed ctx)"
proof -
  let ?filled = "fill_keys allowed MAX_CONTEXT_KEYS Map.empty"
  have "?filled ''overflow'' = None \<and> MAX_CONTEXT_KEYS \<le> map_len ?filled" if "allowed MAX_CONTEXT_KEYS"
  proof -
    have dom: "dom ?filled = (\<lambda>i. ''key'' @ show_nat i) ` {..<MAX_CONTEXT_KEYS}"
      using assms [OF that] by (intro fill_keys_dom) simp_all
    have "inj_on (\<lambda>i. ''key'' @ show_nat i) {..<MAX_CONTEXT_KEYS}" by (rule inj_onI) (simp add: show_nat_inj)
    then have "map_len ?filled = MAX_CONTEXT_KEYS" by (simp add: map_len_def dom card_image)
    moreover have "''overflow'' \<notin> dom ?filled" by (auto simp: dom)
    ultimately show ?thesis by (simp add: domIff)
  qed
  then show ?thesis by (cases "allowed MAX_CONTEXT_KEYS") (simp_all add: log_context_tests_def Let_def set_log_context_def)
qed

lemma initialise_twice_ok:
  assumes "prometheus_faithful prom names" and "metrics_inv names st"
  shows "initialise_twice prom c st"
proof -
  obtain st1 where 1: "run_init prom c st = (Ok (), st1)" "metrics_inv names st1"
    using run_init_inv [OF assms, of c] by blast
  obtain st2 where "run_init prom c st1 = (Ok (), st2)"
    using run_init_inv [OF assms(1) 1(2), of c] by blast
  with 1 show ?thesis by (simp add: initialise_twice_def)
qed

lemma metrics_tests_pass:
  assumes "prometheus_faithful prom names" and "metrics_inv names st"
  shows "all_pass (base_metrics_tests prom st @ raft_metrics_tests prom st @ gossip_metrics_tests prom st)"
proof -
  have "metrics_inv names (snd (init_metrics prom st))"
    using run_init_inv [OF assms, of InitBase] by auto
  then show ?thesis
    using initialise_twice_ok [OF assms(1)] assms(2)
    by (simp add: base_metrics_tests_def raft_metrics_tests_def gossip_metrics_tests_def)
qed

lemma router_new_tests_pass: "all_pass (router_new_tests cell)"
  by (simp add: router_new_tests_def setup_test_router_def Let_def router_new_def trusted_get_def map_len_def)

lemma router_tests_pass: "all_pass (router_tests cell swapped)"
  by (simp add: router_tests_def setup_test_router_def Let_def router_new_def trusted_get_def router_add_node_def
      router_remove_node_def map_len_def)

lemma trust_check_tests_pass: "all_pass (trust_check_tests cell)"
  by (simp add: trust_check_tests_def setup_test_router_def Let_def router_new_def trusted_get_def trusted_clear_def
     router_add_node_def is_trusted_def mark_trusted_def revoke_trust_def map_len_def)

lemma coordinator_tests_pass: "all_pass (coordinator_tests now)"
  by (simp add: coordinator_tests_def Let_def health_of_def health_is_leader_def health_is_bootstrapping_def
      health_in_cluster_def ready_for_bootstrap_def is_mutually_ready_def)

lemma raft_api_tests_pass: "all_pass (raft_api_tests t)"
  by (simp add: raft_api_tests_def raft_api_state_new_def into_response_def)

lemma consensus_error_tests_pass: "all_pass consensus_error_tests"
  by (simp add: consensus_error_tests_def)

lemma api_state_tests_pass: "all_pass api_state_tests"
  by (simp add: api_state_tests_def api_state_new_def)

lemma oid_tests_pass: "all_pass (oid_tests known)"
  by (simp add: oid_tests_def TEE_OID_REGISTRY_def is_tee_oid_def tee_oid_names_def INTEL_SGX_OID_PREFIX_def AMD_SEV_OID_PREFIX_def)

end
