(* ===== verification/Storage_Tests.thy ===== *)
theory Storage_Tests
  imports Registry_Tests Raft_Log "HOL-Library.Countable"
begin

text \<open>
  The unit tests of the persistent store, \<open>consensus/src/persistent_storage.rs\<close>, run on the model: a
  temporary directory is an empty file system on which no operation fails, and creating a second store
  on it reads the directory again. The constructors of the RAFT library and the directory listing are
  arguments. The tests pass for every library whose values and serialisers behave as documented, and
  there is one.
\<close>

section \<open>The tests\<close>

text \<open>\<open>rv_vote\<close> is \<open>Vote::new_committed\<close>, \<open>rv_log_id\<close> a log identity from term, node and index; the others
  are blank and membership entries, and the voters of a stored membership.\<close>

record ('v, 'l, 'e, 'm) raft_values =
  rv_vote :: "64 word \<Rightarrow> NodeId \<Rightarrow> 'v"
  rv_log_id :: "64 word \<Rightarrow> NodeId \<Rightarrow> 64 word \<Rightarrow> 'l"
  rv_blank :: "'l \<Rightarrow> 'e"
  rv_membership :: "'l \<Rightarrow> NodeId list \<Rightarrow> 'e"
  rv_voters :: "'m \<Rightarrow> NodeId list"

definition blank_entry :: "('v, 'l, 'e, 'm) raft_values \<Rightarrow> 64 word \<Rightarrow> 64 word \<Rightarrow> 'e" where
  "blank_entry V trm index = rv_blank V (rv_log_id V trm 1 index)"

definition membership_entry :: "('v, 'l, 'e, 'm) raft_values \<Rightarrow> 64 word \<Rightarrow> 64 word \<Rightarrow> NodeId list \<Rightarrow> 'e" where
  "membership_entry V trm index members = rv_membership V (rv_log_id V trm 1 index) members"

definition append_entries_for_test ::
  "('v, 'l, 'e, 'p, 'm) raft_types \<Rightarrow> faults \<Rightarrow> 'e list \<Rightarrow> ('v, 'l, 'e, 'm) Store \<Rightarrow> file_system \<Rightarrow>
   (unit, storage_error) outcome \<times> ('v, 'l, 'e, 'm) Store \<times> file_system" where
  "append_entries_for_test T faults entries s fs =
     (case append_entries T faults entries s fs of
        (Ok _, s', fs') \<Rightarrow> (let (r, fs'') = fsync_log_entries faults fs' in (r, s', fs''))
      | other \<Rightarrow> other)"

text \<open>The state after an operation that is unwrapped, and a second store on its directory.\<close>

definition after ::
  "('a, 'e) outcome \<times> 's \<times> file_system \<Rightarrow> ('a \<Rightarrow> 's \<Rightarrow> file_system \<Rightarrow> bool) \<Rightarrow> bool" where
  "after result k = (case result of (r, s, fs) \<Rightarrow> unwrap_then r (\<lambda>v. k v s fs))"

definition store_tests ::
  "('v, 'l, 'e, 'p, 'm) raft_types \<Rightarrow> ('v, 'l, 'e, 'm) raft_values \<Rightarrow> (file_system \<Rightarrow> string list) \<Rightarrow> test_run" where
  "store_tests T V ls =
     (let fs = empty_file_system;
          open_store = (\<lambda>fs. store_new T no_faults (ls fs) fs);
          entries = [blank_entry V 1 1, blank_entry V 1 2, blank_entry V 1 3];
          index = (\<lambda>e. log_index T (entry_log_id T e))
      in [(''test_vote_persistence'',
             unwrap_then (open_store fs) (\<lambda>store.
               after (save_vote T no_faults (rv_vote V 5 1) store fs) (\<lambda>_ _ fs1.
                 unwrap_then (open_store fs1) (\<lambda>store2. read_vote store2 \<noteq> None)))),
          (''test_committed_persistence'',
             unwrap_then (open_store fs) (\<lambda>store.
               let log_id = rv_log_id V 1 1 42
               in after (save_committed T no_faults (Some log_id) store fs) (\<lambda>_ _ fs1.
                    unwrap_then (open_store fs1) (\<lambda>store2. read_committed store2 = Some log_id)))),
          (''test_log_entry_persistence'',
             unwrap_then (open_store fs) (\<lambda>store.
               after (append_entries_for_test T no_faults entries store fs) (\<lambda>_ _ fs1.
                 unwrap_then (open_store fs1) (\<lambda>store2.
                   unwrap_then (try_get_log_entries store2 (Included 1) (Included 3)) (\<lambda>loaded.
                     length loaded = 3 \<and> index (loaded ! 0) = 1 \<and> index (loaded ! 1) = 2 \<and>
                     index (loaded ! 2) = 3))))),
          (''test_truncate'',
             unwrap_then (open_store fs) (\<lambda>store.
               after (append_entries_for_test T no_faults entries store fs) (\<lambda>_ store1 fs1.
                 after (store_truncate T no_faults (rv_log_id V 1 1 2) store1 fs1) (\<lambda>_ store2 fs2.
                   unwrap_then (try_get_log_entries store2 (Included 1) (Included 3)) (\<lambda>loaded.
                     length loaded = 1 \<and> index (loaded ! 0) = 1) \<and>
                   fs_now fs2 (LOGS_DIR @ ''00000002.bin'') = None \<and>
                   fs_now fs2 (LOGS_DIR @ ''00000003.bin'') = None)))),
          (''test_purge'',
             unwrap_then (open_store fs) (\<lambda>store.
               after (append_entries_for_test T no_faults entries store fs) (\<lambda>_ store1 fs1.
                 after (store_purge T no_faults (rv_log_id V 1 1 2) store1 fs1) (\<lambda>_ store2 fs2.
                   unwrap_then (try_get_log_entries store2 (Included 1) (Included 3)) (\<lambda>loaded.
                     length loaded = 1 \<and> index (loaded ! 0) = 3)))))])"

definition state_machine_tests ::
  "('v, 'l, 'e, 'p, 'm) raft_types \<Rightarrow> ('v, 'l, 'e, 'm) raft_values \<Rightarrow> (file_system \<Rightarrow> string list) \<Rightarrow> test_run" where
  "state_machine_tests T V ls =
     (let fs = empty_file_system;
          open_store = (\<lambda>fs. store_new T no_faults (ls fs) fs)
      in [(''test_state_machine_persistence'',
             unwrap_then (open_store fs) (\<lambda>store.
               after (store_apply T no_faults [membership_entry V 1 1 [1, 2, 3]] store fs) (\<lambda>_ _ fs1.
                 unwrap_then (open_store fs1) (\<lambda>store2.
                   case applied_state store2 of
                     (Some last_applied, membership) \<Rightarrow>
                       log_index T last_applied = 1 \<and> length (rv_voters V membership) > 0
                   | (None, membership) \<Rightarrow> False)))),
          (''test_snapshot_persistence'',
             unwrap_then (open_store fs) (\<lambda>store.
               after (store_apply T no_faults [blank_entry V 1 1] store fs) (\<lambda>_ store1 fs1.
                 after (build_snapshot T no_faults store1 fs1) (\<lambda>(meta, data) _ fs2.
                   sm_last_log_id meta \<noteq> None \<and>
                   unwrap_then (open_store fs2) (\<lambda>store2. get_current_snapshot store2 \<noteq> None)))))])"

definition filename_tests :: test_run where
  "filename_tests =
     [(''test_log_entry_filename'',
         log_entry_filename 1 = ''00000001.bin'' \<and> log_entry_filename 255 = ''000000ff.bin'' \<and>
         log_entry_filename 0xDEADBEEF = ''deadbeef.bin''),
      (''test_parse_log_index'',
         parse_log_index ''00000001.bin'' = Some 1 \<and> parse_log_index ''000000ff.bin'' = Some 255 \<and>
         parse_log_index ''deadbeef.bin'' = Some 0xDEADBEEF \<and> parse_log_index ''invalid.bin'' = None \<and>
         parse_log_index ''00000001.txt'' = None)]"

section \<open>Documented behaviour\<close>

text \<open>A directory listing names the files of the directory, of which there are finitely many.\<close>

definition lists_directory :: "(file_system \<Rightarrow> string list) \<Rightarrow> bool" where
  "lists_directory ls \<longleftrightarrow>
     (\<forall>fs. finite {name. fs_now fs (LOGS_DIR @ name) \<noteq> None} \<longrightarrow> lists_logs fs (ls fs))"

text \<open>The constructors of the RAFT library.\<close>

definition raft_values_faithful ::
  "('v, 'l, 'e, 'p, 'm) raft_types \<Rightarrow> ('v, 'l, 'e, 'm) raft_values \<Rightarrow> bool" where
  "raft_values_faithful T V \<longleftrightarrow>
     (\<forall>t n i. log_index T (rv_log_id V t n i) = i) \<and>
     (\<forall>l. entry_log_id T (rv_blank V l) = l \<and> payload_membership T (rv_blank V l) = None) \<and>
     (\<forall>l ms. entry_log_id T (rv_membership V l ms) = l \<and>
        (\<exists>p. payload_membership T (rv_membership V l ms) = Some p \<and>
             rv_voters V (stored_membership T (Some l) p) = ms)) \<and>
     (\<forall>l. log_id_le T None (Some l))"

text \<open>The values the tests store have an encoding.\<close>

definition serialisers_accept :: "('v, 'l, 'e, 'p, 'm) raft_types \<Rightarrow> bool" where
  "serialisers_accept T \<longleftrightarrow>
     (\<forall>v. \<exists>d. ser_vote T v = Inr d) \<and> (\<forall>c. \<exists>d. ser_committed T c = Inr d) \<and>
     (\<forall>e. \<exists>d. ser_entry T e = Inr d) \<and> (\<forall>m. sd_data m = Map.empty \<longrightarrow> (\<exists>d. ser_sm T m = Inr d)) \<and>
     (\<forall>m. \<exists>d. ser_meta T m = Inr d) \<and> (\<exists>d. ser_data T Map.empty = Inr d)"

text \<open>A library with both: log identities are indices, and a value is encoded by its number in an
  enumeration, a number by as many bytes.\<close>

definition unary :: "'a::countable \<Rightarrow> bytes" where
  "unary v = replicate (to_nat v) 0"

definition counted_types ::
  "(unit, 64 word, 64 word \<times> NodeId list option, NodeId list, NodeId list) raft_types" where
  "counted_types =
     \<lparr> entry_log_id = fst, log_index = (\<lambda>l. l), log_id_le = (\<lambda>a b. a = None \<or> b \<noteq> None \<and> the a \<le> the b),
       leader_text = (\<lambda>_. ''1''), payload_membership = snd, stored_membership = (\<lambda>_ p. p),
       default_membership = [],
       ser_vote = (\<lambda>v. Inr (unary v)), de_vote = (\<lambda>d. Inr (from_nat (length d))),
       ser_committed = (\<lambda>c. Inr (unary c)), de_committed = (\<lambda>d. Inr (from_nat (length d))),
       ser_entry = (\<lambda>e. Inr (unary e)), de_entry = (\<lambda>d. Inr (from_nat (length d))),
       ser_sm = (\<lambda>m. if sd_data m = Map.empty
                     then Inr (unary (sd_last_applied_log m, sd_last_membership m)) else Inl ''unsupported''),
       de_sm = (\<lambda>d. case from_nat (length d) of (l, mem) \<Rightarrow>
                  Inr \<lparr> sd_last_applied_log = l, sd_last_membership = mem, sd_data = Map.empty \<rparr>),
       ser_meta = (\<lambda>m. Inr (unary (sm_last_log_id m, sm_last_membership m, sm_snapshot_id m))),
       de_meta = (\<lambda>d. case from_nat (length d) of (l, mem, i) \<Rightarrow>
                    Inr \<lparr> sm_last_log_id = l, sm_last_membership = mem, sm_snapshot_id = i \<rparr>),
       ser_data = (\<lambda>_. Inr []), de_data = (\<lambda>_. Inr Map.empty) \<rparr>"

definition counted_values ::
  "(unit, 64 word, 64 word \<times> NodeId list option, NodeId list) raft_values" where
  "counted_values =
     \<lparr> rv_vote = (\<lambda>_ _. ()), rv_log_id = (\<lambda>_ _ i. i), rv_blank = (\<lambda>l. (l, None)),
       rv_membership = (\<lambda>l ms. (l, Some ms)), rv_voters = (\<lambda>m. m) \<rparr>"

lemma counted_library:
  "codecs_faithful counted_types" "raft_values_faithful counted_types counted_values"
  "serialisers_accept counted_types"
proof -
  show "codecs_faithful counted_types"
    by (auto simp: codecs_faithful_def counted_types_def unary_def split: if_splits)
qed (simp_all add: raft_values_faithful_def serialisers_accept_def counted_types_def counted_values_def)

section \<open>Operations without faults\<close>

lemma append_entries_ok:
  assumes "serialisers_accept T"
  shows "\<exists>s' fs'. append_entries T no_faults es s fs = (Ok (), s', fs')"
proof (induction es arbitrary: s fs)
  case (Cons e es)
  obtain d where "ser_entry T (log_index T (entry_log_id T e), e) = Inr d"
    using assms unfolding serialisers_accept_def by metis
  then show ?case using Cons by (simp add: persist_log_entry_def write_encoded_no_faults Let_def)
qed simp

lemma append_for_test_ok:
  assumes "serialisers_accept T" and "codecs_faithful T" and "persisted T (s, fs)"
    and "log = fold (\<lambda>e m. m(log_index T (entry_log_id T e) \<mapsto> e)) es (ps_log s)"
  obtains fs' where "append_entries_for_test T no_faults es s fs = (Ok (), s\<lparr> ps_log := log \<rparr>, fs')"
    "persisted T (s\<lparr> ps_log := log \<rparr>, fs')"
proof -
  obtain s1 fs1 where run: "append_entries T no_faults es s fs = (Ok (), s1, fs1)"
    using append_entries_ok [OF assms(1)] by blast
  have s1: "s1 = s\<lparr> ps_log := log \<rparr>" using append_entries_effect [OF run] assms(4) by simp
  have sync: "fsync_log_entries no_faults fs1 = (Ok (), sync_directory LOGS_DIR fs1)"
    by (simp add: fsync_log_entries_def no_faults_def)
  have "store_append T no_faults es s fs = (Ok (), s1, sync_directory LOGS_DIR fs1)"
    by (simp add: store_append_def run sync)
  from persisted_step [OF assms(3) store_step.Append [OF this] assms(2)]
  have "persisted T (s1, sync_directory LOGS_DIR fs1)" .
  moreover have "append_entries_for_test T no_faults es s fs = (Ok (), s1, sync_directory LOGS_DIR fs1)"
    by (simp add: append_entries_for_test_def run sync)
  ultimately show thesis unfolding s1 by (intro that)
qed

lemma remove_keys_ok: "\<exists>s' fs'. remove_keys no_faults ks s fs = (Ok (), s', fs')"
  by (induction ks arbitrary: s fs) (simp_all add: Let_def delete_log_entry_def no_faults_def)

lemma removed_file_gone:
  assumes "persisted T (s, fs)" and "ps_log s i = None"
  shows "fs_now fs (log_entry_path i) = None"
proof -
  have "files.holds (ser_entry T) fs (log_entry_path i) (map_option (Pair i) (ps_log s i))"
    using assms(1) by (simp add: persisted_def log_persisted_def)
  with assms(2) show ?thesis by (simp add: files.holds_def)
qed

lemma reopened:
  assumes "persisted T (s, fs)" and "codecs_faithful T" and "lists_directory ls"
  shows "unwrap_then (store_new T no_faults (ls fs) fs) k = k (s\<lparr> ps_last_purged_log_id := None, ps_snapshot_idx := 0 \<rparr>)"
proof -
  have "{name. fs_now fs (LOGS_DIR @ name) \<noteq> None} \<subseteq> range log_entry_filename"
    using assms(1) by (auto simp: persisted_def log_persisted_def)
  then have "finite {name. fs_now fs (LOGS_DIR @ name) \<noteq> None}" by (rule finite_subset) simp
  then have "lists_logs fs (ls fs)" using assms(3) by (simp add: lists_directory_def)
  from store_new_persisted [OF assms(1,2) this] show ?thesis by simp
qed

lemma persisted_empty: "persisted T (store_default T, empty_file_system)"
  by (simp add: persisted_def files.holds_def saved_or_def log_persisted_def store_default_def
      empty_file_system_def crash_sound_def crash_image_def)

lemma default_reopened [simp]:
  "(store_default T)\<lparr> ps_last_purged_log_id := None, ps_snapshot_idx := 0 \<rparr> = store_default T"
  by (simp add: store_default_def)

lemma sorted_indices: "sorted_list_of_set {1, 2, 3 :: 64 word} = [1, 2, 3]"
  "sorted_list_of_set {1 :: 64 word} = [1]" "sorted_list_of_set {3 :: 64 word} = [3]"
  "sorted_list_of_set {2, 3 :: 64 word} = [2, 3]" "sorted_list_of_set {1, 2 :: 64 word} = [1, 2]"
  by (simp_all add: sorted_list_of_set_insert_remove)

text \<open>Each operation succeeds and leaves the files in agreement with the store.\<close>

lemma save_vote_ok:
  assumes "serialisers_accept T" and "codecs_faithful T" and "persisted T (s, fs)"
  obtains fs' where "save_vote T no_faults v s fs = (Ok (), s\<lparr> ps_vote := Some v \<rparr>, fs')"
    "persisted T (s\<lparr> ps_vote := Some v \<rparr>, fs')"
proof -
  obtain d where "ser_vote T v = Inr d" using assms(1) by (metis serialisers_accept_def)
  then obtain fs' where run: "save_vote T no_faults v s fs = (Ok (), s\<lparr> ps_vote := Some v \<rparr>, fs')"
    by (simp add: save_vote_def persist_vote_def write_encoded_no_faults)
  show thesis by (rule that [OF run persisted_step [OF assms(3) store_step.SaveVote [OF run] assms(2)]])
qed

lemma save_committed_ok:
  assumes "serialisers_accept T" and "codecs_faithful T" and "persisted T (s, fs)"
  obtains fs' where "save_committed T no_faults c s fs = (Ok (), s\<lparr> ps_committed := c \<rparr>, fs')"
    "persisted T (s\<lparr> ps_committed := c \<rparr>, fs')"
proof -
  obtain d where "ser_committed T c = Inr d" using assms(1) by (metis serialisers_accept_def)
  then obtain fs' where run: "save_committed T no_faults c s fs = (Ok (), s\<lparr> ps_committed := c \<rparr>, fs')"
    by (simp add: save_committed_def persist_committed_def write_encoded_no_faults)
  show thesis by (rule that [OF run persisted_step [OF assms(3) store_step.SaveCommitted [OF run] assms(2)]])
qed

lemma store_truncate_ok:
  assumes "codecs_faithful T" and "persisted T (s, fs)" and "finite (dom (ps_log s))"
  obtains fs' where "store_truncate T no_faults l s fs =
      (Ok (), s\<lparr> ps_log := ps_log s |` {k. k < log_index T l} \<rparr>, fs')"
    "persisted T (s\<lparr> ps_log := ps_log s |` {k. k < log_index T l} \<rparr>, fs')"
proof -
  obtain s' fs' where run: "store_truncate T no_faults l s fs = (Ok (), s', fs')"
    using remove_keys_ok unfolding store_truncate_def by blast
  have "s' = s\<lparr> ps_log := ps_log s |` (- {k \<in> dom (ps_log s). log_index T l \<le> k}) \<rparr>"
    using remove_keys_effect [OF run [unfolded store_truncate_def]] assms(3) by simp
  moreover have "ps_log s |` (- {k \<in> dom (ps_log s). log_index T l \<le> k}) = ps_log s |` {k. k < log_index T l}"
    by (auto simp: restrict_map_def fun_eq_iff not_le)
  ultimately have s': "s' = s\<lparr> ps_log := ps_log s |` {k. k < log_index T l} \<rparr>" by simp
  show thesis
    by (rule that [OF run [unfolded s'] persisted_step [OF assms(2) store_step.Truncate [OF run] assms(1), unfolded s']])
qed

lemma store_purge_ok:
  assumes "log_id_le T (ps_last_purged_log_id s) (Some l)" and "finite (dom (ps_log s))"
  obtains fs' where "store_purge T no_faults l s fs =
      (Ok (), s\<lparr> ps_last_purged_log_id := Some l, ps_log := ps_log s |` {k. log_index T l < k} \<rparr>, fs')"
proof -
  obtain s' fs' where run: "store_purge T no_faults l s fs = (Ok (), s', fs')"
    using remove_keys_ok assms(1) unfolding store_purge_def by fastforce
  have "s' = s\<lparr> ps_last_purged_log_id := Some l,
      ps_log := ps_log s |` (- {k \<in> dom (ps_log s). k \<le> log_index T l}) \<rparr>"
    using run assms by (auto simp: store_purge_def dest: remove_keys_effect)
  moreover have "ps_log s |` (- {k \<in> dom (ps_log s). k \<le> log_index T l}) = ps_log s |` {k. log_index T l < k}"
    by (auto simp: restrict_map_def fun_eq_iff not_le)
  ultimately show thesis using that run by simp
qed

lemma store_apply_ok:
  assumes "serialisers_accept T" and "codecs_faithful T" and "persisted T (s, fs)"
    and "sd_data (ps_state_machine s) = Map.empty"
  obtains rs fs' where "store_apply T no_faults es s fs =
      (Ok rs, s\<lparr> ps_state_machine := fold (apply_entry T) es (ps_state_machine s) \<rparr>, fs')"
    "persisted T (s\<lparr> ps_state_machine := fold (apply_entry T) es (ps_state_machine s) \<rparr>, fs')"
proof -
  obtain d where "ser_sm T (fold (apply_entry T) es (ps_state_machine s)) = Inr d"
    using assms(1,4) apply_entries_data [of T es "ps_state_machine s"] by (metis serialisers_accept_def)
  then obtain rs fs' where run: "store_apply T no_faults es s fs =
      (Ok rs, s\<lparr> ps_state_machine := fold (apply_entry T) es (ps_state_machine s) \<rparr>, fs')"
    by (simp add: store_apply_def write_encoded_no_faults)
  show thesis by (rule that [OF run persisted_step [OF assms(3) store_step.Apply [OF run] assms(2)]])
qed

lemma build_snapshot_ok:
  assumes "serialisers_accept T" and "codecs_faithful T" and "persisted T (s, fs)"
    and "sd_data (ps_state_machine s) = Map.empty"
  obtains meta data s' fs' where "build_snapshot T no_faults s fs = (Ok (meta, data), s', fs')"
    "sm_last_log_id meta = sd_last_applied_log (ps_state_machine s)"
    "ps_current_snapshot s' = Some (meta, data)" "persisted T (s', fs')"
proof -
  obtain data where data: "ser_data T Map.empty = Inr data" using assms(1) by (metis serialisers_accept_def)
  define meta where "meta = \<lparr> sm_last_log_id = sd_last_applied_log (ps_state_machine s),
    sm_last_membership = sd_last_membership (ps_state_machine s),
    sm_snapshot_id = snapshot_id_text T (sd_last_applied_log (ps_state_machine s)) (ps_snapshot_idx s + 1) \<rparr>"
  obtain d where "ser_meta T meta = Inr d" using assms(1) by (metis serialisers_accept_def)
  then obtain fs' where "write_snapshot T no_faults meta data fs = (Ok (), fs')"
    by (simp add: write_snapshot_def write_encoded_no_faults)
  then have run: "build_snapshot T no_faults s fs = (Ok (meta, data),
      s\<lparr> ps_snapshot_idx := ps_snapshot_idx s + 1, ps_current_snapshot := Some (meta, data) \<rparr>, fs')"
    using data assms(4) by (simp add: build_snapshot_def Let_def meta_def [symmetric])
  show thesis
    by (rule that [OF run _ _ persisted_step [OF assms(3) store_step.BuildSnapshot [OF run] assms(2)]])
      (simp_all add: meta_def)
qed

section \<open>They pass\<close>

lemma hex_digits: "digit_char 1 = CHR ''1''" "digit_char 2 = CHR ''2''" "digit_char 3 = CHR ''3''"
  "digit_char 10 = CHR ''a''" "digit_char 11 = CHR ''b''" "digit_char 13 = CHR ''d''"
  "digit_char 14 = CHR ''e''" "digit_char 15 = CHR ''f''"
  by code_simp+

lemma filenames:
  "log_entry_filename 1 = ''00000001.bin''" "log_entry_filename 2 = ''00000002.bin''"
  "log_entry_filename 3 = ''00000003.bin''" "log_entry_filename 255 = ''000000ff.bin''"
  "log_entry_filename 0xDEADBEEF = ''deadbeef.bin''"
proof -
  have h: "show_hex (Suc 0) = ''1''" "show_hex 2 = ''2''" "show_hex 3 = ''3''" "show_hex 255 = ''ff''"
    "show_hex 0xDEADBEEF = ''deadbeef''"
    using hex_digits by (simp_all add: show_hex.simps)
  have z: "replicate 6 CHR ''0'' = ''000000''" "replicate 7 CHR ''0'' = ''0000000''"
    by (simp_all add: eval_nat_numeral)
  show "log_entry_filename 1 = ''00000001.bin''" "log_entry_filename 2 = ''00000002.bin''"
    "log_entry_filename 3 = ''00000003.bin''" "log_entry_filename 255 = ''000000ff.bin''"
    "log_entry_filename 0xDEADBEEF = ''deadbeef.bin''"
    by (simp_all add: log_entry_filename_def pad_left_def h z)
qed

lemma filename_tests_pass: "all_pass filename_tests"
proof -
  have parsed: "parse_log_index ''00000001.bin'' = Some 1" "parse_log_index ''000000ff.bin'' = Some 255"
    "parse_log_index ''deadbeef.bin'' = Some 0xDEADBEEF"
    using parse_log_entry_filename [of 1] parse_log_entry_filename [of 255]
      parse_log_entry_filename [of "0xDEADBEEF"] by (simp_all add: filenames)
  have "strip_suffix_str ''.bin'' ''invalid.bin'' = Some ''invalid''" "digit_val 16 CHR ''i'' = None"
    "strip_suffix_str ''.bin'' ''00000001.txt'' = None"
    by code_simp+
  then have "parse_log_index ''invalid.bin'' = None" "parse_log_index ''00000001.txt'' = None"
    by (simp_all add: parse_log_index_def parse_unsigned_def)
  then show ?thesis by (simp add: filename_tests_def filenames parsed)
qed

lemma read_one_to_three:
  "ps_log s = [1 \<mapsto> a, 2 \<mapsto> b, 3 \<mapsto> c] \<Longrightarrow> try_get_log_entries s (Included 1) (Included 3) = Ok [a, b, c]"
  "ps_log s = [1 \<mapsto> a] \<Longrightarrow> try_get_log_entries s (Included 1) (Included 3) = Ok [a]"
  "ps_log s = [3 \<mapsto> c] \<Longrightarrow> try_get_log_entries s (Included 1) (Included 3) = Ok [c]"
proof -
  have "{i \<in> {1, 2, 3}. 1 \<le> i \<and> i \<le> 3} = {1, 2, 3 :: 64 word}" "{i \<in> {1}. 1 \<le> i \<and> i \<le> 3} = {1 :: 64 word}"
    "{i \<in> {3}. 1 \<le> i \<and> i \<le> 3} = {3 :: 64 word}" by auto
  moreover have "dom [1 \<mapsto> a, 2 \<mapsto> b, 3 \<mapsto> c] = {1, 2, 3 :: 64 word}"
    "dom [1 \<mapsto> a] = {1 :: 64 word}" "dom [3 \<mapsto> c] = {3 :: 64 word}" by auto
  ultimately show
    "ps_log s = [1 \<mapsto> a, 2 \<mapsto> b, 3 \<mapsto> c] \<Longrightarrow> try_get_log_entries s (Included 1) (Included 3) = Ok [a, b, c]"
    "ps_log s = [1 \<mapsto> a] \<Longrightarrow> try_get_log_entries s (Included 1) (Included 3) = Ok [a]"
    "ps_log s = [3 \<mapsto> c] \<Longrightarrow> try_get_log_entries s (Included 1) (Included 3) = Ok [c]"
    by (simp_all add: try_get_log_entries_def sorted_indices del: dom_fun_upd)
qed

lemma store_tests_pass:
  assumes "codecs_faithful T" and "raft_values_faithful T V" and "serialisers_accept T"
    and "lists_directory ls"
  shows "all_pass (store_tests T V ls)"
proof -
  let ?D = "store_default T" and ?E = empty_file_system
  define e1 e2 e3 where "e1 = blank_entry V 1 1" and "e2 = blank_entry V 1 2" and "e3 = blank_entry V 1 3"
  let ?log = "[1 \<mapsto> e1, 2 \<mapsto> e2, 3 \<mapsto> e3]"
  note reopen = reopened [OF _ assms(1,4)]
  have idx: "log_index T (entry_log_id T e1) = 1" "log_index T (entry_log_id T e2) = 2"
    "log_index T (entry_log_id T e3) = 3" "log_index T (rv_log_id V t n i) = i"
    "entry_log_id T (blank_entry V t i) = rv_log_id V t 1 i" for t n i
    using assms(2) by (simp_all add: raft_values_faithful_def e1_def e2_def e3_def blank_entry_def)
  obtain fs1 where 1: "save_vote T no_faults (rv_vote V 5 1) ?D ?E = (Ok (), ?D\<lparr> ps_vote := Some (rv_vote V 5 1) \<rparr>, fs1)"
    "persisted T (?D\<lparr> ps_vote := Some (rv_vote V 5 1) \<rparr>, fs1)"
    using save_vote_ok [OF assms(3,1) persisted_empty] .
  obtain fs2 where 2: "save_committed T no_faults (Some (rv_log_id V 1 1 42)) ?D ?E =
      (Ok (), ?D\<lparr> ps_committed := Some (rv_log_id V 1 1 42) \<rparr>, fs2)"
    "persisted T (?D\<lparr> ps_committed := Some (rv_log_id V 1 1 42) \<rparr>, fs2)"
    using save_committed_ok [OF assms(3,1) persisted_empty] .
  obtain fs3 where 3: "append_entries_for_test T no_faults [e1, e2, e3] ?D ?E = (Ok (), ?D\<lparr> ps_log := ?log \<rparr>, fs3)"
    "persisted T (?D\<lparr> ps_log := ?log \<rparr>, fs3)"
    by (rule append_for_test_ok [OF assms(3,1) persisted_empty, of ?log "[e1, e2, e3]"])
      (simp_all add: idx store_default_def)
  have trunc: "?log |` {k. k < (2 :: 64 word)} = [1 \<mapsto> e1]" "?log |` {k. 2 < (k :: 64 word)} = [3 \<mapsto> e3]"
    by (auto simp: restrict_map_def fun_eq_iff)
  obtain fs4 where 4: "store_truncate T no_faults (rv_log_id V 1 1 2) (?D\<lparr> ps_log := ?log \<rparr>) fs3 =
      (Ok (), ?D\<lparr> ps_log := [1 \<mapsto> e1] \<rparr>, fs4)" "persisted T (?D\<lparr> ps_log := [1 \<mapsto> e1] \<rparr>, fs4)"
    by (rule store_truncate_ok [OF assms(1) 3(2), of "rv_log_id V 1 1 2"]) (simp_all add: idx trunc)
  obtain fs5 where 5: "store_purge T no_faults (rv_log_id V 1 1 2) (?D\<lparr> ps_log := ?log \<rparr>) fs3 =
      (Ok (), ?D\<lparr> ps_last_purged_log_id := Some (rv_log_id V 1 1 2), ps_log := [3 \<mapsto> e3] \<rparr>, fs5)"
    by (rule store_purge_ok [of T "?D\<lparr> ps_log := ?log \<rparr>" "rv_log_id V 1 1 2" fs3])
      (use assms(2) in \<open>simp_all add: idx trunc raft_values_faithful_def store_default_def\<close>)
  have gone: "fs_now fs4 (LOGS_DIR @ ''00000002.bin'') = None" "fs_now fs4 (LOGS_DIR @ ''00000003.bin'') = None"
    using removed_file_gone [OF 4(2), of 2] removed_file_gone [OF 4(2), of 3]
    by (simp_all add: log_entry_path_def filenames)
  show ?thesis
    unfolding store_tests_def Let_def e1_def [symmetric] e2_def [symmetric] e3_def [symmetric]
    by (simp add: reopen [OF persisted_empty] after_def 1 2 3 4 5 gone reopen [OF 1(2)] reopen [OF 2(2)]
        reopen [OF 3(2)] read_vote_def read_committed_def read_one_to_three(1) [of _ e1 e2 e3]
        read_one_to_three(2) [of _ e1] read_one_to_three(3) [of _ e3] idx)
qed

lemma state_machine_tests_pass:
  assumes "codecs_faithful T" and "raft_values_faithful T V" and "serialisers_accept T"
    and "lists_directory ls"
  shows "all_pass (state_machine_tests T V ls)"
proof -
  let ?D = "store_default T" and ?E = empty_file_system
  define e1 where "e1 = blank_entry V 1 1"
  note reopen = reopened [OF _ assms(1,4)]
  define m where "m = membership_entry V 1 1 [1, 2, 3]"
  obtain rs6 fs6 where 6: "store_apply T no_faults [m] ?D ?E =
      (Ok rs6, ?D\<lparr> ps_state_machine := apply_entry T m (ps_state_machine ?D) \<rparr>, fs6)"
    "persisted T (?D\<lparr> ps_state_machine := apply_entry T m (ps_state_machine ?D) \<rparr>, fs6)"
    by (rule store_apply_ok [OF assms(3,1) persisted_empty, of "[m]"]) (simp_all add: store_default_def)
  obtain rs7 fs7 where 7: "store_apply T no_faults [e1] ?D ?E =
      (Ok rs7, ?D\<lparr> ps_state_machine := apply_entry T e1 (ps_state_machine ?D) \<rparr>, fs7)"
    "persisted T (?D\<lparr> ps_state_machine := apply_entry T e1 (ps_state_machine ?D) \<rparr>, fs7)"
    by (rule store_apply_ok [OF assms(3,1) persisted_empty, of "[e1]"]) (simp_all add: store_default_def)
  have data: "sd_data (apply_entry T e1 (ps_state_machine ?D)) = Map.empty"
    using apply_entries_data [of T "[e1]" "ps_state_machine ?D"] by (simp add: store_default_def)
  have applied: "sd_last_applied_log (apply_entry T e1 (ps_state_machine ?D)) = Some (entry_log_id T e1)"
    using apply_entries_applied [of "[e1]" T "ps_state_machine ?D"] by simp
  obtain meta d s8 fs8 where 8: "build_snapshot T no_faults (?D\<lparr> ps_state_machine := apply_entry T e1 (ps_state_machine ?D) \<rparr>) fs7 =
      (Ok (meta, d), s8, fs8)" "sm_last_log_id meta = Some (entry_log_id T e1)"
    "ps_current_snapshot s8 = Some (meta, d)" "persisted T (s8, fs8)"
    by (rule build_snapshot_ok [OF assms(3,1) 7(2)]) (simp_all add: data applied del: apply_entry.simps)
  obtain p where p: "entry_log_id T m = rv_log_id V 1 1 1" "payload_membership T m = Some p"
    "rv_voters V (stored_membership T (Some (rv_log_id V 1 1 1)) p) = [1, 2, 3]"
    using assms(2) unfolding raft_values_faithful_def m_def membership_entry_def by metis
  have mem: "sd_last_applied_log (apply_entry T m sm) = Some (rv_log_id V 1 1 1)"
    "sd_last_membership (apply_entry T m sm) = stored_membership T (Some (rv_log_id V 1 1 1)) p" for sm
    by (simp_all add: p)
  show ?thesis
    unfolding state_machine_tests_def Let_def e1_def [symmetric] m_def [symmetric]
    using assms(2)
    by (simp add: reopen [OF persisted_empty] after_def 6(1) 7(1) 8 reopen [OF 6(2)] reopen [OF 8(4)]
        get_current_snapshot_def mem p(3) applied_state_def raft_values_faithful_def del: apply_entry.simps)
qed

text \<open>The hypotheses can be met.\<close>

lemma store_tests_run:
  "\<exists>ls. all_pass (store_tests counted_types counted_values ls) \<and>
        all_pass (state_machine_tests counted_types counted_values ls)"
proof -
  define ls where "ls = (\<lambda>fs. SOME names. lists_logs fs names)"
  have "lists_logs fs (ls fs)" if "finite {name. fs_now fs (LOGS_DIR @ name) \<noteq> None}" for fs
    using finite_list [OF that] someI_ex [of "lists_logs fs"] by (auto simp: ls_def lists_logs_def)
  then have "lists_directory ls" by (simp add: lists_directory_def)
  with store_tests_pass [OF counted_library] state_machine_tests_pass [OF counted_library] show ?thesis by blast
qed

end
