(* ===== verification/Spec2Isabelle.thy ===== *)
theory Spec2Isabelle
  imports Registry_Races Verifier Protocol_Run Api_Server Info_Print Raft_Log Formation Sensitive Cluster_Locks Vm_Tools
    Node_Tests Storage_Tests
begin

text \<open>
  This library is a model of the Guardian node and the theorems about it. A Guardian node runs in a
  trusted execution environment (Intel TDX or AMD SEV-SNP). It attests other nodes, remembers the ones
  it trusts, spreads their addresses by gossip, and forms a RAFT cluster with them. The paths below are
  under \<open>src/crates/\<close>, those of the developer tool under \<open>src/guardian_cli/\<close>.

  \<^bold>\<open>The parts and their theories.\<close>

  \<^item> \<open>Guardian_Prelude\<close>, \<open>Externals\<close>: outcomes of fallible code (\<open>Ok\<close>, \<open>Err\<close>, \<open>Panic\<close>), bytes, words and
    texts as Rust has them, hash maps as maps, the locale \<open>stepping_system\<close> for invariants over steps, and the
    record \<open>crates\<close> of the third-party functions the program calls.
  \<^item> \<open>Node_Types\<close>, \<open>Peer_Types\<close>: \<open>peer_registry/src/types\<close> and \<open>common/src/bytes.rs\<close>.
  \<^item> \<open>Tee_Backend\<close>, \<open>Tdx_Backend\<close>, \<open>Snp_Backend\<close>, \<open>Backend\<close>: \<open>peer_registry/src/backend\<close>. \<open>attestation_backend\<close>
    is the contract of a backend; both backends interpret it.
  \<^item> \<open>Measurement_Client\<close>: \<open>peer_registry/src/measurement.rs\<close> with its retry loop.
  \<^item> \<open>Peer_Registry\<close>: \<open>peer_registry/src/registry.rs\<close>, the sessions between the two phases and the events.
    \<open>Registry_Races\<close>: the same operations as tasks whose critical sections interleave.
  \<^item> \<open>Verifier\<close>: \<open>peer_registry/src/verifier.rs\<close>, \<open>register_tee\<close> and \<open>verify_tee\<close>.
  \<^item> \<open>Trusted_Peers\<close>, \<open>Attestation\<close>, \<open>Gossip\<close>, \<open>Node_Api\<close>: \<open>bootstrap/src\<close>; \<open>Api_Error\<close>: \<open>common/src/api/error.rs\<close>.
  \<^item> \<open>Raft_Node\<close>: health reports (\<open>common/src/api/types.rs\<close>), router, RAFT node and RAFT API handlers
    (\<open>consensus/src/network.rs\<close>, \<open>raft_node.rs\<close>, \<open>raft_api_server.rs\<close>) and the health endpoint
    (\<open>guardian/src/api_server.rs\<close>).
  \<^item> \<open>Coordinator\<close>: \<open>consensus/src/coordinator.rs\<close>, the state machine of cluster formation; \<open>Formation\<close>: its phases
    as an abstract machine that the coordinator refines.
  \<^item> \<open>File_System\<close>, \<open>Persistent_Store\<close>: \<open>consensus/src/persistent_storage.rs\<close> on a file system whose calls may fail
    and that may lose unflushed data in a power failure.
  \<^item> \<open>Raft_Log\<close>: the contract \<open>sequence_log\<close> that the RAFT library has with a log storage, interpreted by the store.
  \<^item> \<open>Logging\<close>: \<open>common/src/logging.rs\<close>, \<open>common/src/time.rs\<close> and the log context endpoint.
  \<^item> \<open>Certificates\<close>, \<open>Quote_Certs\<close>: the crate \<open>certificates\<close>, that is, its types, the table of platform identifiers
    and the parser of the signature section of a quote.
  \<^item> \<open>Info_Tools\<close>, \<open>Info_Print\<close>: what \<open>guardian/src/bin/tdx_info.rs\<close> and \<open>snp_info.rs\<close> compute and what they print.
  \<^item> \<open>Metrics\<close>: \<open>metrics.rs\<close> of the crates \<open>common\<close>, \<open>bootstrap\<close> and \<open>consensus\<close>.
  \<^item> \<open>Sensitive\<close>: \<open>common/src/sensitive.rs\<close> over a memory in which moved values leave their bytes behind.
  \<^item> \<open>Guardian_Node\<close>: \<open>common/src/network.rs\<close> and \<open>guardian/src/main.rs\<close>; the whole node as the
    interleaving \<open>guardian_step\<close> of API requests, event handling, gossip and coordinator iterations.
  \<^item> \<open>Api_Server\<close>: the routing tables and servers of \<open>guardian/src/api_server.rs\<close>, \<open>bootstrap/src/guardian_node_api.rs\<close>,
    \<open>consensus/src/raft_api_server.rs\<close> and \<open>guardian/src/observability_api.rs\<close>, from an HTTP request to its reply.
  \<^item> \<open>Python_Prelude\<close>, \<open>Python_Json\<close>: exceptions, values, texts and JSON as Python has them, and actions that change a
    world and may raise. \<open>Cli_Config\<close>: the configuration of the tool \<open>guardian\<close>, its setup wizard and its ssh
    commands (\<open>utils/__init__.py\<close>, \<open>setup.py\<close>, \<open>cli.py\<close>). \<open>Cluster_Locks\<close>: the lock files by which developers share
    test clusters (\<open>utils/cluster.py\<close>). \<open>Vm_Tools\<close>: the virtual machines of the tests, their network partitions and
    their monitor (\<open>utils/vm.py\<close>, \<open>vm_control.py\<close>, \<open>utils/vm_monitor.py\<close>, \<open>utils/measurements.py\<close>).
  \<^item> \<open>Registry_Tests\<close>, \<open>Node_Tests\<close>, \<open>Storage_Tests\<close>: the unit tests of the crates, run on the model.
  \<^item> \<open>Protocol_Run\<close>: runs through several components and nodes; it has theorems only.

  \<^bold>\<open>How code becomes definitions.\<close> A struct is a record, an enum a datatype, a function a function of the
  same name; state behind a lock is passed and returned. An \<open>expect\<close>, an index out of range or a slice off
  a character boundary is the outcome \<open>Panic\<close>. Clock readings, answers of other nodes, the choices of a random
  generator and the order in which a hash map or a directory is listed are arguments, so a theorem holds
  for all of them. Machine integers have their width.

  \<^bold>\<open>What the theorems show.\<close>

  \<^item> Attestation: a node is registered and verified only on genuine evidence with the pending challenge and a
    trusted measurement; a challenge is used once; no input makes phase two panic. The
    measurement of the phase-two evidence is not compared with the approved one. The TDX parser reads
    the documented layout except for the TD attributes. An honest candidate that uses its quote endpoint is
    verified in two phases.
  \<^item> Registry and trust: under every interleaving of calls a challenge is consumed at most once, and the interleaving
    that leaves an instance both pending and verified; without overlap the two are exclusive and the event log
    determines the records. Trusted peers and their addresses are what the history of marks and revocations says,
    and exactly the RAFT requests to peers trusted at that moment reach the network.
  \<^item> Gossip and API: cached advertisements have verified evidence, an honest one reaches third nodes, and what the
    evidence does not cover can be changed. The quote endpoint vouches for any data. A request over HTTP is
    at most one step of the node, and which step its path determines; the namespace quote is refused in its literal
    spelling only.
  \<^item> Cluster formation: who may start a cluster, mutual exclusion, progress, the invariant of the
    coordinator, the refinement of its phases, and the failing queries that allow a second cluster.
  \<^item> The whole node: from its start no peer ever becomes trusted, so no cluster forms.
  \<^item> Storage: a restart gives back what was stored (a refinement); the log is a sequence whose conflicts are
    overwritten as RAFT requires; writes are atomic; which data survives a power failure and which does not.
  \<^item> Logging: values can be read back, the context is bounded, the file is never rotated, and keys can
    forge lines.
  \<^item> Certificates and tools: which SEV-SNP evidence parses and to what; round trip and panic of the quote parser; the SEV-SNP tool agrees with the
    verifier; for which inputs the tools panic.
  \<^item> Metrics and secrets: registration happens once per group and one refused name disables a group; a dropped secret
    is erased, one that is taken out leaves a copy.
  \<^item> The developer tool: a configuration that the setup wizard saves makes every command fail; cluster locks
    exclude runs one after the other and not runs at the same time; which partitions can be undone.
  \<^item> Unit tests: the tests of the crates pass on the model, for every clock, random choice and order of tasks under
    which they are meant to pass; the lemmas say which these are.

  \<^bold>\<open>Bounds and termination.\<close> No definition uses fuel. The loops of the program that end are recursive
  functions on the data or the number of attempts they run over. The loops that run forever (the
  coordinator, the event handler, the gossip and cleanup tasks) are step relations, or functions over the
  list of inputs they receive; the theorems hold after any number of steps.

  \<^bold>\<open>Assumptions on other code.\<close> The attesters and verifiers of the platforms, the HTTP client, JSON,
  hexadecimal, base64 and X.509 codecs, the hash function, the serialiser, the web framework, the metrics library and the RAFT library are arguments. A theorem that relies on their
  documented behaviour names it as a hypothesis (for instance \<open>hex_round_trip\<close>, \<open>codecs_faithful\<close>,
  \<open>tdx_attester_faithful\<close>, \<open>json_index_faithful\<close>, \<open>router_faithful\<close>, \<open>percent_faithful\<close>, \<open>prometheus_faithful\<close>) and has an instance in which it holds.

  \<^bold>\<open>Not modelled.\<close> Binding and listening of the servers, and the transport of a request, belong to the web framework. Sleeping and
  lock poisoning are left out. A request handler and an iteration of a background task are one step each; what they do
  under different locks is interleaved for the registry only, in \<open>Registry_Races\<close>. An iteration of the coordinator reads
  the trusted peers once. Standard output stays open, and texts that the developer tool puts between
  single quotes in a shell script contain none. In the start of the node a failing logging
  set-up is ignored, as the program does. Constants that no code reads are left out. Of the
  developer tool, the terminal interface, the overlay network daemon and the runners of the system tests are
  left out, as are the system tests themselves and the Nix descriptions; they are not part of the node.
  Of the unit tests, those of libraries (serialisation, digests, gathered metrics) are left out.
\<close>

end
